(* ===== verification/Prelude.thy ===== *)
theory Prelude
  imports Main "HOL-Library.Word" "HOL-Library.Signed_Division"
begin

text \<open>
  Shared vocabulary of the development: the names of the model's base types (identifiers,
  instants, JSON values), Go errors with their wrapped chains, 64-bit signed arithmetic, the string
  functions of Go's \<^verbatim>\<open>strings\<close> package the program calls, and the generic lemmas on lists and
  tables that the component theories use. The collections declared here are filled by the component
  theories: \<open>go_err\<close> holds the rules that compute \<^verbatim>\<open>errors.Is\<close> and \<^verbatim>\<open>err.Error()\<close>,
  \<open>table_simps\<close> the rules of the SQL table operations.
\<close>

named_theorems go_err \<open>unfolding of Go error construction and classification\<close>
named_theorems table_simps \<open>rules of the table operations\<close>

section \<open>Base types\<close>

text \<open>
  A \<^verbatim>\<open>uuid.UUID\<close> is sixteen bytes; the program only compares identifiers, prints them and tests for
  \<^verbatim>\<open>uuid.Nil\<close>. An instant (\<^verbatim>\<open>time.Time\<close>) and a \<^verbatim>\<open>time.Duration\<close> are counted in nanoseconds; the
  zero instant is the Unix epoch.
\<close>

type_synonym uuid = "128 word"
type_synonym time = int
type_synonym duration = int

definition uuid_Nil :: uuid where
  "uuid_Nil = 0"

definition second_ns :: duration where
  "second_ns = 1000000000"

definition minute_ns :: duration where
  "minute_ns = 60 * second_ns"

definition hour_ns :: duration where
  "hour_ns = 60 * minute_ns"

definition day_ns :: duration where
  "day_ns = 24 * hour_ns"

lemmas duration_defs = second_ns_def minute_ns_def hour_ns_def day_ns_def

text \<open>\<^verbatim>\<open>t.Unix()\<close>: whole seconds since the epoch, rounded towards minus infinity.\<close>

definition unix_seconds :: "time \<Rightarrow> int" where
  "unix_seconds t = t div second_ns"

text \<open>
  JSON values. A \<^verbatim>\<open>json.RawMessage\<close> is a byte slice that may be nil, so it is a \<open>json option\<close>:
  \<open>None\<close> is the nil slice and \<open>Some v\<close> the text of the value \<open>v\<close>. Objects are association
  lists, because Go decodes members in order and a later duplicate wins. \<open>JInvalid s\<close> is a byte
  sequence \<open>s\<close> that is not the text of any JSON value, the empty one included: a \<^verbatim>\<open>json.RawMessage\<close> can
  hold it, but \<^verbatim>\<open>json.Marshal\<close>, and with it the driver's encoder of a \<^verbatim>\<open>JSONB\<close> column, refuses it.
\<close>

datatype json =
    JNull
  | JBool bool
  | JNum int
  | JStr string
  | JArr "json list"
  | JObj "(string \<times> json) list"
  | JInvalid string

type_synonym RawMessage = "json option"

text \<open>
  \<^verbatim>\<open>RawMessage.MarshalJSON\<close> writes \<^verbatim>\<open>null\<close> for the nil slice, and \<^verbatim>\<open>RawMessage.UnmarshalJSON\<close>
  stores whatever text it is given, the literal \<^verbatim>\<open>null\<close> included. A nil message therefore does not
  survive a trip through a struct field without \<^verbatim>\<open>omitempty\<close>.
\<close>

definition marshal_raw :: "RawMessage \<Rightarrow> json" where
  "marshal_raw m = (case m of None \<Rightarrow> JNull | Some v \<Rightarrow> v)"

definition raw_valid :: "RawMessage \<Rightarrow> bool" where
  "raw_valid m = (case m of Some (JInvalid _) \<Rightarrow> False | _ \<Rightarrow> True)"

definition unmarshal_raw :: "json \<Rightarrow> RawMessage" where
  "unmarshal_raw v = Some v"

lemma unmarshal_marshal_raw:
  "unmarshal_raw (marshal_raw m) = (case m of None \<Rightarrow> Some JNull | Some v \<Rightarrow> Some v)"
  by (simp add: unmarshal_raw_def marshal_raw_def split: option.splits)

section \<open>Go errors\<close>

text \<open>
  A non-nil Go error is its message and the sentinels its chain wraps: \<^verbatim>\<open>errors.Is(err, S)\<close> is
  membership of \<open>S\<close> in the chain and \<^verbatim>\<open>err.Error()\<close> is the message. A function returning
  \<^verbatim>\<open>error\<close> returns a \<open>goerr option\<close>, one returning \<^verbatim>\<open>(T, error)\<close> a \<open>goerr + T\<close>.
\<close>

datatype sentinel =
    ErrNotFound | ErrValidationFailed | ErrUnsupportedChannel | ErrMetricsNotSupported
  | ErrChannelNotInPlan | ErrKeyLimitReached | ErrWebhookLimitReached
  | ErrPeriodExpired | SkipRetry | errBlockedAddress

record goerr =
  err_chain :: "sentinel list"
  err_msg :: string

definition errors_Is :: "goerr \<Rightarrow> sentinel \<Rightarrow> bool" where
  [go_err]: "errors_Is e s \<longleftrightarrow> s \<in> set (err_chain e)"

text \<open>\<^verbatim>\<open>errors.New(msg)\<close> with no sentinel, as drivers and libraries return it.\<close>

definition plain_error :: "string \<Rightarrow> goerr" where
  [go_err]: "plain_error m = \<lparr>err_chain = [], err_msg = m\<rparr>"

text \<open>\<^verbatim>\<open>fmt.Errorf(prefix + "%w" + suffix, err)\<close>.\<close>

definition wrap :: "string \<Rightarrow> goerr \<Rightarrow> string \<Rightarrow> goerr" where
  [go_err]: "wrap pre e post = \<lparr>err_chain = err_chain e, err_msg = pre @ err_msg e @ post\<rparr>"

text \<open>\<^verbatim>\<open>fmt.Errorf(prefix + "%w" + mid + "%w", e1, e2)\<close>.\<close>

definition wrap2 :: "string \<Rightarrow> goerr \<Rightarrow> string \<Rightarrow> goerr \<Rightarrow> goerr" where
  [go_err]: "wrap2 pre e1 mid e2 =
     \<lparr>err_chain = err_chain e1 @ err_chain e2, err_msg = pre @ err_msg e1 @ mid @ err_msg e2\<rparr>"

lemma errors_Is_wrap [simp]: "errors_Is (wrap a e b) s = errors_Is e s"
  by (simp add: go_err)

lemma errors_Is_wrap2 [simp]:
  "errors_Is (wrap2 a e1 b e2) s \<longleftrightarrow> errors_Is e1 s \<or> errors_Is e2 s"
  by (simp add: go_err)

lemma errors_Is_plain [simp]: "\<not> errors_Is (plain_error m) s"
  by (simp add: go_err)

lemma err_msg_wrap [simp]: "err_msg (wrap a e b) = a @ err_msg e @ b"
  by (simp add: go_err)

lemma err_msg_wrap2 [simp]: "err_msg (wrap2 a e1 b e2) = a @ err_msg e1 @ b @ err_msg e2"
  by (simp add: go_err)

lemma err_msg_plain [simp]: "err_msg (plain_error m) = m"
  by (simp add: go_err)

section \<open>64-bit signed integers\<close>

text \<open>Go's \<^verbatim>\<open>int64\<close> (and \<^verbatim>\<open>int\<close> on the deployed platforms) wraps around silently.\<close>

definition wrap64 :: "int \<Rightarrow> int" where
  "wrap64 x = (x + 2 ^ 63) mod 2 ^ 64 - 2 ^ 63"

definition fits64 :: "int \<Rightarrow> bool" where
  "fits64 x \<longleftrightarrow> - (2 ^ 63) \<le> x \<and> x < 2 ^ 63"

lemma wrap64_fits: "fits64 (wrap64 x)"
proof -
  have "0 \<le> (x + 2 ^ 63) mod 2 ^ 64" and "(x + 2 ^ 63) mod 2 ^ 64 < (2 ^ 64 :: int)"
    by (rule pos_mod_sign, simp) (rule pos_mod_bound, simp)
  then show ?thesis by (simp add: wrap64_def fits64_def)
qed

lemma wrap64_id: "fits64 x \<Longrightarrow> wrap64 x = x"
proof -
  assume "fits64 x"
  then have "0 \<le> x + 2 ^ 63" "x + 2 ^ 63 < (2 ^ 64 :: int)" by (simp_all add: fits64_def)
  then have "(x + 2 ^ 63) mod 2 ^ 64 = x + 2 ^ 63" by (rule mod_pos_pos_trivial)
  then show ?thesis by (simp add: wrap64_def)
qed

section \<open>Strings\<close>

definition newline :: string where
  "newline = [CHR 0x0A]"

text \<open>\<^verbatim>\<open>strings.HasPrefix\<close>, \<^verbatim>\<open>strings.HasSuffix\<close>, \<^verbatim>\<open>strings.TrimPrefix\<close>.\<close>

definition HasPrefix :: "string \<Rightarrow> string \<Rightarrow> bool" where
  "HasPrefix s p \<longleftrightarrow> take (length p) s = p"

definition HasSuffix :: "string \<Rightarrow> string \<Rightarrow> bool" where
  "HasSuffix s p \<longleftrightarrow> length p \<le> length s \<and> drop (length s - length p) s = p"

definition TrimPrefix :: "string \<Rightarrow> string \<Rightarrow> string" where
  "TrimPrefix s p = (if HasPrefix s p then drop (length p) s else s)"

text \<open>
  \<^verbatim>\<open>strings.TrimSpace\<close> on the ASCII white space; the program's inputs are UTF-8 and the two
  further white-space code points of Latin-1 are two bytes long there, so bytes suffice for ASCII.
\<close>

definition is_space :: "char \<Rightarrow> bool" where
  "is_space c \<longleftrightarrow> c \<in> {CHR 0x09, CHR 0x0A, CHR 0x0B, CHR 0x0C, CHR 0x0D, CHR 0x20}"

definition TrimSpace :: "string \<Rightarrow> string" where
  "TrimSpace s = rev (dropWhile is_space (rev (dropWhile is_space s)))"

text \<open>\<^verbatim>\<open>strings.ToLower\<close> on ASCII letters.\<close>

definition ascii_lower :: "char \<Rightarrow> char" where
  "ascii_lower c = (let n = of_char c :: nat in if 65 \<le> n \<and> n \<le> 90 then char_of (n + 32) else c)"

definition ToLower :: "string \<Rightarrow> string" where
  "ToLower s = map ascii_lower s"

lemma HasPrefix_append [simp]: "HasPrefix (p @ s) p"
  by (simp add: HasPrefix_def)

lemma TrimPrefix_append [simp]: "TrimPrefix (p @ s) p = s"
  by (simp add: TrimPrefix_def)

lemma HasPrefix_iff: "HasPrefix s p \<longleftrightarrow> (\<exists>t. s = p @ t)"
  by (metis HasPrefix_append HasPrefix_def append_take_drop_id)

lemma TrimSpace_empty_iff: "TrimSpace s = [] \<longleftrightarrow> (\<forall>c \<in> set s. is_space c)"
proof -
  have "dropWhile is_space (rev (dropWhile is_space s)) = [] \<longleftrightarrow>
      (\<forall>c \<in> set (dropWhile is_space s). is_space c)"
    by (simp add: dropWhile_eq_Nil_conv)
  also have "\<dots> \<longleftrightarrow> (\<forall>c \<in> set s. is_space c)"
    by (metis Un_iff set_append set_dropWhileD takeWhile_dropWhile_id set_takeWhileD)
  finally show ?thesis by (simp add: TrimSpace_def)
qed

text \<open>\<^verbatim>\<open>%d\<close>: decimal notation of an integer.\<close>

fun digits :: "nat \<Rightarrow> string" where
  "digits n = (if n < 10 then [char_of (48 + n)] else digits (n div 10) @ [char_of (48 + n mod 10)])"

declare digits.simps [simp del]

definition show_int :: "int \<Rightarrow> string" where
  "show_int i = (if i < 0 then ''-'' @ digits (nat (- i)) else digits (nat i))"

section \<open>Tables\<close>

text \<open>
  A SQL table is the list of its rows. \<^verbatim>\<open>UPDATE ... WHERE\<close> and \<^verbatim>\<open>DELETE ... WHERE\<close> work on every
  matching row; \<^verbatim>\<open>RowsAffected\<close> counts the rows that matched.
\<close>

definition update_where :: "('r \<Rightarrow> bool) \<Rightarrow> ('r \<Rightarrow> 'r) \<Rightarrow> 'r list \<Rightarrow> 'r list" where
  "update_where P f t = map (\<lambda>r. if P r then f r else r) t"

definition delete_where :: "('r \<Rightarrow> bool) \<Rightarrow> 'r list \<Rightarrow> 'r list" where
  "delete_where P t = filter (\<lambda>r. \<not> P r) t"

definition rows_affected :: "('r \<Rightarrow> bool) \<Rightarrow> 'r list \<Rightarrow> nat" where
  "rows_affected P t = length (filter P t)"

lemma rows_affected_0 [table_simps]: "rows_affected P t = 0 \<longleftrightarrow> (\<forall>r \<in> set t. \<not> P r)"
  by (simp add: rows_affected_def filter_empty_conv)

lemma set_delete_where [table_simps]: "set (delete_where P t) = {r \<in> set t. \<not> P r}"
  by (simp add: delete_where_def)

lemma set_update_where [table_simps]:
  "set (update_where P f t) = f ` {r \<in> set t. P r} \<union> {r \<in> set t. \<not> P r}"
  by (auto simp: update_where_def)

lemma length_update_where [simp]: "length (update_where P f t) = length t"
  by (simp add: update_where_def)

lemma map_update_where:
  assumes "\<And>r. g (f r) = g r"
  shows "map g (update_where P f t) = map g t"
  using assms by (simp add: update_where_def)

lemma update_where_none: "\<forall>r \<in> set t. \<not> P r \<Longrightarrow> update_where P f t = t"
  by (simp add: update_where_def map_idI)

lemma update_where_append [simp]:
  "update_where P f (t @ u) = update_where P f t @ update_where P f u"
  by (simp add: update_where_def)

lemma find_update_where_key:
  assumes "\<And>r. key (f r) = key r"
  shows "find (\<lambda>r. key r = k) (update_where (\<lambda>r. key r = k') f t) =
    (if k = k' then map_option f (find (\<lambda>r. key r = k) t) else find (\<lambda>r. key r = k) t)"
  by (induction t) (auto simp: update_where_def assms)

lemma find_update_where_other:
  assumes "\<And>r. key (f r) = key r" and "\<And>r. key r = k \<Longrightarrow> \<not> P r"
  shows "find (\<lambda>r. key r = k) (update_where P f t) = find (\<lambda>r. key r = k) t"
  using assms by (induction t) (auto simp: update_where_def)

lemma find_append: "find P (t @ u) = (case find P t of None \<Rightarrow> find P u | Some r \<Rightarrow> Some r)"
  by (induction t) auto

lemma find_Some_iff_unique:
  assumes "distinct (map key t)"
  shows "find (\<lambda>r. key r = k) t = Some r \<longleftrightarrow> r \<in> set t \<and> key r = k"
  using assms
proof (induction t)
  case (Cons a t)
  then show ?case by (auto simp: rev_image_eqI)
qed simp

lemma find_None_key: "find (\<lambda>r. key r = k) t = None \<longleftrightarrow> k \<notin> key ` set t"
  by (auto simp: find_None_iff)

lemma find_Some_in: "find P t = Some r \<Longrightarrow> r \<in> set t \<and> P r"
  by (auto simp: find_Some_iff)

lemma rows_affected_key_0:
  "rows_affected (\<lambda>r. key r = k) t = 0 \<longleftrightarrow> find (\<lambda>r. key r = k) t = None"
  by (auto simp: rows_affected_0 find_None_iff)

lemma distinct_map_delete_where:
  "distinct (map key t) \<Longrightarrow> distinct (map key (delete_where P t))"
  by (simp add: delete_where_def distinct_map_filter)

text \<open>\<^verbatim>\<open>LIMIT l OFFSET o\<close> of an ordered result.\<close>

definition page :: "int \<Rightarrow> int \<Rightarrow> 'r list \<Rightarrow> 'r list" where
  "page lim off t = take (nat lim) (drop (nat off) t)"

end
