(* ===== verification/Calendar.thy ===== *)
theory Calendar
  imports Prelude
begin

text \<open>
  The proleptic Gregorian calendar in UTC, as the program uses it through \<^verbatim>\<open>time.Date\<close>,
  \<^verbatim>\<open>t.Year()\<close>, \<^verbatim>\<open>t.Month()\<close> and \<^verbatim>\<open>t.AddDate\<close>: the Free plan's period is a calendar month
  and the retention cutoff is a number of days before now. Day numbers count from 1 January of
  year 1; the decomposition of a day number into its year follows the 400/100/4/1-year cycles. The
  main facts are that decomposing an instant and composing it again is the identity and that
  \<^verbatim>\<open>AddDate(0, 0, k)\<close> adds \<open>k\<close> days.
\<close>

section \<open>Years\<close>

definition is_leap :: "int \<Rightarrow> bool" where
  "is_leap y \<longleftrightarrow> y mod 4 = 0 \<and> (y mod 100 \<noteq> 0 \<or> y mod 400 = 0)"

definition year_len :: "int \<Rightarrow> int" where
  "year_len y = (if is_leap y then 366 else 365)"

definition days_before_year :: "int \<Rightarrow> int" where
  "days_before_year y = (let p = y - 1 in 365 * p + p div 4 - p div 100 + p div 400)"

text \<open>Day number to (year, day of the year from 0).\<close>

definition year_yday :: "int \<Rightarrow> int \<times> int" where
  "year_yday d =
     (let era = d div 146097; r = d mod 146097;
          n100 = min 3 (r div 36524); r1 = r - 36524 * n100;
          n4 = r1 div 1461; r2 = r1 - 1461 * n4;
          n1 = min 3 (r2 div 365)
      in (400 * era + 100 * n100 + 4 * n4 + n1 + 1, r2 - 365 * n1))"

lemma div_bounds:
  fixes x k :: int
  assumes "0 < k"
  shows "k * (x div k) \<le> x" and "x < k * (x div k) + k"
proof -
  have "x = k * (x div k) + x mod k" by simp
  moreover have "0 \<le> x mod k" "x mod k < k" using assms by simp_all
  ultimately show "k * (x div k) \<le> x" and "x < k * (x div k) + k" by linarith+
qed

lemma div_pred:
  fixes y k :: int
  assumes "0 < k"
  shows "y div k = (y - 1) div k + (if y mod k = 0 then 1 else 0)"
proof -
  define q where "q = y div k"
  define r where "r = y mod k"
  have y: "y = k * q + r" and r: "0 \<le> r" "r < k" using assms by (simp_all add: q_def r_def)
  have "(y - 1) div k = (if r = 0 then q - 1 else q)"
  proof (cases "r = 0")
    case True
    have "y - 1 = k * (q - 1) + (k - 1)" using y True by (simp add: algebra_simps)
    then have "(y - 1) div k = q - 1" using assms by (intro int_div_pos_eq [where r = "k - 1"]) auto
    with True show ?thesis by simp
  next
    case False
    have "y - 1 = k * q + (r - 1)" using y by simp
    then have "(y - 1) div k = q" using r False by (intro int_div_pos_eq [where r = "r - 1"]) auto
    with False show ?thesis by simp
  qed
  then show ?thesis by (simp add: q_def r_def)
qed

lemma cycle_parts:
  fixes e a b c :: int
  assumes "0 \<le> a" "a \<le> 3" "0 \<le> b" "b \<le> 24" "0 \<le> c" "c \<le> 3"
  shows "(400 * e + 100 * a + 4 * b + c) div 4 = 100 * e + 25 * a + b"
    and "(400 * e + 100 * a + 4 * b + c) div 100 = 4 * e + a"
    and "(400 * e + 100 * a + 4 * b + c) div 400 = e"
proof -
  show "(400 * e + 100 * a + 4 * b + c) div 4 = 100 * e + 25 * a + b"
    using assms by (intro int_div_pos_eq [where r = c]) auto
  show "(400 * e + 100 * a + 4 * b + c) div 100 = 4 * e + a"
    using assms by (intro int_div_pos_eq [where r = "4 * b + c"]) auto
  show "(400 * e + 100 * a + 4 * b + c) div 400 = e"
    using assms by (intro int_div_pos_eq [where r = "100 * a + 4 * b + c"]) auto
qed

lemma days_before_year_cycle:
  fixes e a b c :: int
  assumes "0 \<le> a" "a \<le> 3" "0 \<le> b" "b \<le> 24" "0 \<le> c" "c \<le> 3"
  shows "days_before_year (400 * e + 100 * a + 4 * b + c + 1) =
    146097 * e + 36524 * a + 1461 * b + 365 * c"
  using cycle_parts [OF assms, of e] by (simp add: days_before_year_def Let_def)

lemma leap_cycle:
  fixes e a b c :: int
  assumes "0 \<le> a" "a \<le> 3" "0 \<le> b" "b \<le> 24" "0 \<le> c" "c \<le> 3"
  shows "is_leap (400 * e + 100 * a + 4 * b + c + 1) \<longleftrightarrow> c = 3 \<and> (b \<noteq> 24 \<or> a = 3)"
proof (cases "c = 3")
  case False
  with assms have "c < 3" by simp
  then have "(400 * e + 100 * a + 4 * b + c + 1) mod 4 = c + 1"
    using assms by (intro int_mod_pos_eq [where q = "100 * e + 25 * a + b"]) auto
  with assms False show ?thesis by (simp add: is_leap_def)
next
  case c: True
  have m4: "(400 * e + 100 * a + 4 * b + c + 1) mod 4 = 0"
    using c by (intro int_mod_pos_eq [where q = "100 * e + 25 * a + b + 1"]) auto
  show ?thesis
  proof (cases "b = 24")
    case False
    with assms have "b < 24" by simp
    then have "(400 * e + 100 * a + 4 * b + c + 1) mod 100 = 4 * b + 4"
      using assms c by (intro int_mod_pos_eq [where q = "4 * e + a"]) auto
    with assms False c m4 show ?thesis by (simp add: is_leap_def)
  next
    case b: True
    have m100: "(400 * e + 100 * a + 4 * b + c + 1) mod 100 = 0"
      using assms c b by (intro int_mod_pos_eq [where q = "4 * e + a + 1"]) auto
    have "a = 3 \<Longrightarrow> (400 * e + 100 * a + 4 * b + c + 1) mod 400 = 0"
      using c b by (intro int_mod_pos_eq [where q = "e + 1"]) auto
    moreover have "a < 3 \<Longrightarrow> (400 * e + 100 * a + 4 * b + c + 1) mod 400 = 100 * a + 100"
      using assms c b by (intro int_mod_pos_eq [where q = e]) auto
    ultimately have "(400 * e + 100 * a + 4 * b + c + 1) mod 400 = (if a = 3 then 0 else 100 * a + 100)"
      using assms by auto
    with assms c b m4 m100 show ?thesis by (simp add: is_leap_def)
  qed
qed

lemma clamp3_split:
  fixes x k :: int
  assumes "0 < k" "0 \<le> x" "x < 4 * k + s" "s \<le> k" "0 < s"
  shows "0 \<le> min 3 (x div k)" and "min 3 (x div k) \<le> 3" and "0 \<le> x - k * min 3 (x div k)"
    and "x - k * min 3 (x div k) < k + s"
    and "x - k * min 3 (x div k) < k \<or> min 3 (x div k) = 3"
proof -
  define q where "q = x div k"
  have q: "k * q \<le> x" "x < k * q + k" using div_bounds [OF assms(1), of x] by (simp_all add: q_def)
  have q0: "0 \<le> q" using assms by (simp add: q_def pos_imp_zdiv_nonneg_iff)
  have k3: "3 \<le> q \<Longrightarrow> k * 3 \<le> k * q" using assms(1) by simp
  show "0 \<le> min 3 (x div k)" using q0 unfolding q_def by simp
  show "min 3 (x div k) \<le> 3" by simp
  have "0 \<le> x - k * min 3 q \<and> x - k * min 3 q < k + s \<and> (x - k * min 3 q < k \<or> min 3 q = 3)"
  proof (cases "3 \<le> q")
    case True
    then have "min 3 q = 3" by simp
    moreover have "k * 3 \<le> x" using k3 [OF True] q by linarith
    ultimately show ?thesis using assms(3) by (simp add: algebra_simps)
  next
    case False
    then have "min 3 q = q" by simp
    with q assms(5) show ?thesis by (simp add: algebra_simps)
  qed
  then show "0 \<le> x - k * min 3 (x div k)" "x - k * min 3 (x div k) < k + s"
    "x - k * min 3 (x div k) < k \<or> min 3 (x div k) = 3"
    by (simp_all add: q_def)
qed

lemma year_yday_range:
  assumes "year_yday d = (y, yd)"
  shows "d = days_before_year y + yd" and "0 \<le> yd" and "yd < year_len y"
proof -
  define era where "era = d div 146097"
  define r where "r = d mod 146097"
  define a where "a = min 3 (r div 36524)"
  define r1 where "r1 = r - 36524 * a"
  define b where "b = r1 div 1461"
  define r2 where "r2 = r1 - 1461 * b"
  define c where "c = min 3 (r2 div 365)"
  have y: "y = 400 * era + 100 * a + 4 * b + c + 1" and yd: "yd = r2 - 365 * c"
    using assms unfolding year_yday_def Let_def era_def [symmetric] r_def [symmetric]
      a_def [symmetric] r1_def [symmetric] b_def [symmetric] r2_def [symmetric] c_def [symmetric]
    by simp_all
  have r: "0 \<le> r" "r < 146097" by (auto simp: r_def)
  have a: "0 \<le> a" "a \<le> 3" "0 \<le> r1" "r1 < 36525" "r1 < 36524 \<or> a = 3"
    using clamp3_split [of 36524 r 1] r unfolding a_def r1_def by simp_all
  have b: "0 \<le> b" "b \<le> 24" using a div_bounds [of 1461 r1] unfolding b_def by linarith+
  have r2: "0 \<le> r2" "r2 < 1461" "r1 = 1461 * b + r2"
    using div_bounds [of 1461 r1] unfolding r2_def b_def by linarith+
  have c: "0 \<le> c" "c \<le> 3" "0 \<le> r2 - 365 * c" "r2 - 365 * c < 366" "r2 - 365 * c < 365 \<or> c = 3"
    using clamp3_split [of 365 r2 1] r2 unfolding c_def by simp_all
  have d: "d = 146097 * era + r" by (simp add: era_def r_def)
  show "d = days_before_year y + yd"
    using d y yd days_before_year_cycle [OF a(1,2) b c(1,2), of era] by (simp add: r1_def r2_def)
  show "0 \<le> yd" using yd c by simp
  show "yd < year_len y"
  proof (cases "c = 3 \<and> (b \<noteq> 24 \<or> a = 3)")
    case True
    then show ?thesis using y yd c leap_cycle [OF a(1,2) b c(1,2), of era] by (simp add: year_len_def)
  next
    case False
    then have "r2 - 365 * c < 365" using c a r2 by auto
    then show ?thesis using y yd leap_cycle [OF a(1,2) b c(1,2), of era] False
      by (simp add: year_len_def)
  qed
qed

lemma days_before_year_Suc: "days_before_year (y + 1) = days_before_year y + year_len y"
proof -
  define u4 u100 u400 where "u4 = (y - 1) div 4" and "u100 = (y - 1) div 100"
    and "u400 = (y - 1) div 400"
  have u: "y div 4 = u4 + (if y mod 4 = 0 then 1 else 0)"
    "y div 100 = u100 + (if y mod 100 = 0 then 1 else 0)"
    "y div 400 = u400 + (if y mod 400 = 0 then 1 else 0)"
    unfolding u4_def u100_def u400_def by (rule div_pred, simp)+
  have "y mod 100 = y mod 400 mod 100" "y mod 4 = y mod 100 mod 4"
    by (simp_all add: mod_mod_cancel)
  then have m: "y mod 400 = 0 \<Longrightarrow> y mod 100 = 0" "y mod 100 = 0 \<Longrightarrow> y mod 4 = 0" by simp_all
  have "days_before_year (y + 1) = 365 * y + y div 4 - y div 100 + y div 400"
    by (simp add: days_before_year_def)
  moreover have "days_before_year y = 365 * (y - 1) + u4 - u100 + u400"
    by (simp add: days_before_year_def u4_def u100_def u400_def Let_def)
  moreover have "y div 4 - y div 100 + y div 400 = u4 - u100 + u400 + (year_len y - 365)"
  proof -
    define p q s where "p \<longleftrightarrow> y mod 4 = 0" and "q \<longleftrightarrow> y mod 100 = 0" and "s \<longleftrightarrow> y mod 400 = 0"
    have "is_leap y \<longleftrightarrow> p \<and> (\<not> q \<or> s)" and "s \<Longrightarrow> q" and "q \<Longrightarrow> p"
      using m by (simp_all add: is_leap_def p_def q_def s_def)
    then show ?thesis
      unfolding u p_def [symmetric] q_def [symmetric] s_def [symmetric] year_len_def
      by (cases p; cases q; cases s) simp_all
  qed
  moreover have "s = 365 * y + a - b + c \<Longrightarrow> t = 365 * (y - 1) + u4 - u100 + u400 \<Longrightarrow>
      a - b + c = u4 - u100 + u400 + (k - 365) \<Longrightarrow> s = t + k" for s t a b c k :: int
    by (simp add: right_diff_distrib)
  ultimately show ?thesis by blast
qed

lemma year_len_pos: "0 < year_len y"
  by (simp add: year_len_def)

lemma days_before_year_mono: "a \<le> b \<Longrightarrow> days_before_year a \<le> days_before_year b"
proof (induction b rule: int_ge_induct)
  case (step i)
  then show ?case using days_before_year_Suc [of i] year_len_pos [of i] by simp
qed simp

lemma year_yday_unique:
  assumes "days_before_year y \<le> D" "D < days_before_year y + year_len y"
  shows "year_yday D = (y, D - days_before_year y)"
proof -
  obtain y' yd where e: "year_yday D = (y', yd)" by force
  note r = year_yday_range [OF e]
  have "y' = y"
  proof (rule ccontr)
    assume "y' \<noteq> y"
    then consider "y' + 1 \<le> y" | "y + 1 \<le> y'" by linarith
    then show False
      using r assms days_before_year_mono [of "y' + 1" y] days_before_year_mono [of "y + 1" y']
      by cases (simp_all add: days_before_year_Suc)
  qed
  with e r show ?thesis by simp
qed

section \<open>Months\<close>

definition month_len :: "int \<Rightarrow> int \<Rightarrow> int" where
  "month_len y m =
     (if m = 2 then (if is_leap y then 29 else 28)
      else if m \<in> {4, 6, 9, 11} then 30 else 31)"

definition days_before_month :: "int \<Rightarrow> int \<Rightarrow> int" where
  "days_before_month y m = sum_list (map (month_len y) [1..m - 1])"

lemma days_before_month_1 [simp]: "days_before_month y 1 = 0"
  by (simp add: days_before_month_def)

lemma days_before_month_Suc:
  "1 \<le> m \<Longrightarrow> days_before_month y (m + 1) = days_before_month y m + month_len y m"
  using upto_rec2 [of 1 m] by (simp add: days_before_month_def)

lemma days_before_month_13: "days_before_month y 13 = year_len y"
  by (simp add: days_before_month_def upto.simps month_len_def year_len_def)

text \<open>The month that holds a day of the year, and the day of that month (from 1).\<close>

function find_month :: "int \<Rightarrow> int \<Rightarrow> int \<Rightarrow> int \<times> int" where
  "find_month y m yd =
     (if 12 \<le> m \<or> yd < month_len y m then (m, yd + 1) else find_month y (m + 1) (yd - month_len y m))"
  by pat_completeness auto
termination
  by (relation "measure (\<lambda>(y, m, yd). nat (12 - m))") auto

declare find_month.simps [simp del]

lemma find_month_range:
  assumes "1 \<le> m" "m \<le> 12" "0 \<le> yd" "days_before_month y m + yd < year_len y"
    and "find_month y m yd = (m', dd)"
  shows "1 \<le> m' \<and> m' \<le> 12 \<and> 1 \<le> dd \<and> dd \<le> month_len y m' \<and>
    days_before_month y m' + dd - 1 = days_before_month y m + yd"
  using assms
proof (induction y m yd rule: find_month.induct)
  case (1 y m yd)
  show ?case
  proof (cases "12 \<le> m \<or> yd < month_len y m")
    case True
    have "yd < month_len y m"
      using True 1 days_before_month_Suc [of m y] days_before_month_13 [of y] by (cases "m = 12") auto
    with True 1 show ?thesis by (auto simp: find_month.simps [of y m yd])
  next
    case False
    with 1 have "find_month y (m + 1) (yd - month_len y m) = (m', dd)"
      by (simp add: find_month.simps [of y m yd])
    with False 1 show ?thesis by (auto simp: days_before_month_Suc)
  qed
qed

lemma month_len_pos: "0 < month_len y m"
  by (simp add: month_len_def)

lemma days_before_month_mono:
  assumes "1 \<le> a" "a \<le> b"
  shows "days_before_month y a \<le> days_before_month y b"
  using assms(2)
proof (induction b rule: int_ge_induct)
  case (step i)
  with assms(1) show ?case using days_before_month_Suc [of i y] month_len_pos [of y i] by simp
qed simp

lemma find_month_unique:
  assumes "1 \<le> m" "m \<le> 12" "days_before_month y m \<le> yd" "yd < days_before_month y m + month_len y m"
  shows "find_month y 1 yd = (m, yd - days_before_month y m + 1)"
proof -
  obtain m' dd where e: "find_month y 1 yd = (m', dd)" by force
  have "yd < year_len y"
    using assms days_before_month_mono [of "m + 1" 13 y] days_before_month_13 [of y]
    by (simp add: days_before_month_Suc)
  moreover have "0 \<le> yd" using assms days_before_month_mono [of 1 m y] by simp
  ultimately have r: "1 \<le> m'" "m' \<le> 12" "1 \<le> dd" "dd \<le> month_len y m'"
    "days_before_month y m' + dd - 1 = yd"
    using find_month_range [of 1 yd y m' dd] e by auto
  have "m' = m"
  proof (rule ccontr)
    assume "m' \<noteq> m"
    then consider "m' + 1 \<le> m" | "m + 1 \<le> m'" by linarith
    then show False
      using r assms days_before_month_mono [of "m' + 1" m y] days_before_month_mono [of "m + 1" m' y]
      by cases (simp_all add: days_before_month_Suc)
  qed
  with e r show ?thesis by auto
qed

section \<open>Instants\<close>

definition epoch_day :: int where
  "epoch_day = 719162"

definition day_number :: "time \<Rightarrow> int" where
  "day_number t = t div day_ns + epoch_day"

definition time_of_day :: "time \<Rightarrow> duration" where
  "time_of_day t = t mod day_ns"

text \<open>\<^verbatim>\<open>t.Date()\<close>: year, month and day in UTC.\<close>

definition civil :: "time \<Rightarrow> int \<times> int \<times> int" where
  "civil t = (let (y, yd) = year_yday (day_number t); (m, d) = find_month y 1 yd in (y, m, d))"

text \<open>
  \<^verbatim>\<open>time.Date(y, m, d, ..., time.UTC)\<close> with the time of day in nanoseconds. Months outside 1..12
  carry into the year; days outside the month carry over by addition.
\<close>

definition time_Date :: "int \<Rightarrow> int \<Rightarrow> int \<Rightarrow> duration \<Rightarrow> time" where
  "time_Date y m d tod =
     (let y' = y + (m - 1) div 12; m' = (m - 1) mod 12 + 1
      in (days_before_year y' + days_before_month y' m' + (d - 1) - epoch_day) * day_ns + tod)"

definition AddDate :: "time \<Rightarrow> int \<Rightarrow> int \<Rightarrow> int \<Rightarrow> time" where
  "AddDate t years months days =
     (case civil t of (y, m, d) \<Rightarrow> time_Date (y + years) (m + months) (d + days) (time_of_day t))"

lemma civil_range:
  assumes "civil t = (y, m, d)"
  shows "1 \<le> m \<and> m \<le> 12 \<and> 1 \<le> d \<and> d \<le> month_len y m \<and>
    day_number t = days_before_year y + days_before_month y m + d - 1"
proof -
  obtain y' yd where yy: "year_yday (day_number t) = (y', yd)" by force
  with assms have "y' = y" and fm: "find_month y 1 yd = (m, d)"
    by (auto simp: civil_def split: prod.splits)
  then show ?thesis
    using year_yday_range [OF yy] find_month_range [of 1 yd y m d] by auto
qed

lemma day_split: "t = (day_number t - epoch_day) * day_ns + time_of_day t"
  by (simp add: day_number_def time_of_day_def)

lemma time_of_day_range: "0 \<le> time_of_day t" "time_of_day t < day_ns"
  by (simp_all add: time_of_day_def duration_defs)

lemma time_Date_in_range:
  "1 \<le> m \<Longrightarrow> m \<le> 12 \<Longrightarrow> time_Date y m d tod =
    (days_before_year y + days_before_month y m + (d - 1) - epoch_day) * day_ns + tod"
  by (simp add: time_Date_def Let_def div_pos_pos_trivial mod_pos_pos_trivial)

lemma time_Date_civil: "civil t = (y, m, d) \<Longrightarrow> time_Date y m d (time_of_day t) = t"
proof -
  assume c: "civil t = (y, m, d)"
  have "days_before_year y + days_before_month y m + (d - 1) = day_number t"
    using civil_range [OF c] by simp
  moreover have "1 \<le> m" "m \<le> 12" using civil_range [OF c] by simp_all
  ultimately have "time_Date y m d (time_of_day t) =
      (day_number t - epoch_day) * day_ns + time_of_day t"
    by (simp only: time_Date_in_range)
  then show ?thesis by (simp only: day_split [symmetric])
qed

lemma AddDate_days: "AddDate t 0 0 k = t + k * day_ns"
proof -
  obtain y m d where c: "civil t = (y, m, d)" using prod_cases3 by blast
  have "time_Date y m (d + k) (time_of_day t) = time_Date y m d (time_of_day t) + k * day_ns"
    using civil_range [OF c] by (simp add: time_Date_in_range algebra_simps)
  then show ?thesis using c time_Date_civil [OF c] by (simp add: AddDate_def)
qed

lemma time_Date_next_month:
  assumes "1 \<le> m" "m \<le> 12"
  shows "time_Date y (m + 1) 1 tod = time_Date y m 1 tod + month_len y m * day_ns"
proof (cases "m = 12")
  case True
  have "days_before_year (y + 1) = days_before_year y + year_len y" by (rule days_before_year_Suc)
  moreover have "days_before_month y 12 + month_len y 12 = year_len y"
    using days_before_month_Suc [of 12 y] days_before_month_13 [of y] by simp
  ultimately have "days_before_year (y + 1) = days_before_year y + days_before_month y 12 + month_len y 12"
    by simp
  then show ?thesis
    using True by (simp add: time_Date_def algebra_simps)
next
  case False
  then show ?thesis
    using assms days_before_month_Suc [of m y]
    by (simp add: time_Date_in_range algebra_simps)
qed

text \<open>The first instant of the month of \<open>t\<close>, and of the month after it.\<close>

definition month_start :: "time \<Rightarrow> time" where
  "month_start t = (case civil t of (y, m, d) \<Rightarrow> time_Date y m 1 0)"

text \<open>Composing a date and decomposing it again gives the date back.\<close>

lemma civil_time_Date:
  assumes "1 \<le> m" "m \<le> 12" "1 \<le> d" "d \<le> month_len y m" "0 \<le> tod" "tod < day_ns"
  shows "civil (time_Date y m d tod) = (y, m, d)" and "time_of_day (time_Date y m d tod) = tod"
proof -
  let ?D = "days_before_year y + days_before_month y m + (d - 1)"
  have t: "time_Date y m d tod = tod + (?D - epoch_day) * day_ns"
    using assms by (simp add: time_Date_in_range)
  have "tod div day_ns = 0" "tod mod day_ns = tod" using assms by simp_all
  then have D: "day_number (time_Date y m d tod) = ?D"
    using t assms by (simp add: day_number_def)
  show "time_of_day (time_Date y m d tod) = tod"
    using t assms by (simp add: time_of_day_def)
  let ?yd = "days_before_month y m + (d - 1)"
  have "0 \<le> days_before_month y m" using assms days_before_month_mono [of 1 m y] by simp
  moreover have "?yd < year_len y"
    using assms days_before_month_mono [of "m + 1" 13 y] days_before_month_13 [of y]
    by (simp add: days_before_month_Suc)
  ultimately have "year_yday ?D = (y, ?yd)"
    using assms year_yday_unique [of y ?D] by simp
  moreover have "find_month y 1 ?yd = (m, d)"
    using assms find_month_unique [of m y ?yd] by simp
  ultimately show "civil (time_Date y m d tod) = (y, m, d)" by (simp add: civil_def D)
qed

lemma month_start_civil:
  assumes "civil t = (y, m, d)"
  shows "civil (time_Date y m 1 0) = (y, m, 1)" "time_of_day (time_Date y m 1 0) = 0"
  using civil_time_Date [of m 1 y 0] civil_range [OF assms] month_len_pos [of y m]
  by (simp_all add: duration_defs)

lemma month_start_le: "month_start t \<le> t"
  and month_start_next: "civil t = (y, m, d) \<Longrightarrow> t < time_Date y (m + 1) 1 0"
proof -
  obtain y m d where c: "civil t = (y, m, d)" using prod_cases3 by blast
  note r = civil_range [OF c]
  have t: "t = time_Date y m 1 0 + (d - 1) * day_ns + time_of_day t"
    using time_Date_civil [OF c] r by (simp add: time_Date_in_range algebra_simps)
  have dn: "0 \<le> (d - 1) * day_ns" using r by (simp add: duration_defs)
  then show "month_start t \<le> t"
    using t c time_of_day_range [of t] by (simp add: month_start_def)
  have "(d - 1) * day_ns + time_of_day t < month_len y m * day_ns"
  proof -
    have "(d - 1) * day_ns + time_of_day t < d * day_ns"
      using time_of_day_range [of t] by (simp add: algebra_simps)
    also have "\<dots> \<le> month_len y m * day_ns" using r by (simp add: duration_defs)
    finally show ?thesis .
  qed
  then have "t < time_Date y (m + 1) 1 0"
    using t r time_Date_next_month [of m y 0] by linarith
  then show "civil t = (y', m', d') \<Longrightarrow> t < time_Date y' (m' + 1) 1 0" for y' m' d'
    using c by simp
qed

end
