(* ===== verification/Domain.thy ===== *)
theory Domain
  imports Calendar
begin

text \<open>
  The domain package: the entities of \<^verbatim>\<open>internal/domain\<close> as records (a field keeps its Go name under
  a prefix for its struct), their validators, and the entitlement defaults. A pointer field is an
  option; a string type with named constants stays a string with the constants as definitions,
  because requests carry arbitrary strings that the validators check.
\<close>

section \<open>Errors\<close>

fun sentinel_msg :: "sentinel \<Rightarrow> string" where
  "sentinel_msg ErrNotFound = ''not found''"
| "sentinel_msg ErrValidationFailed = ''validation failed''"
| "sentinel_msg ErrUnsupportedChannel = ''unsupported channel''"
| "sentinel_msg ErrMetricsNotSupported = ''metrics not supported''"
| "sentinel_msg ErrChannelNotInPlan = ''channel not in plan''"
| "sentinel_msg ErrKeyLimitReached = ''api key limit reached''"
| "sentinel_msg ErrWebhookLimitReached = ''webhook endpoint limit reached''"
| "sentinel_msg ErrPeriodExpired = ''subscription period expired''"
| "sentinel_msg SkipRetry = ''skip retry for the task''"
| "sentinel_msg errBlockedAddress = ''refusing to connect to a private/internal address''"

definition sentinel_err :: "sentinel \<Rightarrow> goerr" where
  [go_err]: "sentinel_err s = \<lparr>err_chain = [s], err_msg = sentinel_msg s\<rparr>"

lemma errors_Is_sentinel [simp]: "errors_Is (sentinel_err s) s' \<longleftrightarrow> s = s'"
  by (auto simp: go_err)

text \<open>\<^verbatim>\<open>fmt.Errorf("%w: " + msg, s)\<close> for a sentinel \<open>s\<close>.\<close>

definition sentinel_with :: "sentinel \<Rightarrow> string \<Rightarrow> goerr" where
  [go_err]: "sentinel_with s msg = wrap [] (sentinel_err s) ('': '' @ msg)"

lemma errors_Is_sentinel_with [simp]: "errors_Is (sentinel_with s m) s' \<longleftrightarrow> s = s'"
  by (simp add: sentinel_with_def)

section \<open>Channels\<close>

type_synonym ChannelType = string

definition ChannelDiscord :: ChannelType where "ChannelDiscord = ''discord''"
definition ChannelTelegram :: ChannelType where "ChannelTelegram = ''telegram''"
definition ChannelWhatsApp :: ChannelType where "ChannelWhatsApp = ''whatsapp''"
definition ChannelEmail :: ChannelType where "ChannelEmail = ''email''"
definition ChannelSlack :: ChannelType where "ChannelSlack = ''slack''"
definition ChannelWebhook :: ChannelType where "ChannelWebhook = ''webhook''"

lemmas channel_defs = ChannelDiscord_def ChannelTelegram_def ChannelWhatsApp_def ChannelEmail_def
  ChannelSlack_def ChannelWebhook_def

definition ValidChannelTypes :: "ChannelType list" where
  "ValidChannelTypes =
     [ChannelDiscord, ChannelTelegram, ChannelWhatsApp, ChannelEmail, ChannelSlack, ChannelWebhook]"

fun range_eq :: "'a \<Rightarrow> 'a list \<Rightarrow> bool" where
  "range_eq x [] = False"
| "range_eq x (v # vs) = (if x = v then True else range_eq x vs)"

lemma range_eq_iff [simp]: "range_eq x vs \<longleftrightarrow> x \<in> set vs"
  by (induction vs) auto

definition IsValidChannelType :: "ChannelType \<Rightarrow> bool" where
  "IsValidChannelType ct = range_eq ct ValidChannelTypes"

record DeliveryPreferences =
  dp_Priority :: string
  dp_MaxRetries :: "int option"
  dp_FormatMode :: string

definition DeliveryPreferences_Validate :: "DeliveryPreferences option \<Rightarrow> goerr option" where
  "DeliveryPreferences_Validate p = (case p of None \<Rightarrow> None | Some dp \<Rightarrow>
     if dp_Priority dp \<noteq> [] \<and> dp_Priority dp \<notin> {''critical'', ''normal'', ''low''} then
       Some (sentinel_with ErrValidationFailed
         (''invalid priority: '' @ dp_Priority dp @ '', must be critical, normal, or low''))
     else if dp_FormatMode dp \<noteq> [] \<and> dp_FormatMode dp \<notin> {''plain'', ''markdown'', ''html''} then
       Some (sentinel_with ErrValidationFailed
         (''invalid format_mode: '' @ dp_FormatMode dp @ '', must be plain, markdown, or html''))
     else if (case dp_MaxRetries dp of None \<Rightarrow> False | Some n \<Rightarrow> n < 0) then
       Some (sentinel_with ErrValidationFailed ''max_retries must be non-negative'')
     else None)"

record ChannelConfig =
  cc_ID :: uuid
  cc_TenantID :: uuid
  cc_Channel :: ChannelType
  cc_Name :: string
  cc_Config :: RawMessage
  cc_IsActive :: bool
  cc_DeliveryPrefs :: "DeliveryPreferences option"
  cc_CreatedAt :: time
  cc_UpdatedAt :: time

record CreateChannelConfigInput =
  cci_Channel :: ChannelType
  cci_Name :: string
  cci_Config :: RawMessage
  cci_DeliveryPrefs :: "DeliveryPreferences option"

record UpdateChannelConfigInput =
  uci_Name :: "string option"
  uci_Config :: "RawMessage option"
  uci_IsActive :: "bool option"
  uci_DeliveryPrefs :: "DeliveryPreferences option"

section \<open>Notifications\<close>

type_synonym NotificationStatus = string

definition StatusPending :: NotificationStatus where "StatusPending = ''pending''"
definition StatusProcessing :: NotificationStatus where "StatusProcessing = ''processing''"
definition StatusDelivered :: NotificationStatus where "StatusDelivered = ''delivered''"
definition StatusFailed :: NotificationStatus where "StatusFailed = ''failed''"
definition StatusRetrying :: NotificationStatus where "StatusRetrying = ''retrying''"

lemmas status_defs = StatusPending_def StatusProcessing_def StatusDelivered_def StatusFailed_def
  StatusRetrying_def

lemma status_distinct [simp]:
  "StatusPending \<noteq> StatusProcessing" "StatusPending \<noteq> StatusDelivered"
  "StatusPending \<noteq> StatusFailed" "StatusPending \<noteq> StatusRetrying"
  "StatusProcessing \<noteq> StatusPending" "StatusProcessing \<noteq> StatusDelivered"
  "StatusProcessing \<noteq> StatusFailed" "StatusProcessing \<noteq> StatusRetrying"
  "StatusDelivered \<noteq> StatusPending" "StatusDelivered \<noteq> StatusProcessing"
  "StatusDelivered \<noteq> StatusFailed" "StatusDelivered \<noteq> StatusRetrying"
  "StatusFailed \<noteq> StatusPending" "StatusFailed \<noteq> StatusProcessing"
  "StatusFailed \<noteq> StatusDelivered" "StatusFailed \<noteq> StatusRetrying"
  "StatusRetrying \<noteq> StatusPending" "StatusRetrying \<noteq> StatusProcessing"
  "StatusRetrying \<noteq> StatusDelivered" "StatusRetrying \<noteq> StatusFailed"
  by (simp_all add: status_defs)

definition IsValidNotificationStatus :: "NotificationStatus \<Rightarrow> bool" where
  "IsValidNotificationStatus s \<longleftrightarrow>
     s \<in> {StatusPending, StatusProcessing, StatusDelivered, StatusFailed, StatusRetrying}"

record Notification =
  n_ID :: uuid
  n_TenantID :: uuid
  n_ChannelConfigID :: uuid
  n_Channel :: ChannelType
  n_Subject :: "string option"
  n_Body :: string
  n_Metadata :: RawMessage
  n_Status :: NotificationStatus
  n_AsynqTaskID :: "string option"
  n_RetryCount :: int
  n_MaxRetries :: int
  n_LastError :: "string option"
  n_DeliveredAt :: "time option"
  n_ProviderMsgID :: "string option"
  n_CreatedAt :: time
  n_UpdatedAt :: time

record SendNotificationInput =
  sni_ChannelConfigID :: uuid
  sni_Subject :: "string option"
  sni_Body :: string
  sni_Metadata :: RawMessage

type_synonym SendMultiInput = "SendNotificationInput list"

record NotificationFilter =
  nf_TenantID :: uuid
  nf_Status :: "NotificationStatus option"
  nf_Channel :: "ChannelType option"
  nf_Limit :: int
  nf_Offset :: int

record UsageReport =
  ur_Sent :: int
  ur_Delivered :: int
  ur_Failed :: int
  ur_ByChannel :: "string \<rightharpoonup> int"

section \<open>Delivery attempts and metrics\<close>

type_synonym AttemptStatus = string

definition AttemptSuccess :: AttemptStatus where "AttemptSuccess = ''success''"
definition AttemptFailure :: AttemptStatus where "AttemptFailure = ''failure''"

record DeliveryAttempt =
  da_ID :: uuid
  da_NotificationID :: uuid
  da_AttemptNumber :: int
  da_Status :: AttemptStatus
  da_ProviderResponse :: RawMessage
  da_ErrorMessage :: "string option"
  da_DurationMs :: int
  da_AttemptedAt :: time

record DeliveryMetric =
  dm_ID :: uuid
  dm_NotificationID :: uuid
  dm_ProviderMsgID :: string
  dm_DeliveredAt :: "time option"
  dm_ReadAt :: "time option"
  dm_Interactions :: RawMessage
  dm_CollectedAt :: time

section \<open>Tenants, API keys and entitlements\<close>

record Tenant =
  t_ID :: uuid
  t_Name :: string
  t_Slug :: string
  t_APIKey :: string
  t_APISecret :: string
  t_IsActive :: bool
  t_CreatedAt :: time
  t_UpdatedAt :: time

record CreateTenantInput =
  cti_Name :: string
  cti_Slug :: string

record UpdateTenantInput =
  uti_Name :: "string option"
  uti_IsActive :: "bool option"

record APIKey =
  k_ID :: uuid
  k_TenantID :: uuid
  k_APIKey :: string
  k_APISecretHash :: string
  k_Label :: string
  k_CreatedAt :: time
  k_RevokedAt :: "time option"

record Entitlements =
  e_TenantID :: uuid
  e_PlanCode :: string
  e_MessageLimit :: int
  e_AllowedChannels :: "ChannelType list"
  e_APIKeyLimit :: int
  e_RetentionDays :: int
  e_PeriodStart :: time
  e_PeriodEnd :: time
  e_UpdatedAt :: time

definition AllowsChannel :: "Entitlements \<Rightarrow> ChannelType \<Rightarrow> bool" where
  "AllowsChannel e ct = range_eq ct (e_AllowedChannels e)"

text \<open>The \<^verbatim>\<open>UpdatedAt\<close> field is left at Go's zero time, 1 January of year 1.\<close>

definition zero_time :: time where
  "zero_time = - epoch_day * day_ns"

definition FreeDefaults :: "uuid \<Rightarrow> time \<Rightarrow> Entitlements" where
  "FreeDefaults tenantID now =
     (let start = (case civil now of (y, m, d) \<Rightarrow> time_Date y m 1 0)
      in \<lparr>e_TenantID = tenantID, e_PlanCode = ''free'', e_MessageLimit = 1000,
          e_AllowedChannels =
            [ChannelDiscord, ChannelTelegram, ChannelEmail, ChannelSlack, ChannelWebhook],
          e_APIKeyLimit = 1, e_RetentionDays = 7, e_PeriodStart = start,
          e_PeriodEnd = AddDate start 0 1 0, e_UpdatedAt = zero_time\<rparr>)"

section \<open>Webhook endpoints\<close>

type_synonym WebhookEventType = string

definition WebhookEventDelivered :: WebhookEventType where
  "WebhookEventDelivered = ''notification.delivered''"
definition WebhookEventFailed :: WebhookEventType where
  "WebhookEventFailed = ''notification.failed''"

lemma webhook_event_distinct [simp]:
  "WebhookEventDelivered \<noteq> WebhookEventFailed" "WebhookEventFailed \<noteq> WebhookEventDelivered"
  by (simp_all add: WebhookEventDelivered_def WebhookEventFailed_def)

definition validWebhookEventTypes :: "WebhookEventType list" where
  "validWebhookEventTypes = [WebhookEventDelivered, WebhookEventFailed]"

definition IsValidWebhookEventType :: "WebhookEventType \<Rightarrow> bool" where
  "IsValidWebhookEventType t = range_eq t validWebhookEventTypes"

text \<open>The loop of \<^verbatim>\<open>ValidateWebhookEvents\<close>, with the \<open>seen\<close> map as the list of keys set so far.\<close>

fun check_events :: "string list \<Rightarrow> string list \<Rightarrow> goerr option" where
  "check_events seen [] = None"
| "check_events seen (ev # evs) =
     (if \<not> IsValidWebhookEventType ev then
        Some (sentinel_with ErrValidationFailed (''invalid event type: '' @ ev))
      else if ev \<in> set seen then
        Some (sentinel_with ErrValidationFailed (''duplicate event type: '' @ ev))
      else check_events (ev # seen) evs)"

definition ValidateWebhookEvents :: "string list \<Rightarrow> goerr option" where
  "ValidateWebhookEvents events =
     (if events = [] then Some (sentinel_with ErrValidationFailed ''events must not be empty'')
      else check_events [] events)"

record WebhookEndpoint =
  we_ID :: uuid
  we_TenantID :: uuid
  we_URL :: string
  we_Secret :: string
  we_Events :: "string list"
  we_IsActive :: bool
  we_CreatedAt :: time

definition SubscribesTo :: "WebhookEndpoint \<Rightarrow> WebhookEventType \<Rightarrow> bool" where
  "SubscribesTo e eventType =
     (if \<not> we_IsActive e then False else range_eq eventType (we_Events e))"

record CreateWebhookEndpointInput =
  cwi_URL :: string
  cwi_Events :: "string list"

text \<open>A nil slice and an empty slice differ in \<^verbatim>\<open>input.Events != nil\<close>, so the field is an option.\<close>

record UpdateWebhookEndpointInput =
  uwi_URL :: "string option"
  uwi_Events :: "string list option"
  uwi_IsActive :: "bool option"

section \<open>Correctness of the validators\<close>

lemma IsValidChannelType_iff:
  "IsValidChannelType ct \<longleftrightarrow>
    ct \<in> {''discord'', ''telegram'', ''whatsapp'', ''email'', ''slack'', ''webhook''}"
  unfolding IsValidChannelType_def ValidChannelTypes_def channel_defs range_eq_iff by simp

lemma check_events_None:
  "check_events seen evs = None \<longleftrightarrow>
    (\<forall>ev \<in> set evs. IsValidWebhookEventType ev) \<and> distinct evs \<and> set evs \<inter> set seen = {}"
  by (induction evs arbitrary: seen) auto

lemma check_events_chain:
  "check_events seen evs = Some e \<Longrightarrow> err_chain e = [ErrValidationFailed]"
  by (induction evs arbitrary: seen) (auto simp: go_err split: if_splits)

lemma check_events_class:
  "check_events seen evs = Some e \<Longrightarrow> errors_Is e s \<longleftrightarrow> s = ErrValidationFailed"
  by (simp add: check_events_chain errors_Is_def)

lemma ValidateWebhookEvents_None:
  "ValidateWebhookEvents events = None \<longleftrightarrow>
    events \<noteq> [] \<and> distinct events \<and> (\<forall>ev \<in> set events. IsValidWebhookEventType ev)"
  by (simp add: ValidateWebhookEvents_def check_events_None) blast

lemma ValidateWebhookEvents_Some:
  "ValidateWebhookEvents events = Some e \<Longrightarrow> errors_Is e s \<longleftrightarrow> s = ErrValidationFailed"
  by (auto simp: ValidateWebhookEvents_def check_events_class split: if_splits)

lemma IsValidWebhookEventType_iff:
  "IsValidWebhookEventType t \<longleftrightarrow> t = ''notification.delivered'' \<or> t = ''notification.failed''"
  by (simp add: IsValidWebhookEventType_def validWebhookEventTypes_def WebhookEventDelivered_def
      WebhookEventFailed_def)

text \<open>
  \<^verbatim>\<open>ValidateWebhookEvents\<close> accepts exactly the non-empty, duplicate-free lists of the two known
  event types, and every rejection is a validation failure and nothing else.
\<close>

theorem ValidateWebhookEvents_spec:
  "(ValidateWebhookEvents events = None) =
     (events \<noteq> [] \<and> distinct events \<and> set events \<subseteq> {''notification.delivered'', ''notification.failed''}) \<and>
   (case ValidateWebhookEvents events of None \<Rightarrow> True | Some e \<Rightarrow> err_chain e = [ErrValidationFailed])"
proof -
  have "err_chain e = [ErrValidationFailed]" if "ValidateWebhookEvents events = Some e" for e
    using that check_events_chain by (auto simp: ValidateWebhookEvents_def go_err split: if_splits)
  moreover have "(\<forall>ev \<in> set events. IsValidWebhookEventType ev) \<longleftrightarrow>
      set events \<subseteq> {''notification.delivered'', ''notification.failed''}"
    by (auto simp: IsValidWebhookEventType_iff)
  ultimately show ?thesis
    unfolding ValidateWebhookEvents_None by (simp split: option.split)
qed

section \<open>The Free plan's period\<close>

lemma FreeDefaults_period:
  "e_PeriodStart (FreeDefaults t now) = month_start now"
  "civil now = (y, m, d) \<Longrightarrow> e_PeriodEnd (FreeDefaults t now) = time_Date y (m + 1) 1 0"
proof -
  show "e_PeriodStart (FreeDefaults t now) = month_start now"
    by (simp add: FreeDefaults_def month_start_def Let_def)
  assume c: "civil now = (y, m, d)"
  have "civil (time_Date y m 1 0) = (y, m, 1) \<and> time_of_day (time_Date y m 1 0) = 0"
    using month_start_civil [OF c] by simp
  then show "e_PeriodEnd (FreeDefaults t now) = time_Date y (m + 1) 1 0"
    using c by (simp add: FreeDefaults_def Let_def AddDate_def)
qed

end
