(* ===== verification/Store.thy ===== *)
theory Store
  imports Domain
begin

text \<open>
  The PostgreSQL database the repositories talk to: its tables with the keys, foreign keys, enums
  and column ranges of \<^verbatim>\<open>migrations/*.up.sql\<close>, statements as state transformers, transactions, and the
  schema invariant \<open>db_ok\<close>. A database call can fail for reasons the program does not control (a
  lost connection, a timeout, a value too long for its column): the field \<open>db_faults\<close> scripts these
  failures. Each call consumes one entry; \<open>Some m\<close> makes the call fail with message \<open>m\<close> and leaves
  the tables alone. Theorems quantified over the state thus cover every schedule of failures.
\<close>

section \<open>State\<close>

text \<open>A row of \<^verbatim>\<open>channel_configs\<close>; the preferences are the JSONB column.\<close>

record channel_row =
  cr_id :: uuid
  cr_tenant_id :: uuid
  cr_channel :: ChannelType
  cr_name :: string
  cr_config :: json
  cr_is_active :: bool
  cr_delivery_prefs :: "json option"
  cr_created_at :: time
  cr_updated_at :: time

record pgdb =
  db_tenants :: "Tenant list"
  db_api_keys :: "APIKey list"
  db_entitlements :: "Entitlements list"
  db_channels :: "channel_row list"
  db_notifs :: "Notification list"
  db_attempts :: "DeliveryAttempt list"
  db_metrics :: "DeliveryMetric list"
  db_endpoints :: "WebhookEndpoint list"
  db_now :: time
  db_faults :: "string option list"

text \<open>The errors of the driver: no row, the constraint violations of the schema, and any other failure.\<close>

datatype dberr =
    NoRows
  | UniqueViolation string
  | ForeignKeyViolation string string
  | NotNullViolation string string
  | InvalidEnum string string
  | Int4Range int
  | ConnErr string

fun sqlstate :: "dberr \<Rightarrow> string" where
  "sqlstate (UniqueViolation c) = ''23505''"
| "sqlstate (ForeignKeyViolation t c) = ''23503''"
| "sqlstate (NotNullViolation t c) = ''23502''"
| "sqlstate (InvalidEnum t v) = ''22P02''"
| "sqlstate _ = []"

fun dberr_msg :: "dberr \<Rightarrow> string" where
  "dberr_msg NoRows = ''no rows in result set''"
| "dberr_msg (UniqueViolation c) =
     ''ERROR: duplicate key value violates unique constraint \"'' @ c @ ''\" (SQLSTATE 23505)''"
| "dberr_msg (ForeignKeyViolation t c) =
     ''ERROR: insert or update on table \"'' @ t @ ''\" violates foreign key constraint \"'' @ c @
     ''\" (SQLSTATE 23503)''"
| "dberr_msg (NotNullViolation t c) =
     ''ERROR: null value in column \"'' @ c @ ''\" of relation \"'' @ t @
     ''\" violates not-null constraint (SQLSTATE 23502)''"
| "dberr_msg (InvalidEnum t v) =
     ''ERROR: invalid input value for enum '' @ t @ '': \"'' @ v @ ''\" (SQLSTATE 22P02)''"
| "dberr_msg (Int4Range i) = ''unable to encode '' @ show_int i @ '' into binary format for int4''"
| "dberr_msg (ConnErr m) = m"

definition dberr_go :: "dberr \<Rightarrow> goerr" where
  [go_err]: "dberr_go e = plain_error (dberr_msg e)"

lemma errors_Is_dberr_go [simp]: "\<not> errors_Is (dberr_go e) s"
  by (simp add: dberr_go_def)

section \<open>Calls, constraints and transactions\<close>

text \<open>One round trip to the database.\<close>

definition pg_call :: "(pgdb \<Rightarrow> (dberr + 'a) \<times> pgdb) \<Rightarrow> pgdb \<Rightarrow> (dberr + 'a) \<times> pgdb" where
  "pg_call stmt db = (case db_faults db of
     [] \<Rightarrow> stmt db
   | None # fs \<Rightarrow> stmt (db\<lparr>db_faults := fs\<rparr>)
   | Some m # fs \<Rightarrow> (Inl (ConnErr m), db\<lparr>db_faults := fs\<rparr>))"

definition pg_query :: "(pgdb \<Rightarrow> dberr + 'a) \<Rightarrow> pgdb \<Rightarrow> (dberr + 'a) \<times> pgdb" where
  "pg_query q = pg_call (\<lambda>db. (q db, db))"

text \<open>The first constraint a statement violates, in the order PostgreSQL checks them.\<close>

fun first_violation :: "(bool \<times> dberr) list \<Rightarrow> dberr option" where
  "first_violation [] = None"
| "first_violation ((bad, e) # cs) = (if bad then Some e else first_violation cs)"

definition checked :: "(bool \<times> dberr) list \<Rightarrow> 'a \<Rightarrow> pgdb \<Rightarrow> pgdb \<Rightarrow> (dberr + 'a) \<times> pgdb" where
  "checked cs r db' db = (case first_violation cs of Some e \<Rightarrow> (Inl e, db) | None \<Rightarrow> (Inr r, db'))"

definition int4 :: "int \<Rightarrow> bool" where
  "int4 i \<longleftrightarrow> - (2 ^ 31) \<le> i \<and> i < 2 ^ 31"

text \<open>
  \<^verbatim>\<open>pool.Begin ... tx.Commit\<close> with the deferred \<^verbatim>\<open>tx.Rollback\<close>: a body that stops early, or a
  failing commit, leaves every table as it was. The body returns \<open>Inl r\<close> to stop with result \<open>r\<close>.
\<close>

definition rollback :: "pgdb \<Rightarrow> pgdb \<Rightarrow> pgdb" where
  "rollback db0 db = db0\<lparr>db_faults := db_faults db\<rparr>"

definition pg_tx :: "(goerr \<Rightarrow> 'r) \<Rightarrow> (pgdb \<Rightarrow> ('r + 'a) \<times> pgdb) \<Rightarrow> ('a \<Rightarrow> goerr option \<Rightarrow> 'r) \<Rightarrow>
    pgdb \<Rightarrow> 'r \<times> pgdb" where
  "pg_tx begin_failed body commit_result db =
     (case pg_query (\<lambda>_. Inr ()) db of
        (Inl e, db1) \<Rightarrow> (begin_failed (dberr_go e), db1)
      | (Inr _, db1) \<Rightarrow>
          (case body db1 of
             (Inl r, db2) \<Rightarrow> (r, rollback db1 db2)
           | (Inr a, db2) \<Rightarrow>
               (case pg_query (\<lambda>_. Inr ()) db2 of
                  (Inl e, db3) \<Rightarrow> (commit_result a (Some (dberr_go e)), rollback db1 db3)
                | (Inr _, db3) \<Rightarrow> (commit_result a None, db3))))"

section \<open>The schema invariant\<close>

definition tenant_ids :: "pgdb \<Rightarrow> uuid set" where
  "tenant_ids db = t_ID ` set (db_tenants db)"

definition channel_ids :: "pgdb \<Rightarrow> uuid set" where
  "channel_ids db = cr_id ` set (db_channels db)"

definition notif_ids :: "pgdb \<Rightarrow> uuid set" where
  "notif_ids db = n_ID ` set (db_notifs db)"

definition channel_key :: "channel_row \<Rightarrow> uuid \<times> string \<times> string" where
  "channel_key c = (cr_tenant_id c, cr_channel c, cr_name c)"

definition keys_ok :: "pgdb \<Rightarrow> bool" where
  "keys_ok db \<longleftrightarrow>
     distinct (map t_ID (db_tenants db)) \<and> distinct (map t_Slug (db_tenants db)) \<and>
     distinct (map t_APIKey (db_tenants db)) \<and>
     distinct (map k_ID (db_api_keys db)) \<and> distinct (map k_APIKey (db_api_keys db)) \<and>
     distinct (map e_TenantID (db_entitlements db)) \<and>
     distinct (map cr_id (db_channels db)) \<and>
     distinct (map channel_key (db_channels db)) \<and>
     distinct (map n_ID (db_notifs db)) \<and> distinct (map da_ID (db_attempts db)) \<and>
     distinct (map dm_ID (db_metrics db)) \<and> distinct (map dm_NotificationID (db_metrics db)) \<and>
     distinct (map we_ID (db_endpoints db))"

definition refs_ok :: "pgdb \<Rightarrow> bool" where
  "refs_ok db \<longleftrightarrow>
     k_TenantID ` set (db_api_keys db) \<subseteq> tenant_ids db \<and>
     e_TenantID ` set (db_entitlements db) \<subseteq> tenant_ids db \<and>
     cr_tenant_id ` set (db_channels db) \<subseteq> tenant_ids db \<and>
     we_TenantID ` set (db_endpoints db) \<subseteq> tenant_ids db \<and>
     n_TenantID ` set (db_notifs db) \<subseteq> tenant_ids db \<and>
     n_ChannelConfigID ` set (db_notifs db) \<subseteq> channel_ids db \<and>
     da_NotificationID ` set (db_attempts db) \<subseteq> notif_ids db \<and>
     dm_NotificationID ` set (db_metrics db) \<subseteq> notif_ids db"

definition enums_ok :: "pgdb \<Rightarrow> bool" where
  "enums_ok db \<longleftrightarrow>
     (\<forall>c \<in> set (db_channels db). IsValidChannelType (cr_channel c)) \<and>
     (\<forall>n \<in> set (db_notifs db). IsValidChannelType (n_Channel n) \<and>
        IsValidNotificationStatus (n_Status n)) \<and>
     (\<forall>a \<in> set (db_attempts db). da_Status a \<in> {AttemptSuccess, AttemptFailure})"

definition db_ok :: "pgdb \<Rightarrow> bool" where
  "db_ok db \<longleftrightarrow> keys_ok db \<and> refs_ok db \<and> enums_ok db"

lemmas db_ok_defs = db_ok_def keys_ok_def refs_ok_def enums_ok_def tenant_ids_def channel_ids_def
  notif_ids_def

text \<open>
  \<^verbatim>\<open>ON DELETE CASCADE\<close>: after rows of a parent table are gone, the rows that referenced them go too,
  level by level.
\<close>

definition cascade :: "pgdb \<Rightarrow> pgdb" where
  "cascade db =
     (let ts = tenant_ids db;
          db1 = db\<lparr>db_api_keys := filter (\<lambda>k. k_TenantID k \<in> ts) (db_api_keys db),
                   db_entitlements := filter (\<lambda>e. e_TenantID e \<in> ts) (db_entitlements db),
                   db_channels := filter (\<lambda>c. cr_tenant_id c \<in> ts) (db_channels db),
                   db_endpoints := filter (\<lambda>w. we_TenantID w \<in> ts) (db_endpoints db)\<rparr>;
          db2 = db1\<lparr>db_notifs := filter (\<lambda>n. n_TenantID n \<in> ts \<and> n_ChannelConfigID n \<in> channel_ids db1)
                      (db_notifs db)\<rparr>
      in db2\<lparr>db_attempts := filter (\<lambda>a. da_NotificationID a \<in> notif_ids db2) (db_attempts db),
             db_metrics := filter (\<lambda>m. dm_NotificationID m \<in> notif_ids db2) (db_metrics db)\<rparr>)"

lemma cascade_ok:
  assumes "keys_ok db" and "enums_ok db"
  shows "db_ok (cascade db)"
proof -
  have "keys_ok (cascade db)"
    using assms(1) by (simp add: cascade_def Let_def keys_ok_def distinct_map_filter)
  moreover have "refs_ok (cascade db)"
    by (auto simp: cascade_def Let_def refs_ok_def tenant_ids_def channel_ids_def notif_ids_def)
  moreover have "enums_ok (cascade db)"
    using assms(2) by (auto simp: cascade_def Let_def enums_ok_def)
  ultimately show ?thesis by (simp add: db_ok_def)
qed

section \<open>Reasoning about calls\<close>

text \<open>The tables and the clock, without the script of failures.\<close>

definition tables :: "pgdb \<Rightarrow> pgdb" where
  "tables db = db\<lparr>db_faults := []\<rparr>"

lemma tables_faults [simp]: "tables (db\<lparr>db_faults := fs\<rparr>) = tables db"
  by (simp add: tables_def)

lemma tables_eq_fields:
  assumes "tables db' = tables db"
  shows "db_tenants db' = db_tenants db" "db_api_keys db' = db_api_keys db"
    "db_entitlements db' = db_entitlements db" "db_channels db' = db_channels db"
    "db_notifs db' = db_notifs db" "db_attempts db' = db_attempts db"
    "db_metrics db' = db_metrics db" "db_endpoints db' = db_endpoints db"
    "db_now db' = db_now db"
  using assms by (cases db; cases db'; simp add: tables_def)+

lemma db_ok_faults [simp]: "db_ok (db\<lparr>db_faults := fs\<rparr>) = db_ok db"
  by (simp add: db_ok_defs)

lemma db_ok_tables: "tables db' = tables db \<Longrightarrow> db_ok db' = db_ok db"
  by (metis db_ok_faults tables_def)

lemma tables_rollback [simp]: "tables (rollback db0 db) = tables db0"
  by (simp add: rollback_def)

lemma pg_call_cases:
  obtains (fault) m fs where "pg_call stmt db = (Inl (ConnErr m), db\<lparr>db_faults := fs\<rparr>)"
  | (runs) fs where "pg_call stmt db = stmt (db\<lparr>db_faults := fs\<rparr>)"
proof (cases "db_faults db")
  case Nil
  then have "pg_call stmt db = stmt db" and "db\<lparr>db_faults := []\<rparr> = db"
    by (simp add: pg_call_def) (cases db, use Nil in simp)
  then have "pg_call stmt db = stmt (db\<lparr>db_faults := []\<rparr>)" by metis
  then show ?thesis by (rule runs)
next
  case (Cons f fs)
  then show ?thesis
    by (cases f) (auto simp: pg_call_def intro: fault runs)
qed

lemma pg_call_no_faults [simp]: "db_faults db = [] \<Longrightarrow> pg_call stmt db = stmt db"
  by (simp add: pg_call_def)

lemma pg_query_no_faults [simp]: "db_faults db = [] \<Longrightarrow> pg_query q db = (q db, db)"
  by (simp add: pg_query_def)

lemma pg_call_preserves:
  assumes "pg_call stmt db = (r, db')"
    and "\<And>fs. P (db\<lparr>db_faults := fs\<rparr>)"
    and "\<And>fs r' d. stmt (db\<lparr>db_faults := fs\<rparr>) = (r', d) \<Longrightarrow> P d"
  shows "P db'"
  using assms by (cases rule: pg_call_cases [of stmt db]) auto

lemma pg_call_field:
  assumes "\<And>d. g (snd (stmt d)) = g d" and "\<And>d fs. g (d\<lparr>db_faults := fs\<rparr>) = g d"
  shows "g (snd (pg_call stmt db)) = g db"
  using assms by (cases rule: pg_call_cases [of stmt db]) auto

lemma pg_query_tables: "pg_query q db = (r, db') \<Longrightarrow> tables db' = tables db"
  by (cases rule: pg_call_cases [of "\<lambda>db. (q db, db)" db]) (auto simp: pg_query_def)

lemma pg_query_result:
  assumes "pg_query q db = (Inr x, db')" and "\<And>fs. q (db\<lparr>db_faults := fs\<rparr>) = q db"
  shows "q db = Inr x"
  using assms by (cases rule: pg_call_cases [of "\<lambda>db. (q db, db)" db]) (auto simp: pg_query_def)

lemma first_violation_None: "first_violation cs = None \<longleftrightarrow> (\<forall>(bad, e) \<in> set cs. \<not> bad)"
  by (induction cs rule: first_violation.induct) auto

lemma checked_cases:
  assumes "checked cs r db' db = (r', d)"
  shows "(\<exists>e. r' = Inl e \<and> d = db) \<or> (r' = Inr r \<and> d = db' \<and> (\<forall>(bad, e) \<in> set cs. \<not> bad))"
  using assms by (auto simp: checked_def first_violation_None [symmetric] split: option.splits)

lemma checked_ok [simp]: "\<forall>(bad, e) \<in> set cs. \<not> bad \<Longrightarrow> checked cs r db' db = (Inr r, db')"
proof -
  assume "\<forall>(bad, e) \<in> set cs. \<not> bad"
  then have "first_violation cs = None" by (simp add: first_violation_None)
  then show ?thesis by (simp add: checked_def)
qed

text \<open>A transaction either commits its body's state or leaves the tables alone.\<close>

lemma pg_tx_cases:
  assumes "pg_tx bf body cr db = (r, db')"
  obtains (no_begin) e where "r = bf e" "tables db' = tables db"
  | (stopped) fs db2 where "body (db\<lparr>db_faults := fs\<rparr>) = (Inl r, db2)" "tables db' = tables db"
  | (no_commit) fs a db2 e where "body (db\<lparr>db_faults := fs\<rparr>) = (Inr a, db2)" "r = cr a (Some e)"
      "tables db' = tables db"
  | (committed) fs a db2 where "body (db\<lparr>db_faults := fs\<rparr>) = (Inr a, db2)" "r = cr a None"
      "tables db' = tables db2"
proof -
  obtain x db1 where b: "pg_query (\<lambda>_. Inr ()) db = (x, db1)" by (meson surj_pair)
  then have t1: "tables db1 = tables db" by (rule pg_query_tables)
  then have d1: "db1 = db\<lparr>db_faults := db_faults db1\<rparr>"
    by (metis pgdb.surjective pgdb.update_convs(10) tables_def)
  obtain y db2 where y: "body db1 = (y, db2)" by (meson surj_pair)
  obtain z db3 where z: "pg_query (\<lambda>_. Inr ()) db2 = (z, db3)" by (meson surj_pair)
  then have t3: "tables db3 = tables db2" by (rule pg_query_tables)
  show ?thesis
  proof (cases x)
    case (Inl e)
    then have "r = bf (dberr_go e)" "db' = db1" using assms b by (simp_all add: pg_tx_def)
    then show ?thesis using t1 no_begin by blast
  next
    case x: (Inr u)
    show ?thesis
    proof (cases y)
      case (Inl e)
      then have "r = e" "db' = rollback db1 db2" using assms b x y by (simp_all add: pg_tx_def)
      then show ?thesis using stopped y Inl t1 d1 by (metis tables_rollback)
    next
      case a: (Inr a)
      show ?thesis
      proof (cases z)
        case (Inl e)
        then have "r = cr a (Some (dberr_go e))" "db' = rollback db1 db3"
          using assms b x y a z by (simp_all add: pg_tx_def)
        then show ?thesis using no_commit y a t1 d1 by (metis tables_rollback)
      next
        case (Inr v)
        then have "r = cr a None" "db' = db3" using assms b x y a z by (simp_all add: pg_tx_def)
        then show ?thesis using committed y a t3 d1 by metis
      qed
    qed
  qed
qed

lemma pg_tx_no_faults:
  assumes "db_faults db = []"
  shows "pg_tx bf body cr db = (case body db of
      (Inl r, db2) \<Rightarrow> (r, rollback db db2)
    | (Inr a, db2) \<Rightarrow> (case pg_query (\<lambda>_. Inr ()) db2 of
          (Inl e, db3) \<Rightarrow> (cr a (Some (dberr_go e)), rollback db db3)
        | (Inr _, db3) \<Rightarrow> (cr a None, db3)))"
  using assms by (simp add: pg_tx_def)

section \<open>Keyed rows\<close>

text \<open>
  The contract shared by the tables the program updates by identifier: a statement
  \<^verbatim>\<open>UPDATE t SET ... WHERE id = $1\<close> is a function on rows that keeps the key. The laws below are
  what the clients use: what a lookup returns after an update, and that keys stay as they were.
\<close>

locale keyed_update =
  fixes key :: "'r \<Rightarrow> uuid" and upd :: "'r \<Rightarrow> 'r"
  assumes keeps_key: "key (upd r) = key r"
begin

lemma keys_unchanged: "map key (update_where P upd t) = map key t"
  by (rule map_update_where) (rule keeps_key)

lemma distinct_keys: "distinct (map key (update_where P upd t)) = distinct (map key t)"
  by (simp add: keys_unchanged)

lemma key_set: "key ` set (update_where P upd t) = key ` set t"
  by (metis keys_unchanged list.set_map)

lemma lookup:
  "find (\<lambda>r. key r = k) (update_where (\<lambda>r. key r = k') upd t) =
    (if k = k' then map_option upd (find (\<lambda>r. key r = k) t) else find (\<lambda>r. key r = k) t)"
  by (rule find_update_where_key) (rule keeps_key)

end

end
