(* ===== verification/Repositories.thy ===== *)
theory Repositories
  imports Store
begin

text \<open>
  The repositories of \<^verbatim>\<open>internal/repository\<close> on the database of theory \<open>Store\<close>. Every method
  takes the state and returns its result with the state after it; \<^verbatim>\<open>time.Now()\<close> is an argument and
  \<^verbatim>\<open>NOW()\<close> reads the database clock. Methods of one name in several repositories carry the entity's
  name first. Ties in an \<^verbatim>\<open>ORDER BY\<close> come in insertion order.
\<close>

section \<open>Results\<close>

text \<open>\<^verbatim>\<open>Exec\<close> followed by the \<^verbatim>\<open>RowsAffected() == 0\<close> test.\<close>

definition exec_affected :: "goerr \<Rightarrow> (dberr + nat) \<times> pgdb \<Rightarrow> goerr option \<times> pgdb" where
  "exec_affected notFound r = (case r of
     (Inl e, db) \<Rightarrow> (Some (dberr_go e), db)
   | (Inr n, db) \<Rightarrow> (if n = 0 then Some notFound else None, db))"

text \<open>\<^verbatim>\<open>Exec\<close> whose error is returned as it is.\<close>

definition exec_plain :: "(dberr + 'a) \<times> pgdb \<Rightarrow> goerr option \<times> pgdb" where
  "exec_plain r = (case r of (Inl e, db) \<Rightarrow> (Some (dberr_go e), db) | (Inr _, db) \<Rightarrow> (None, db))"

text \<open>\<^verbatim>\<open>Exec\<close> whose unique violations become validation failures naming the constraint.\<close>

definition exec_unique :: "(dberr + 'a) \<times> pgdb \<Rightarrow> goerr option \<times> pgdb" where
  "exec_unique r = (case r of
     (Inl e, db) \<Rightarrow>
       (case e of
          UniqueViolation c \<Rightarrow> (Some (sentinel_with ErrValidationFailed c), db)
        | _ \<Rightarrow> (Some (dberr_go e), db))
   | (Inr _, db) \<Rightarrow> (None, db))"

text \<open>\<^verbatim>\<open>QueryRow(...).Scan(...)\<close> with \<^verbatim>\<open>pgx.ErrNoRows\<close> replaced.\<close>

definition scan_row :: "goerr \<Rightarrow> (dberr + 'a) \<times> pgdb \<Rightarrow> (goerr + 'a) \<times> pgdb" where
  "scan_row notFound r = (case r of
     (Inl NoRows, db) \<Rightarrow> (Inl notFound, db)
   | (Inl e, db) \<Rightarrow> (Inl (dberr_go e), db)
   | (Inr x, db) \<Rightarrow> (Inr x, db))"

definition scan_rows :: "(dberr + 'a) \<times> pgdb \<Rightarrow> (goerr + 'a) \<times> pgdb" where
  "scan_rows r = (case r of (Inl e, db) \<Rightarrow> (Inl (dberr_go e), db) | (Inr x, db) \<Rightarrow> (Inr x, db))"

text \<open>\<^verbatim>\<open>SELECT ... WHERE\<close> returning at most one row.\<close>

definition one_row :: "('r \<Rightarrow> bool) \<Rightarrow> 'r list \<Rightarrow> dberr + 'r" where
  "one_row P t = (case find P t of None \<Rightarrow> Inl NoRows | Some r \<Rightarrow> Inr r)"

definition notif_nf :: goerr where
  "notif_nf = sentinel_with ErrNotFound ''notification not found''"

definition channel_nf :: goerr where
  "channel_nf = sentinel_with ErrNotFound ''channel config not found''"

definition tenant_nf :: goerr where
  "tenant_nf = sentinel_with ErrNotFound ''tenant not found''"

definition endpoint_nf :: goerr where
  "endpoint_nf = sentinel_with ErrNotFound ''webhook endpoint not found''"

lemmas nf_defs = notif_nf_def channel_nf_def tenant_nf_def endpoint_nf_def

section \<open>Notifications\<close>

text \<open>The columns the insert does not list take their defaults.\<close>

definition inserted :: "Notification \<Rightarrow> Notification" where
  "inserted n = n\<lparr>n_AsynqTaskID := None, n_RetryCount := 0, n_LastError := None, n_DeliveredAt := None,
     n_ProviderMsgID := None\<rparr>"

definition sql_insert_notif :: "Notification \<Rightarrow> pgdb \<Rightarrow> (dberr + unit) \<times> pgdb" where
  "sql_insert_notif n db = checked
     [(\<not> int4 (n_MaxRetries n), Int4Range (n_MaxRetries n)),
      (\<not> IsValidChannelType (n_Channel n), InvalidEnum ''channel_type'' (n_Channel n)),
      (\<not> IsValidNotificationStatus (n_Status n), InvalidEnum ''notification_status'' (n_Status n)),
      (n_ID n \<in> notif_ids db, UniqueViolation ''notifications_pkey''),
      (n_TenantID n \<notin> tenant_ids db, ForeignKeyViolation ''notifications'' ''notifications_tenant_id_fkey''),
      (n_ChannelConfigID n \<notin> channel_ids db,
         ForeignKeyViolation ''notifications'' ''notifications_channel_config_id_fkey'')]
     () (db\<lparr>db_notifs := db_notifs db @ [inserted n]\<rparr>) db"

definition Notification_Create :: "Notification \<Rightarrow> pgdb \<Rightarrow> goerr option \<times> pgdb" where
  "Notification_Create n db = exec_plain (pg_call (sql_insert_notif n) db)"

definition Notification_GetByID :: "uuid \<Rightarrow> pgdb \<Rightarrow> (goerr + Notification) \<times> pgdb" where
  "Notification_GetByID i db =
     scan_row notif_nf (pg_query (\<lambda>db. one_row (\<lambda>n. n_ID n = i) (db_notifs db)) db)"

definition sql_update_notif :: "uuid \<Rightarrow> (Notification \<Rightarrow> Notification) \<Rightarrow> pgdb \<Rightarrow> (dberr + nat) \<times> pgdb" where
  "sql_update_notif i f db =
     (Inr (rows_affected (\<lambda>n. n_ID n = i) (db_notifs db)),
      db\<lparr>db_notifs := update_where (\<lambda>n. n_ID n = i) f (db_notifs db)\<rparr>)"

text \<open>The \<^verbatim>\<open>SET\<close> clauses of the five updates.\<close>

definition status_set :: "NotificationStatus \<Rightarrow> string option \<Rightarrow> time \<Rightarrow> Notification \<Rightarrow> Notification" where
  "status_set status lastError now n = n\<lparr>n_Status := status, n_LastError := lastError, n_UpdatedAt := now\<rparr>"

definition task_id_set :: "string \<Rightarrow> time \<Rightarrow> Notification \<Rightarrow> Notification" where
  "task_id_set taskID now n = n\<lparr>n_AsynqTaskID := Some taskID, n_UpdatedAt := now\<rparr>"

definition provider_msg_set :: "string \<Rightarrow> time \<Rightarrow> Notification \<Rightarrow> Notification" where
  "provider_msg_set providerMsgID now n = n\<lparr>n_ProviderMsgID := Some providerMsgID, n_UpdatedAt := now\<rparr>"

definition delivered_set :: "time \<Rightarrow> Notification \<Rightarrow> Notification" where
  "delivered_set now n = n\<lparr>n_Status := StatusDelivered, n_DeliveredAt := Some now, n_UpdatedAt := now\<rparr>"

definition retry_set :: "string \<Rightarrow> time \<Rightarrow> Notification \<Rightarrow> Notification" where
  "retry_set lastError now n =
     n\<lparr>n_RetryCount := n_RetryCount n + 1, n_LastError := Some lastError, n_UpdatedAt := now\<rparr>"

lemmas notif_set_defs = status_set_def task_id_set_def provider_msg_set_def delivered_set_def retry_set_def

definition UpdateStatus :: "uuid \<Rightarrow> NotificationStatus \<Rightarrow> string option \<Rightarrow> time \<Rightarrow> pgdb \<Rightarrow>
    goerr option \<times> pgdb" where
  "UpdateStatus i status lastError now db = exec_affected notif_nf (pg_call (\<lambda>db.
     if \<not> IsValidNotificationStatus status then (Inl (InvalidEnum ''notification_status'' status), db)
     else sql_update_notif i (status_set status lastError now) db) db)"

definition SetAsynqTaskID :: "uuid \<Rightarrow> string \<Rightarrow> time \<Rightarrow> pgdb \<Rightarrow> goerr option \<times> pgdb" where
  "SetAsynqTaskID i taskID now db =
     exec_affected notif_nf (pg_call (sql_update_notif i (task_id_set taskID now)) db)"

definition SetProviderMsgID :: "uuid \<Rightarrow> string \<Rightarrow> time \<Rightarrow> pgdb \<Rightarrow> goerr option \<times> pgdb" where
  "SetProviderMsgID i providerMsgID now db =
     exec_affected notif_nf (pg_call (sql_update_notif i (provider_msg_set providerMsgID now)) db)"

definition MarkDelivered :: "uuid \<Rightarrow> time \<Rightarrow> pgdb \<Rightarrow> goerr option \<times> pgdb" where
  "MarkDelivered i now db =
     exec_affected notif_nf (pg_call (sql_update_notif i (delivered_set now)) db)"

definition IncrementRetry :: "uuid \<Rightarrow> string \<Rightarrow> time \<Rightarrow> pgdb \<Rightarrow> goerr option \<times> pgdb" where
  "IncrementRetry i lastError now db =
     exec_affected notif_nf (pg_call (sql_update_notif i (retry_set lastError now)) db)"

definition notif_matches :: "NotificationFilter \<Rightarrow> Notification \<Rightarrow> bool" where
  "notif_matches f n \<longleftrightarrow> n_TenantID n = nf_TenantID f \<and>
     (case nf_Status f of None \<Rightarrow> True | Some s \<Rightarrow> n_Status n = s) \<and>
     (case nf_Channel f of None \<Rightarrow> True | Some c \<Rightarrow> n_Channel n = c)"

text \<open>A filter value outside its column's enum is rejected by the database.\<close>

definition filter_error :: "NotificationFilter \<Rightarrow> dberr option" where
  "filter_error f = (case nf_Status f of
     Some s \<Rightarrow> if IsValidNotificationStatus s then None else Some (InvalidEnum ''notification_status'' s)
   | None \<Rightarrow> None)"

definition channel_filter_error :: "NotificationFilter \<Rightarrow> dberr option" where
  "channel_filter_error f = (case nf_Channel f of
     Some c \<Rightarrow> if IsValidChannelType c then None else Some (InvalidEnum ''channel_type'' c)
   | None \<Rightarrow> None)"

definition count_matching :: "NotificationFilter \<Rightarrow> pgdb \<Rightarrow> dberr + int" where
  "count_matching f db = (case filter_error f of
     Some e \<Rightarrow> Inl e
   | None \<Rightarrow> (case channel_filter_error f of
        Some e \<Rightarrow> Inl e
      | None \<Rightarrow> Inr (int (length (filter (notif_matches f) (db_notifs db))))))"

definition matching_page :: "NotificationFilter \<Rightarrow> int \<Rightarrow> int \<Rightarrow> pgdb \<Rightarrow> Notification list" where
  "matching_page f limit offset db =
     page limit offset (sort_key (\<lambda>n. - n_CreatedAt n) (filter (notif_matches f) (db_notifs db)))"

definition Notification_List :: "NotificationFilter \<Rightarrow> pgdb \<Rightarrow> (goerr + Notification list \<times> int) \<times> pgdb" where
  "Notification_List f db = (case pg_query (count_matching f) db of
     (Inl e, db1) \<Rightarrow> (Inl (dberr_go e), db1)
   | (Inr tot, db1) \<Rightarrow>
       (let limit = (if nf_Limit f \<le> 0 then 20 else nf_Limit f);
            offset = (if nf_Offset f < 0 then 0 else nf_Offset f)
        in case pg_query (\<lambda>db. Inr (matching_page f limit offset db)) db1 of
             (Inl e, db2) \<Rightarrow> (Inl (dberr_go e), db2)
           | (Inr ns, db2) \<Rightarrow> (Inr (ns, tot), db2)))"

text \<open>\<^verbatim>\<open>created_at >= from AND created_at < to\<close> for one tenant.\<close>

definition in_window :: "uuid \<Rightarrow> time \<Rightarrow> time \<Rightarrow> Notification \<Rightarrow> bool" where
  "in_window tid from to n \<longleftrightarrow> n_TenantID n = tid \<and> from \<le> n_CreatedAt n \<and> n_CreatedAt n < to"

definition UsageByTenant :: "uuid \<Rightarrow> time \<Rightarrow> time \<Rightarrow> pgdb \<Rightarrow> (goerr + UsageReport) \<times> pgdb" where
  "UsageByTenant tid from to db =
     (case pg_query (\<lambda>db. let ns = filter (in_window tid from to) (db_notifs db) in
          Inr (int (length ns),
               int (length (filter (\<lambda>n. n_Status n = StatusDelivered) ns)),
               int (length (filter (\<lambda>n. n_Status n = StatusFailed) ns)))) db of
        (Inl e, db1) \<Rightarrow> (Inl (dberr_go e), db1)
      | (Inr (sent, delivered, failed), db1) \<Rightarrow>
          (case pg_query (\<lambda>db. Inr (concat (map (\<lambda>n. map cr_channel
                (filter (\<lambda>c. cr_id c = n_ChannelConfigID n) (db_channels db)))
                (filter (in_window tid from to) (db_notifs db))))) db1 of
             (Inl e, db2) \<Rightarrow> (Inl (dberr_go e), db2)
           | (Inr chans, db2) \<Rightarrow>
               (Inr \<lparr>ur_Sent = sent, ur_Delivered = delivered, ur_Failed = failed,
                     ur_ByChannel = (\<lambda>ch. if ch \<in> set chans
                        then Some (int (count_list chans ch)) else None)\<rparr>, db2)))"

text \<open>\<^verbatim>\<open>DeleteOlderThan\<close>: three deletes in one transaction; the count comes with the commit's error.\<close>

definition old_notif_ids :: "uuid \<Rightarrow> time \<Rightarrow> pgdb \<Rightarrow> uuid set" where
  "old_notif_ids tid cutoff db =
     n_ID ` set (filter (\<lambda>n. n_TenantID n = tid \<and> n_CreatedAt n < cutoff) (db_notifs db))"

definition purge_attempts :: "uuid \<Rightarrow> time \<Rightarrow> pgdb \<Rightarrow> (dberr + unit) \<times> pgdb" where
  "purge_attempts tid cutoff db = (Inr (), db\<lparr>db_attempts :=
     delete_where (\<lambda>a. da_NotificationID a \<in> old_notif_ids tid cutoff db) (db_attempts db)\<rparr>)"

definition purge_metrics :: "uuid \<Rightarrow> time \<Rightarrow> pgdb \<Rightarrow> (dberr + unit) \<times> pgdb" where
  "purge_metrics tid cutoff db = (Inr (), db\<lparr>db_metrics :=
     delete_where (\<lambda>m. dm_NotificationID m \<in> old_notif_ids tid cutoff db) (db_metrics db)\<rparr>)"

definition purge_notifs :: "uuid \<Rightarrow> time \<Rightarrow> pgdb \<Rightarrow> (dberr + int) \<times> pgdb" where
  "purge_notifs tid cutoff db =
     (let P = (\<lambda>n. n_TenantID n = tid \<and> n_CreatedAt n < cutoff)
      in (Inr (int (rows_affected P (db_notifs db))),
          cascade (db\<lparr>db_notifs := delete_where P (db_notifs db)\<rparr>)))"

definition DeleteOlderThan :: "uuid \<Rightarrow> time \<Rightarrow> pgdb \<Rightarrow> (int \<times> goerr option) \<times> pgdb" where
  "DeleteOlderThan tid cutoff = pg_tx (\<lambda>e. (0, Some e))
     (\<lambda>db. case pg_call (purge_attempts tid cutoff) db of
        (Inl e, db1) \<Rightarrow> (Inl (0, Some (dberr_go e)), db1)
      | (Inr _, db1) \<Rightarrow>
          (case pg_call (purge_metrics tid cutoff) db1 of
             (Inl e, db2) \<Rightarrow> (Inl (0, Some (dberr_go e)), db2)
           | (Inr _, db2) \<Rightarrow>
               (case pg_call (purge_notifs tid cutoff) db2 of
                  (Inl e, db3) \<Rightarrow> (Inl (0, Some (dberr_go e)), db3)
                | (Inr n, db3) \<Rightarrow> (Inr n, db3))))
     (\<lambda>n e. (n, e))"

definition CountByStatus :: "pgdb \<Rightarrow> (goerr + (NotificationStatus \<rightharpoonup> int)) \<times> pgdb" where
  "CountByStatus db = scan_rows (pg_query (\<lambda>db. Inr (\<lambda>s.
     let k = length (filter (\<lambda>n. n_Status n = s) (db_notifs db))
     in if k = 0 then None else Some (int k))) db)"

section \<open>Channel configurations\<close>

text \<open>\<^verbatim>\<open>json.Marshal\<close> of the preferences: every field has \<^verbatim>\<open>omitempty\<close>.\<close>

definition prefs_json :: "DeliveryPreferences \<Rightarrow> json" where
  "prefs_json dp = JObj
     ((if dp_Priority dp = [] then [] else [(''priority'', JStr (dp_Priority dp))]) @
      (case dp_MaxRetries dp of None \<Rightarrow> [] | Some n \<Rightarrow> [(''max_retries'', JNum n)]) @
      (if dp_FormatMode dp = [] then [] else [(''format_mode'', JStr (dp_FormatMode dp))]))"

definition marshalDeliveryPrefs :: "DeliveryPreferences option \<Rightarrow> json option" where
  "marshalDeliveryPrefs p = map_option prefs_json p"

text \<open>
  \<^verbatim>\<open>json.Unmarshal\<close> into the struct: members are matched without regard to case, \<^verbatim>\<open>null\<close> leaves a
  string as it is and clears a pointer, a value of another type is an error.
\<close>

fun prefs_member :: "string \<times> json \<Rightarrow> DeliveryPreferences \<Rightarrow> DeliveryPreferences option" where
  "prefs_member (k, v) dp =
     (if ToLower k = ''priority'' then
        (case v of JStr s \<Rightarrow> Some (dp\<lparr>dp_Priority := s\<rparr>) | JNull \<Rightarrow> Some dp | _ \<Rightarrow> None)
      else if ToLower k = ''max_retries'' then
        (case v of JNum i \<Rightarrow> if fits64 i then Some (dp\<lparr>dp_MaxRetries := Some i\<rparr>) else None
         | JNull \<Rightarrow> Some (dp\<lparr>dp_MaxRetries := None\<rparr>) | _ \<Rightarrow> None)
      else if ToLower k = ''format_mode'' then
        (case v of JStr s \<Rightarrow> Some (dp\<lparr>dp_FormatMode := s\<rparr>) | JNull \<Rightarrow> Some dp | _ \<Rightarrow> None)
      else Some dp)"

fun prefs_members :: "(string \<times> json) list \<Rightarrow> DeliveryPreferences \<Rightarrow> DeliveryPreferences option" where
  "prefs_members [] dp = Some dp"
| "prefs_members (m # ms) dp =
     (case prefs_member m dp of None \<Rightarrow> None | Some dp' \<Rightarrow> prefs_members ms dp')"

definition empty_prefs :: DeliveryPreferences where
  "empty_prefs = \<lparr>dp_Priority = [], dp_MaxRetries = None, dp_FormatMode = []\<rparr>"

definition unmarshalDeliveryPrefs :: "json option \<Rightarrow> DeliveryPreferences option" where
  "unmarshalDeliveryPrefs data = (case data of
     None \<Rightarrow> None
   | Some j \<Rightarrow> (case j of
         JNull \<Rightarrow> None
       | JObj ms \<Rightarrow> if ms = [] then None else prefs_members ms empty_prefs
       | _ \<Rightarrow> None))"

definition scanConfig :: "channel_row \<Rightarrow> ChannelConfig" where
  "scanConfig r = \<lparr>cc_ID = cr_id r, cc_TenantID = cr_tenant_id r, cc_Channel = cr_channel r,
     cc_Name = cr_name r, cc_Config = Some (cr_config r), cc_IsActive = cr_is_active r,
     cc_DeliveryPrefs = unmarshalDeliveryPrefs (cr_delivery_prefs r),
     cc_CreatedAt = cr_created_at r, cc_UpdatedAt = cr_updated_at r\<rparr>"

definition channel_row_of :: "ChannelConfig \<Rightarrow> channel_row" where
  "channel_row_of cfg = \<lparr>cr_id = cc_ID cfg, cr_tenant_id = cc_TenantID cfg, cr_channel = cc_Channel cfg,
     cr_name = cc_Name cfg, cr_config = (case cc_Config cfg of None \<Rightarrow> JNull | Some v \<Rightarrow> v),
     cr_is_active = cc_IsActive cfg, cr_delivery_prefs = marshalDeliveryPrefs (cc_DeliveryPrefs cfg),
     cr_created_at = cc_CreatedAt cfg, cr_updated_at = cc_UpdatedAt cfg\<rparr>"

definition Channel_Create :: "ChannelConfig \<Rightarrow> pgdb \<Rightarrow> goerr option \<times> pgdb" where
  "Channel_Create cfg db = exec_unique (pg_call (\<lambda>db. checked
     [(\<not> IsValidChannelType (cc_Channel cfg), InvalidEnum ''channel_type'' (cc_Channel cfg)),
      (cc_Config cfg = None, NotNullViolation ''channel_configs'' ''config''),
      (cc_ID cfg \<in> channel_ids db, UniqueViolation ''channel_configs_pkey''),
      (channel_key (channel_row_of cfg) \<in> channel_key ` set (db_channels db),
         UniqueViolation ''channel_configs_tenant_id_channel_name_key''),
      (cc_TenantID cfg \<notin> tenant_ids db,
         ForeignKeyViolation ''channel_configs'' ''channel_configs_tenant_id_fkey'')]
     () (db\<lparr>db_channels := db_channels db @ [channel_row_of cfg]\<rparr>) db) db)"

definition Channel_GetByID :: "uuid \<Rightarrow> pgdb \<Rightarrow> (goerr + ChannelConfig) \<times> pgdb" where
  "Channel_GetByID i db = (case scan_row channel_nf
     (pg_query (\<lambda>db. one_row (\<lambda>c. cr_id c = i) (db_channels db)) db) of
       (Inl e, db') \<Rightarrow> (Inl e, db') | (Inr c, db') \<Rightarrow> (Inr (scanConfig c), db'))"

definition Channel_ListByTenant :: "uuid \<Rightarrow> pgdb \<Rightarrow> (goerr + ChannelConfig list) \<times> pgdb" where
  "Channel_ListByTenant tid db = scan_rows (pg_query (\<lambda>db. Inr (map scanConfig
     (sort_key (\<lambda>c. - cr_created_at c) (filter (\<lambda>c. cr_tenant_id c = tid) (db_channels db))))) db)"

definition Channel_ListByTenantAndChannel ::
    "uuid \<Rightarrow> ChannelType \<Rightarrow> pgdb \<Rightarrow> (goerr + ChannelConfig list) \<times> pgdb" where
  "Channel_ListByTenantAndChannel tid ch db = scan_rows (pg_query (\<lambda>db.
     if \<not> IsValidChannelType ch then Inl (InvalidEnum ''channel_type'' ch)
     else Inr (map scanConfig (sort_key (\<lambda>c. - cr_created_at c)
       (filter (\<lambda>c. cr_tenant_id c = tid \<and> cr_channel c = ch) (db_channels db))))) db)"

definition coalesce :: "'a option \<Rightarrow> 'a \<Rightarrow> 'a" where
  "coalesce p x = (case p of None \<Rightarrow> x | Some v \<Rightarrow> v)"

definition channel_set :: "UpdateChannelConfigInput \<Rightarrow> time \<Rightarrow> channel_row \<Rightarrow> channel_row" where
  "channel_set input now c = c\<lparr>
     cr_name := coalesce (uci_Name input) (cr_name c),
     cr_config := coalesce (case uci_Config input of None \<Rightarrow> None | Some m \<Rightarrow> m) (cr_config c),
     cr_is_active := coalesce (uci_IsActive input) (cr_is_active c),
     cr_delivery_prefs := (case marshalDeliveryPrefs (uci_DeliveryPrefs input) of
        None \<Rightarrow> cr_delivery_prefs c | Some j \<Rightarrow> Some j),
     cr_updated_at := now\<rparr>"

text \<open>The rename can collide with the unique key; the code returns that violation as it is.\<close>

definition sql_update_channel :: "uuid \<Rightarrow> uuid \<Rightarrow> UpdateChannelConfigInput \<Rightarrow> pgdb \<Rightarrow>
    (dberr + channel_row) \<times> pgdb" where
  "sql_update_channel i tid input db =
     (let P = (\<lambda>c. cr_id c = i \<and> cr_tenant_id c = tid); f = channel_set input (db_now db)
      in case find P (db_channels db) of
           None \<Rightarrow> (Inl NoRows, db)
         | Some c \<Rightarrow> checked
             [(channel_key (f c) \<in> channel_key ` set (filter (\<lambda>r. cr_id r \<noteq> i) (db_channels db)),
                UniqueViolation ''channel_configs_tenant_id_channel_name_key'')]
             (f c) (db\<lparr>db_channels := update_where P f (db_channels db)\<rparr>) db)"

definition Channel_Update :: "uuid \<Rightarrow> uuid \<Rightarrow> UpdateChannelConfigInput \<Rightarrow> pgdb \<Rightarrow>
    (goerr + ChannelConfig) \<times> pgdb" where
  "Channel_Update i tid input db =
     (case scan_row channel_nf (pg_call (sql_update_channel i tid input) db) of
        (Inl e, db') \<Rightarrow> (Inl (if errors_Is e ErrNotFound then channel_nf else e), db')
      | (Inr c, db') \<Rightarrow> (Inr (scanConfig c), db'))"

definition Channel_Delete :: "uuid \<Rightarrow> uuid \<Rightarrow> pgdb \<Rightarrow> goerr option \<times> pgdb" where
  "Channel_Delete i tid db = exec_affected channel_nf (pg_call (\<lambda>db.
     let P = (\<lambda>c. cr_id c = i \<and> cr_tenant_id c = tid)
     in (Inr (rows_affected P (db_channels db)),
         cascade (db\<lparr>db_channels := delete_where P (db_channels db)\<rparr>))) db)"

section \<open>Tenants\<close>

definition Tenant_Create :: "Tenant \<Rightarrow> pgdb \<Rightarrow> goerr option \<times> pgdb" where
  "Tenant_Create t db = exec_unique (pg_call (\<lambda>db. checked
     [(t_ID t \<in> tenant_ids db, UniqueViolation ''tenants_pkey''),
      (t_Slug t \<in> t_Slug ` set (db_tenants db), UniqueViolation ''tenants_slug_key''),
      (t_APIKey t \<in> t_APIKey ` set (db_tenants db), UniqueViolation ''tenants_api_key_key'')]
     () (db\<lparr>db_tenants := db_tenants db @ [t]\<rparr>) db) db)"

definition Tenant_GetByID :: "uuid \<Rightarrow> pgdb \<Rightarrow> (goerr + Tenant) \<times> pgdb" where
  "Tenant_GetByID i db =
     scan_row tenant_nf (pg_query (\<lambda>db. one_row (\<lambda>t. t_ID t = i) (db_tenants db)) db)"

definition GetBySlug :: "string \<Rightarrow> pgdb \<Rightarrow> (goerr + Tenant) \<times> pgdb" where
  "GetBySlug slug db =
     scan_row tenant_nf (pg_query (\<lambda>db. one_row (\<lambda>t. t_Slug t = slug) (db_tenants db)) db)"

definition tenant_set :: "UpdateTenantInput \<Rightarrow> time \<Rightarrow> Tenant \<Rightarrow> Tenant" where
  "tenant_set input now t = t\<lparr>t_Name := coalesce (uti_Name input) (t_Name t),
     t_IsActive := coalesce (uti_IsActive input) (t_IsActive t), t_UpdatedAt := now\<rparr>"

definition Tenant_Update :: "uuid \<Rightarrow> UpdateTenantInput \<Rightarrow> pgdb \<Rightarrow> (goerr + Tenant) \<times> pgdb" where
  "Tenant_Update i input db = scan_row tenant_nf (pg_call (\<lambda>db.
     case find (\<lambda>t. t_ID t = i) (db_tenants db) of
       None \<Rightarrow> (Inl NoRows, db)
     | Some t \<Rightarrow> (Inr (tenant_set input (db_now db) t),
         db\<lparr>db_tenants := update_where (\<lambda>t. t_ID t = i) (tenant_set input (db_now db)) (db_tenants db)\<rparr>)) db)"

definition Tenant_Delete :: "uuid \<Rightarrow> pgdb \<Rightarrow> goerr option \<times> pgdb" where
  "Tenant_Delete i db = exec_affected tenant_nf (pg_call (\<lambda>db.
     (Inr (rows_affected (\<lambda>t. t_ID t = i) (db_tenants db)),
      cascade (db\<lparr>db_tenants := delete_where (\<lambda>t. t_ID t = i) (db_tenants db)\<rparr>))) db)"

text \<open>Rows with the same \<^verbatim>\<open>created_at\<close> are listed in the order of the table; the query leaves their order open.\<close>

definition Tenant_List :: "int \<Rightarrow> int \<Rightarrow> pgdb \<Rightarrow> (goerr + Tenant list \<times> int) \<times> pgdb" where
  "Tenant_List limit offset db =
     (case pg_query (\<lambda>db. Inr (int (length (db_tenants db)))) db of
        (Inl e, db1) \<Rightarrow> (Inl (dberr_go e), db1)
      | (Inr tot, db1) \<Rightarrow>
          (case pg_query (\<lambda>db. Inr (page limit offset (sort_key (\<lambda>t. - t_CreatedAt t) (db_tenants db)))) db1 of
             (Inl e, db2) \<Rightarrow> (Inl (dberr_go e), db2)
           | (Inr ts, db2) \<Rightarrow> (Inr (ts, tot), db2)))"

section \<open>API keys\<close>

text \<open>The insert leaves \<^verbatim>\<open>revoked_at\<close> at its default, \<^verbatim>\<open>NULL\<close>.\<close>

definition sql_insert_key :: "APIKey \<Rightarrow> pgdb \<Rightarrow> (dberr + unit) \<times> pgdb" where
  "sql_insert_key k db = checked
     [(k_ID k \<in> k_ID ` set (db_api_keys db), UniqueViolation ''api_keys_pkey''),
      (k_APIKey k \<in> k_APIKey ` set (db_api_keys db), UniqueViolation ''api_keys_api_key_key''),
      (k_TenantID k \<notin> tenant_ids db, ForeignKeyViolation ''api_keys'' ''api_keys_tenant_id_fkey'')]
     () (db\<lparr>db_api_keys := db_api_keys db @ [k\<lparr>k_RevokedAt := None\<rparr>]\<rparr>) db"

definition APIKey_Create :: "APIKey \<Rightarrow> pgdb \<Rightarrow> goerr option \<times> pgdb" where
  "APIKey_Create k db = exec_plain (pg_call (sql_insert_key k) db)"

definition GetByAPIKey :: "string \<Rightarrow> pgdb \<Rightarrow> (goerr + APIKey) \<times> pgdb" where
  "GetByAPIKey apiKey db = scan_row (sentinel_err ErrNotFound)
     (pg_query (\<lambda>db. one_row (\<lambda>k. k_APIKey k = apiKey) (db_api_keys db)) db)"

definition APIKey_ListByTenant :: "uuid \<Rightarrow> pgdb \<Rightarrow> (goerr + APIKey list) \<times> pgdb" where
  "APIKey_ListByTenant tid db = scan_rows (pg_query (\<lambda>db. Inr
     (sort_key k_CreatedAt (filter (\<lambda>k. k_TenantID k = tid) (db_api_keys db)))) db)"

definition revoke_set :: "time \<Rightarrow> APIKey \<Rightarrow> APIKey" where
  "revoke_set now k = k\<lparr>k_RevokedAt := Some now\<rparr>"

definition Revoke :: "uuid \<Rightarrow> uuid \<Rightarrow> pgdb \<Rightarrow> goerr option \<times> pgdb" where
  "Revoke i tid db = exec_affected (sentinel_err ErrNotFound) (pg_call (\<lambda>db.
     let P = (\<lambda>k. k_ID k = i \<and> k_TenantID k = tid \<and> k_RevokedAt k = None)
     in (Inr (rows_affected P (db_api_keys db)),
         db\<lparr>db_api_keys := update_where P (revoke_set (db_now db)) (db_api_keys db)\<rparr>)) db)"

definition active_keys :: "uuid \<Rightarrow> pgdb \<Rightarrow> int" where
  "active_keys tid db =
     int (length (filter (\<lambda>k. k_TenantID k = tid \<and> k_RevokedAt k = None) (db_api_keys db)))"

text \<open>
  The body shared by the two \<^verbatim>\<open>CreateWithinLimit\<close> methods: lock the tenant's row, count, compare
  with the cap, insert. The row lock makes the transaction atomic for its tenant.
\<close>

definition within_limit :: "uuid \<Rightarrow> (pgdb \<Rightarrow> int) \<Rightarrow> goerr \<Rightarrow> (pgdb \<Rightarrow> (dberr + unit) \<times> pgdb) \<Rightarrow>
    int \<Rightarrow> pgdb \<Rightarrow> goerr option \<times> pgdb" where
  "within_limit tid count full ins limit = pg_tx Some
     (\<lambda>db. case pg_query (\<lambda>db. one_row (\<lambda>t. t_ID t = tid) (db_tenants db)) db of
        (Inl e, db1) \<Rightarrow>
          (Inl (Some (if e = NoRows then sentinel_err ErrNotFound else dberr_go e)), db1)
      | (Inr _, db1) \<Rightarrow>
          (case pg_query (\<lambda>db. Inr (count db)) db1 of
             (Inl e, db2) \<Rightarrow> (Inl (Some (dberr_go e)), db2)
           | (Inr n, db2) \<Rightarrow>
               if n \<ge> limit then (Inl (Some full), db2)
               else (case pg_call ins db2 of
                       (Inl e, db3) \<Rightarrow> (Inl (Some (dberr_go e)), db3)
                     | (Inr _, db3) \<Rightarrow> (Inr (), db3))))
     (\<lambda>_ e. e)"

definition APIKey_CreateWithinLimit :: "APIKey \<Rightarrow> int \<Rightarrow> pgdb \<Rightarrow> goerr option \<times> pgdb" where
  "APIKey_CreateWithinLimit k limit =
     within_limit (k_TenantID k) (active_keys (k_TenantID k)) (sentinel_err ErrKeyLimitReached)
       (sql_insert_key k) limit"

section \<open>Entitlements\<close>

definition Entitlement_Upsert :: "Entitlements \<Rightarrow> pgdb \<Rightarrow> goerr option \<times> pgdb" where
  "Entitlement_Upsert e db = exec_plain (pg_call (\<lambda>db.
     let row = e\<lparr>e_UpdatedAt := db_now db\<rparr>;
         present = e_TenantID e \<in> e_TenantID ` set (db_entitlements db)
     in checked
       [(\<not> int4 (e_APIKeyLimit e), Int4Range (e_APIKeyLimit e)),
        (\<not> int4 (e_RetentionDays e), Int4Range (e_RetentionDays e)),
        (e_TenantID e \<notin> tenant_ids db,
           ForeignKeyViolation ''tenant_entitlements'' ''tenant_entitlements_tenant_id_fkey'')]
       () (db\<lparr>db_entitlements :=
             (if present then update_where (\<lambda>r. e_TenantID r = e_TenantID e) (\<lambda>_. row) (db_entitlements db)
              else db_entitlements db @ [row])\<rparr>) db) db)"

definition Entitlement_GetByTenantID :: "uuid \<Rightarrow> pgdb \<Rightarrow> (goerr + Entitlements) \<times> pgdb" where
  "Entitlement_GetByTenantID tid db = scan_row (sentinel_err ErrNotFound)
     (pg_query (\<lambda>db. one_row (\<lambda>e. e_TenantID e = tid) (db_entitlements db)) db)"

definition Entitlement_ListAll :: "pgdb \<Rightarrow> (goerr + Entitlements list) \<times> pgdb" where
  "Entitlement_ListAll db =
     scan_rows (pg_query (\<lambda>db. Inr (sort_key e_TenantID (db_entitlements db))) db)"

text \<open>A missing row means the Free plan; any other failure is passed on.\<close>

definition EntitlementsOrFree :: "uuid \<Rightarrow> time \<Rightarrow> pgdb \<Rightarrow> (goerr + Entitlements) \<times> pgdb" where
  "EntitlementsOrFree tid now db = (case Entitlement_GetByTenantID tid db of
     (Inl err, db') \<Rightarrow> if errors_Is err ErrNotFound then (Inr (FreeDefaults tid now), db') else (Inl err, db')
   | (Inr e, db') \<Rightarrow> (Inr e, db'))"

section \<open>Delivery attempts and metrics\<close>

definition sql_insert_attempt :: "DeliveryAttempt \<Rightarrow> pgdb \<Rightarrow> (dberr + unit) \<times> pgdb" where
  "sql_insert_attempt a db = checked
     [(\<not> int4 (da_AttemptNumber a), Int4Range (da_AttemptNumber a)),
      (\<not> int4 (da_DurationMs a), Int4Range (da_DurationMs a)),
      (da_Status a \<notin> {AttemptSuccess, AttemptFailure}, InvalidEnum ''attempt_status'' (da_Status a)),
      (da_ID a \<in> da_ID ` set (db_attempts db), UniqueViolation ''delivery_attempts_pkey''),
      (da_NotificationID a \<notin> notif_ids db,
         ForeignKeyViolation ''delivery_attempts'' ''delivery_attempts_notification_id_fkey'')]
     () (db\<lparr>db_attempts := db_attempts db @ [a]\<rparr>) db"

text \<open>
  The provider's response goes to a \<^verbatim>\<open>JSONB\<close> column; the driver refuses to encode text that is not
  JSON before it sends anything. The raw messages of the other tables were decoded from JSON.
\<close>

definition Attempt_Create :: "DeliveryAttempt \<Rightarrow> pgdb \<Rightarrow> goerr option \<times> pgdb" where
  "Attempt_Create a db =
     (if raw_valid (da_ProviderResponse a) then exec_plain (pg_call (sql_insert_attempt a) db)
      else (Some (plain_error ''failed to encode args[4]''), db))"

definition Attempt_ListByNotification :: "uuid \<Rightarrow> pgdb \<Rightarrow> (goerr + DeliveryAttempt list) \<times> pgdb" where
  "Attempt_ListByNotification nid db = scan_rows (pg_query (\<lambda>db. Inr
     (sort_key da_AttemptNumber (filter (\<lambda>a. da_NotificationID a = nid) (db_attempts db)))) db)"

definition metric_set :: "DeliveryMetric \<Rightarrow> DeliveryMetric \<Rightarrow> DeliveryMetric" where
  "metric_set m r = r\<lparr>dm_ProviderMsgID := dm_ProviderMsgID m, dm_DeliveredAt := dm_DeliveredAt m,
     dm_ReadAt := dm_ReadAt m, dm_Interactions := dm_Interactions m, dm_CollectedAt := dm_CollectedAt m\<rparr>"

definition sql_upsert_metric :: "DeliveryMetric \<Rightarrow> pgdb \<Rightarrow> (dberr + unit) \<times> pgdb" where
  "sql_upsert_metric m db =
     (if dm_NotificationID m \<in> dm_NotificationID ` set (db_metrics db)
      then (Inr (), db\<lparr>db_metrics := update_where (\<lambda>r. dm_NotificationID r = dm_NotificationID m)
              (metric_set m) (db_metrics db)\<rparr>)
      else checked
        [(dm_ID m \<in> dm_ID ` set (db_metrics db), UniqueViolation ''delivery_metrics_pkey''),
         (dm_NotificationID m \<notin> notif_ids db,
            ForeignKeyViolation ''delivery_metrics'' ''delivery_metrics_notification_id_fkey'')]
        () (db\<lparr>db_metrics := db_metrics db @ [m]\<rparr>) db)"

definition Metric_Upsert :: "DeliveryMetric \<Rightarrow> pgdb \<Rightarrow> goerr option \<times> pgdb" where
  "Metric_Upsert m db = (case pg_call (sql_upsert_metric m) db of
     (Inl e, db') \<Rightarrow> (Some (wrap ''upsert delivery metric: '' (dberr_go e) []), db')
   | (Inr _, db') \<Rightarrow> (None, db'))"

definition GetByNotificationID :: "uuid \<Rightarrow> pgdb \<Rightarrow> (goerr + DeliveryMetric) \<times> pgdb" where
  "GetByNotificationID nid db =
     (case pg_query (\<lambda>db. one_row (\<lambda>m. dm_NotificationID m = nid) (db_metrics db)) db of
        (Inl e, db') \<Rightarrow> (Inl (if e = NoRows then sentinel_with ErrNotFound ''delivery metric not found''
            else wrap ''get delivery metric: '' (dberr_go e) []), db')
      | (Inr m, db') \<Rightarrow> (Inr m, db'))"

section \<open>Webhook endpoints\<close>

definition sql_insert_endpoint :: "WebhookEndpoint \<Rightarrow> pgdb \<Rightarrow> (dberr + unit) \<times> pgdb" where
  "sql_insert_endpoint e db = checked
     [(we_ID e \<in> we_ID ` set (db_endpoints db), UniqueViolation ''webhook_endpoints_pkey''),
      (we_TenantID e \<notin> tenant_ids db,
         ForeignKeyViolation ''webhook_endpoints'' ''webhook_endpoints_tenant_id_fkey'')]
     () (db\<lparr>db_endpoints := db_endpoints db @ [e]\<rparr>) db"

definition endpoint_count :: "uuid \<Rightarrow> pgdb \<Rightarrow> int" where
  "endpoint_count tid db = int (length (filter (\<lambda>w. we_TenantID w = tid) (db_endpoints db)))"

definition Endpoint_CreateWithinLimit :: "WebhookEndpoint \<Rightarrow> int \<Rightarrow> pgdb \<Rightarrow> goerr option \<times> pgdb" where
  "Endpoint_CreateWithinLimit e limit =
     within_limit (we_TenantID e) (endpoint_count (we_TenantID e)) (sentinel_err ErrWebhookLimitReached)
       (sql_insert_endpoint e) limit"

definition Endpoint_GetByID :: "uuid \<Rightarrow> pgdb \<Rightarrow> (goerr + WebhookEndpoint) \<times> pgdb" where
  "Endpoint_GetByID i db =
     scan_row endpoint_nf (pg_query (\<lambda>db. one_row (\<lambda>w. we_ID w = i) (db_endpoints db)) db)"

definition Endpoint_ListByTenant :: "uuid \<Rightarrow> pgdb \<Rightarrow> (goerr + WebhookEndpoint list) \<times> pgdb" where
  "Endpoint_ListByTenant tid db = scan_rows (pg_query (\<lambda>db. Inr
     (sort_key we_CreatedAt (filter (\<lambda>w. we_TenantID w = tid) (db_endpoints db)))) db)"

definition ListActiveByTenantAndEvent ::
    "uuid \<Rightarrow> WebhookEventType \<Rightarrow> pgdb \<Rightarrow> (goerr + WebhookEndpoint list) \<times> pgdb" where
  "ListActiveByTenantAndEvent tid ev db = scan_rows (pg_query (\<lambda>db. Inr
     (filter (\<lambda>w. we_TenantID w = tid \<and> we_IsActive w \<and> ev \<in> set (we_Events w)) (db_endpoints db))) db)"

definition endpoint_set :: "UpdateWebhookEndpointInput \<Rightarrow> WebhookEndpoint \<Rightarrow> WebhookEndpoint" where
  "endpoint_set input w = w\<lparr>we_URL := coalesce (uwi_URL input) (we_URL w),
     we_Events := coalesce (uwi_Events input) (we_Events w),
     we_IsActive := coalesce (uwi_IsActive input) (we_IsActive w)\<rparr>"

definition Endpoint_Update :: "uuid \<Rightarrow> uuid \<Rightarrow> UpdateWebhookEndpointInput \<Rightarrow> pgdb \<Rightarrow>
    (goerr + WebhookEndpoint) \<times> pgdb" where
  "Endpoint_Update i tid input db =
     (case scan_row endpoint_nf (pg_call (\<lambda>db.
        let P = (\<lambda>w. we_ID w = i \<and> we_TenantID w = tid)
        in case find P (db_endpoints db) of
             None \<Rightarrow> (Inl NoRows, db)
           | Some w \<Rightarrow> (Inr (endpoint_set input w),
               db\<lparr>db_endpoints := update_where P (endpoint_set input) (db_endpoints db)\<rparr>)) db) of
        (Inl e, db') \<Rightarrow> (Inl (if errors_Is e ErrNotFound then endpoint_nf else e), db')
      | (Inr w, db') \<Rightarrow> (Inr w, db'))"

definition Endpoint_Delete :: "uuid \<Rightarrow> uuid \<Rightarrow> pgdb \<Rightarrow> goerr option \<times> pgdb" where
  "Endpoint_Delete i tid db = exec_affected endpoint_nf (pg_call (\<lambda>db.
     let P = (\<lambda>w. we_ID w = i \<and> we_TenantID w = tid)
     in (Inr (rows_affected P (db_endpoints db)),
         db\<lparr>db_endpoints := delete_where P (db_endpoints db)\<rparr>)) db)"

end
