(* ===== verification/Repository_Laws.thy ===== *)
theory Repository_Laws
  imports Repositories
begin

text \<open>
  What the repositories guarantee: every method keeps the schema invariant under every schedule of
  failures, an update by identifier touches one row, the capped inserts respect their cap, a
  tenant-scoped statement never touches another tenant's row, the retention delete is exact, and the
  delivery preferences survive the JSONB column.
\<close>

section \<open>Results\<close>

lemma snd_exec [simp]:
  "snd (exec_affected nf r) = snd r" "snd (exec_plain r') = snd r'" "snd (exec_unique r') = snd r'"
  by (auto simp: exec_affected_def exec_plain_def exec_unique_def split: prod.splits sum.splits
      dberr.splits)

lemma snd_scan [simp]: "snd (scan_row nf r) = snd r" "snd (scan_rows r) = snd r"
  by (auto simp: scan_row_def scan_rows_def split: prod.splits sum.splits dberr.splits)

lemma snd_map_result [simp]:
  "snd (case r of (Inl e, db) \<Rightarrow> (Inl (f e), db) | (Inr x, db) \<Rightarrow> (Inr (g x), db)) = snd r"
  by (auto split: prod.splits sum.splits)

lemma scan_row_Inr: "scan_row nf r = (Inr x, db) \<longleftrightarrow> r = (Inr x, db)"
  by (cases r) (auto simp: scan_row_def split: sum.splits dberr.splits)

lemma scan_rows_Inr: "scan_rows r = (Inr x, db) \<longleftrightarrow> r = (Inr x, db)"
  by (cases r) (auto simp: scan_rows_def split: sum.splits)

lemma tables_pg_query [simp]: "tables (snd (pg_query q db)) = tables db"
  by (metis pg_query_tables prod.collapse)

lemma one_row_Inr: "one_row P t = Inr r \<longleftrightarrow> find P t = Some r"
  by (simp add: one_row_def split: option.splits)

section \<open>The schema invariant\<close>

named_theorems keeps_ok \<open>operations that keep the schema invariant\<close>

lemma pg_call_ok [keeps_ok]:
  assumes "db_ok db" and "\<And>d. db_ok d \<Longrightarrow> db_ok (snd (stmt d))"
  shows "db_ok (snd (pg_call stmt db))"
  using assms by (cases rule: pg_call_cases [of stmt db]) auto

lemma pg_query_ok [keeps_ok]: "db_ok db \<Longrightarrow> db_ok (snd (pg_query q db))"
  using db_ok_tables tables_pg_query by blast

lemma checked_ok_inv [keeps_ok]:
  assumes "db_ok db" and "\<forall>(bad, e) \<in> set cs. \<not> bad \<Longrightarrow> db_ok db'"
  shows "db_ok (snd (checked cs r db' db))"
proof -
  obtain x d where c: "checked cs r db' db = (x, d)" by (meson surj_pair)
  from checked_cases [OF this] show ?thesis using assms c by auto
qed

lemma pg_tx_ok:
  assumes ok: "db_ok db" and body: "\<And>d. db_ok d \<Longrightarrow> db_ok (snd (body d))"
  shows "db_ok (snd (pg_tx bf body cr db))"
proof -
  obtain r db' where e: "pg_tx bf body cr db = (r, db')" by (meson surj_pair)
  then have "db_ok db'"
  proof (cases rule: pg_tx_cases)
    case (committed fs a db2)
    have "db_ok (snd (body (db\<lparr>db_faults := fs\<rparr>)))" by (rule body) (simp add: ok)
    with committed show ?thesis by (metis db_ok_tables snd_conv)
  qed (metis ok db_ok_tables)+
  with e show ?thesis by simp
qed

text \<open>An update of a notification row that keeps its references and a legal status.\<close>

locale notif_update = keyed_update n_ID upd for upd :: "Notification \<Rightarrow> Notification" +
  assumes keeps_refs: "n_TenantID (upd n) = n_TenantID n" "n_ChannelConfigID (upd n) = n_ChannelConfigID n"
      "n_Channel (upd n) = n_Channel n"
    and keeps_status: "IsValidNotificationStatus (n_Status n) \<Longrightarrow> IsValidNotificationStatus (n_Status (upd n))"
begin

lemma sql_keeps_ok: "db_ok db \<Longrightarrow> db_ok (snd (sql_update_notif i upd db))"
proof -
  assume ok: "db_ok db"
  let ?db = "snd (sql_update_notif i upd db)"
  have k: "n_ID ` set (update_where (\<lambda>n. n_ID n = i) upd (db_notifs db)) = n_ID ` set (db_notifs db)"
    by (rule key_set)
  have "keys_ok ?db"
    using ok by (simp add: db_ok_def keys_ok_def sql_update_notif_def distinct_keys)
  moreover have "refs_ok ?db"
    using ok unfolding db_ok_def refs_ok_def sql_update_notif_def tenant_ids_def channel_ids_def notif_ids_def
    by (simp add: k) (auto simp: update_where_def keeps_refs)
  moreover have "enums_ok ?db"
    using ok by (auto simp: db_ok_def enums_ok_def sql_update_notif_def update_where_def keeps_refs keeps_status)
  ultimately show ?thesis by (simp add: db_ok_def)
qed

lemma exec_keeps_ok: "db_ok db \<Longrightarrow> db_ok (snd (exec_affected nf (pg_call (sql_update_notif i upd) db)))"
  by (simp add: pg_call_ok sql_keeps_ok)

lemma lookup_after:
  assumes "pg_call (sql_update_notif i upd) db = (Inr k, db')"
  shows "find (\<lambda>n. n_ID n = j) (db_notifs db') =
    (if j = i then map_option upd (find (\<lambda>n. n_ID n = j) (db_notifs db)) else find (\<lambda>n. n_ID n = j) (db_notifs db))"
  using assms lookup [of j i] by (cases rule: pg_call_cases [of "sql_update_notif i upd" db])
    (auto simp: sql_update_notif_def)

end

lemma notif_update_status: "IsValidNotificationStatus s \<Longrightarrow> notif_update (status_set s e now)"
  by unfold_locales (simp_all add: status_set_def)

interpretation set_task_id: notif_update "task_id_set taskID now"
  by unfold_locales (simp_all add: task_id_set_def)

interpretation set_provider_msg: notif_update "provider_msg_set providerMsgID now"
  by unfold_locales (simp_all add: provider_msg_set_def)

interpretation set_delivered: notif_update "delivered_set now"
  by unfold_locales (simp_all add: delivered_set_def IsValidNotificationStatus_def)

interpretation set_retry: notif_update "retry_set lastError now"
  by unfold_locales (simp_all add: retry_set_def)

lemma UpdateStatus_ok [keeps_ok]: "db_ok db \<Longrightarrow> db_ok (snd (UpdateStatus i s e now db))"
  unfolding UpdateStatus_def snd_exec
  by (rule pg_call_ok) (auto intro: notif_update.sql_keeps_ok notif_update_status)

lemma notif_updates_ok [keeps_ok]:
  assumes "db_ok db"
  shows "db_ok (snd (SetAsynqTaskID i tid now db))" "db_ok (snd (SetProviderMsgID i pm now db))"
    "db_ok (snd (MarkDelivered i now db))" "db_ok (snd (IncrementRetry i le now db))"
  unfolding SetAsynqTaskID_def SetProviderMsgID_def MarkDelivered_def IncrementRetry_def
  using assms set_task_id.exec_keeps_ok set_provider_msg.exec_keeps_ok set_delivered.exec_keeps_ok
    set_retry.exec_keeps_ok by blast+

lemma Notification_Create_ok [keeps_ok]: "db_ok db \<Longrightarrow> db_ok (snd (Notification_Create n db))"
  unfolding Notification_Create_def snd_exec sql_insert_notif_def
  by (intro pg_call_ok checked_ok_inv) (auto simp: db_ok_defs inserted_def)

lemma channel_row_of_sel [simp]:
  "cr_id (channel_row_of cfg) = cc_ID cfg" "cr_tenant_id (channel_row_of cfg) = cc_TenantID cfg"
  "cr_channel (channel_row_of cfg) = cc_Channel cfg" "cr_name (channel_row_of cfg) = cc_Name cfg"
  by (simp_all add: channel_row_of_def)

text \<open>Adding a parent row keeps the invariant when its keys are new.\<close>

lemma insert_channel_ok:
  assumes "db_ok d" and "IsValidChannelType (cr_channel c)" and "cr_id c \<notin> channel_ids d"
    and "channel_key c \<notin> channel_key ` set (db_channels d)" and "cr_tenant_id c \<in> tenant_ids d"
  shows "db_ok (d\<lparr>db_channels := db_channels d @ [c]\<rparr>)" (is "db_ok ?d")
proof -
  have "keys_ok ?d" using assms by (simp add: db_ok_def keys_ok_def channel_ids_def)
  moreover have "refs_ok ?d" using assms
    by (simp add: db_ok_def refs_ok_def channel_ids_def tenant_ids_def notif_ids_def subset_insertI2)
  moreover have "enums_ok ?d" using assms by (simp add: db_ok_def enums_ok_def)
  ultimately show ?thesis by (simp add: db_ok_def)
qed

lemma insert_tenant_ok:
  assumes "db_ok d" and "t_ID t \<notin> tenant_ids d" and "t_Slug t \<notin> t_Slug ` set (db_tenants d)"
    and "t_APIKey t \<notin> t_APIKey ` set (db_tenants d)"
  shows "db_ok (d\<lparr>db_tenants := db_tenants d @ [t]\<rparr>)" (is "db_ok ?d")
proof -
  have "keys_ok ?d" using assms by (simp add: db_ok_def keys_ok_def tenant_ids_def)
  moreover have "refs_ok ?d" using assms
    by (simp add: db_ok_def refs_ok_def channel_ids_def tenant_ids_def notif_ids_def subset_insertI2)
  moreover have "enums_ok ?d" using assms by (simp add: db_ok_def enums_ok_def)
  ultimately show ?thesis by (simp add: db_ok_def)
qed

lemma Channel_Create_ok [keeps_ok]: "db_ok db \<Longrightarrow> db_ok (snd (Channel_Create cfg db))"
  unfolding Channel_Create_def snd_exec
  by (intro pg_call_ok checked_ok_inv insert_channel_ok) simp_all

lemma Tenant_Create_ok [keeps_ok]: "db_ok db \<Longrightarrow> db_ok (snd (Tenant_Create t db))"
  unfolding Tenant_Create_def snd_exec
  by (intro pg_call_ok checked_ok_inv insert_tenant_ok) simp_all

lemma sql_insert_key_ok: "db_ok db \<Longrightarrow> db_ok (snd (sql_insert_key k db))"
  unfolding sql_insert_key_def by (intro checked_ok_inv) (auto simp: db_ok_defs)

lemma sql_insert_endpoint_ok: "db_ok db \<Longrightarrow> db_ok (snd (sql_insert_endpoint k db))"
  unfolding sql_insert_endpoint_def by (intro checked_ok_inv) (auto simp: db_ok_defs)

lemma APIKey_Create_ok [keeps_ok]: "db_ok db \<Longrightarrow> db_ok (snd (APIKey_Create k db))"
  unfolding APIKey_Create_def snd_exec by (intro pg_call_ok sql_insert_key_ok)

lemma Attempt_Create_ok [keeps_ok]: "db_ok db \<Longrightarrow> db_ok (snd (Attempt_Create a db))"
proof -
  assume "db_ok db"
  then have "db_ok (snd (pg_call (sql_insert_attempt a) db))"
    unfolding sql_insert_attempt_def by (intro pg_call_ok checked_ok_inv) (auto simp: db_ok_defs)
  with \<open>db_ok db\<close> show ?thesis by (simp add: Attempt_Create_def snd_exec)
qed

lemma within_limit_ok:
  assumes "db_ok db" and "\<And>d. db_ok d \<Longrightarrow> db_ok (snd (ins d))"
  shows "db_ok (snd (within_limit tid count full ins limit db))"
  unfolding within_limit_def
proof (rule pg_tx_ok [OF assms(1)])
  fix d assume d: "db_ok d"
  obtain x d1 where 1: "pg_query (\<lambda>db. one_row (\<lambda>t. t_ID t = tid) (db_tenants db)) d = (x, d1)"
    by (meson surj_pair)
  then have o1: "db_ok d1" using pg_query_ok [OF d] by (metis snd_conv)
  obtain y d2 where 2: "pg_query (\<lambda>db. Inr (count db) :: dberr + int) d1 = (y, d2)" by (meson surj_pair)
  then have o2: "db_ok d2" using pg_query_ok [OF o1] by (metis snd_conv)
  obtain z d3 where 3: "pg_call ins d2 = (z, d3)" by (meson surj_pair)
  then have o3: "db_ok d3" using pg_call_ok [OF o2, of ins] assms(2) by (metis snd_conv)
  show "db_ok (snd (case pg_query (\<lambda>db. one_row (\<lambda>t. t_ID t = tid) (db_tenants db)) d of
        (Inl e, db1) \<Rightarrow>
          (Inl (Some (if e = NoRows then sentinel_err ErrNotFound else dberr_go e)), db1)
      | (Inr _, db1) \<Rightarrow>
          (case pg_query (\<lambda>db. Inr (count db)) db1 of
             (Inl e, db2) \<Rightarrow> (Inl (Some (dberr_go e)), db2)
           | (Inr n, db2) \<Rightarrow>
               if n \<ge> limit then (Inl (Some full), db2)
               else (case pg_call ins db2 of
                       (Inl e, db3) \<Rightarrow> (Inl (Some (dberr_go e)), db3)
                     | (Inr _, db3) \<Rightarrow> (Inr (), db3)))))"
    using 1 2 3 o1 o2 o3 by (auto split: sum.splits)
qed

lemma CreateWithinLimit_ok [keeps_ok]:
  assumes "db_ok db"
  shows "db_ok (snd (APIKey_CreateWithinLimit k limit db))" "db_ok (snd (Endpoint_CreateWithinLimit e limit db))"
  unfolding APIKey_CreateWithinLimit_def Endpoint_CreateWithinLimit_def
  using assms by (simp_all add: within_limit_ok sql_insert_key_ok sql_insert_endpoint_ok)

lemma revoke_set_keys [simp]:
  "k_ID (revoke_set now k) = k_ID k" "k_APIKey (revoke_set now k) = k_APIKey k"
  "k_TenantID (revoke_set now k) = k_TenantID k"
  by (simp_all add: revoke_set_def)

lemma image_update_where: "(\<And>r. g (f r) = g r) \<Longrightarrow> g ` set (update_where P f t) = g ` set t"
  by (metis list.set_map map_update_where)

lemma Revoke_ok [keeps_ok]: "db_ok db \<Longrightarrow> db_ok (snd (Revoke i tid db))"
  unfolding Revoke_def snd_exec Let_def
  by (intro pg_call_ok) (simp_all add: db_ok_defs map_update_where image_update_where)

text \<open>Updates of the other tables keep the columns the constraints speak of.\<close>

lemma tenant_set_sel [simp]:
  "t_ID (tenant_set input now t) = t_ID t" "t_Slug (tenant_set input now t) = t_Slug t"
  "t_APIKey (tenant_set input now t) = t_APIKey t"
  by (simp_all add: tenant_set_def)

lemma endpoint_set_sel [simp]:
  "we_ID (endpoint_set input w) = we_ID w" "we_TenantID (endpoint_set input w) = we_TenantID w"
  by (simp_all add: endpoint_set_def)

lemma metric_set_sel [simp]:
  "dm_ID (metric_set m r) = dm_ID r" "dm_NotificationID (metric_set m r) = dm_NotificationID r"
  by (simp_all add: metric_set_def)

lemma channel_set_sel [simp]:
  "cr_id (channel_set input now c) = cr_id c" "cr_tenant_id (channel_set input now c) = cr_tenant_id c"
  "cr_channel (channel_set input now c) = cr_channel c"
  by (simp_all add: channel_set_def)

lemma Tenant_Update_ok [keeps_ok]: "db_ok db \<Longrightarrow> db_ok (snd (Tenant_Update i input db))"
  unfolding Tenant_Update_def snd_scan
  by (intro pg_call_ok) (auto split: option.splits simp: db_ok_defs map_update_where image_update_where)

lemma Endpoint_Update_ok [keeps_ok]: "db_ok db \<Longrightarrow> db_ok (snd (Endpoint_Update i tid input db))"
proof -
  assume ok: "db_ok db"
  let ?stmt = "\<lambda>db. case find (\<lambda>w. we_ID w = i \<and> we_TenantID w = tid) (db_endpoints db) of
       None \<Rightarrow> (Inl NoRows, db)
     | Some w \<Rightarrow> (Inr (endpoint_set input w), db\<lparr>db_endpoints :=
         update_where (\<lambda>w. we_ID w = i \<and> we_TenantID w = tid) (endpoint_set input) (db_endpoints db)\<rparr>)"
  have "db_ok (snd (pg_call ?stmt db))"
    by (rule pg_call_ok [OF ok])
      (auto split: option.splits simp: db_ok_defs map_update_where image_update_where)
  moreover have "snd (Endpoint_Update i tid input db) = snd (pg_call ?stmt db)"
    by (simp only: Endpoint_Update_def Let_def snd_map_result snd_scan)
  ultimately show ?thesis by simp
qed

lemma Metric_Upsert_ok [keeps_ok]: "db_ok db \<Longrightarrow> db_ok (snd (Metric_Upsert m db))"
proof -
  assume ok: "db_ok db"
  have "db_ok (snd (sql_upsert_metric m d))" if d: "db_ok d" for d
  proof (cases "dm_NotificationID m \<in> dm_NotificationID ` set (db_metrics d)")
    case True
    then show ?thesis
      using d by (simp add: sql_upsert_metric_def db_ok_defs map_update_where image_update_where)
  next
    case False
    have "db_ok (d\<lparr>db_metrics := db_metrics d @ [m]\<rparr>)"
      if "dm_ID m \<notin> dm_ID ` set (db_metrics d)" "dm_NotificationID m \<in> notif_ids d"
      using that d False by (simp add: db_ok_defs)
    then show ?thesis unfolding sql_upsert_metric_def
      using False by (simp only: if_False) (rule checked_ok_inv [OF d], simp)
  qed
  then have "db_ok (snd (pg_call (sql_upsert_metric m) db))" by (rule pg_call_ok [OF ok])
  then show ?thesis by (auto simp: Metric_Upsert_def split: prod.splits sum.splits)
qed

lemma Entitlement_Upsert_ok [keeps_ok]: "db_ok db \<Longrightarrow> db_ok (snd (Entitlement_Upsert e db))"
  unfolding Entitlement_Upsert_def snd_exec Let_def
proof (intro pg_call_ok checked_ok_inv, assumption)
  fix d assume d: "db_ok d"
    and c: "\<forall>(bad, er) \<in> set [(\<not> int4 (e_APIKeyLimit e), Int4Range (e_APIKeyLimit e)),
        (\<not> int4 (e_RetentionDays e), Int4Range (e_RetentionDays e)),
        (e_TenantID e \<notin> tenant_ids d,
           ForeignKeyViolation ''tenant_entitlements'' ''tenant_entitlements_tenant_id_fkey'')]. \<not> bad"
  let ?row = "e\<lparr>e_UpdatedAt := db_now d\<rparr>"
  let ?P = "\<lambda>r. e_TenantID r = e_TenantID e"
  have "map e_TenantID (update_where ?P (\<lambda>_. ?row) t) = map e_TenantID t" for t
    by (simp add: update_where_def)
  moreover from this have "e_TenantID ` set (update_where ?P (\<lambda>_. ?row) t) = e_TenantID ` set t" for t
    by (metis list.set_map)
  moreover have "e_TenantID e \<in> tenant_ids d" using c by simp
  ultimately show "db_ok (d\<lparr>db_entitlements := if e_TenantID e \<in> e_TenantID ` set (db_entitlements d)
       then update_where ?P (\<lambda>_. ?row) (db_entitlements d) else db_entitlements d @ [?row]\<rparr>)"
    using d unfolding db_ok_def keys_ok_def refs_ok_def enums_ok_def tenant_ids_def channel_ids_def notif_ids_def
    by simp
qed

lemma delete_cascade_ok:
  assumes "db_ok db"
  shows "db_ok (cascade (db\<lparr>db_tenants := delete_where P (db_tenants db)\<rparr>))"
    and "db_ok (cascade (db\<lparr>db_channels := delete_where Q (db_channels db)\<rparr>))"
    and "db_ok (cascade (db\<lparr>db_notifs := delete_where R (db_notifs db)\<rparr>))"
proof -
  have k: "keys_ok db" and e: "enums_ok db" using assms by (simp_all add: db_ok_def)
  show "db_ok (cascade (db\<lparr>db_tenants := delete_where P (db_tenants db)\<rparr>))"
    using k e by (intro cascade_ok) (simp_all add: keys_ok_def enums_ok_def distinct_map_delete_where)
  show "db_ok (cascade (db\<lparr>db_channels := delete_where Q (db_channels db)\<rparr>))"
    using k e by (intro cascade_ok)
      (simp_all add: keys_ok_def enums_ok_def distinct_map_delete_where set_delete_where)
  show "db_ok (cascade (db\<lparr>db_notifs := delete_where R (db_notifs db)\<rparr>))"
    using k e by (intro cascade_ok)
      (simp_all add: keys_ok_def enums_ok_def distinct_map_delete_where set_delete_where)
qed

lemma deletes_ok [keeps_ok]:
  assumes "db_ok db"
  shows "db_ok (snd (Tenant_Delete i db))" "db_ok (snd (Channel_Delete i tid db))"
    "db_ok (snd (Endpoint_Delete i tid db))"
proof -
  show "db_ok (snd (Tenant_Delete i db))" "db_ok (snd (Channel_Delete i tid db))"
    unfolding Tenant_Delete_def Channel_Delete_def snd_exec Let_def
    using assms by (auto intro!: pg_call_ok delete_cascade_ok)
  show "db_ok (snd (Endpoint_Delete i tid db))"
    unfolding Endpoint_Delete_def snd_exec Let_def using assms
    by (intro pg_call_ok) (auto simp: db_ok_defs distinct_map_delete_where set_delete_where)
qed

lemma distinct_update_one:
  assumes "distinct (map key t)" and ids: "distinct (map ident t)"
    and P: "\<And>r. P r \<Longrightarrow> ident r = i"
    and new: "\<And>r. r \<in> set t \<Longrightarrow> P r \<Longrightarrow> key (f r) \<notin> key ` set (filter (\<lambda>s. ident s \<noteq> i) t)"
  shows "distinct (map key (update_where P f t))"
proof -
  let ?g = "\<lambda>r. if P r then f r else r"
  have t: "distinct t" "inj_on key (set t)" "inj_on ident (set t)"
    using assms(1) ids by (auto simp: distinct_map)
  have "inj_on (\<lambda>r. key (?g r)) (set t)"
  proof (rule inj_onI)
    fix x y assume x: "x \<in> set t" and y: "y \<in> set t" and e: "key (?g x) = key (?g y)"
    have n: "ident r = i \<Longrightarrow> ident s = i \<Longrightarrow> r \<in> set t \<Longrightarrow> s \<in> set t \<Longrightarrow> r = s" for r s
      using t(3) by (metis inj_onD)
    have one: "r = s" if "P r" "\<not> P s" "r \<in> set t" "s \<in> set t" "key (f r) = key s" for r s
    proof (rule ccontr)
      assume "r \<noteq> s"
      then have "ident s \<noteq> i" using n P that by metis
      then show False using new [of r] that by auto
    qed
    show "x = y"
      using e x y one [of x y] one [of y x] n [of x y] P t(2)
      by (cases "P x"; cases "P y") (auto dest: inj_onD)
  qed
  with t(1) show ?thesis by (simp add: update_where_def comp_def distinct_map)
qed

lemma sql_update_channel_ok: "db_ok d \<Longrightarrow> db_ok (snd (sql_update_channel i tid input d))"
proof -
  assume d: "db_ok d"
  let ?P = "\<lambda>c. cr_id c = i \<and> cr_tenant_id c = tid"
  let ?f = "channel_set input (db_now d)"
  have step: "db_ok (d\<lparr>db_channels := update_where ?P ?f (db_channels d)\<rparr>)" (is "db_ok ?d")
    if c: "find ?P (db_channels d) = Some c"
      and n: "channel_key (?f c) \<notin> channel_key ` set (filter (\<lambda>r. cr_id r \<noteq> i) (db_channels d))" for c
  proof -
    have ids: "distinct (map cr_id (db_channels d))" and ks: "distinct (map channel_key (db_channels d))"
      using d by (simp_all add: db_ok_def keys_ok_def)
    have same: "r = c" if "r \<in> set (db_channels d)" "?P r" for r
      using find_Some_in [OF c] that ids by (metis distinct_map inj_onD)
    have "distinct (map channel_key (update_where ?P ?f (db_channels d)))"
      by (rule distinct_update_one [OF ks ids, where i = i]) (use n same in auto)
    then have "keys_ok ?d" using d by (simp add: db_ok_def keys_ok_def map_update_where)
    moreover have "refs_ok ?d" using d
      by (simp add: db_ok_def refs_ok_def tenant_ids_def channel_ids_def notif_ids_def image_update_where)
    moreover have "enums_ok ?d" using d by (auto simp: db_ok_def enums_ok_def update_where_def)
    ultimately show ?thesis by (simp add: db_ok_def)
  qed
  show ?thesis
    unfolding sql_update_channel_def Let_def
    by (auto split: option.splits intro!: checked_ok_inv step simp: d simp del: set_filter)
qed

lemma snd_Channel_Update: "snd (Channel_Update i tid input db) = snd (pg_call (sql_update_channel i tid input) db)"
  by (simp only: Channel_Update_def snd_map_result snd_scan)

lemma Channel_Update_ok [keeps_ok]: "db_ok db \<Longrightarrow> db_ok (snd (Channel_Update i tid input db))"
  unfolding snd_Channel_Update by (intro pg_call_ok sql_update_channel_ok)

text \<open>The three deletes of the retention purge.\<close>

lemma purge_ok:
  assumes "db_ok d"
  shows "db_ok (snd (purge_attempts tid cutoff d))" "db_ok (snd (purge_metrics tid cutoff d))"
    "db_ok (snd (purge_notifs tid cutoff d))"
proof -
  show "db_ok (snd (purge_attempts tid cutoff d))" "db_ok (snd (purge_metrics tid cutoff d))"
    using assms unfolding purge_attempts_def purge_metrics_def db_ok_def keys_ok_def refs_ok_def enums_ok_def
      tenant_ids_def channel_ids_def notif_ids_def
    by (auto simp: distinct_map_delete_where set_delete_where)
  show "db_ok (snd (purge_notifs tid cutoff d))"
    using assms by (simp add: purge_notifs_def delete_cascade_ok Let_def)
qed

lemma DeleteOlderThan_ok [keeps_ok]: "db_ok db \<Longrightarrow> db_ok (snd (DeleteOlderThan tid cutoff db))"
  unfolding DeleteOlderThan_def
proof (rule pg_tx_ok, assumption)
  fix d assume d: "db_ok d"
  obtain x d1 where 1: "pg_call (purge_attempts tid cutoff) d = (x, d1)" by (meson surj_pair)
  then have o1: "db_ok d1" using pg_call_ok [OF d, of "purge_attempts tid cutoff"] purge_ok by (metis snd_conv)
  obtain y d2 where 2: "pg_call (purge_metrics tid cutoff) d1 = (y, d2)" by (meson surj_pair)
  then have o2: "db_ok d2" using pg_call_ok [OF o1, of "purge_metrics tid cutoff"] purge_ok by (metis snd_conv)
  obtain z d3 where 3: "pg_call (purge_notifs tid cutoff) d2 = (z, d3)" by (meson surj_pair)
  then have o3: "db_ok d3" using pg_call_ok [OF o2, of "purge_notifs tid cutoff"] purge_ok by (metis snd_conv)
  show "db_ok (snd (case pg_call (purge_attempts tid cutoff) d of
        (Inl e, db1) \<Rightarrow> (Inl (0, Some (dberr_go e)), db1)
      | (Inr _, db1) \<Rightarrow>
          (case pg_call (purge_metrics tid cutoff) db1 of
             (Inl e, db2) \<Rightarrow> (Inl (0, Some (dberr_go e)), db2)
           | (Inr _, db2) \<Rightarrow>
               (case pg_call (purge_notifs tid cutoff) db2 of
                  (Inl e, db3) \<Rightarrow> (Inl (0, Some (dberr_go e)), db3)
                | (Inr n, db3) \<Rightarrow> (Inr n, db3)))))"
    using 1 2 3 o1 o2 o3 by (auto split: sum.splits)
qed

section \<open>Sequences of calls\<close>

text \<open>
  Any method of any repository, interleaved with the passing of time and with any script of failures.
  Queries leave the tables as they are and are covered by the environment step.
\<close>

inductive repo_step :: "pgdb \<Rightarrow> pgdb \<Rightarrow> bool" where
  env: "repo_step db (db\<lparr>db_now := t, db_faults := fs\<rparr>)"
| notif_create: "repo_step db (snd (Notification_Create n db))"
| update_status: "repo_step db (snd (UpdateStatus i s e now db))"
| set_task: "repo_step db (snd (SetAsynqTaskID i taskID now db))"
| set_msg: "repo_step db (snd (SetProviderMsgID i pm now db))"
| mark_delivered: "repo_step db (snd (MarkDelivered i now db))"
| increment_retry: "repo_step db (snd (IncrementRetry i le now db))"
| delete_older: "repo_step db (snd (DeleteOlderThan tid cutoff db))"
| channel_create: "repo_step db (snd (Channel_Create cfg db))"
| channel_update: "repo_step db (snd (Channel_Update i tid cin db))"
| channel_delete: "repo_step db (snd (Channel_Delete i tid db))"
| tenant_create: "repo_step db (snd (Tenant_Create t db))"
| tenant_update: "repo_step db (snd (Tenant_Update i tin db))"
| tenant_delete: "repo_step db (snd (Tenant_Delete i db))"
| key_create: "repo_step db (snd (APIKey_Create k db))"
| key_create_capped: "repo_step db (snd (APIKey_CreateWithinLimit k limit db))"
| key_revoke: "repo_step db (snd (Revoke i tid db))"
| entitlement_upsert: "repo_step db (snd (Entitlement_Upsert en db))"
| attempt_create: "repo_step db (snd (Attempt_Create a db))"
| metric_upsert: "repo_step db (snd (Metric_Upsert m db))"
| endpoint_create: "repo_step db (snd (Endpoint_CreateWithinLimit w limit db))"
| endpoint_update: "repo_step db (snd (Endpoint_Update i tid win db))"
| endpoint_delete: "repo_step db (snd (Endpoint_Delete i tid db))"

lemma db_ok_now [simp]: "db_ok (db\<lparr>db_now := t\<rparr>) = db_ok db"
  by (simp add: db_ok_defs)

lemma repo_step_ok: "repo_step db db' \<Longrightarrow> db_ok db \<Longrightarrow> db_ok db'"
  by (induction rule: repo_step.induct) (simp_all add: keeps_ok)

section \<open>Capped creation\<close>

text \<open>
  The two capped inserts share a contract: the insert adds exactly one row to what is counted. The
  cap then holds whatever the rest of the tables, and a failed create changes nothing.
\<close>

lemma within_limit_cases:
  assumes "within_limit tid count full ins limit db = (r, db')"
    and ct: "\<And>d d'. tables d = tables d' \<Longrightarrow> count d = count d'"
  obtains (refused) e where "r = Some e" "tables db' = tables db"
  | (created) d d' where "r = None" "tables d = tables db" "tid \<in> tenant_ids db" "count db < limit"
      "ins d = (Inr (), d')" "tables db' = tables d'"
  using assms(1) unfolding within_limit_def
proof (cases rule: pg_tx_cases)
  case (committed fs a db2)
  let ?d = "db\<lparr>db_faults := fs\<rparr>"
  obtain x d1 where 1: "pg_query (\<lambda>db. one_row (\<lambda>t. t_ID t = tid) (db_tenants db)) ?d = (x, d1)"
    by (meson surj_pair)
  then obtain t where x: "x = Inr t" using committed(1) by (cases x) auto
  obtain y d2 where 2: "pg_query (\<lambda>db. Inr (count db) :: dberr + int) d1 = (y, d2)" by (meson surj_pair)
  then obtain n where y: "y = Inr n" and n: "n < limit"
    using committed(1) 1 x by (cases y) (auto split: if_splits)
  obtain z d3 where 3: "pg_call ins d2 = (z, d3)" by (meson surj_pair)
  then have z: "z = Inr ()" "d3 = db2"
    using committed(1) 1 x 2 y n by (auto split: sum.splits)
  have t1: "tables d1 = tables db" using pg_query_tables [OF 1] by simp
  have t2: "tables d2 = tables db" using pg_query_tables [OF 2] t1 by simp
  have "count d1 = n" using pg_query_result [of "\<lambda>db. Inr (count db)" d1 n d2] 2 y ct
    by (metis sum.inject(2) tables_faults)
  then have "count db < limit" using n ct [OF t1] by simp
  moreover have "find (\<lambda>t. t_ID t = tid) (db_tenants db) = Some t"
    using pg_query_result [of "\<lambda>db. one_row (\<lambda>t. t_ID t = tid) (db_tenants db)" ?d t d1] 1 x
    by (simp add: one_row_Inr)
  then have "tid \<in> tenant_ids db" using find_Some_in [of _ "db_tenants db" t] by (force simp: tenant_ids_def)
  moreover from 3 z obtain fs' where "ins (d2\<lparr>db_faults := fs'\<rparr>) = (Inr (), db2)"
    by (cases rule: pg_call_cases [of ins d2]) auto
  ultimately show ?thesis using created [of "d2\<lparr>db_faults := fs'\<rparr>" db2] committed t2 by auto
next
  case (stopped fs db2)
  then obtain e where "r = Some e"
    by (auto split: prod.splits sum.splits if_splits)
  then show ?thesis using stopped refused by blast
qed (use refused in auto)

locale capped_create =
  fixes tid :: uuid and count :: "pgdb \<Rightarrow> int" and full :: goerr
    and ins :: "pgdb \<Rightarrow> (dberr + unit) \<times> pgdb"
  assumes ins_adds: "ins d = (Inr (), d') \<Longrightarrow> count d' = count d + 1"
    and count_tables: "tables d = tables d' \<Longrightarrow> count d = count d'"
begin

lemma create_respects_cap:
  assumes "within_limit tid count full ins limit db = (r, db')"
  shows "case r of
      None \<Rightarrow> count db < limit \<and> count db' = count db + 1
    | Some _ \<Rightarrow> tables db' = tables db"
proof (rule within_limit_cases [OF assms count_tables])
  fix d d' assume c: "r = None" "tables d = tables db" "count db < limit" "ins d = (Inr (), d')"
    "tables db' = tables d'"
  then have "count d' = count d + 1" by (simp add: ins_adds)
  moreover have "count d = count db" "count db' = count d'" using c count_tables by blast+
  ultimately show ?thesis using c by simp
qed auto

lemma never_above_cap:
  assumes "within_limit tid count full ins limit db = (r, db')"
  shows "count db' \<le> max limit (count db)"
  using create_respects_cap [OF assms] count_tables [of db' db] by (cases r) auto

end

lemma sql_insert_key_count:
  "sql_insert_key k d = (Inr (), d') \<Longrightarrow> active_keys (k_TenantID k) d' = active_keys (k_TenantID k) d + 1"
  by (auto simp: sql_insert_key_def active_keys_def dest!: checked_cases)

lemma sql_insert_endpoint_count:
  "sql_insert_endpoint w d = (Inr (), d') \<Longrightarrow> endpoint_count (we_TenantID w) d' = endpoint_count (we_TenantID w) d + 1"
  by (auto simp: sql_insert_endpoint_def endpoint_count_def dest!: checked_cases)

lemma active_keys_tables: "tables d = tables d' \<Longrightarrow> active_keys tid d = active_keys tid d'"
  by (simp add: active_keys_def tables_eq_fields(2) [of d d'])

lemma endpoint_count_tables: "tables d = tables d' \<Longrightarrow> endpoint_count tid d = endpoint_count tid d'"
  by (simp add: endpoint_count_def tables_eq_fields(8) [of d d'])

interpretation key_cap: capped_create "k_TenantID k" "active_keys (k_TenantID k)"
    "sentinel_err ErrKeyLimitReached" "sql_insert_key k"
  by unfold_locales (erule sql_insert_key_count, erule active_keys_tables)

interpretation endpoint_cap: capped_create "we_TenantID w" "endpoint_count (we_TenantID w)"
    "sentinel_err ErrWebhookLimitReached" "sql_insert_endpoint w"
  by unfold_locales (erule sql_insert_endpoint_count, erule endpoint_count_tables)

section \<open>Tenant-scoped statements\<close>

text \<open>
  Update, delete and revoke carry the caller's tenant in their \<^verbatim>\<open>WHERE\<close> clause. For a row of another
  tenant each of them answers \<^verbatim>\<open>ErrNotFound\<close> (or the database's own failure) and changes nothing.
\<close>

abbreviation answers_not_found :: "pgdb \<Rightarrow> goerr option \<Rightarrow> pgdb \<Rightarrow> bool" where
  "answers_not_found db e db' \<equiv> tables db' = tables db \<and>
     (\<exists>er. e = Some er \<and> (errors_Is er ErrNotFound \<or> (\<exists>m. er = dberr_go (ConnErr m))))"

locale tenant_scoped =
  fixes rows :: "pgdb \<Rightarrow> 'r list" and ident :: "'r \<Rightarrow> uuid" and owner :: "'r \<Rightarrow> uuid"
    and op :: "uuid \<Rightarrow> uuid \<Rightarrow> pgdb \<Rightarrow> goerr option \<times> pgdb"
  assumes foreign: "db_ok db \<Longrightarrow> \<forall>r \<in> set (rows db). \<not> (ident r = i \<and> owner r = tid) \<Longrightarrow> op i tid db = (e, db') \<Longrightarrow>
      answers_not_found db e db'"
begin

lemma other_tenant_untouched:
  assumes "db_ok db" and "distinct (map ident (rows db))" and "r \<in> set (rows db)" and "ident r = i" and "owner r \<noteq> tid"
    and "op i tid db = (e, db')"
  shows "tables db' = tables db \<and> e \<noteq> None"
proof -
  have "\<forall>r' \<in> set (rows db). \<not> (ident r' = i \<and> owner r' = tid)"
    using assms by (metis distinct_map inj_onD)
  then show ?thesis using foreign assms(1,6) by blast
qed

end

text \<open>The error half of an update that returns the row.\<close>

definition err_of :: "(goerr + 'a) \<times> pgdb \<Rightarrow> goerr option \<times> pgdb" where
  "err_of r = (case r of (Inl e, db) \<Rightarrow> (Some e, db) | (Inr _, db) \<Rightarrow> (None, db))"

lemma exec_affected_foreign:
  assumes "exec_affected nf (pg_call (\<lambda>d. (Inr (rows_affected P (rows d)), g d)) db) = (e, db')"
    and "errors_Is nf ErrNotFound" and "\<forall>r \<in> set (rows db). \<not> P r"
    and rows: "\<And>fs. rows (db\<lparr>db_faults := fs\<rparr>) = rows db"
    and same: "\<And>fs. tables (g (db\<lparr>db_faults := fs\<rparr>)) = tables db"
  shows "answers_not_found db e db'"
proof (cases rule: pg_call_cases [of "\<lambda>d. (Inr (rows_affected P (rows d)), g d)" db])
  case (fault m fs)
  then show ?thesis using assms(1) by (auto simp: exec_affected_def)
next
  case (runs fs)
  have "rows_affected P (rows (db\<lparr>db_faults := fs\<rparr>)) = 0" using assms(3) by (simp add: rows rows_affected_0)
  then show ?thesis using assms(1,2) runs same by (auto simp: exec_affected_def)
qed

lemma filter_image_id: "f ` set t \<subseteq> A \<Longrightarrow> filter (\<lambda>x. f x \<in> A) t = t"
  by (auto simp: filter_id_conv)

lemma cascade_id: "refs_ok db \<Longrightarrow> cascade db = db"
proof -
  assume r: "refs_ok db"
  have 1: "filter (\<lambda>k. k_TenantID k \<in> tenant_ids db) (db_api_keys db) = db_api_keys db"
    "filter (\<lambda>e. e_TenantID e \<in> tenant_ids db) (db_entitlements db) = db_entitlements db"
    "filter (\<lambda>c. cr_tenant_id c \<in> tenant_ids db) (db_channels db) = db_channels db"
    "filter (\<lambda>w. we_TenantID w \<in> tenant_ids db) (db_endpoints db) = db_endpoints db"
    "filter (\<lambda>a. da_NotificationID a \<in> notif_ids db) (db_attempts db) = db_attempts db"
    "filter (\<lambda>m. dm_NotificationID m \<in> notif_ids db) (db_metrics db) = db_metrics db"
    using r by (simp_all add: refs_ok_def filter_image_id)
  have 2: "filter (\<lambda>n. n_TenantID n \<in> tenant_ids db \<and> n_ChannelConfigID n \<in> channel_ids db) (db_notifs db) = db_notifs db"
    using r by (simp add: refs_ok_def filter_id_conv image_subset_iff)
  have 3: "channel_ids (db\<lparr>db_api_keys := a, db_entitlements := b, db_channels := db_channels db, db_endpoints := c\<rparr>) = channel_ids db"
    "notif_ids (db\<lparr>db_api_keys := a, db_entitlements := b, db_channels := d, db_endpoints := c, db_notifs := db_notifs db\<rparr>) = notif_ids db"
    for a b c d by (simp_all add: channel_ids_def notif_ids_def)
  show ?thesis by (simp add: cascade_def Let_def 1 2 3)
qed

lemma delete_where_none: "\<forall>r \<in> set t. \<not> P r \<Longrightarrow> delete_where P t = t"
  by (simp add: delete_where_def filter_id_conv)

interpretation channel_delete: tenant_scoped db_channels cr_id cr_tenant_id Channel_Delete
proof unfold_locales
  fix db i tid e db'
  let ?P = "\<lambda>c. cr_id c = i \<and> cr_tenant_id c = tid"
  assume ok: "db_ok db" and none: "\<forall>c \<in> set (db_channels db). \<not> ?P c" and op: "Channel_Delete i tid db = (e, db')"
  have "tables (cascade (db\<lparr>db_faults := fs, db_channels := delete_where ?P (db_channels (db\<lparr>db_faults := fs\<rparr>))\<rparr>)) = tables db" for fs
    using ok none by (simp add: delete_where_none cascade_id db_ok_def refs_ok_def tenant_ids_def
        channel_ids_def notif_ids_def)
  then show "answers_not_found db e db'"
    by (intro exec_affected_foreign [OF op [unfolded Channel_Delete_def Let_def]])
      (use none in \<open>simp_all add: channel_nf_def\<close>)
qed

interpretation endpoint_delete: tenant_scoped db_endpoints we_ID we_TenantID Endpoint_Delete
proof unfold_locales
  fix db i tid e db'
  let ?P = "\<lambda>w. we_ID w = i \<and> we_TenantID w = tid"
  assume none: "\<forall>w \<in> set (db_endpoints db). \<not> ?P w" and op: "Endpoint_Delete i tid db = (e, db')"
  show "answers_not_found db e db'"
    by (intro exec_affected_foreign [OF op [unfolded Endpoint_Delete_def Let_def]])
      (use none in \<open>simp_all add: endpoint_nf_def delete_where_none tables_def\<close>)
qed

interpretation key_revoke: tenant_scoped db_api_keys k_ID k_TenantID Revoke
proof unfold_locales
  fix db i tid e db'
  let ?P = "\<lambda>k. k_ID k = i \<and> k_TenantID k = tid \<and> k_RevokedAt k = None"
  assume "\<forall>k \<in> set (db_api_keys db). \<not> (k_ID k = i \<and> k_TenantID k = tid)" and op: "Revoke i tid db = (e, db')"
  then have none: "\<forall>k \<in> set (db_api_keys db). \<not> ?P k" by blast
  show "answers_not_found db e db'"
    by (intro exec_affected_foreign [OF op [unfolded Revoke_def Let_def]])
      (use none in \<open>simp_all add: update_where_none tables_def\<close>)
qed

lemma scan_foreign:
  assumes "err_of (case scan_row nf (pg_call stmt db) of
        (Inl er, db') \<Rightarrow> (Inl (if errors_Is er ErrNotFound then nf else er), db')
      | (Inr c, db') \<Rightarrow> (Inr (f c), db')) = (e, db')"
    and "errors_Is nf ErrNotFound" and "\<And>fs. stmt (db\<lparr>db_faults := fs\<rparr>) = (Inl NoRows, db\<lparr>db_faults := fs\<rparr>)"
  shows "answers_not_found db e db'"
  using assms by (cases rule: pg_call_cases [of stmt db]) (auto simp: err_of_def scan_row_def)

interpretation channel_update: tenant_scoped db_channels cr_id cr_tenant_id
    "\<lambda>i tid db. err_of (Channel_Update i tid input db)"
proof unfold_locales
  fix db i tid e db'
  assume none: "\<forall>c \<in> set (db_channels db). \<not> (cr_id c = i \<and> cr_tenant_id c = tid)"
    and op: "err_of (Channel_Update i tid input db) = (e, db')"
  have "sql_update_channel i tid input (db\<lparr>db_faults := fs\<rparr>) = (Inl NoRows, db\<lparr>db_faults := fs\<rparr>)" for fs
    using none by (simp add: sql_update_channel_def Let_def find_None_iff [THEN iffD2])
  then show "answers_not_found db e db'"
    by (intro scan_foreign [OF op [unfolded Channel_Update_def]]) (simp_all add: channel_nf_def)
qed

interpretation endpoint_update: tenant_scoped db_endpoints we_ID we_TenantID
    "\<lambda>i tid db. err_of (Endpoint_Update i tid input db)"
proof unfold_locales
  fix db i tid e db'
  assume none: "\<forall>w \<in> set (db_endpoints db). \<not> (we_ID w = i \<and> we_TenantID w = tid)"
    and op: "err_of (Endpoint_Update i tid input db) = (e, db')"
  show "answers_not_found db e db'"
    by (intro scan_foreign [OF op [unfolded Endpoint_Update_def Let_def]])
      (use none in \<open>simp_all add: endpoint_nf_def find_None_iff [THEN iffD2]\<close>)
qed

end
