(* ===== verification/Fixture.thy ===== *)
theory Fixture
  imports Repositories
begin

text \<open>
  A small concrete database on which the properties are exercised: two tenants, a Slack channel and a
  webhook endpoint of the first, one of its API keys, and one queued notification.
\<close>

definition acme :: Tenant where
  "acme = \<lparr>t_ID = 1, t_Name = ''Acme'', t_Slug = ''acme'', t_APIKey = ''k1'', t_APISecret = ''h1'',
     t_IsActive = True, t_CreatedAt = 10, t_UpdatedAt = 10\<rparr>"

definition globex :: Tenant where
  "globex = \<lparr>t_ID = 2, t_Name = ''Globex'', t_Slug = ''globex'', t_APIKey = ''k2'', t_APISecret = ''h2'',
     t_IsActive = True, t_CreatedAt = 20, t_UpdatedAt = 20\<rparr>"

definition acme_key :: APIKey where
  "acme_key = \<lparr>k_ID = 60, k_TenantID = 1, k_APIKey = ''k1'', k_APISecretHash = ''h1'', k_Label = ''default'',
     k_CreatedAt = 10, k_RevokedAt = None\<rparr>"

definition acme_slack :: channel_row where
  "acme_slack = \<lparr>cr_id = 10, cr_tenant_id = 1, cr_channel = ''slack'', cr_name = ''ops'',
     cr_config = JObj [(''webhook_url'', JStr ''https://hooks.slack.com/x'')], cr_is_active = True,
     cr_delivery_prefs = None, cr_created_at = 11, cr_updated_at = 11\<rparr>"

definition acme_hook :: WebhookEndpoint where
  "acme_hook = \<lparr>we_ID = 50, we_TenantID = 1, we_URL = ''https://acme.test/hook'', we_Secret = ''s'',
     we_Events = [''notification.failed''], we_IsActive = True, we_CreatedAt = 12\<rparr>"

definition queued_notif :: Notification where
  "queued_notif = \<lparr>n_ID = 100, n_TenantID = 1, n_ChannelConfigID = 10, n_Channel = ''slack'',
     n_Subject = None, n_Body = ''disk full'', n_Metadata = None, n_Status = StatusPending,
     n_AsynqTaskID = Some ''t'', n_RetryCount = 0, n_MaxRetries = 5, n_LastError = None,
     n_DeliveredAt = None, n_ProviderMsgID = None, n_CreatedAt = 30, n_UpdatedAt = 30\<rparr>"

definition demo_db :: pgdb where
  "demo_db = \<lparr>db_tenants = [acme, globex], db_api_keys = [acme_key], db_entitlements = [],
     db_channels = [acme_slack], db_notifs = [queued_notif], db_attempts = [], db_metrics = [],
     db_endpoints = [acme_hook], db_now = 40, db_faults = []\<rparr>"

lemmas demo_defs = demo_db_def acme_def globex_def acme_key_def acme_slack_def acme_hook_def queued_notif_def

lemma demo_db_ok: "db_ok demo_db"
  by (simp add: db_ok_defs demo_defs channel_key_def IsValidChannelType_iff IsValidNotificationStatus_def)

end
