(* ===== verification/Repository_Specs.thy ===== *)
theory Repository_Specs
  imports Repository_Laws Fixture
begin

text \<open>
  The properties of the repositories, over every schedule of database failures: the schema invariant
  along every sequence of calls, isolation of tenants in reads and in writes, the caps, the exactness
  of the retention purge, the accounting of the usage report and the round trip of the preferences.
\<close>

section \<open>The schema\<close>

text \<open>
  Every sequence of repository calls, under every schedule of database failures, keeps the schema
  invariant: unique keys stay unique, no row refers to a missing parent and every enum column holds
  one of its values.
\<close>

theorem repo_steps_keep_schema:
  assumes "db_ok db" and "repo_step\<^sup>*\<^sup>* db db'"
  shows "db_ok db'"
  using assms(2,1) by (induction rule: rtranclp_induct) (auto intro: repo_step_ok)

theorem repo_steps_keep_schema_witness:
  "db_ok (snd (UpdateStatus 100 StatusProcessing None 41 (snd (Tenant_Delete 2 demo_db))))"
proof -
  let ?d = "snd (Tenant_Delete 2 demo_db)"
  have "repo_step demo_db ?d" by (rule tenant_delete)
  moreover have "repo_step ?d (snd (UpdateStatus 100 StatusProcessing None 41 ?d))" by (rule update_status)
  ultimately have "repo_step\<^sup>*\<^sup>* demo_db (snd (UpdateStatus 100 StatusProcessing None 41 ?d))" by simp
  from repo_steps_keep_schema [OF demo_db_ok this] show ?thesis .
qed

section \<open>Tenant isolation\<close>

lemma tenant_scoped_answer:
  assumes "tenant_scoped rows ident owner op" and "db_ok db" and "distinct (map ident (rows db))"
    and "r \<in> set (rows db)" and "ident r = i" and "owner r \<noteq> tid" and "op i tid db = (e, db')"
  shows "answers_not_found db e db'"
proof -
  have "\<forall>r' \<in> set (rows db). \<not> (ident r' = i \<and> owner r' = tid)"
    using assms(3-6) by (metis distinct_map inj_onD)
  then show ?thesis using tenant_scoped.foreign [OF assms(1,2)] assms(7) by blast
qed

text \<open>
  Tenant isolation of the management statements: updating or deleting a channel or a webhook
  endpoint, or revoking a key, that belongs to another tenant changes no table and answers not found,
  unless the database itself failed.
\<close>

theorem foreign_rows_untouched:
  assumes "db_ok db"
    and "(\<exists>c \<in> set (db_channels db). cr_tenant_id c \<noteq> tid \<and>
            (err_of (Channel_Update (cr_id c) tid cin db) = (e, db') \<or> Channel_Delete (cr_id c) tid db = (e, db'))) \<or>
         (\<exists>w \<in> set (db_endpoints db). we_TenantID w \<noteq> tid \<and>
            (err_of (Endpoint_Update (we_ID w) tid win db) = (e, db') \<or> Endpoint_Delete (we_ID w) tid db = (e, db'))) \<or>
         (\<exists>k \<in> set (db_api_keys db). k_TenantID k \<noteq> tid \<and> Revoke (k_ID k) tid db = (e, db'))"
  shows "answers_not_found db e db'"
proof -
  have d: "distinct (map cr_id (db_channels db))" "distinct (map we_ID (db_endpoints db))"
    "distinct (map k_ID (db_api_keys db))"
    using assms by (simp_all add: db_ok_def keys_ok_def)
  note scoped = tenant_scoped_answer [OF channel_update.tenant_scoped_axioms assms(1) d(1)]
      tenant_scoped_answer [OF channel_delete.tenant_scoped_axioms assms(1) d(1)]
      tenant_scoped_answer [OF endpoint_update.tenant_scoped_axioms assms(1) d(2)]
      tenant_scoped_answer [OF endpoint_delete.tenant_scoped_axioms assms(1) d(2)]
      tenant_scoped_answer [OF key_revoke.tenant_scoped_axioms assms(1) d(3)]
  from assms(2) show ?thesis by (elim disjE bexE conjE) (rule scoped; (assumption | rule refl))+
qed

theorem foreign_rows_untouched_witness:
  "answers_not_found demo_db (fst (Channel_Delete 10 2 demo_db)) (snd (Channel_Delete 10 2 demo_db))"
proof -
  have "acme_slack \<in> set (db_channels demo_db)" "cr_id acme_slack = 10" "cr_tenant_id acme_slack \<noteq> 2"
    by (simp_all add: demo_defs)
  then have "\<exists>c \<in> set (db_channels demo_db). cr_tenant_id c \<noteq> 2 \<and>
      (err_of (Channel_Update (cr_id c) 2 undefined demo_db) =
         (fst (Channel_Delete 10 2 demo_db), snd (Channel_Delete 10 2 demo_db)) \<or>
       Channel_Delete (cr_id c) 2 demo_db = (fst (Channel_Delete 10 2 demo_db), snd (Channel_Delete 10 2 demo_db)))"
    by (intro bexI [of _ acme_slack]) simp_all
  then show ?thesis by (intro foreign_rows_untouched [OF demo_db_ok disjI1])
qed

text \<open>
  C34. A capped create of an API key or of a webhook endpoint succeeds only below the cap and then
  adds exactly one; on every error the tables are unchanged. So no run of capped creates takes a
  tenant above the cap.
\<close>

theorem capped_creates:
  "(case APIKey_CreateWithinLimit k limit db of
      (None, db') \<Rightarrow> active_keys (k_TenantID k) db < limit \<and>
                     active_keys (k_TenantID k) db' = active_keys (k_TenantID k) db + 1
    | (Some _, db') \<Rightarrow> tables db' = tables db) \<and>
   (case Endpoint_CreateWithinLimit w limit db of
      (None, db') \<Rightarrow> endpoint_count (we_TenantID w) db < limit \<and>
                     endpoint_count (we_TenantID w) db' = endpoint_count (we_TenantID w) db + 1
    | (Some _, db') \<Rightarrow> tables db' = tables db)"
proof -
  obtain r db1 where k: "APIKey_CreateWithinLimit k limit db = (r, db1)" by (meson surj_pair)
  obtain s db2 where w: "Endpoint_CreateWithinLimit w limit db = (s, db2)" by (meson surj_pair)
  show ?thesis
    using key_cap.create_respects_cap [OF k [unfolded APIKey_CreateWithinLimit_def]]
      endpoint_cap.create_respects_cap [OF w [unfolded Endpoint_CreateWithinLimit_def]] k w
    by (cases r; cases s) auto
qed

section \<open>Retention\<close>

lemma DeleteOlderThan_body:
  assumes "(case pg_call (purge_attempts tid cutoff) d of
        (Inl e, db1) \<Rightarrow> (Inl (0, Some (dberr_go e)), db1)
      | (Inr _, db1) \<Rightarrow>
          (case pg_call (purge_metrics tid cutoff) db1 of
             (Inl e, db2) \<Rightarrow> (Inl (0, Some (dberr_go e)), db2)
           | (Inr _, db2) \<Rightarrow>
               (case pg_call (purge_notifs tid cutoff) db2 of
                  (Inl e, db3) \<Rightarrow> (Inl (0, Some (dberr_go e)), db3)
                | (Inr n, db3) \<Rightarrow> (Inr n, db3)))) = (Inr k, d')"
  obtains fs1 fs2 fs3 d1 d2 where "purge_attempts tid cutoff (d\<lparr>db_faults := fs1\<rparr>) = (Inr (), d1)"
    "purge_metrics tid cutoff (d1\<lparr>db_faults := fs2\<rparr>) = (Inr (), d2)"
    "purge_notifs tid cutoff (d2\<lparr>db_faults := fs3\<rparr>) = (Inr k, d')"
proof -
  obtain d1 where 1: "pg_call (purge_attempts tid cutoff) d = (Inr (), d1)"
    using assms by (auto split: prod.splits sum.splits)
  then obtain fs1 where f1: "purge_attempts tid cutoff (d\<lparr>db_faults := fs1\<rparr>) = (Inr (), d1)"
    by (cases rule: pg_call_cases [of "purge_attempts tid cutoff" d]) auto
  obtain d2 where 2: "pg_call (purge_metrics tid cutoff) d1 = (Inr (), d2)"
    using assms 1 by (auto split: prod.splits sum.splits)
  then obtain fs2 where f2: "purge_metrics tid cutoff (d1\<lparr>db_faults := fs2\<rparr>) = (Inr (), d2)"
    by (cases rule: pg_call_cases [of "purge_metrics tid cutoff" d1]) auto
  have 3: "pg_call (purge_notifs tid cutoff) d2 = (Inr k, d')"
    using assms 1 2 by (auto split: prod.splits sum.splits)
  then obtain fs3 where "purge_notifs tid cutoff (d2\<lparr>db_faults := fs3\<rparr>) = (Inr k, d')"
    by (cases rule: pg_call_cases [of "purge_notifs tid cutoff" d2]) auto
  with f1 f2 that show ?thesis by blast
qed

text \<open>The state after the purge of \<open>tid\<close>: what is not old stays, in order.\<close>

definition purged :: "uuid \<Rightarrow> time \<Rightarrow> pgdb \<Rightarrow> pgdb" where
  "purged tid cutoff db = db\<lparr>
     db_notifs := filter (\<lambda>n. \<not> (n_TenantID n = tid \<and> n_CreatedAt n < cutoff)) (db_notifs db),
     db_attempts := filter (\<lambda>a. da_NotificationID a \<notin> old_notif_ids tid cutoff db) (db_attempts db),
     db_metrics := filter (\<lambda>m. dm_NotificationID m \<notin> old_notif_ids tid cutoff db) (db_metrics db)\<rparr>"

lemma not_old_survives:
  assumes "x \<in> notif_ids db" and "x \<notin> old_notif_ids tid cutoff db"
  shows "x \<in> notif_ids (purged tid cutoff db)"
  using assms by (auto simp: notif_ids_def old_notif_ids_def purged_def)

lemma purged_refs_ok: "db_ok db \<Longrightarrow> refs_ok (purged tid cutoff db)"
proof -
  assume "db_ok db"
  then have r: "refs_ok db" by (simp add: db_ok_def)
  have "tenant_ids (purged tid cutoff db) = tenant_ids db" "channel_ids (purged tid cutoff db) = channel_ids db"
    by (simp_all add: purged_def tenant_ids_def channel_ids_def)
  with r not_old_survives [of _ db tid cutoff] show ?thesis
    unfolding refs_ok_def by (auto simp: purged_def image_subset_iff)
qed

lemma refs_ok_tables: "tables d = tables d' \<Longrightarrow> refs_ok d = refs_ok d'"
proof -
  have "refs_ok (tables d) = refs_ok d" for d
    by (simp add: tables_def refs_ok_def tenant_ids_def channel_ids_def notif_ids_def)
  then show "tables d = tables d' \<Longrightarrow> refs_ok d = refs_ok d'" by metis
qed

lemma DeleteOlderThan_effect:
  assumes "db_ok db" and "DeleteOlderThan tid cutoff db = ((n, err), db')"
  shows "case err of
      None \<Rightarrow> tables db' = tables (purged tid cutoff db) \<and>
        n = int (length (filter (\<lambda>n. n_TenantID n = tid \<and> n_CreatedAt n < cutoff) (db_notifs db)))
    | Some _ \<Rightarrow> tables db' = tables db"
  using assms(2) unfolding DeleteOlderThan_def
proof (cases rule: pg_tx_cases)
  case (committed fs k db2)
  from committed(1) obtain f1 f2 f3 d1 d2
    where 1: "purge_attempts tid cutoff (db\<lparr>db_faults := fs, db_faults := f1\<rparr>) = (Inr (), d1)"
      and 2: "purge_metrics tid cutoff (d1\<lparr>db_faults := f2\<rparr>) = (Inr (), d2)"
      and 3: "purge_notifs tid cutoff (d2\<lparr>db_faults := f3\<rparr>) = (Inr k, db2)"
    by (rule DeleteOlderThan_body)
  let ?e = "(purged tid cutoff db)\<lparr>db_faults := f3\<rparr>"
  let ?x = "db\<lparr>db_attempts := delete_where (\<lambda>a. da_NotificationID a \<in> old_notif_ids tid cutoff db) (db_attempts db),
      db_metrics := delete_where (\<lambda>m. dm_NotificationID m \<in> old_notif_ids tid cutoff db) (db_metrics db),
      db_faults := f3,
      db_notifs := delete_where (\<lambda>n. n_TenantID n = tid \<and> n_CreatedAt n < cutoff) (db_notifs db)\<rparr>"
  have "?x = ?e" by (simp add: purged_def delete_where_def)
  moreover have "db2 = cascade ?x" and k: "k = int (length (filter (\<lambda>n. n_TenantID n = tid \<and> n_CreatedAt n < cutoff) (db_notifs db)))"
    using 1 2 3 by (auto simp: purge_attempts_def purge_metrics_def purge_notifs_def Let_def
        old_notif_ids_def rows_affected_def)
  ultimately have "db2 = cascade ?e" by simp
  moreover have "refs_ok ?e" using purged_refs_ok [OF assms(1)] refs_ok_tables [of ?e "purged tid cutoff db"] by simp
  ultimately have "tables db2 = tables (purged tid cutoff db)" by (simp add: cascade_id)
  with committed k show ?thesis by simp
next
  case (stopped fs db2)
  then obtain e where "err = Some e" by (auto split: prod.splits sum.splits)
  with stopped show ?thesis by simp
qed auto

text \<open>
  The retention purge of a tenant is exact and atomic: when it reports no error it has removed
  precisely that tenant's notifications created before the cutoff together with their attempts and
  metrics, and returns their number; when it reports an error the tables are as before.
\<close>

theorem DeleteOlderThan_exact:
  assumes "db_ok db" and "DeleteOlderThan tid cutoff db = ((n, err), db')"
  shows "case err of
      None \<Rightarrow> tables db' = tables (purged tid cutoff db) \<and>
        n = int (length (filter (\<lambda>n. n_TenantID n = tid \<and> n_CreatedAt n < cutoff) (db_notifs db)))
    | Some _ \<Rightarrow> tables db' = tables db"
  using assms by (rule DeleteOlderThan_effect)

theorem DeleteOlderThan_exact_witness:
  "db_notifs (snd (DeleteOlderThan 1 31 demo_db)) = [] \<and> fst (DeleteOlderThan 1 31 demo_db) = (1, None)"
proof -
  have r: "fst (DeleteOlderThan 1 31 demo_db) = (1, None)"
    by code_simp
  then have "DeleteOlderThan 1 31 demo_db = ((1, None), snd (DeleteOlderThan 1 31 demo_db))"
    by (metis prod.collapse)
  from DeleteOlderThan_exact [OF demo_db_ok this]
  have "tables (snd (DeleteOlderThan 1 31 demo_db)) = tables (purged 1 31 demo_db)" by simp
  then have "db_notifs (snd (DeleteOlderThan 1 31 demo_db)) = db_notifs (purged 1 31 demo_db)"
    by (rule tables_eq_fields(5))
  then show ?thesis using r by (simp add: purged_def demo_defs)
qed

section \<open>Reports\<close>

lemma unique_row_filter:
  assumes "distinct (map key t)" and "r \<in> set t"
  shows "filter (\<lambda>x. key x = key r) t = [r]"
  using assms
proof (induction t)
  case (Cons a t)
  show ?case
  proof (cases "a = r")
    case True
    with Cons.prems have "filter (\<lambda>x. key x = key r) t = []" by (auto simp: filter_empty_conv) (metis image_eqI)
    with True show ?thesis by simp
  next
    case False
    with Cons have "r \<in> set t" "key a \<noteq> key r" by (auto simp: image_iff)
    with Cons show ?thesis by simp
  qed
qed simp

lemma joined_channels_length:
  assumes "db_ok db" and "set ns \<subseteq> set (db_notifs db)"
  shows "length (concat (map (\<lambda>n. map cr_channel (filter (\<lambda>c. cr_id c = n_ChannelConfigID n) (db_channels db))) ns)) = length ns"
  using assms(2)
proof (induction ns)
  case (Cons n ns)
  then have "n_ChannelConfigID n \<in> cr_id ` set (db_channels db)"
    using assms(1) by (auto simp: db_ok_def refs_ok_def channel_ids_def)
  then obtain c where c: "c \<in> set (db_channels db)" "n_ChannelConfigID n = cr_id c" by blast
  have "distinct (map cr_id (db_channels db))" using assms(1) by (simp add: db_ok_def keys_ok_def)
  then show ?case using Cons unique_row_filter [of cr_id _ c] c by simp
qed simp

lemma UsageByTenant_result:
  assumes "UsageByTenant tid from to db = (Inr rep, db')"
  defines "ns \<equiv> filter (in_window tid from to) (db_notifs db)"
  defines "chans \<equiv> concat (map (\<lambda>n. map cr_channel (filter (\<lambda>c. cr_id c = n_ChannelConfigID n) (db_channels db))) ns)"
  shows "rep = \<lparr>ur_Sent = int (length ns),
      ur_Delivered = int (length (filter (\<lambda>n. n_Status n = StatusDelivered) ns)),
      ur_Failed = int (length (filter (\<lambda>n. n_Status n = StatusFailed) ns)),
      ur_ByChannel = (\<lambda>ch. if ch \<in> set chans then Some (int (count_list chans ch)) else None)\<rparr>"
proof -
  let ?q1 = "\<lambda>db. let ns = filter (in_window tid from to) (db_notifs db) in
      Inr (int (length ns), int (length (filter (\<lambda>n. n_Status n = StatusDelivered) ns)),
        int (length (filter (\<lambda>n. n_Status n = StatusFailed) ns))) :: dberr + int \<times> int \<times> int"
  let ?q2 = "\<lambda>db. Inr (concat (map (\<lambda>n. map cr_channel (filter (\<lambda>c. cr_id c = n_ChannelConfigID n) (db_channels db)))
      (filter (in_window tid from to) (db_notifs db)))) :: dberr + string list"
  obtain x d1 where 1: "pg_query ?q1 db = (x, d1)" by (meson surj_pair)
  then obtain t where x: "x = Inr t" using assms(1) by (cases x) (auto simp: UsageByTenant_def)
  then have t: "?q1 db = Inr t" using pg_query_result [of ?q1 db t d1] 1 by (simp add: Let_def)
  obtain y d2 where 2: "pg_query ?q2 d1 = (y, d2)" by (meson surj_pair)
  then obtain u where y: "y = Inr u"
    using assms(1) 1 x by (cases y; cases t) (auto simp: UsageByTenant_def)
  then have "?q2 d1 = Inr u" using pg_query_result [of ?q2 d1 u d2] 2 by simp
  then have u: "?q2 db = Inr u" using tables_eq_fields(4,5) [OF pg_query_tables [OF 1]] by simp
  show ?thesis
    using assms(1) 1 x 2 y t u unfolding ns_def chans_def by (auto simp: UsageByTenant_def Let_def)
qed

text \<open>
  The usage report accounts for every notification of the window exactly once: the per-channel
  counts add up to the number sent, which is the number of the tenant's rows in the half-open window,
  and delivered plus failed never exceeds it.
\<close>

theorem UsageByTenant_accounts:
  assumes "db_ok db" and "UsageByTenant tid from to db = (Inr rep, db')"
  shows "ur_Sent rep = int (length (filter (in_window tid from to) (db_notifs db))) \<and>
    (\<Sum>ch \<in> set ValidChannelTypes. case ur_ByChannel rep ch of None \<Rightarrow> 0 | Some k \<Rightarrow> k) = ur_Sent rep \<and>
    ur_Delivered rep + ur_Failed rep \<le> ur_Sent rep"
proof -
  let ?ns = "filter (in_window tid from to) (db_notifs db)"
  let ?chans = "concat (map (\<lambda>n. map cr_channel (filter (\<lambda>c. cr_id c = n_ChannelConfigID n) (db_channels db))) ?ns)"
  note rep = UsageByTenant_result [OF assms(2)]
  have len: "length ?chans = length ?ns" by (rule joined_channels_length [OF assms(1)]) auto
  have "set ?chans \<subseteq> set ValidChannelTypes"
    using assms(1) by (auto simp: db_ok_def enums_ok_def IsValidChannelType_def)
  then have "sum (count_list ?chans) (set ValidChannelTypes) = length ?chans"
    by (rule sum_count_set) simp
  moreover have "(case if ch \<in> set ?chans then Some (int (count_list ?chans ch)) else None of
      None \<Rightarrow> 0 | Some k \<Rightarrow> k) = int (count_list ?chans ch)" for ch
    by (simp add: count_list_0_iff)
  ultimately have by_ch: "(\<Sum>ch \<in> set ValidChannelTypes. case ur_ByChannel rep ch of None \<Rightarrow> 0 | Some k \<Rightarrow> k) = int (length ?ns)"
    unfolding rep using len by (simp only: UsageReport.select_convs flip: of_nat_sum)
  have "length (filter (\<lambda>n. n_Status n = StatusDelivered) ns) + length (filter (\<lambda>n. n_Status n = StatusFailed) ns)
      \<le> length ns" for ns
    by (induction ns) auto
  from this [of ?ns] have "ur_Delivered rep + ur_Failed rep \<le> int (length ?ns)"
    unfolding rep UsageReport.select_convs by linarith
  moreover have "ur_Sent rep = int (length ?ns)" unfolding rep by simp
  ultimately show ?thesis using by_ch by simp
qed

theorem UsageByTenant_accounts_witness:
  "\<exists>rep. fst (UsageByTenant 1 0 100 demo_db) = Inr rep \<and> ur_Sent rep = 1 \<and>
     ur_Delivered rep + ur_Failed rep \<le> 1"
proof -
  obtain rep where r: "UsageByTenant 1 0 100 demo_db = (Inr rep, demo_db)"
    by (simp add: UsageByTenant_def pg_query_def pg_call_def Let_def demo_db_def)
  have "length (filter (in_window 1 0 100) (db_notifs demo_db)) = 1"
    by (simp add: in_window_def demo_defs)
  with UsageByTenant_accounts [OF demo_db_ok r] r show ?thesis by simp
qed

section \<open>Delivery preferences\<close>

lemma ToLower_keys [simp]:
  "ToLower ''priority'' = ''priority''" "ToLower ''max_retries'' = ''max_retries''"
  "ToLower ''format_mode'' = ''format_mode''"
  by code_simp+

text \<open>
  Delivery preferences survive the JSONB column: what \<^verbatim>\<open>marshalDeliveryPrefs\<close> writes,
  \<^verbatim>\<open>unmarshalDeliveryPrefs\<close> reads back unchanged, except that absent and all-empty preferences both
  read as absent.
\<close>

theorem delivery_prefs_roundtrip:
  assumes "\<forall>dp n. p = Some dp \<longrightarrow> dp_MaxRetries dp = Some n \<longrightarrow> fits64 n"
  shows "unmarshalDeliveryPrefs (marshalDeliveryPrefs p) = (if p = Some empty_prefs then None else p)"
proof (cases p)
  case None
  then show ?thesis by (simp add: marshalDeliveryPrefs_def unmarshalDeliveryPrefs_def)
next
  case (Some dp)
  have fit: "fits64 n" if "dp_MaxRetries dp = Some n" for n using assms Some that by blast
  show ?thesis
    using Some fit
    by (cases dp; cases "dp_MaxRetries dp")
      (auto simp: marshalDeliveryPrefs_def unmarshalDeliveryPrefs_def prefs_json_def empty_prefs_def)
qed

theorem delivery_prefs_roundtrip_witness:
  "unmarshalDeliveryPrefs (marshalDeliveryPrefs
     (Some \<lparr>dp_Priority = ''low'', dp_MaxRetries = Some 3, dp_FormatMode = []\<rparr>)) =
   Some \<lparr>dp_Priority = ''low'', dp_MaxRetries = Some 3, dp_FormatMode = []\<rparr>"
  using delivery_prefs_roundtrip [of "Some \<lparr>dp_Priority = ''low'', dp_MaxRetries = Some 3, dp_FormatMode = []\<rparr>"]
  by (simp add: fits64_def empty_prefs_def)

section \<open>Listing\<close>

lemma Notification_List_result:
  assumes "Notification_List f db = (Inr (ns, tot), db')"
  shows "tot = int (length (filter (notif_matches f) (db_notifs db)))"
    and "ns = matching_page f (if nf_Limit f \<le> 0 then 20 else nf_Limit f)
      (if nf_Offset f < 0 then 0 else nf_Offset f) db"
proof -
  let ?q = "\<lambda>db. Inr (matching_page f (if nf_Limit f \<le> 0 then 20 else nf_Limit f)
      (if nf_Offset f < 0 then 0 else nf_Offset f) db) :: dberr + Notification list"
  obtain d1 where 1: "pg_query (count_matching f) db = (Inr tot, d1)" and 2: "pg_query ?q d1 = (Inr ns, db')"
    using assms unfolding Notification_List_def Let_def by (auto split: prod.splits sum.splits)
  have "count_matching f db = Inr tot" by (rule pg_query_result [OF 1]) (simp add: count_matching_def split: option.split)
  then show "tot = int (length (filter (notif_matches f) (db_notifs db)))"
    by (simp add: count_matching_def split: option.splits)
  show "ns = matching_page f (if nf_Limit f \<le> 0 then 20 else nf_Limit f)
      (if nf_Offset f < 0 then 0 else nf_Offset f) db"
    using pg_query_result [OF 2] tables_eq_fields(5) [OF pg_query_tables [OF 1]]
    by (simp add: matching_page_def)
qed

lemma set_page: "set (page l off t) \<subseteq> set t"
  by (auto simp: page_def dest: in_set_takeD in_set_dropD)

lemma length_page: "0 \<le> l \<Longrightarrow> int (length (page l off t)) \<le> l"
  by (simp add: page_def flip: le_nat_iff)

lemma sorted_page: "sorted (map k t) \<Longrightarrow> sorted (map k (page l off t))"
  by (simp add: page_def take_map [symmetric] drop_map [symmetric] sorted_wrt_take sorted_wrt_drop)

text \<open>
  Listing never leaks across tenants: every returned notification is a stored row of the tenant
  the filter names and satisfies the filter, the page is at most the limit (20 when none is given),
  newest first, and the total counts all matching rows.
\<close>

theorem Notification_List_spec:
  assumes "Notification_List f db = (Inr (ns, tot), db')"
  shows "(\<forall>n \<in> set ns. n \<in> set (db_notifs db) \<and> n_TenantID n = nf_TenantID f \<and> notif_matches f n) \<and>
    int (length ns) \<le> (if nf_Limit f \<le> 0 then 20 else nf_Limit f) \<and>
    sorted (map (\<lambda>n. - n_CreatedAt n) ns) \<and>
    tot = int (length (filter (notif_matches f) (db_notifs db)))"
proof -
  note r = Notification_List_result [OF assms]
  have "set ns \<subseteq> set (filter (notif_matches f) (db_notifs db))"
    unfolding r(2) matching_page_def using set_page by (metis set_sort)
  moreover have "sorted (map (\<lambda>n. - n_CreatedAt n) ns)" unfolding r(2) matching_page_def by (rule sorted_page) simp
  moreover have "int (length ns) \<le> (if nf_Limit f \<le> 0 then 20 else nf_Limit f)"
    unfolding r(2) matching_page_def by (rule length_page) simp
  ultimately show ?thesis using r(1) by (auto simp: notif_matches_def)
qed

definition acme_filter :: NotificationFilter where
  "acme_filter = \<lparr>nf_TenantID = 1, nf_Status = None, nf_Channel = None, nf_Limit = 0, nf_Offset = 0\<rparr>"

theorem Notification_List_spec_witness:
  "\<exists>ns tot. fst (Notification_List acme_filter demo_db) = Inr (ns, tot) \<and> tot = 1 \<and> int (length ns) \<le> 20"
proof -
  obtain ns where l: "Notification_List acme_filter demo_db = (Inr (ns, 1), demo_db)"
    by (simp add: Notification_List_def count_matching_def filter_error_def channel_filter_error_def
        acme_filter_def notif_matches_def demo_defs Let_def)
  from Notification_List_spec [OF this] l show ?thesis by (simp add: acme_filter_def)
qed

end
