(* ===== verification/Tasks.thy ===== *)
theory Tasks
  imports Repositories
begin

text \<open>
  The queue: the payloads of the two task types with their JSON form, the task constructors, the
  client side of asynq, and the retry delays. What asynq and the uuid package do is a parameter:
  \<open>lib\<close> gives \<^verbatim>\<open>uuid.String\<close>, \<^verbatim>\<open>uuid.NewSHA1\<close> and the broker's answer to an enqueue. A task on the
  wire keeps identifiers as values, because \<^verbatim>\<open>UUID.MarshalText\<close> and \<^verbatim>\<open>UnmarshalText\<close> invert each
  other; every other field is what the JSON text carries.
\<close>

section \<open>Payloads\<close>

record NotificationDeliverPayload =
  p_NotificationID :: uuid
  p_TenantID :: uuid
  p_ChannelType :: string
  p_ChannelConfigID :: uuid
  p_Subject :: string
  p_Body :: string
  p_Metadata :: RawMessage
  p_DeliveryPrefs :: "DeliveryPreferences option"

record WebhookEventData =
  ed_NotificationID :: uuid
  ed_ChannelConfigID :: uuid
  ed_Channel :: string
  ed_Status :: string
  ed_Attempts :: int
  ed_Metadata :: RawMessage

record WebhookEventPayload =
  ev_ID :: string
  ev_Type :: string
  ev_CreatedAt :: time
  ev_Data :: WebhookEventData

record WebhookEventTaskPayload =
  etp_EndpointID :: uuid
  etp_Event :: WebhookEventPayload

text \<open>
  The JSON text of a delivery payload: \<^verbatim>\<open>metadata\<close> has no \<^verbatim>\<open>omitempty\<close>, so a nil message is written
  as \<^verbatim>\<open>null\<close>; \<^verbatim>\<open>delivery_prefs\<close> is omitted when nil.
\<close>

record deliver_wire =
  dw_NotificationID :: uuid
  dw_TenantID :: uuid
  dw_ChannelType :: string
  dw_ChannelConfigID :: uuid
  dw_Subject :: string
  dw_Body :: string
  dw_Metadata :: json
  dw_DeliveryPrefs :: "json option"

record event_wire =
  ew_EndpointID :: uuid
  ew_Event :: WebhookEventPayload

datatype task_body = DeliverBody deliver_wire | EventBody event_wire | MalformedBody

definition marshal_deliver :: "NotificationDeliverPayload \<Rightarrow> task_body" where
  "marshal_deliver p = DeliverBody \<lparr>dw_NotificationID = p_NotificationID p, dw_TenantID = p_TenantID p,
     dw_ChannelType = p_ChannelType p, dw_ChannelConfigID = p_ChannelConfigID p, dw_Subject = p_Subject p,
     dw_Body = p_Body p, dw_Metadata = marshal_raw (p_Metadata p),
     dw_DeliveryPrefs = map_option prefs_json (p_DeliveryPrefs p)\<rparr>"

definition zero_deliver :: NotificationDeliverPayload where
  "zero_deliver = \<lparr>p_NotificationID = uuid_Nil, p_TenantID = uuid_Nil, p_ChannelType = [],
     p_ChannelConfigID = uuid_Nil, p_Subject = [], p_Body = [], p_Metadata = None, p_DeliveryPrefs = None\<rparr>"

text \<open>A pointer to the preferences: \<^verbatim>\<open>null\<close> or absent is nil, an object is decoded member by member.\<close>

definition unmarshal_prefs_ptr :: "json option \<Rightarrow> goerr + DeliveryPreferences option" where
  "unmarshal_prefs_ptr j = (case j of
     None \<Rightarrow> Inr None
   | Some JNull \<Rightarrow> Inr None
   | Some (JObj ms) \<Rightarrow> (case prefs_members ms empty_prefs of
        None \<Rightarrow> Inl (plain_error ''json: cannot unmarshal'') | Some dp \<Rightarrow> Inr (Some dp))
   | Some _ \<Rightarrow> Inl (plain_error ''json: cannot unmarshal''))"

text \<open>An event payload has none of the members of a delivery payload and decodes to its zero value.\<close>

definition unmarshal_deliver :: "task_body \<Rightarrow> goerr + NotificationDeliverPayload" where
  "unmarshal_deliver b = (case b of
     MalformedBody \<Rightarrow> Inl (plain_error ''invalid character in JSON'')
   | EventBody _ \<Rightarrow> Inr zero_deliver
   | DeliverBody w \<Rightarrow> (case unmarshal_prefs_ptr (dw_DeliveryPrefs w) of
        Inl e \<Rightarrow> Inl e
      | Inr dp \<Rightarrow> Inr \<lparr>p_NotificationID = dw_NotificationID w, p_TenantID = dw_TenantID w,
          p_ChannelType = dw_ChannelType w, p_ChannelConfigID = dw_ChannelConfigID w,
          p_Subject = dw_Subject w, p_Body = dw_Body w, p_Metadata = unmarshal_raw (dw_Metadata w),
          p_DeliveryPrefs = dp\<rparr>))"

text \<open>The event's metadata crosses the queue the same way.\<close>

definition through_wire :: "WebhookEventPayload \<Rightarrow> WebhookEventPayload" where
  "through_wire e = e\<lparr>ev_Data := (ev_Data e)\<lparr>ed_Metadata := unmarshal_raw (marshal_raw (ed_Metadata (ev_Data e)))\<rparr>\<rparr>"

definition marshal_event :: "WebhookEventTaskPayload \<Rightarrow> task_body" where
  "marshal_event p = EventBody \<lparr>ew_EndpointID = etp_EndpointID p, ew_Event = through_wire (etp_Event p)\<rparr>"

definition zero_event :: WebhookEventTaskPayload where
  "zero_event = \<lparr>etp_EndpointID = uuid_Nil, etp_Event = \<lparr>ev_ID = [], ev_Type = [], ev_CreatedAt = zero_time,
     ev_Data = \<lparr>ed_NotificationID = uuid_Nil, ed_ChannelConfigID = uuid_Nil, ed_Channel = [], ed_Status = [],
       ed_Attempts = 0, ed_Metadata = None\<rparr>\<rparr>\<rparr>"

definition unmarshal_event :: "task_body \<Rightarrow> goerr + WebhookEventTaskPayload" where
  "unmarshal_event b = (case b of
     MalformedBody \<Rightarrow> Inl (plain_error ''invalid character in JSON'')
   | DeliverBody _ \<Rightarrow> Inr zero_event
   | EventBody w \<Rightarrow> Inr \<lparr>etp_EndpointID = ew_EndpointID w, etp_Event = ew_Event w\<rparr>)"

section \<open>Tasks and the broker\<close>

definition TypeNotificationDeliver :: string where
  "TypeNotificationDeliver = ''notification:deliver''"

definition TypeWebhookEvent :: string where
  "TypeWebhookEvent = ''webhook:event''"

definition queueWebhooks :: string where
  "queueWebhooks = ''webhooks''"

definition webhookEventMaxRetry :: int where
  "webhookEventMaxRetry = 8"

record Task =
  tk_Type :: string
  tk_Body :: task_body
  tk_Queue :: string
  tk_MaxRetry :: int
  tk_TaskID :: string
  tk_Timeout :: duration

text \<open>
  The libraries: \<^verbatim>\<open>uuid.UUID.String\<close>, \<^verbatim>\<open>uuid.NewSHA1(space, data)\<close>, and the broker's answer to
  \<^verbatim>\<open>EnqueueContext\<close> given the tasks it accepted before (an error, or acceptance).
\<close>

record lib =
  lib_uuid_String :: "uuid \<Rightarrow> string"
  lib_NewSHA1 :: "uuid \<Rightarrow> string \<Rightarrow> uuid"
  lib_enqueue :: "Task list \<Rightarrow> Task \<Rightarrow> goerr option"

text \<open>
  The state the server and the workers share: the database and the tasks the broker accepted. The
  operations work on every extension of it, so that an observer can be added to the state.
\<close>

record world =
  w_db :: pgdb
  w_queue :: "Task list"

text \<open>\<^verbatim>\<open>client.EnqueueContext\<close>; \<^verbatim>\<open>info.ID\<close> of an accepted task is its task identifier.\<close>

definition EnqueueContext :: "lib \<Rightarrow> Task \<Rightarrow> 'a world_scheme \<Rightarrow> (goerr + string) \<times> 'a world_scheme" where
  "EnqueueContext L t w = (case lib_enqueue L (w_queue w) t of
     Some e \<Rightarrow> (Inl e, w)
   | None \<Rightarrow> (Inr (tk_TaskID t), w\<lparr>w_queue := w_queue w @ [t]\<rparr>))"

text \<open>A repository call inside the shared state.\<close>

definition on_db :: "(pgdb \<Rightarrow> 'r \<times> pgdb) \<Rightarrow> 'a world_scheme \<Rightarrow> 'r \<times> 'a world_scheme" where
  "on_db f w = (case f (w_db w) of (r, db) \<Rightarrow> (r, w\<lparr>w_db := db\<rparr>))"

definition queueForPriority :: "string \<Rightarrow> string" where
  "queueForPriority priority =
     (if priority = ''critical'' then ''critical''
      else if priority = ''low'' then ''low''
      else ''notifications'')"

text \<open>
  The only option a caller passes is \<^verbatim>\<open>asynq.MaxRetry\<close>; appended last, it overrides the default.
\<close>

definition NewNotificationDeliverTask :: "lib \<Rightarrow> NotificationDeliverPayload \<Rightarrow> int list \<Rightarrow> Task" where
  "NewNotificationDeliverTask L p maxRetryOpts =
     (let queue = (case p_DeliveryPrefs p of
            None \<Rightarrow> ''notifications''
          | Some dp \<Rightarrow> if dp_Priority dp \<noteq> [] then queueForPriority (dp_Priority dp) else ''notifications'');
          maxRetry = (case p_DeliveryPrefs p of
            None \<Rightarrow> 5
          | Some dp \<Rightarrow> (case dp_MaxRetries dp of None \<Rightarrow> 5 | Some n \<Rightarrow> n))
      in \<lparr>tk_Type = TypeNotificationDeliver, tk_Body = marshal_deliver p, tk_Queue = queue,
          tk_MaxRetry = last (maxRetry # maxRetryOpts),
          tk_TaskID = ''notif:'' @ lib_uuid_String L (p_NotificationID p),
          tk_Timeout = 30 * second_ns\<rparr>)"

definition NewWebhookEventTask :: "lib \<Rightarrow> WebhookEventTaskPayload \<Rightarrow> Task" where
  "NewWebhookEventTask L p =
     \<lparr>tk_Type = TypeWebhookEvent, tk_Body = marshal_event p, tk_Queue = queueWebhooks,
      tk_MaxRetry = webhookEventMaxRetry,
      tk_TaskID = ''webhookevent:'' @ ev_ID (etp_Event p) @ '':'' @ lib_uuid_String L (etp_EndpointID p),
      tk_Timeout = 30 * second_ns\<rparr>"

section \<open>Retry delays\<close>

text \<open>
  \<^verbatim>\<open>1 << uint(n)\<close> at 64 bits: a count of 64 or more, or a negative one converted to unsigned, gives
  zero. \<^verbatim>\<open>rand.Int64N(k)\<close> returns a value in \<open>[0, k)\<close> and panics for \<open>k \<le> 0\<close>; the draw is the
  argument \<open>rnd\<close> and a panic is \<open>None\<close>. Integer division truncates.
\<close>

definition shl1 :: "int \<Rightarrow> int" where
  "shl1 n = (if 0 \<le> n \<and> n < 64 then wrap64 (2 ^ nat n) else 0)"

definition webhookEventMinRetryDelay :: duration where
  "webhookEventMinRetryDelay = 2 * minute_ns"

definition webhookEventMaxRetryDelay :: duration where
  "webhookEventMaxRetryDelay = 2 * hour_ns"

definition jitter :: "(int \<Rightarrow> int) \<Rightarrow> duration \<Rightarrow> duration" where
  "jitter rnd base = (let fifth = base sdiv 5 in if fifth \<le> 0 then 0 else rnd fifth)"

definition WebhookEventRetryDelay :: "(int \<Rightarrow> int) \<Rightarrow> int \<Rightarrow> duration" where
  "WebhookEventRetryDelay rnd n =
     (let base0 = wrap64 (webhookEventMinRetryDelay * shl1 n);
          base = (if base0 > webhookEventMaxRetryDelay then webhookEventMaxRetryDelay else base0);
          delay = wrap64 (base + jitter rnd base)
      in if delay > webhookEventMaxRetryDelay then webhookEventMaxRetryDelay else delay)"

text \<open>The delay \<^verbatim>\<open>cmd/worker/main.go\<close> installs for notifications.\<close>

definition defaultRetryDelay :: "duration \<Rightarrow> duration \<Rightarrow> (int \<Rightarrow> int) \<Rightarrow> int \<Rightarrow> duration option" where
  "defaultRetryDelay minDelay maxDelay rnd n =
     (let base0 = wrap64 (minDelay * shl1 n);
          base = (if base0 > maxDelay then maxDelay else base0);
          fifth = base sdiv 5
      in if fifth \<le> 0 then None else Some (wrap64 (base + rnd fifth)))"

definition RetryDelayForTask :: "(int \<Rightarrow> int) \<Rightarrow> (int \<Rightarrow> duration option) \<Rightarrow> int \<Rightarrow> Task \<Rightarrow> duration option" where
  "RetryDelayForTask rnd defaultDelay n t =
     (if tk_Type t = TypeWebhookEvent then Some (WebhookEventRetryDelay rnd n) else defaultDelay n)"

section \<open>Laws of the payloads\<close>

lemma wrap_metadata [simp]:
  "unmarshal_raw (marshal_raw m) = (case m of None \<Rightarrow> Some JNull | Some v \<Rightarrow> Some v)"
  by (rule unmarshal_marshal_raw)

lemma on_db_sel [simp]:
  "fst (on_db f w) = fst (f (w_db w))" "w_db (snd (on_db f w)) = snd (f (w_db w))"
  "w_queue (snd (on_db f w)) = w_queue w" "world.more (snd (on_db f w)) = world.more w"
  by (simp_all add: on_db_def split: prod.splits)

lemma snd_on_db: "snd (on_db f w) = w\<lparr>w_db := snd (f (w_db w))\<rparr>"
  by (simp add: on_db_def split: prod.splits)

lemma EnqueueContext_db [simp]: "w_db (snd (EnqueueContext L t w)) = w_db w"
  by (simp add: EnqueueContext_def split: option.splits)

lemma EnqueueContext_cases:
  obtains (refused) e where "EnqueueContext L t w = (Inl e, w)"
  | (accepted) "EnqueueContext L t w = (Inr (tk_TaskID t), w\<lparr>w_queue := w_queue w @ [t]\<rparr>)"
  by (cases "lib_enqueue L (w_queue w) t") (auto simp: EnqueueContext_def)

end
