(* ===== verification/Emitter.thy ===== *)
theory Emitter
  imports Tasks
begin

text \<open>
  The webhook-event emitter (\<^verbatim>\<open>internal/worker/webhook_event_emitter.go\<close>): one terminal transition of
  a notification becomes one \<^verbatim>\<open>webhook:event\<close> task per active subscribed endpoint. The contract the
  dispatcher and the error handler rely on is the locale \<open>terminal_emitter\<close>, interpreted at the end
  on \<open>Emit\<close>.
\<close>

section \<open>Model\<close>

record EmitParams =
  em_TenantID :: uuid
  em_NotificationID :: uuid
  em_ChannelConfigID :: uuid
  em_Channel :: string
  em_EventType :: WebhookEventType
  em_Attempts :: int
  em_Metadata :: RawMessage

definition defaultMetadata :: "RawMessage \<Rightarrow> RawMessage" where
  "defaultMetadata m = (case m of None \<Rightarrow> Some (JObj []) | Some v \<Rightarrow> Some v)"

definition webhookEventNamespace :: uuid where
  "webhookEventNamespace = 0x2b5b1e0a6a8a4c1e9c2a2b6b6a8a4c1e"

definition webhookEventID :: "lib \<Rightarrow> uuid \<Rightarrow> WebhookEventType \<Rightarrow> string" where
  "webhookEventID L notificationID eventType =
     ''evt_'' @ lib_uuid_String L (lib_NewSHA1 L webhookEventNamespace
       (lib_uuid_String L notificationID @ '':'' @ eventType))"

definition eventStatusForType :: "WebhookEventType \<Rightarrow> string" where
  "eventStatusForType t =
     (if t = WebhookEventDelivered then ''delivered''
      else if t = WebhookEventFailed then ''failed''
      else t)"

definition buildWebhookEventTaskPayload :: "lib \<Rightarrow> uuid \<Rightarrow> EmitParams \<Rightarrow> time \<Rightarrow> WebhookEventTaskPayload" where
  "buildWebhookEventTaskPayload L endpointID params now =
     \<lparr>etp_EndpointID = endpointID,
      etp_Event = \<lparr>ev_ID = webhookEventID L (em_NotificationID params) (em_EventType params),
        ev_Type = em_EventType params, ev_CreatedAt = now,
        ev_Data = \<lparr>ed_NotificationID = em_NotificationID params,
          ed_ChannelConfigID = em_ChannelConfigID params, ed_Channel = em_Channel params,
          ed_Status = eventStatusForType (em_EventType params), ed_Attempts = em_Attempts params,
          ed_Metadata = defaultMetadata (em_Metadata params)\<rparr>\<rparr>\<rparr>"

text \<open>\<^verbatim>\<open>AsynqWebhookEventEnqueuer.Enqueue\<close>.\<close>

definition Enqueue :: "lib \<Rightarrow> WebhookEventTaskPayload \<Rightarrow> 'a world_scheme \<Rightarrow> goerr option \<times> 'a world_scheme" where
  "Enqueue L p w = (case EnqueueContext L (NewWebhookEventTask L p) w of
     (Inl e, w') \<Rightarrow> (Some e, w') | (Inr _, w') \<Rightarrow> (None, w'))"

text \<open>The loop of \<^verbatim>\<open>Emit\<close> over the endpoints, carrying the first error.\<close>

fun emit_loop :: "lib \<Rightarrow> EmitParams \<Rightarrow> time \<Rightarrow> WebhookEndpoint list \<Rightarrow> goerr option \<Rightarrow> 'a world_scheme \<Rightarrow>
    goerr option \<times> 'a world_scheme" where
  "emit_loop L params now [] firstErr w = (firstErr, w)"
| "emit_loop L params now (ep # eps) firstErr w =
     (case Enqueue L (buildWebhookEventTaskPayload L (we_ID ep) params now) w of
        (Some err, w') \<Rightarrow>
          emit_loop L params now eps (case firstErr of None \<Rightarrow> Some err | Some e \<Rightarrow> Some e) w'
      | (None, w') \<Rightarrow> emit_loop L params now eps firstErr w')"

definition Emit :: "lib \<Rightarrow> time \<Rightarrow> EmitParams \<Rightarrow> 'a world_scheme \<Rightarrow> goerr option \<times> 'a world_scheme" where
  "Emit L now params w =
     (case on_db (ListActiveByTenantAndEvent (em_TenantID params) (em_EventType params)) w of
        (Inl err, w') \<Rightarrow> (Some err, w')
      | (Inr endpoints, w') \<Rightarrow> emit_loop L params now endpoints None w')"

section \<open>Laws of the emitter\<close>

definition event_task :: "lib \<Rightarrow> EmitParams \<Rightarrow> time \<Rightarrow> WebhookEndpoint \<Rightarrow> Task" where
  "event_task L params now ep = NewWebhookEventTask L (buildWebhookEventTaskPayload L (we_ID ep) params now)"

text \<open>The endpoints whose task the broker accepts, when offered one after the other.\<close>

fun accepted :: "lib \<Rightarrow> EmitParams \<Rightarrow> time \<Rightarrow> WebhookEndpoint list \<Rightarrow> Task list \<Rightarrow> WebhookEndpoint list" where
  "accepted L params now [] q = []"
| "accepted L params now (ep # eps) q =
     (if lib_enqueue L q (event_task L params now ep) = None
      then ep # accepted L params now eps (q @ [event_task L params now ep])
      else accepted L params now eps q)"

lemma Enqueue_event:
  "Enqueue L (buildWebhookEventTaskPayload L (we_ID ep) params now) w =
     (case lib_enqueue L (w_queue w) (event_task L params now ep) of
        Some e \<Rightarrow> (Some e, w)
      | None \<Rightarrow> (None, w\<lparr>w_queue := w_queue w @ [event_task L params now ep]\<rparr>))"
  by (simp add: Enqueue_def EnqueueContext_def event_task_def split: option.splits)

lemma emit_loop_world:
  "snd (emit_loop L params now eps fe w) =
     w\<lparr>w_queue := w_queue w @ map (event_task L params now) (accepted L params now eps (w_queue w))\<rparr>"
  by (induction eps arbitrary: fe w) (auto simp: Enqueue_event split: option.splits)

lemma emit_loop_firstErr: "fst (emit_loop L params now eps (Some e) w) = Some e"
  by (induction eps arbitrary: w) (auto simp: Enqueue_event split: option.splits)

lemma length_accepted: "length (accepted L params now eps q) \<le> length eps"
  by (induction eps arbitrary: q) (auto simp: le_SucI)

lemma emit_loop_None:
  "fst (emit_loop L params now eps None w) = None \<longleftrightarrow> accepted L params now eps (w_queue w) = eps"
proof (induction eps arbitrary: w)
  case (Cons ep eps)
  show ?case
  proof (cases "lib_enqueue L (w_queue w) (event_task L params now ep)")
    case None
    then show ?thesis by (simp add: Enqueue_event Cons.IH)
  next
    case (Some e)
    have "accepted L params now eps (w_queue w) \<noteq> ep # eps"
      using length_accepted [of L params now eps "w_queue w"] by auto
    with Some show ?thesis by (simp add: Enqueue_event emit_loop_firstErr)
  qed
qed simp

lemma accepted_subset: "set (accepted L params now eps q) \<subseteq> set eps"
  by (induction eps arbitrary: q) auto

text \<open>The endpoints that match an event.\<close>

definition subscribers :: "pgdb \<Rightarrow> uuid \<Rightarrow> WebhookEventType \<Rightarrow> WebhookEndpoint list" where
  "subscribers db tid ev = filter (\<lambda>w. we_TenantID w = tid \<and> SubscribesTo w ev) (db_endpoints db)"

lemma ListActive_subscribers:
  "ListActiveByTenantAndEvent tid ev db = scan_rows (pg_query (\<lambda>db. Inr (subscribers db tid ev)) db)"
  unfolding ListActiveByTenantAndEvent_def subscribers_def SubscribesTo_def
  by (rule arg_cong [where f = "\<lambda>q. scan_rows (pg_query q db)"]) (auto intro!: filter_cong)

lemma subscribers_faults [simp]: "subscribers (db\<lparr>db_faults := fs\<rparr>) tid ev = subscribers db tid ev"
  by (simp add: subscribers_def)

text \<open>Either the lookup fails, or every subscriber is offered its task.\<close>

lemma Emit_cases:
  obtains (lookup_failed) m fs where "Emit L now params w =
      (Some (dberr_go (ConnErr m)), w\<lparr>w_db := (w_db w)\<lparr>db_faults := fs\<rparr>\<rparr>)"
  | (offered) fs where "Emit L now params w = emit_loop L params now
      (subscribers (w_db w) (em_TenantID params) (em_EventType params)) None (w\<lparr>w_db := (w_db w)\<lparr>db_faults := fs\<rparr>\<rparr>)"
proof (cases rule: pg_call_cases [of "\<lambda>db. (Inr (subscribers db (em_TenantID params) (em_EventType params)), db)" "w_db w"])
  case (fault m fs)
  then show ?thesis using lookup_failed
    by (auto simp: Emit_def on_db_def ListActive_subscribers pg_query_def scan_rows_def)
next
  case (runs fs)
  then show ?thesis using offered
    by (auto simp: Emit_def on_db_def ListActive_subscribers pg_query_def scan_rows_def)
qed

section \<open>The emitter's contract\<close>

text \<open>
  What the dispatcher and the error handler rely on: emitting changes no table and nothing of the
  observer's part of the state, and only appends \<^verbatim>\<open>webhook:event\<close> tasks about the transition.
\<close>

locale terminal_emitter =
  fixes emit :: "EmitParams \<Rightarrow> 'a world_scheme \<Rightarrow> goerr option \<times> 'a world_scheme"
  assumes emit_tables: "tables (w_db (snd (emit p w))) = tables (w_db w)"
    and emit_queue: "\<exists>ts. w_queue (snd (emit p w)) = w_queue w @ ts \<and> (\<forall>t \<in> set ts. tk_Type t = TypeWebhookEvent)"
    and emit_more: "world.more (snd (emit p w)) = world.more w"
begin

lemma emit_notifs [simp]: "db_notifs (w_db (snd (emit p w))) = db_notifs (w_db w)"
  by (rule tables_eq_fields(5) [OF emit_tables])

lemma emit_attempts [simp]: "db_attempts (w_db (snd (emit p w))) = db_attempts (w_db w)"
  by (rule tables_eq_fields(6) [OF emit_tables])

lemma emit_metrics [simp]: "db_metrics (w_db (snd (emit p w))) = db_metrics (w_db w)"
  by (rule tables_eq_fields(7) [OF emit_tables])

lemma emit_channels [simp]: "db_channels (w_db (snd (emit p w))) = db_channels (w_db w)"
  by (rule tables_eq_fields(4) [OF emit_tables])

end

lemma Emit_tables: "tables (w_db (snd (Emit L now params w))) = tables (w_db w)"
  by (cases rule: Emit_cases [of L now params w]) (simp_all add: emit_loop_world)

lemma Emit_queue:
  "\<exists>eps. set eps \<subseteq> set (subscribers (w_db w) (em_TenantID params) (em_EventType params)) \<and>
     w_queue (snd (Emit L now params w)) = w_queue w @ map (event_task L params now) eps"
  by (cases rule: Emit_cases [of L now params w])
    (auto simp: emit_loop_world intro!: exI [of _ "[]"] exI [of _ "accepted L params now _ _"] dest: subsetD [OF accepted_subset])

lemma Emit_more: "world.more (snd (Emit L now params w)) = world.more w"
  by (cases rule: Emit_cases [of L now params w]) (simp_all add: emit_loop_world)

lemma event_task_type: "tk_Type (event_task L params now ep) = TypeWebhookEvent"
  by (simp add: event_task_def NewWebhookEventTask_def)

interpretation webhook_emitter: terminal_emitter "Emit L now"
proof
  fix p and w :: "'b world_scheme"
  show "tables (w_db (snd (Emit L now p w))) = tables (w_db w)" by (rule Emit_tables)
  show "\<exists>ts. w_queue (snd (Emit L now p w)) = w_queue w @ ts \<and> (\<forall>t \<in> set ts. tk_Type t = TypeWebhookEvent)"
    using Emit_queue [of w p L now] event_task_type by fastforce
  show "world.more (snd (Emit L now p w)) = world.more w" by (rule Emit_more)
qed

end
