(* ===== verification/Dispatcher.thy ===== *)
theory Dispatcher
  imports Emitter Repository_Laws
begin

text \<open>
  The delivery worker: the dispatcher's handler for one attempt
  (\<^verbatim>\<open>internal/worker/dispatcher.go\<close>), the error handler asynq calls after every failed attempt
  (\<^verbatim>\<open>error_handler.go\<close>), and the run of a task over its attempts as \<^verbatim>\<open>cmd/worker/main.go\<close> wires them.
  The emitter is an argument, as the interface \<^verbatim>\<open>terminalEventEmitter\<close> makes it in the code, and so
  are the providers. Database errors after an outcome are logged and ignored by the code; here their
  results are dropped. Each reading of the clock has its own number.
\<close>

section \<open>Providers as the dispatcher sees them\<close>

record SendRequest =
  sr_NotificationID :: uuid
  sr_Subject :: string
  sr_Body :: string
  sr_Metadata :: RawMessage
  sr_FormatMode :: string

record SendResponse =
  rs_Success :: bool
  rs_ProviderMsgID :: string
  rs_ProviderData :: RawMessage
  rs_ErrorMessage :: string
  rs_Permanent :: bool

record Provider =
  pr_Type :: string
  pr_Send :: "RawMessage \<Rightarrow> SendRequest \<Rightarrow> goerr + SendResponse"
  pr_ValidateConfig :: "RawMessage \<Rightarrow> goerr option"

type_synonym Registry = "string \<rightharpoonup> Provider"

definition Register :: "Provider \<Rightarrow> Registry \<Rightarrow> Registry" where
  "Register p r = r(pr_Type p \<mapsto> p)"

definition Registry_Get :: "Registry \<Rightarrow> string \<Rightarrow> goerr + Provider" where
  "Registry_Get r channelType = (case r channelType of
     None \<Rightarrow> Inl (sentinel_with ErrUnsupportedChannel
       (''no provider registered for channel type: '' @ channelType))
   | Some p \<Rightarrow> Inr p)"

section \<open>One attempt\<close>

text \<open>What asynq and the clock supply to an attempt, and the identifiers it draws.\<close>

record attempt_ctx =
  ax_retried :: int
  ax_maxRetry :: int
  ax_clock :: "nat \<Rightarrow> time"
  ax_attemptID :: uuid
  ax_metricID :: uuid

definition buildSendRequest :: "NotificationDeliverPayload \<Rightarrow> ChannelConfig \<Rightarrow> SendRequest" where
  "buildSendRequest p channelCfg =
     (let prefs = (case cc_DeliveryPrefs channelCfg of None \<Rightarrow> p_DeliveryPrefs p | Some dp \<Rightarrow> Some dp)
      in \<lparr>sr_NotificationID = p_NotificationID p, sr_Subject = p_Subject p, sr_Body = p_Body p,
          sr_Metadata = p_Metadata p,
          sr_FormatMode = (case prefs of None \<Rightarrow> [] | Some dp \<Rightarrow>
             if dp_FormatMode dp \<noteq> [] then dp_FormatMode dp else [])\<rparr>)"

definition emit_params :: "NotificationDeliverPayload \<Rightarrow> WebhookEventType \<Rightarrow> int \<Rightarrow> EmitParams" where
  "emit_params p eventType attempts =
     \<lparr>em_TenantID = p_TenantID p, em_NotificationID = p_NotificationID p,
      em_ChannelConfigID = p_ChannelConfigID p, em_Channel = p_ChannelType p,
      em_EventType = eventType, em_Attempts = attempts, em_Metadata = p_Metadata p\<rparr>"

text \<open>The emitter's error is logged and dropped.\<close>

definition emitTerminalEvent :: "(EmitParams \<Rightarrow> 'a world_scheme \<Rightarrow> goerr option \<times> 'a world_scheme) \<Rightarrow>
    NotificationDeliverPayload \<Rightarrow> WebhookEventType \<Rightarrow> int \<Rightarrow> 'a world_scheme \<Rightarrow> 'a world_scheme" where
  "emitTerminalEvent emit p eventType attempts w = snd (emit (emit_params p eventType attempts) w)"

definition handleDeliveryError :: "attempt_ctx \<Rightarrow> DeliveryAttempt \<Rightarrow> uuid \<Rightarrow> goerr \<Rightarrow> 'a world_scheme \<Rightarrow>
    goerr option \<times> 'a world_scheme" where
  "handleDeliveryError ax attempt notifID err w =
     (let errMsg = err_msg err;
          attempt' = attempt\<lparr>da_Status := AttemptFailure, da_ErrorMessage := Some errMsg\<rparr>;
          w1 = snd (on_db (Attempt_Create attempt') w);
          w2 = snd (on_db (IncrementRetry notifID errMsg (ax_clock ax 4)) w1);
          w3 = snd (on_db (UpdateStatus notifID StatusRetrying (Some errMsg) (ax_clock ax 5)) w2)
      in (Some err, w3))"

definition handlePermanentProviderFailure ::
    "(EmitParams \<Rightarrow> 'a world_scheme \<Rightarrow> goerr option \<times> 'a world_scheme) \<Rightarrow> attempt_ctx \<Rightarrow>
     NotificationDeliverPayload \<Rightarrow> SendResponse \<Rightarrow> int \<Rightarrow> 'a world_scheme \<Rightarrow> goerr option \<times> 'a world_scheme" where
  "handlePermanentProviderFailure emit ax p resp attemptNumber w =
     (let w1 = snd (on_db (IncrementRetry (p_NotificationID p) (rs_ErrorMessage resp) (ax_clock ax 4)) w);
          w2 = snd (on_db (UpdateStatus (p_NotificationID p) StatusFailed (Some (rs_ErrorMessage resp)) (ax_clock ax 5)) w1);
          w3 = emitTerminalEvent emit p WebhookEventFailed attemptNumber w2
      in (Some (wrap (''provider error: '' @ rs_ErrorMessage resp @ '': '') (sentinel_err SkipRetry) []), w3))"

definition handleProviderFailure ::
    "(EmitParams \<Rightarrow> 'a world_scheme \<Rightarrow> goerr option \<times> 'a world_scheme) \<Rightarrow> attempt_ctx \<Rightarrow> DeliveryAttempt \<Rightarrow>
     NotificationDeliverPayload \<Rightarrow> SendResponse \<Rightarrow> int \<Rightarrow> 'a world_scheme \<Rightarrow> goerr option \<times> 'a world_scheme" where
  "handleProviderFailure emit ax attempt p resp attemptNumber w =
     (let attempt' = attempt\<lparr>da_Status := AttemptFailure, da_ErrorMessage := Some (rs_ErrorMessage resp),
            da_ProviderResponse := rs_ProviderData resp\<rparr>;
          w1 = snd (on_db (Attempt_Create attempt') w)
      in if rs_Permanent resp then handlePermanentProviderFailure emit ax p resp attemptNumber w1
         else
           (let w2 = snd (on_db (IncrementRetry (p_NotificationID p) (rs_ErrorMessage resp) (ax_clock ax 4)) w1);
                w3 = snd (on_db (UpdateStatus (p_NotificationID p) StatusRetrying (Some (rs_ErrorMessage resp)) (ax_clock ax 5)) w2)
            in (Some (plain_error (''provider error: '' @ rs_ErrorMessage resp)), w3)))"

definition createInitialDeliveryMetric :: "attempt_ctx \<Rightarrow> uuid \<Rightarrow> string \<Rightarrow> 'a world_scheme \<Rightarrow> 'a world_scheme" where
  "createInitialDeliveryMetric ax notifID providerMsgID w =
     snd (on_db (Metric_Upsert \<lparr>dm_ID = ax_metricID ax, dm_NotificationID = notifID,
       dm_ProviderMsgID = providerMsgID, dm_DeliveredAt = None, dm_ReadAt = None, dm_Interactions = None,
       dm_CollectedAt = ax_clock ax 6\<rparr>) w)"

definition recordSuccessfulDelivery ::
    "(EmitParams \<Rightarrow> 'a world_scheme \<Rightarrow> goerr option \<times> 'a world_scheme) \<Rightarrow> attempt_ctx \<Rightarrow> DeliveryAttempt \<Rightarrow>
     NotificationDeliverPayload \<Rightarrow> SendResponse \<Rightarrow> int \<Rightarrow> 'a world_scheme \<Rightarrow> 'a world_scheme" where
  "recordSuccessfulDelivery emit ax attempt p resp attemptNumber w =
     (let attempt' = attempt\<lparr>da_Status := AttemptSuccess, da_ProviderResponse := rs_ProviderData resp\<rparr>;
          w1 = snd (on_db (Attempt_Create attempt') w);
          w2 = snd (on_db (MarkDelivered (p_NotificationID p) (ax_clock ax 4)) w1);
          w3 = (if rs_ProviderMsgID resp \<noteq> [] then
                  (let w' = snd (on_db (SetProviderMsgID (p_NotificationID p) (rs_ProviderMsgID resp) (ax_clock ax 5)) w2)
                   in createInitialDeliveryMetric ax (p_NotificationID p) (rs_ProviderMsgID resp) w')
                else w2)
      in emitTerminalEvent emit p WebhookEventDelivered attemptNumber w3)"

definition new_attempt :: "attempt_ctx \<Rightarrow> uuid \<Rightarrow> int \<Rightarrow> DeliveryAttempt" where
  "new_attempt ax notifID attemptNumber =
     \<lparr>da_ID = ax_attemptID ax, da_NotificationID = notifID, da_AttemptNumber = attemptNumber, da_Status = [],
      da_ProviderResponse = None, da_ErrorMessage = None,
      da_DurationMs = (ax_clock ax 2 - ax_clock ax 1) sdiv 1000000, da_AttemptedAt = ax_clock ax 3\<rparr>"

definition HandleNotificationDeliver ::
    "(EmitParams \<Rightarrow> 'a world_scheme \<Rightarrow> goerr option \<times> 'a world_scheme) \<Rightarrow> Registry \<Rightarrow> attempt_ctx \<Rightarrow> Task \<Rightarrow>
     'a world_scheme \<Rightarrow> goerr option \<times> 'a world_scheme" where
  "HandleNotificationDeliver emit registry ax t w =
     (case unmarshal_deliver (tk_Body t) of
        Inl err \<Rightarrow> (Some (wrap2 ''unmarshal payload: '' err '': '' (sentinel_err SkipRetry)), w)
      | Inr p \<Rightarrow>
          (let attemptNumber = ax_retried ax + 1;
               w1 = snd (on_db (UpdateStatus (p_NotificationID p) StatusProcessing None (ax_clock ax 0)) w)
           in case on_db (Channel_GetByID (p_ChannelConfigID p)) w1 of
                (Inl err, w2) \<Rightarrow> (Some (wrap2 ''fetch channel config: '' err '': '' (sentinel_err SkipRetry)), w2)
              | (Inr channelCfg, w2) \<Rightarrow>
                  (case Registry_Get registry (p_ChannelType p) of
                     Inl err \<Rightarrow> (Some (wrap2 ''no provider: '' err '': '' (sentinel_err SkipRetry)), w2)
                   | Inr prov \<Rightarrow>
                       (let attempt = new_attempt ax (p_NotificationID p) attemptNumber
                        in case pr_Send prov (cc_Config channelCfg) (buildSendRequest p channelCfg) of
                             Inl err \<Rightarrow> handleDeliveryError ax attempt (p_NotificationID p) err w2
                           | Inr resp \<Rightarrow>
                               if \<not> rs_Success resp
                               then handleProviderFailure emit ax attempt p resp attemptNumber w2
                               else (None, recordSuccessfulDelivery emit ax attempt p resp attemptNumber w2)))))"

section \<open>The error handler\<close>

definition handleNotificationRetriesExhausted ::
    "(EmitParams \<Rightarrow> 'a world_scheme \<Rightarrow> goerr option \<times> 'a world_scheme) \<Rightarrow> attempt_ctx \<Rightarrow> Task \<Rightarrow> goerr \<Rightarrow>
     'a world_scheme \<Rightarrow> 'a world_scheme" where
  "handleNotificationRetriesExhausted emit ax t err w =
     (case unmarshal_deliver (tk_Body t) of
        Inl _ \<Rightarrow> w
      | Inr p \<Rightarrow>
          (let w1 = snd (on_db (UpdateStatus (p_NotificationID p) StatusFailed (Some (err_msg err)) (ax_clock ax 7)) w)
           in if errors_Is err SkipRetry then w1
              else snd (emit (emit_params p WebhookEventFailed (ax_retried ax + 1)) w1)))"

text \<open>For a webhook event that ran out of retries the handler only writes a log line.\<close>

definition HandleError ::
    "(EmitParams \<Rightarrow> 'a world_scheme \<Rightarrow> goerr option \<times> 'a world_scheme) \<Rightarrow> attempt_ctx \<Rightarrow> Task \<Rightarrow> goerr \<Rightarrow>
     'a world_scheme \<Rightarrow> 'a world_scheme" where
  "HandleError emit ax t err w =
     (if ax_retried ax < ax_maxRetry ax then w
      else if tk_Type t = TypeNotificationDeliver then handleNotificationRetriesExhausted emit ax t err w
      else w)"

section \<open>A task over its attempts\<close>

text \<open>
  asynq runs the handler with the retry count; on an error it calls the error handler and then
  archives the task when the retries are used up or the error is \<^verbatim>\<open>SkipRetry\<close>, and schedules the next
  attempt otherwise. A negative \<^verbatim>\<open>MaxRetry\<close> counts as zero. Providers and clocks may differ between
  attempts.
\<close>

datatype fate = Completed | Archived

definition max_retry :: "Task \<Rightarrow> nat" where
  "max_retry t = nat (tk_MaxRetry t)"

definition attempt_of :: "(nat \<Rightarrow> attempt_ctx) \<Rightarrow> Task \<Rightarrow> nat \<Rightarrow> attempt_ctx" where
  "attempt_of axs t k = (axs k)\<lparr>ax_retried := int k, ax_maxRetry := int (max_retry t)\<rparr>"

function run_task ::
    "(EmitParams \<Rightarrow> 'a world_scheme \<Rightarrow> goerr option \<times> 'a world_scheme) \<Rightarrow> (nat \<Rightarrow> Registry) \<Rightarrow>
     (nat \<Rightarrow> attempt_ctx) \<Rightarrow> Task \<Rightarrow> nat \<Rightarrow> 'a world_scheme \<Rightarrow> fate \<times> 'a world_scheme" where
  "run_task emit regs axs t k w =
     (case HandleNotificationDeliver emit (regs k) (attempt_of axs t k) t w of
        (None, w1) \<Rightarrow> (Completed, w1)
      | (Some err, w1) \<Rightarrow>
          (let w2 = HandleError emit (attempt_of axs t k) t err w1
           in if k \<ge> max_retry t \<or> errors_Is err SkipRetry then (Archived, w2)
              else run_task emit regs axs t (Suc k) w2))"
  by pat_completeness auto

termination run_task
  by (relation "measure (\<lambda>(emit, regs, axs, t, k, w). max_retry t - k)") auto

declare run_task.simps [simp del]

end
