(* ===== verification/Task_Laws.thy ===== *)
theory Task_Laws
  imports Tasks Repository_Specs
begin

text \<open>
  Properties of the queue layer: what a payload becomes on its way through the queue, and the bounds
  of the two retry-delay curves.
\<close>

section \<open>Payload round trips\<close>

lemma prefs_members_json:
  assumes "\<And>n. dp_MaxRetries dp = Some n \<Longrightarrow> fits64 n" and "prefs_json dp = JObj ms"
  shows "prefs_members ms empty_prefs = Some dp"
  using assms by (cases dp; cases "dp_MaxRetries dp") (auto simp: prefs_json_def empty_prefs_def)

lemma unmarshal_prefs_ptr_json:
  assumes "\<And>dp n. p = Some dp \<Longrightarrow> dp_MaxRetries dp = Some n \<Longrightarrow> fits64 n"
  shows "unmarshal_prefs_ptr (map_option prefs_json p) = Inr p"
proof (cases p)
  case (Some dp)
  obtain ms where ms: "prefs_json dp = JObj ms" by (simp add: prefs_json_def)
  with prefs_members_json [OF _ ms] assms Some show ?thesis by (simp add: unmarshal_prefs_ptr_def)
qed (simp add: unmarshal_prefs_ptr_def)

lemma deliver_wire:
  assumes "\<forall>dp n. p_DeliveryPrefs p = Some dp \<longrightarrow> dp_MaxRetries dp = Some n \<longrightarrow> fits64 n"
  shows "unmarshal_deliver (tk_Body (NewNotificationDeliverTask L p opts)) =
    Inr (p\<lparr>p_Metadata := Some (case p_Metadata p of None \<Rightarrow> JNull | Some v \<Rightarrow> v)\<rparr>)"
proof -
  have "unmarshal_prefs_ptr (map_option prefs_json (p_DeliveryPrefs p)) = Inr (p_DeliveryPrefs p)"
    by (rule unmarshal_prefs_ptr_json) (use assms in blast)
  then show ?thesis
    by (cases p)
      (simp add: NewNotificationDeliverTask_def Let_def marshal_deliver_def unmarshal_deliver_def split: option.split)
qed

text \<open>
  A delivery payload survives the queue, preferences included, in every field but one: absent
  metadata arrives at the worker as the JSON text \<^verbatim>\<open>null\<close>, which is not nil.
\<close>

theorem deliver_payload_roundtrip:
  assumes "\<forall>dp n. p_DeliveryPrefs p = Some dp \<longrightarrow> dp_MaxRetries dp = Some n \<longrightarrow> fits64 n"
  shows "unmarshal_deliver (tk_Body (NewNotificationDeliverTask L p opts)) =
    Inr (p\<lparr>p_Metadata := Some (case p_Metadata p of None \<Rightarrow> JNull | Some v \<Rightarrow> v)\<rparr>)"
  using assms by (rule deliver_wire)

definition demo_payload :: NotificationDeliverPayload where
  "demo_payload = \<lparr>p_NotificationID = 100, p_TenantID = 1, p_ChannelType = ''slack'', p_ChannelConfigID = 10,
     p_Subject = [], p_Body = ''disk full'', p_Metadata = None, p_DeliveryPrefs = None\<rparr>"

theorem deliver_payload_roundtrip_witness:
  "\<forall>L. unmarshal_deliver (tk_Body (NewNotificationDeliverTask L demo_payload [5])) =
     Inr (demo_payload\<lparr>p_Metadata := Some JNull\<rparr>)"
proof
  fix L
  show "unmarshal_deliver (tk_Body (NewNotificationDeliverTask L demo_payload [5])) =
     Inr (demo_payload\<lparr>p_Metadata := Some JNull\<rparr>)"
    using deliver_payload_roundtrip [of demo_payload L "[5]"] by (simp add: demo_payload_def)
qed

section \<open>Retry delays\<close>

lemma shl1_small: "0 \<le> n \<Longrightarrow> n < 63 \<Longrightarrow> shl1 n = 2 ^ nat n"
proof -
  assume n: "0 \<le> n" "n < 63"
  have "(2::int) ^ nat n < 2 ^ 63" by (rule power_strict_increasing) (use n in auto)
  moreover have "(0::int) \<le> 2 ^ nat n" by simp
  ultimately have "fits64 (2 ^ nat n)" unfolding fits64_def by linarith
  then show ?thesis using n by (simp add: shl1_def wrap64_id)
qed

lemma pow2_le: "0 \<le> n \<Longrightarrow> n \<le> int k \<Longrightarrow> (2::int) ^ nat n \<le> 2 ^ k"
  by (rule power_increasing) auto

lemma scaled_fits:
  assumes "0 \<le> n" and "n \<le> int k" and "k < 63" and "0 \<le> d" and "d * 2 ^ k < 2 ^ 63"
  shows "wrap64 (d * shl1 n) = d * 2 ^ nat n"
proof -
  have "d * 2 ^ nat n \<le> d * 2 ^ k" using assms pow2_le by (simp add: mult_left_mono)
  then have "fits64 (d * 2 ^ nat n)" using assms(4,5) unfolding fits64_def
    by (smt (verit) zero_le_mult_iff zero_le_power)
  moreover have "shl1 n = 2 ^ nat n" using assms by (intro shl1_small) auto
  ultimately show ?thesis by (simp add: wrap64_id)
qed

lemma cap_min: "(if (x::int) > m then m else x) = min x m"
  by (simp add: min_def)

definition draws :: "(int \<Rightarrow> int) \<Rightarrow> bool" where
  "draws rnd \<longleftrightarrow> (\<forall>k > 0. 0 \<le> rnd k \<and> rnd k < k)"

lemma jitter_bounds: "draws rnd \<Longrightarrow> 0 < base \<Longrightarrow> 0 \<le> jitter rnd base \<and> 5 * jitter rnd base \<le> base"
proof -
  assume d: "draws rnd" and b: "0 < base"
  have s: "base sdiv 5 = base div 5" using b by (simp add: signed_divide_int_def)
  show ?thesis
  proof (cases "base div 5 \<le> 0")
    case True
    then show ?thesis using b s by (simp add: jitter_def)
  next
    case False
    then have "0 \<le> rnd (base div 5)" "rnd (base div 5) < base div 5" using d by (auto simp: draws_def)
    moreover have "5 * (base div 5) \<le> base" by simp
    ultimately show ?thesis using False s by (simp add: jitter_def)
  qed
qed

text \<open>
  The webhook-event backoff: for every retry up to the 26th the delay is at least the doubling
  curve capped at two hours, and no delay ever exceeds two hours.
\<close>

theorem WebhookEventRetryDelay_bounds:
  assumes "draws rnd" and "0 \<le> n" and "n \<le> 26"
  shows "min (2 * minute_ns * 2 ^ nat n) (2 * hour_ns) \<le> WebhookEventRetryDelay rnd n \<and>
    WebhookEventRetryDelay rnd n \<le> 2 * hour_ns"
proof -
  let ?b0 = "2 * minute_ns * 2 ^ nat n"
  define b where "b = min ?b0 (2 * hour_ns)"
  have b0: "wrap64 (webhookEventMinRetryDelay * shl1 n) = ?b0"
    unfolding webhookEventMinRetryDelay_def
    by (rule scaled_fits [where k = 26]) (use assms in \<open>simp_all add: duration_defs\<close>)
  have pos: "0 < b" "b \<le> 2 * hour_ns" by (simp_all add: b_def duration_defs)
  note j = jitter_bounds [OF assms(1) pos(1)]
  then have "fits64 (b + jitter rnd b)" using pos by (simp add: fits64_def duration_defs)
  then have w: "wrap64 (b + jitter rnd b) = b + jitter rnd b" by (rule wrap64_id)
  have capped: "(if ?b0 > 2 * hour_ns then 2 * hour_ns else ?b0) = b"
    unfolding b_def by (rule cap_min)
  have "WebhookEventRetryDelay rnd n = min (b + jitter rnd b) (2 * hour_ns)"
    unfolding WebhookEventRetryDelay_def Let_def b0 webhookEventMaxRetryDelay_def capped w
    by (simp add: min_def)
  then show ?thesis using j pos by (simp add: b_def)
qed

theorem WebhookEventRetryDelay_bounds_witness:
  "2 * minute_ns * 2 ^ 3 \<le> WebhookEventRetryDelay (\<lambda>k. k - 1) 3 \<and> WebhookEventRetryDelay (\<lambda>k. k - 1) 3 \<le> 2 * hour_ns"
proof -
  have "draws (\<lambda>k. k - 1)" by (simp add: draws_def)
  from WebhookEventRetryDelay_bounds [OF this, of 3] show ?thesis by (simp add: duration_defs)
qed

text \<open>
  Without jitter the eight retries of a webhook event wait 21960 seconds in all, the six hours the
  comment on the constants promises.
\<close>

theorem webhook_retries_span_six_hours:
  "(\<Sum>n \<leftarrow> [0..webhookEventMaxRetry - 1]. WebhookEventRetryDelay (\<lambda>_. 0) n) = 21960 * second_ns"
  by code_simp

text \<open>
  The notification backoff with the default configuration (15 s doubling to a cap of 30 min):
  retries 0 to 29 wait at least the capped curve and less than six fifths of it, but at the 30th
  retry the doubling has wrapped around to a negative base and drawing the jitter panics.
\<close>

theorem defaultRetryDelay_range:
  assumes "draws rnd"
  shows "(\<forall>n \<in> {0..29}. \<exists>d. defaultRetryDelay (15 * second_ns) (30 * minute_ns) rnd n = Some d \<and>
      min (15 * second_ns * 2 ^ nat n) (30 * minute_ns) \<le> d \<and>
      5 * d < 6 * min (15 * second_ns * 2 ^ nat n) (30 * minute_ns)) \<and>
    defaultRetryDelay (15 * second_ns) (30 * minute_ns) rnd 30 = None"
proof (intro conjI ballI)
  fix n :: int assume "n \<in> {0..29}"
  then have n: "0 \<le> n" "n \<le> 29" by auto
  let ?b0 = "15 * second_ns * 2 ^ nat n"
  define b where "b = min ?b0 (30 * minute_ns)"
  have b0: "wrap64 (15 * second_ns * shl1 n) = ?b0"
    by (rule scaled_fits [where k = 29]) (use n in \<open>simp_all add: duration_defs\<close>)
  have "15 * second_ns \<le> ?b0" by (simp add: second_ns_def)
  then have pos: "5 \<le> b" "b \<le> 30 * minute_ns" unfolding b_def minute_ns_def second_ns_def by linarith+
  have capped: "(if ?b0 > 30 * minute_ns then 30 * minute_ns else ?b0) = b"
    unfolding b_def by (rule cap_min)
  have s: "b sdiv 5 = b div 5" using pos by (simp add: signed_divide_int_def)
  have f: "0 < b div 5" using pos by (simp add: pos_imp_zdiv_pos_iff)
  have r: "0 \<le> rnd (b div 5)" "rnd (b div 5) < b div 5" using assms f by (auto simp: draws_def)
  have m: "5 * (b div 5) \<le> b" by simp
  have "fits64 (b + rnd (b div 5))" using pos r m by (simp add: fits64_def duration_defs)
  then have "defaultRetryDelay (15 * second_ns) (30 * minute_ns) rnd n = Some (b + rnd (b div 5))"
    unfolding defaultRetryDelay_def Let_def b0 capped s using f by (simp add: wrap64_id)
  then show "\<exists>d. defaultRetryDelay (15 * second_ns) (30 * minute_ns) rnd n = Some d \<and>
      min ?b0 (30 * minute_ns) \<le> d \<and> 5 * d < 6 * min ?b0 (30 * minute_ns)"
    using r m by (auto simp: b_def [symmetric])
next
  show "defaultRetryDelay (15 * second_ns) (30 * minute_ns) rnd 30 = None"
    by (simp add: defaultRetryDelay_def Let_def shl1_def wrap64_def duration_defs signed_divide_int_def)
qed

theorem defaultRetryDelay_range_witness:
  "defaultRetryDelay (15 * second_ns) (30 * minute_ns) (\<lambda>k. k - 1) 30 = None"
proof -
  have "draws (\<lambda>k. k - 1)" by (simp add: draws_def)
  from defaultRetryDelay_range [OF this] show ?thesis by blast
qed

end
