(* ===== verification/Delivery_Specs.thy ===== *)
theory Delivery_Specs
  imports Dispatcher_Laws
begin

text \<open>
  The delivery properties, stated for the real emitter where the effects of an attempt are concerned
  and for an arbitrary emitter under observation where emissions are counted.
\<close>

section \<open>Observing the emitter\<close>

record observed = world +
  ob_emitted :: "EmitParams list"

definition recording :: "(EmitParams \<Rightarrow> observed \<Rightarrow> goerr option \<times> observed) \<Rightarrow> EmitParams \<Rightarrow> observed \<Rightarrow>
    goerr option \<times> observed" where
  "recording emit p w = (case emit p w of (r, w') \<Rightarrow> (r, w'\<lparr>ob_emitted := ob_emitted w' @ [p]\<rparr>))"

lemma ob_emitted_more: "world.more w' = world.more w \<Longrightarrow> ob_emitted w' = ob_emitted w"
  by (cases w; cases w') simp

lemma ob_emitted_on_db [simp]: "ob_emitted (snd (on_db f w)) = ob_emitted w"
  by (rule ob_emitted_more) simp

lemma ob_emitted_recording:
  assumes "terminal_emitter emit"
  shows "ob_emitted (snd (recording emit p w)) = ob_emitted w @ [p]"
  using ob_emitted_more [OF terminal_emitter.emit_more [OF assms, of p w]]
  by (cases "emit p w") (simp add: recording_def)

lemma on_db_snd: "on_db f w = (r, w') \<Longrightarrow> ob_emitted w' = ob_emitted w"
  by (metis ob_emitted_on_db snd_conv)

lemma deliver_records:
  assumes "terminal_emitter emit" and "HandleNotificationDeliver (recording emit) reg ax t w = (r, w')"
  shows "case r of
      None \<Rightarrow> \<exists>p. unmarshal_deliver (tk_Body t) = Inr p \<and>
        ob_emitted w' = ob_emitted w @ [emit_params p WebhookEventDelivered (ax_retried ax + 1)]
    | Some err \<Rightarrow> ob_emitted w' = ob_emitted w \<or> (errors_Is err SkipRetry \<and>
        (\<exists>p. unmarshal_deliver (tk_Body t) = Inr p \<and>
           ob_emitted w' = ob_emitted w @ [emit_params p WebhookEventFailed (ax_retried ax + 1)]))"
proof (cases "unmarshal_deliver (tk_Body t)")
  case (Inl e)
  then show ?thesis using assms(2) by (auto simp: HandleNotificationDeliver_def)
next
  case (Inr p)
  let ?w1 = "snd (on_db (UpdateStatus (p_NotificationID p) StatusProcessing None (ax_clock ax 0)) w)"
  obtain x w2 where c: "on_db (Channel_GetByID (p_ChannelConfigID p)) ?w1 = (x, w2)" by (meson surj_pair)
  then have w2: "ob_emitted w2 = ob_emitted w" using on_db_snd by fastforce
  note rec = ob_emitted_recording [OF assms(1)]
  show ?thesis
    using assms(2) c w2 Inr
    unfolding HandleNotificationDeliver_def handleDeliveryError_def handleProviderFailure_def
      handlePermanentProviderFailure_def recordSuccessfulDelivery_def emitTerminalEvent_def
      createInitialDeliveryMetric_def Let_def
    by (auto split: sum.splits if_splits simp: rec)
qed

lemma HandleError_records:
  assumes "terminal_emitter emit" and "tk_Type t = TypeNotificationDeliver"
  shows "ob_emitted (HandleError (recording emit) ax t err w) = ob_emitted w @
    (if ax_retried ax < ax_maxRetry ax \<or> errors_Is err SkipRetry then []
     else (case unmarshal_deliver (tk_Body t) of Inl _ \<Rightarrow> []
           | Inr p \<Rightarrow> [emit_params p WebhookEventFailed (ax_retried ax + 1)]))"
  using assms(2) by (auto simp: HandleError_def handleNotificationRetriesExhausted_def Let_def
      ob_emitted_recording [OF assms(1)] split: sum.splits)

lemma run_records:
  assumes "terminal_emitter emit" and "tk_Type t = TypeNotificationDeliver"
    and "run_task (recording emit) regs axs t k w = (fate, w')" and "k \<le> max_retry t"
  shows "case fate of
      Completed \<Rightarrow> \<exists>p j. unmarshal_deliver (tk_Body t) = Inr p \<and> k \<le> j \<and> j \<le> max_retry t \<and>
        ob_emitted w' = ob_emitted w @ [emit_params p WebhookEventDelivered (int j + 1)]
    | Archived \<Rightarrow> ob_emitted w' = ob_emitted w \<or>
        (\<exists>p j. unmarshal_deliver (tk_Body t) = Inr p \<and> k \<le> j \<and> j \<le> max_retry t \<and>
           ob_emitted w' = ob_emitted w @ [emit_params p WebhookEventFailed (int j + 1)])"
  using assms(3,4)
proof (induction "max_retry t - k" arbitrary: k w)
  case (0 k w)
  then have k: "k = max_retry t" by simp
  obtain r w1 where d: "HandleNotificationDeliver (recording emit) (regs k) (attempt_of axs t k) t w = (r, w1)"
    by (meson surj_pair)
  note dr = deliver_records [OF assms(1) d]
  show ?case
  proof (cases r)
    case None
    then have "fate = Completed" "w' = w1"
      using 0(2) d unfolding run_task.simps [of _ regs axs t k w] by simp_all
    then show ?thesis using dr None k by auto
  next
    case (Some err)
    then have "fate = Archived" "w' = HandleError (recording emit) (attempt_of axs t k) t err w1"
      using 0(2) d k unfolding run_task.simps [of _ regs axs t k w] by simp_all
    then show ?thesis
      using dr Some k HandleError_records [OF assms(1,2), of "attempt_of axs t k" err w1]
      by (auto split: if_splits sum.splits)
  qed
next
  case (Suc x k w)
  then have k: "k < max_retry t" by linarith
  obtain r w1 where d: "HandleNotificationDeliver (recording emit) (regs k) (attempt_of axs t k) t w = (r, w1)"
    by (meson surj_pair)
  note dr = deliver_records [OF assms(1) d]
  show ?case
  proof (cases r)
    case None
    then have "fate = Completed" "w' = w1"
      using Suc(3) d unfolding run_task.simps [of _ regs axs t k w] by simp_all
    then show ?thesis using dr None k by (auto intro!: exI [of _ k])
  next
    case (Some err)
    have h: "HandleError (recording emit) (attempt_of axs t k) t err w1 = w1" using k by (simp add: HandleError_def)
    show ?thesis
    proof (cases "errors_Is err SkipRetry")
      case True
      then have "fate = Archived" "w' = w1"
        using Suc(3) d h Some unfolding run_task.simps [of _ regs axs t k w] by simp_all
      then show ?thesis using dr Some True k by (auto intro!: exI [of _ k])
    next
      case False
      then have e: "ob_emitted w1 = ob_emitted w" using dr Some by simp
      have "run_task (recording emit) regs axs t (Suc k) w1 = (fate, w')"
        using Suc(3) d h Some False k unfolding run_task.simps [of _ regs axs t k w] by simp
      moreover have "x = max_retry t - Suc k" "Suc k \<le> max_retry t" using Suc(2) k by simp_all
      ultimately show ?thesis using Suc(1) [of "Suc k" w1] e
        by (auto split: fate.splits) (metis Suc_leD)+
    qed
  qed
qed

section \<open>Effects of an attempt\<close>

text \<open>
  A reachable broker as asynq documents it: a task is refused exactly when its queue already holds one with the
  same \<^verbatim>\<open>TaskID\<close> (\<^verbatim>\<open>ErrTaskIDConflict\<close>).
\<close>

definition asynq_broker :: "lib \<Rightarrow> bool" where
  "asynq_broker L \<longleftrightarrow> (\<forall>q t. lib_enqueue L q t = None \<longleftrightarrow>
     \<not> (\<exists>t' \<in> set q. tk_Queue t' = tk_Queue t \<and> tk_TaskID t' = tk_TaskID t))"

text \<open>The webhook queue already holds the task of this event for this endpoint.\<close>

definition event_queued :: "lib \<Rightarrow> uuid \<Rightarrow> WebhookEventType \<Rightarrow> Task list \<Rightarrow> WebhookEndpoint \<Rightarrow> bool" where
  "event_queued L notifID ev q ep \<longleftrightarrow> (\<exists>t \<in> set q. tk_Queue t = ''webhooks'' \<and>
     tk_TaskID t = ''webhookevent:'' @ webhookEventID L notifID ev @ '':'' @ lib_uuid_String L (we_ID ep))"

lemma event_task_id [simp]:
  "tk_TaskID (event_task L params now ep) =
     ''webhookevent:'' @ webhookEventID L (em_NotificationID params) (em_EventType params) @ '':'' @ lib_uuid_String L (we_ID ep)"
  "tk_Queue (event_task L params now ep) = ''webhooks''"
  by (simp_all add: event_task_def NewWebhookEventTask_def buildWebhookEventTaskPayload_def queueWebhooks_def)

lemma offered_event:
  "asynq_broker L \<Longrightarrow> lib_enqueue L q (event_task L params now ep) = None \<longleftrightarrow>
     \<not> event_queued L (em_NotificationID params) (em_EventType params) q ep"
  by (simp add: asynq_broker_def event_queued_def)

lemma event_queued_append:
  "event_queued L i ev (q @ [t]) ep \<longleftrightarrow> event_queued L i ev q ep \<or> event_queued L i ev [t] ep"
  by (auto simp: event_queued_def)

text \<open>Endpoints with identifiers of their own do not stand in each other's way.\<close>

lemma accepted_broker:
  assumes "asynq_broker L" and "inj (lib_uuid_String L)"
  shows "distinct (map we_ID eps) \<Longrightarrow> accepted L params now eps q =
    filter (\<lambda>ep. \<not> event_queued L (em_NotificationID params) (em_EventType params) q ep) eps"
proof (induction eps arbitrary: q)
  case (Cons ep eps)
  have "event_queued L (em_NotificationID params) (em_EventType params) [event_task L params now ep] e \<longleftrightarrow> we_ID e = we_ID ep" for e
    using assms(2) by (auto simp: event_queued_def inj_eq)
  with Cons show ?case
    by (auto simp: offered_event [OF assms(1)] event_queued_append image_iff intro!: filter_cong)
qed simp

lemma Emit_fans_out:
  assumes "asynq_broker L" and "inj (lib_uuid_String L)" and "db_ok (w_db w)" and "db_faults (w_db w') = []"
    and "db_endpoints (w_db w') = db_endpoints (w_db w)" and "w_queue w' = w_queue w"
  shows "snd (Emit L now params w') = w'\<lparr>w_queue := w_queue w @ map (event_task L params now)
    (filter (\<lambda>ep. \<not> event_queued L (em_NotificationID params) (em_EventType params) (w_queue w) ep)
       (subscribers (w_db w) (em_TenantID params) (em_EventType params)))\<rparr>"
proof -
  let ?eps = "subscribers (w_db w) (em_TenantID params) (em_EventType params)"
  have eps: "subscribers (w_db w') (em_TenantID params) (em_EventType params) = ?eps"
    using assms(5) by (simp add: subscribers_def)
  have d: "distinct (map we_ID ?eps)"
    using assms(3) by (simp add: subscribers_def db_ok_def keys_ok_def distinct_map_filter)
  have "Emit L now params w' = emit_loop L params now ?eps None w'"
    using assms(4) eps by (simp add: Emit_def on_db_def ListActive_subscribers scan_rows_def)
  then show ?thesis using assms(6) accepted_broker [OF assms(1,2) d] by (simp add: emit_loop_world)
qed

lemma emit_params_sel [simp]:
  "em_TenantID (emit_params p ty k) = p_TenantID p" "em_EventType (emit_params p ty k) = ty"
  "em_NotificationID (emit_params p ty k) = p_NotificationID p"
  by (simp_all add: emit_params_def)

text \<open>
  C1. A successful attempt on a working database and a broker that refuses exactly the task identifiers it already
  holds: the handler reports no error; the notification's row becomes delivered with its delivery time (and the
  provider's message identifier when there is one); every active subscribed endpoint whose task for this event is not
  queued yet gets one delivered event, carrying the number of attempts made, and no other task is queued; and a success
  is appended to the attempts exactly when the provider gave no data or data that is JSON (\<open>raw_valid\<close>), since the
  insert fails on any other text and its error is only logged.
\<close>

theorem deliver_success:
  assumes "unmarshal_deliver (tk_Body t) = Inr p" and "deliverable ax p (w_db w)" and "db_ok (w_db w)"
    and "answer registry p (w_db w) = Some (Inr resp)" and "rs_Success resp"
    and "asynq_broker L" and "inj (lib_uuid_String L)"
  shows "case HandleNotificationDeliver (Emit L now) registry ax t w of (r, w') \<Rightarrow>
    r = None \<and>
    db_notifs (w_db w') = update_where (\<lambda>n. n_ID n = p_NotificationID p) (delivered_row ax resp) (db_notifs (w_db w)) \<and>
    db_attempts (w_db w') = db_attempts (w_db w) @
      (if raw_valid (rs_ProviderData resp) then [(new_attempt ax (p_NotificationID p) (ax_retried ax + 1))
         \<lparr>da_Status := AttemptSuccess, da_ProviderResponse := rs_ProviderData resp\<rparr>] else []) \<and>
    w_queue w' = w_queue w @ map (event_task L (emit_params p WebhookEventDelivered (ax_retried ax + 1)) now)
      (filter (\<lambda>ep. \<not> event_queued L (p_NotificationID p) WebhookEventDelivered (w_queue w) ep)
         (subscribers (w_db w) (p_TenantID p) WebhookEventDelivered))"
proof -
  obtain w3 where w3: "HandleNotificationDeliver (Emit L now) registry ax t w =
      (None, snd (Emit L now (emit_params p WebhookEventDelivered (ax_retried ax + 1)) w3))"
    "w_queue w3 = w_queue w" "db_faults (w_db w3) = []" "db_endpoints (w_db w3) = db_endpoints (w_db w)"
    "db_notifs (w_db w3) = update_where (\<lambda>n. n_ID n = p_NotificationID p) (delivered_row ax resp) (db_notifs (w_db w))"
    "db_attempts (w_db w3) = db_attempts (w_db w) @ recorded ((new_attempt ax (p_NotificationID p) (ax_retried ax + 1))
      \<lparr>da_Status := AttemptSuccess, da_ProviderResponse := rs_ProviderData resp\<rparr>)"
    using success_effect [OF assms(1,2,4,5), of "Emit L now"] by blast
  show ?thesis
    unfolding w3(1) Emit_fans_out [OF assms(6,7,3) w3(3,4,2)] using w3 by (simp add: recorded_def)
qed

text \<open>
  C2. A transient failure, by transport error or by a retryable answer of the provider: the handler
  returns an error that is not \<^verbatim>\<open>SkipRetry\<close>, so that asynq retries; the row is retrying with the error
  and one more retry, and no event is queued. The failure is appended to the attempts exactly when there is no
  response data (every transport error) or it is JSON; a retryable answer in any other format leaves no attempt row.
\<close>

theorem deliver_transient_failure:
  assumes "unmarshal_deliver (tk_Body t) = Inr p" and "deliverable ax p (w_db w)"
    and "answer registry p (w_db w) = Some a" and "transient a" and "failure_of a = Some (m, d)"
  shows "case HandleNotificationDeliver (Emit L now) registry ax t w of
      (None, _) \<Rightarrow> False
    | (Some err, w') \<Rightarrow> errors_Is err SkipRetry = False \<and>
        db_notifs (w_db w') = update_where (\<lambda>n. n_ID n = p_NotificationID p) (failed_row ax StatusRetrying m) (db_notifs (w_db w)) \<and>
        db_attempts (w_db w') = db_attempts (w_db w) @
          (if raw_valid d then [failed_attempt ax (p_NotificationID p) m d] else []) \<and>
        w_queue w' = w_queue w"
  using transient_effect [OF assms, of "Emit L now"] by (auto simp: recorded_def failed_attempt_def)

text \<open>
  C3. A permanent failure on a working database and a broker that refuses exactly the task identifiers it already
  holds: the handler returns \<^verbatim>\<open>SkipRetry\<close>, so that asynq gives up; the row is failed with the provider's message and
  the attempt is counted; every active subscribed endpoint whose task for this event is not queued yet gets one failed
  event, and no other task is queued. The failure is appended to the attempts exactly when the provider gave no data or
  data that is JSON; an answer in any other format leaves no attempt row.
\<close>

theorem deliver_permanent_failure:
  assumes "unmarshal_deliver (tk_Body t) = Inr p" and "deliverable ax p (w_db w)" and "db_ok (w_db w)"
    and "answer registry p (w_db w) = Some (Inr resp)" and "\<not> rs_Success resp" and "rs_Permanent resp"
    and "asynq_broker L" and "inj (lib_uuid_String L)"
  shows "case HandleNotificationDeliver (Emit L now) registry ax t w of
      (None, _) \<Rightarrow> False
    | (Some err, w') \<Rightarrow> errors_Is err SkipRetry \<and>
        db_notifs (w_db w') = update_where (\<lambda>n. n_ID n = p_NotificationID p)
          (failed_row ax StatusFailed (rs_ErrorMessage resp)) (db_notifs (w_db w)) \<and>
        db_attempts (w_db w') = db_attempts (w_db w) @ (if raw_valid (rs_ProviderData resp)
          then [failed_attempt ax (p_NotificationID p) (rs_ErrorMessage resp) (rs_ProviderData resp)] else []) \<and>
        w_queue w' = w_queue w @ map (event_task L (emit_params p WebhookEventFailed (ax_retried ax + 1)) now)
          (filter (\<lambda>ep. \<not> event_queued L (p_NotificationID p) WebhookEventFailed (w_queue w) ep)
             (subscribers (w_db w) (p_TenantID p) WebhookEventFailed))"
proof -
  let ?w3 = "w\<lparr>w_db := (set_notif (p_NotificationID p) (failed_row ax StatusFailed (rs_ErrorMessage resp)) (w_db w))
         \<lparr>db_attempts := db_attempts (w_db w) @
            recorded (failed_attempt ax (p_NotificationID p) (rs_ErrorMessage resp) (rs_ProviderData resp))\<rparr>\<rparr>"
  have f: "db_faults (w_db ?w3) = []" using assms(2) by (simp add: deliverable_def)
  have "db_endpoints (w_db ?w3) = db_endpoints (w_db w)" "w_queue ?w3 = w_queue w" by simp_all
  then show ?thesis
    using permanent_effect [OF assms(1,2,4-6), of "Emit L now"] Emit_fans_out [OF assms(7,8,3) f]
    by (auto simp: recorded_def failed_attempt_def)
qed

section \<open>Emissions over a whole task\<close>

text \<open>
  C4. At most one terminal event per task. Whatever the providers answer, whatever fails in the
  database and whatever the emitter itself returns, a completed task has emitted exactly one event, a
  delivered one, and an archived task at most one, a failed one; its attempt count is the number of
  attempts made.
\<close>

theorem at_most_one_terminal_event:
  assumes "terminal_emitter emit" and "tk_Type t = TypeNotificationDeliver"
    and "run_task (recording emit) regs axs t 0 w = (fate, w')"
  shows "\<exists>es. ob_emitted w' = ob_emitted w @ es \<and> length es \<le> 1 \<and>
    (\<forall>e \<in> set es. 1 \<le> em_Attempts e \<and> em_Attempts e \<le> int (max_retry t) + 1) \<and>
    (case fate of
       Completed \<Rightarrow> map em_EventType es = [WebhookEventDelivered]
     | Archived \<Rightarrow> set (map em_EventType es) \<subseteq> {WebhookEventFailed})"
proof -
  have "em_Attempts (emit_params p ty j) = j" for p ty j by (simp add: emit_params_def)
  with run_records [OF assms] show ?thesis by (cases fate) auto
qed

text \<open>
  C9. Retry exhaustion on a working database: when every attempt fails transiently with a
  response that can be stored the task is
  archived after its retries, the notification ends failed with one retry counted per attempt,
  the attempts are recorded as failures numbered in order, and exactly one failed event is emitted
  whose attempt count is the number of attempts made.
\<close>

theorem retries_exhausted:
  assumes "terminal_emitter emit" and "all_transient regs axs t p 0 (w_db w)"
  shows "case run_task (recording emit) regs axs t 0 w of (fate, w') \<Rightarrow>
    fate = Archived \<and>
    ob_emitted w' = ob_emitted w @ [emit_params p WebhookEventFailed (int (max_retry t) + 1)] \<and>
    (\<exists>n n'. find (\<lambda>n. n_ID n = p_NotificationID p) (db_notifs (w_db w)) = Some n \<and>
       find (\<lambda>n. n_ID n = p_NotificationID p) (db_notifs (w_db w')) = Some n' \<and>
       n_Status n' = StatusFailed \<and> n_RetryCount n' = n_RetryCount n + int (max_retry t) + 1) \<and>
    (\<exists>as. db_attempts (w_db w') = db_attempts (w_db w) @ as \<and>
       map da_AttemptNumber as = map (\<lambda>j. int j + 1) [0..<Suc (max_retry t)] \<and>
       (\<forall>a \<in> set as. da_Status a = AttemptFailure))"
proof -
  obtain w3 where run: "run_task (recording emit) regs axs t 0 w =
      (Archived, snd (recording emit (emit_params p WebhookEventFailed (int (max_retry t) + 1)) w3))"
    and ex: "exhausted t p 0 w w3"
    using run_exhausts [OF assms(2), of "recording emit"] by blast
  let ?w' = "snd (recording emit (emit_params p WebhookEventFailed (int (max_retry t) + 1)) w3)"
  have "w_db ?w' = w_db (snd (emit (emit_params p WebhookEventFailed (int (max_retry t) + 1)) w3))"
    by (simp add: recording_def split: prod.splits)
  then have t: "tables (w_db ?w') = tables (w_db w3)" using terminal_emitter.emit_tables [OF assms(1)] by metis
  have "ob_emitted w3 = ob_emitted w" using ex by (intro ob_emitted_more) (simp add: exhausted_def)
  then have "ob_emitted ?w' = ob_emitted w @ [emit_params p WebhookEventFailed (int (max_retry t) + 1)]"
    by (simp add: ob_emitted_recording [OF assms(1)])
  then show ?thesis
    unfolding run prod.case tables_eq_fields(5) [OF t] tables_eq_fields(6) [OF t]
    using ex by (auto simp: exhausted_def simp del: upt_Suc)
qed

text \<open>
  A failing lookup of the channel strands the notification: when the database call that fetches
  the channel configuration fails once, on an attempt that is not the last, the task is archived, the
  notification stays in processing, and no event is emitted.
\<close>

theorem channel_lookup_failure_strands:
  assumes "unmarshal_deliver (tk_Body t) = Inr p" and "db_faults (w_db w) = None # Some m # fs"
    and "find (\<lambda>n. n_ID n = p_NotificationID p) (db_notifs (w_db w)) = Some n" and "0 < max_retry t"
  shows "case run_task (recording emit) regs axs t 0 w of (fate, w') \<Rightarrow>
    fate = Archived \<and> ob_emitted w' = ob_emitted w \<and> w_queue w' = w_queue w \<and>
    (\<exists>n'. find (\<lambda>n. n_ID n = p_NotificationID p) (db_notifs (w_db w')) = Some n' \<and> n_Status n' = StatusProcessing)"
proof -
  let ?i = "p_NotificationID p"
  let ?ax = "attempt_of axs t 0"
  let ?db = "(set_notif ?i (status_set StatusProcessing None (ax_clock ?ax 0)) (w_db w))\<lparr>db_faults := fs\<rparr>"
  have u: "snd (on_db (UpdateStatus ?i StatusProcessing None (ax_clock ?ax 0)) w) =
      w\<lparr>w_db := (set_notif ?i (status_set StatusProcessing None (ax_clock ?ax 0)) (w_db w))\<lparr>db_faults := Some m # fs\<rparr>\<rparr>"
    using assms(2) by (simp add: snd_on_db UpdateStatus_def pg_call_def sql_update_notif_def set_notif_def)
  have "HandleNotificationDeliver (recording emit) (regs 0) ?ax t w =
      (Some (wrap2 ''fetch channel config: '' (dberr_go (ConnErr m)) '': '' (sentinel_err SkipRetry)), w\<lparr>w_db := ?db\<rparr>)"
    unfolding HandleNotificationDeliver_def assms(1) sum.case Let_def u
    by (simp add: on_db_def Channel_GetByID_def pg_query_def pg_call_def scan_row_def)
  moreover have "HandleError (recording emit) ?ax t err w1 = w1" for err w1
    using assms(4) by (simp add: HandleError_def)
  ultimately have "run_task (recording emit) regs axs t 0 w = (Archived, w\<lparr>w_db := ?db\<rparr>)"
    unfolding run_task.simps [of _ regs axs t 0 w] by simp
  then show ?thesis using assms(3) by (simp add: find_update_where_key status_set_def)
qed

text \<open>
  The event a subscriber receives for a notification sent without metadata carries the JSON
  literal \<^verbatim>\<open>null\<close>: the payload's nil metadata has become the text \<^verbatim>\<open>null\<close> on the queue, which the
  default for nil metadata does not replace.
\<close>

theorem event_metadata_null:
  assumes "p_Metadata p = None" and "p_DeliveryPrefs p = None"
    and "unmarshal_deliver (tk_Body (NewNotificationDeliverTask L p opts)) = Inr q"
  shows "ed_Metadata (ev_Data (etp_Event (buildWebhookEventTaskPayload L eid (emit_params q ty k) now))) = Some JNull"
  using assms by (auto simp: NewNotificationDeliverTask_def Let_def marshal_deliver_def unmarshal_deliver_def
      unmarshal_prefs_ptr_def buildWebhookEventTaskPayload_def defaultMetadata_def emit_params_def)

section \<open>Scenarios\<close>

text \<open>A worker with one provider, on the demonstration database.\<close>

definition demo_lib :: lib where
  "demo_lib = \<lparr>lib_uuid_String = (\<lambda>u. show_int (uint u)), lib_NewSHA1 = (\<lambda>ns s. 7),
     lib_enqueue = (\<lambda>q t. if \<exists>t' \<in> set q. tk_Queue t' = tk_Queue t \<and> tk_TaskID t' = tk_TaskID t
       then Some (plain_error ''task ID conflicts with another task'') else None)\<rparr>"

definition demo_task :: Task where
  "demo_task = NewNotificationDeliverTask demo_lib demo_payload [1]"

definition demo_ctx :: "nat \<Rightarrow> attempt_ctx" where
  "demo_ctx k = \<lparr>ax_retried = int k, ax_maxRetry = 1, ax_clock = (\<lambda>i. 50 + int i), ax_attemptID = 200 + of_nat k,
     ax_metricID = 300\<rparr>"

definition demo_provider :: "(goerr + SendResponse) \<Rightarrow> Registry" where
  "demo_provider a = [''slack'' \<mapsto> \<lparr>pr_Type = ''slack'', pr_Send = (\<lambda>_ _. a), pr_ValidateConfig = (\<lambda>_. None)\<rparr>]"

definition sent_ok :: SendResponse where
  "sent_ok = \<lparr>rs_Success = True, rs_ProviderMsgID = ''m1'', rs_ProviderData = None, rs_ErrorMessage = [], rs_Permanent = False\<rparr>"

definition rejected :: SendResponse where
  "rejected = \<lparr>rs_Success = False, rs_ProviderMsgID = [], rs_ProviderData = None, rs_ErrorMessage = ''no such channel'', rs_Permanent = True\<rparr>"

definition demo_world :: world where
  "demo_world = \<lparr>w_db = demo_db, w_queue = []\<rparr>"

definition demo_observed :: "string option list \<Rightarrow> observed" where
  "demo_observed fs = \<lparr>w_db = demo_db\<lparr>db_faults := fs\<rparr>, w_queue = [], ob_emitted = []\<rparr>"

definition received_payload :: NotificationDeliverPayload where
  "received_payload = demo_payload\<lparr>p_Metadata := Some JNull\<rparr>"

lemma demo_broker: "asynq_broker demo_lib"
  by (simp add: asynq_broker_def demo_lib_def)

text \<open>Decimal notation is one injective way to print an identifier.\<close>

lemma digits_inj: "digits m = digits n \<Longrightarrow> m = n"
proof (induction m arbitrary: n rule: digits.induct)
  case (1 m)
  have c: "x = y" if "x < 10" "y < 10" "char_of (48 + x) = (char_of (48 + y) :: char)" for x y :: nat
  proof -
    have "of_char (char_of (48 + x) :: char) = (of_char (char_of (48 + y) :: char) :: nat)" using that by simp
    then show ?thesis using that by (simp add: of_char_of)
  qed
  show ?case
  proof (cases "m < 10"; cases "n < 10")
    assume "m < 10" "n < 10"
    then show ?thesis using 1(2) c [of m n] by (simp add: digits.simps [of m] digits.simps [of n])
  next
    assume a: "\<not> m < 10" "\<not> n < 10"
    then have "digits (m div 10) = digits (n div 10)" "char_of (48 + m mod 10) = (char_of (48 + n mod 10) :: char)"
      using 1(2) by (simp_all add: digits.simps [of m] digits.simps [of n])
    then have "m div 10 = n div 10" "m mod 10 = n mod 10"
      using 1(1) a c [of "m mod 10" "n mod 10"] by simp_all
    then show ?thesis by (metis div_mult_mod_eq)
  next
    have ne: "digits k \<noteq> []" for k by (simp add: digits.simps [of k])
    assume "m < 10" "\<not> n < 10"
    then show ?thesis using 1(2) ne [of "n div 10"] by (simp add: digits.simps [of m] digits.simps [of n])
  next
    have ne: "digits k \<noteq> []" for k by (simp add: digits.simps [of k])
    assume "\<not> m < 10" "n < 10"
    then show ?thesis using 1(2) ne [of "m div 10"] by (simp add: digits.simps [of m] digits.simps [of n])
  qed
qed

lemma demo_lib_inj: "inj (lib_uuid_String demo_lib)"
proof (rule injI)
  fix u v :: uuid assume "lib_uuid_String demo_lib u = lib_uuid_String demo_lib v"
  then have "nat (uint u) = nat (uint v)"
    by (intro digits_inj) (simp add: demo_lib_def show_int_def)
  then show "u = v" by (simp add: word_unat_eq_iff)
qed

lemma demo_world_ok: "db_ok (w_db demo_world)"
  by (simp add: demo_world_def demo_db_ok)

lemma demo_unmarshal: "unmarshal_deliver (tk_Body demo_task) = Inr received_payload"
  by (simp add: demo_task_def received_payload_def demo_payload_def NewNotificationDeliverTask_def
      marshal_deliver_def unmarshal_deliver_def unmarshal_prefs_ptr_def Let_def)

lemma demo_deliverable:
  assumes "db_faults db = []" and "db_notifs db = db_notifs demo_db" and "db_attempts db = []"
  shows "deliverable (demo_ctx k) received_payload db = int4 (int k + 1)"
  using assms by (simp add: deliverable_def demo_ctx_def received_payload_def demo_payload_def demo_defs
      notif_ids_def int4_def signed_divide_int_def)

lemma demo_answer:
  "db_channels db = db_channels demo_db \<Longrightarrow> answer (demo_provider a) received_payload db = Some a"
  by (simp add: answer_def demo_provider_def received_payload_def demo_payload_def demo_defs)

theorem deliver_success_witness:
  "map n_Status (db_notifs (w_db (snd (HandleNotificationDeliver (Emit demo_lib 60) (demo_provider (Inr sent_ok))
     (demo_ctx 0) demo_task demo_world)))) = [StatusDelivered]"
proof -
  have "deliverable (demo_ctx 0) received_payload (w_db demo_world)"
    by (simp add: demo_world_def demo_deliverable demo_db_def int4_def)
  moreover have "answer (demo_provider (Inr sent_ok)) received_payload (w_db demo_world) = Some (Inr sent_ok)"
    by (rule demo_answer) (simp add: demo_world_def)
  ultimately have "db_notifs (w_db (snd (HandleNotificationDeliver (Emit demo_lib 60) (demo_provider (Inr sent_ok))
       (demo_ctx 0) demo_task demo_world))) =
     update_where (\<lambda>n. n_ID n = p_NotificationID received_payload) (delivered_row (demo_ctx 0) sent_ok) (db_notifs (w_db demo_world))"
    using deliver_success [OF demo_unmarshal _ demo_world_ok _ _ demo_broker demo_lib_inj, of "demo_ctx 0"
        "demo_provider (Inr sent_ok)" sent_ok 60]
    by (simp add: sent_ok_def split: prod.splits)
  then show ?thesis
    by (simp add: demo_world_def demo_defs received_payload_def demo_payload_def update_where_def delivered_row_def
        sent_ok_def)
qed

theorem deliver_transient_failure_witness:
  "map n_Status (db_notifs (w_db (snd (HandleNotificationDeliver (Emit demo_lib 60)
     (demo_provider (Inl (plain_error ''timeout''))) (demo_ctx 0) demo_task demo_world)))) = [StatusRetrying]"
proof -
  have "deliverable (demo_ctx 0) received_payload (w_db demo_world)"
    by (simp add: demo_world_def demo_deliverable demo_db_def int4_def)
  moreover have "answer (demo_provider (Inl (plain_error ''timeout''))) received_payload (w_db demo_world) =
      Some (Inl (plain_error ''timeout''))"
    by (rule demo_answer) (simp add: demo_world_def)
  ultimately have "db_notifs (w_db (snd (HandleNotificationDeliver (Emit demo_lib 60)
       (demo_provider (Inl (plain_error ''timeout''))) (demo_ctx 0) demo_task demo_world))) =
     update_where (\<lambda>n. n_ID n = p_NotificationID received_payload) (failed_row (demo_ctx 0) StatusRetrying ''timeout'')
       (db_notifs (w_db demo_world))"
    using deliver_transient_failure [OF demo_unmarshal, of "demo_ctx 0" demo_world
        "demo_provider (Inl (plain_error ''timeout''))" "Inl (plain_error ''timeout'')" "''timeout''" None demo_lib 60]
    by (auto simp: transient_def failure_of_def split: prod.splits option.splits)
  then show ?thesis
    by (simp add: demo_world_def demo_defs received_payload_def demo_payload_def update_where_def failed_row_def)
qed

theorem deliver_permanent_failure_witness:
  "map tk_Type (w_queue (snd (HandleNotificationDeliver (Emit demo_lib 60)
     (demo_provider (Inr rejected)) (demo_ctx 0) demo_task demo_world))) = [TypeWebhookEvent]"
proof -
  have "deliverable (demo_ctx 0) received_payload (w_db demo_world)"
    by (simp add: demo_world_def demo_deliverable demo_db_def int4_def)
  moreover have "answer (demo_provider (Inr rejected)) received_payload (w_db demo_world) = Some (Inr rejected)"
    by (rule demo_answer) (simp add: demo_world_def)
  ultimately have "w_queue (snd (HandleNotificationDeliver (Emit demo_lib 60)
       (demo_provider (Inr rejected)) (demo_ctx 0) demo_task demo_world)) =
     map (event_task demo_lib (emit_params received_payload WebhookEventFailed 1) 60)
       (subscribers (w_db demo_world) 1 WebhookEventFailed)"
    using deliver_permanent_failure [OF demo_unmarshal _ demo_world_ok _ _ _ demo_broker demo_lib_inj, of "demo_ctx 0"
        "demo_provider (Inr rejected)" rejected 60]
    by (auto simp: rejected_def demo_world_def demo_ctx_def received_payload_def demo_payload_def event_queued_def
        split: prod.splits option.splits)
  then show ?thesis
    by (simp add: demo_world_def demo_defs subscribers_def SubscribesTo_def WebhookEventFailed_def event_task_type)
qed

lemma demo_task_sel: "tk_Type demo_task = TypeNotificationDeliver" "max_retry demo_task = 1"
  by (simp_all add: demo_task_def NewNotificationDeliverTask_def Let_def max_retry_def)

theorem at_most_one_terminal_event_witness:
  "length (ob_emitted (snd (run_task (recording (Emit demo_lib 60)) (\<lambda>_. demo_provider (Inr sent_ok)) demo_ctx demo_task 0
     (demo_observed [Some ''down''])))) \<le> 1"
proof -
  obtain fate w' where r: "run_task (recording (Emit demo_lib 60)) (\<lambda>_. demo_provider (Inr sent_ok)) demo_ctx demo_task 0
     (demo_observed [Some ''down'']) = (fate, w')" by (meson surj_pair)
  from at_most_one_terminal_event [OF webhook_emitter.terminal_emitter_axioms demo_task_sel(1) r] r
  show ?thesis by (auto simp: demo_observed_def)
qed

lemma demo_all_transient:
  "all_transient (\<lambda>_. demo_provider (Inl (plain_error ''timeout''))) demo_ctx demo_task received_payload 0
     (w_db (demo_observed []))"
proof -
  have "deliverable (attempt_of demo_ctx demo_task j) received_payload (w_db (demo_observed []))" if "j \<in> {0..1}" for j
  proof -
    have "attempt_of demo_ctx demo_task j = demo_ctx j" by (simp add: attempt_of_def demo_ctx_def demo_task_sel)
    then show ?thesis using that by (simp add: demo_observed_def demo_deliverable demo_db_def int4_def)
  qed
  moreover have "answer (demo_provider (Inl (plain_error ''timeout''))) received_payload (w_db (demo_observed [])) =
      Some (Inl (plain_error ''timeout''))"
    by (rule demo_answer) (simp add: demo_observed_def)
  moreover have "inj_on (\<lambda>j. ax_attemptID (demo_ctx j)) {0..1}"
    by (auto simp: inj_on_def demo_ctx_def le_Suc_eq)
  ultimately show ?thesis
    by (simp add: all_transient_def demo_task_sel demo_unmarshal transient_def recordable_def)
qed

theorem retries_exhausted_witness:
  "map em_Attempts (ob_emitted (snd (run_task (recording (Emit demo_lib 60))
     (\<lambda>_. demo_provider (Inl (plain_error ''timeout''))) demo_ctx demo_task 0 (demo_observed [])))) = [2]"
  using retries_exhausted [OF webhook_emitter.terminal_emitter_axioms demo_all_transient, of demo_lib 60]
  by (auto simp: demo_observed_def demo_task_sel emit_params_def split: prod.splits)

theorem channel_lookup_failure_strands_witness:
  "fst (run_task (recording (Emit demo_lib 60)) (\<lambda>_. demo_provider (Inr sent_ok)) demo_ctx demo_task 0
     (demo_observed [None, Some ''down''])) = Archived"
  using channel_lookup_failure_strands [OF demo_unmarshal, of "demo_observed [None, Some ''down'']" "''down''" "[]"
      queued_notif "Emit demo_lib 60" "\<lambda>_. demo_provider (Inr sent_ok)" demo_ctx]
  by (auto simp: demo_observed_def demo_task_sel received_payload_def demo_payload_def demo_db_def queued_notif_def
      split: prod.splits)

theorem event_metadata_null_witness:
  "ed_Metadata (ev_Data (etp_Event (buildWebhookEventTaskPayload demo_lib 50
     (emit_params received_payload WebhookEventFailed 1) 60))) = Some JNull"
  by (rule event_metadata_null [of demo_payload demo_lib "[1]"])
    (use demo_unmarshal in \<open>simp_all add: demo_payload_def demo_task_def\<close>)


section \<open>The fan-out of an event\<close>

text \<open>
  One emission offers exactly one task to each active subscribed endpoint of the tenant, in order,
  whatever the broker does with the others; the error returned is absent exactly when the broker
  accepted them all; and no table changes.
\<close>

theorem Emit_spec:
  assumes "db_faults (w_db w) = []"
  shows "case Emit L now params w of (r, w') \<Rightarrow>
    (let eps = subscribers (w_db w) (em_TenantID params) (em_EventType params);
         oks = accepted L params now eps (w_queue w)
     in w_queue w' = w_queue w @ map (event_task L params now) oks \<and> (r = None \<longleftrightarrow> oks = eps) \<and> w_db w' = w_db w)"
proof -
  have "Emit L now params w = emit_loop L params now
      (subscribers (w_db w) (em_TenantID params) (em_EventType params)) None w"
    using assms by (simp add: Emit_def on_db_def ListActive_subscribers scan_rows_def)
  then show ?thesis
    using emit_loop_world [of L params now _ None w] emit_loop_None [of L params now _ w]
    by (simp add: Let_def split: prod.splits) (metis fst_conv snd_conv world.select_convs(1,2) world.update_convs(2) world.surjective)
qed

theorem Emit_spec_witness:
  "map tk_Queue (w_queue (snd (Emit demo_lib 60 (emit_params received_payload WebhookEventFailed 1) demo_world))) = [''webhooks'']"
proof -
  let ?p = "emit_params received_payload WebhookEventFailed 1"
  let ?eps = "subscribers (w_db demo_world) (em_TenantID ?p) (em_EventType ?p)"
  have "distinct (map we_ID ?eps)"
    using demo_world_ok by (simp add: subscribers_def db_ok_def keys_ok_def distinct_map_filter)
  moreover have q: "w_queue demo_world = []" by (simp add: demo_world_def)
  ultimately have "accepted demo_lib ?p 60 ?eps (w_queue demo_world) = ?eps"
    by (simp add: accepted_broker [OF demo_broker demo_lib_inj] event_queued_def)
  moreover have "db_faults (w_db demo_world) = []" by (simp add: demo_world_def demo_db_def)
  ultimately have "w_queue (snd (Emit demo_lib 60 ?p demo_world)) = map (event_task demo_lib ?p 60) ?eps"
    using Emit_spec [where L = demo_lib and now = 60 and w = demo_world and params = ?p] q
    by (simp add: Let_def split: prod.splits)
  then show ?thesis
    by (simp add: demo_world_def demo_defs subscribers_def SubscribesTo_def WebhookEventFailed_def
        received_payload_def demo_payload_def)
qed

text \<open>
  Task identifiers of one emission: two endpoints never share one, so that no endpoint's task is
  taken for a duplicate of another's, and re-emitting the same transition, at any time and with any
  attempt count or metadata, offers the same identifiers and the same event identifier.
\<close>

theorem event_task_ids:
  assumes "inj (lib_uuid_String L)" and "db_ok db"
  shows "distinct (map (\<lambda>ep. tk_TaskID (event_task L params now ep)) (subscribers db (em_TenantID params) (em_EventType params))) \<and>
    (\<forall>now' k md ep. tk_TaskID (event_task L (params\<lparr>em_Attempts := k, em_Metadata := md\<rparr>) now' ep) =
       tk_TaskID (event_task L params now ep))"
proof -
  have i: "tk_TaskID (event_task L params now e) = tk_TaskID (event_task L params now e') \<longleftrightarrow> we_ID e = we_ID e'" for e e'
    using assms(1) by (simp add: event_task_def NewWebhookEventTask_def buildWebhookEventTaskPayload_def inj_eq)
  have d: "distinct (map we_ID (subscribers db (em_TenantID params) (em_EventType params)))"
    using assms(2) by (simp add: subscribers_def db_ok_def keys_ok_def distinct_map_filter)
  have "distinct (map (\<lambda>ep. tk_TaskID (event_task L params now ep)) (subscribers db (em_TenantID params) (em_EventType params)))"
    using d by (simp add: distinct_map inj_on_def i del: event_task_id)
  then show ?thesis by (simp add: event_task_def NewWebhookEventTask_def buildWebhookEventTaskPayload_def)
qed

theorem event_task_ids_witness:
  "distinct (map (\<lambda>ep. tk_TaskID (event_task demo_lib (emit_params received_payload WebhookEventFailed 1) 60 ep))
     (subscribers demo_db 1 WebhookEventFailed))"
  using event_task_ids [OF demo_lib_inj demo_db_ok, of "emit_params received_payload WebhookEventFailed 1" 60]
  by (simp add: received_payload_def demo_payload_def)

end
