(* ===== verification/Quota.thy ===== *)
theory Quota
  imports Repository_Laws
begin

text \<open>
  Message quotas (\<^verbatim>\<open>internal/quota\<close>): the Redis usage counter with its reserve, rollback and refund,
  the threshold alerts, and the HTTP middleware around the send endpoints. Redis is a map of integer
  keys with their deadlines and a clock; a script of failures, as for the database, lets any command fail without
  effect. Time passes on it between the calls of the service (\<open>Elapse\<close>), which removes the keys whose deadline is
  reached; the commands of one call are executed at one instant. An alert is
  recorded when its POST is issued. \<^verbatim>\<open>uuid.String\<close> is the argument \<open>us\<close>.
\<close>

section \<open>Redis\<close>

record redis =
  rd_keys :: "string \<rightharpoonup> int \<times> time option"
  rd_now :: time
  rd_faults :: "string option list"

definition redis_call :: "(redis \<Rightarrow> (goerr + 'a) \<times> redis) \<Rightarrow> redis \<Rightarrow> (goerr + 'a) \<times> redis" where
  "redis_call cmd rd = (case rd_faults rd of
     [] \<Rightarrow> cmd rd
   | None # fs \<Rightarrow> cmd (rd\<lparr>rd_faults := fs\<rparr>)
   | Some m # fs \<Rightarrow> (Inl (plain_error m), rd\<lparr>rd_faults := fs\<rparr>))"

definition rd_value :: "redis \<Rightarrow> string \<Rightarrow> int" where
  "rd_value rd key = (case rd_keys rd key of None \<Rightarrow> 0 | Some (v, _) \<Rightarrow> v)"

definition rd_deadline :: "redis \<Rightarrow> string \<Rightarrow> time option" where
  "rd_deadline rd key = (case rd_keys rd key of None \<Rightarrow> None | Some (_, d) \<Rightarrow> d)"

text \<open>Time passes: a key is gone from its deadline on.\<close>

definition Elapse :: "duration \<Rightarrow> redis \<Rightarrow> redis" where
  "Elapse d rd = (let now = rd_now rd + d in
     rd\<lparr>rd_now := now, rd_keys := (\<lambda>k. case rd_deadline rd k of
       Some deadline \<Rightarrow> if deadline \<le> now then None else rd_keys rd k
     | None \<Rightarrow> rd_keys rd k)\<rparr>)"

text \<open>
  \<^verbatim>\<open>INCRBY\<close>: an absent key counts as zero and gets no deadline, a present one keeps its own; a result outside 64 bits
  is refused.
\<close>

definition rd_store :: "string \<Rightarrow> int \<Rightarrow> redis \<Rightarrow> redis" where
  "rd_store key v rd = rd\<lparr>rd_keys := (rd_keys rd)(key \<mapsto> (v, rd_deadline rd key))\<rparr>"

definition IncrBy :: "string \<Rightarrow> int \<Rightarrow> redis \<Rightarrow> (goerr + int) \<times> redis" where
  "IncrBy key n = redis_call (\<lambda>rd. let v = rd_value rd key + n in
     if fits64 v then (Inr v, rd_store key v rd)
     else (Inl (plain_error ''ERR increment or decrement would overflow''), rd))"

definition DecrBy :: "string \<Rightarrow> int \<Rightarrow> redis \<Rightarrow> (goerr + int) \<times> redis" where
  "DecrBy key n = redis_call (\<lambda>rd. let v = rd_value rd key - n in
     if fits64 v then (Inr v, rd_store key v rd)
     else (Inl (plain_error ''ERR increment or decrement would overflow''), rd))"

text \<open>\<^verbatim>\<open>EXPIRE\<close>: an absent key stays absent; a present one gets the deadline, or is removed at once when it is reached.\<close>

definition Expire :: "string \<Rightarrow> duration \<Rightarrow> redis \<Rightarrow> (goerr + unit) \<times> redis" where
  "Expire key ttl = redis_call (\<lambda>rd. (Inr (), case rd_keys rd key of
     None \<Rightarrow> rd
   | Some (v, _) \<Rightarrow> rd\<lparr>rd_keys := (rd_keys rd)(key := if ttl \<le> 0 then None else Some (v, Some (rd_now rd + ttl)))\<rparr>))"

text \<open>\<^verbatim>\<open>SET key v NX EX ttl\<close>: \<^verbatim>\<open>redis.Nil\<close> when the key exists. \<^verbatim>\<open>SET key v EX ttl\<close> replaces value and deadline.\<close>

definition SetNX :: "string \<Rightarrow> int \<Rightarrow> duration \<Rightarrow> redis \<Rightarrow> (goerr + unit) \<times> redis" where
  "SetNX key v ttl = redis_call (\<lambda>rd. case rd_keys rd key of
     Some _ \<Rightarrow> (Inl (plain_error ''redis: nil''), rd)
   | None \<Rightarrow> (Inr (), rd\<lparr>rd_keys := (rd_keys rd)(key \<mapsto> (v, Some (rd_now rd + ttl)))\<rparr>))"

definition Redis_Set :: "string \<Rightarrow> int \<Rightarrow> duration \<Rightarrow> redis \<Rightarrow> (goerr + unit) \<times> redis" where
  "Redis_Set key v ttl = redis_call (\<lambda>rd. (Inr (), rd\<lparr>rd_keys := (rd_keys rd)(key \<mapsto> (v, Some (rd_now rd + ttl)))\<rparr>))"

section \<open>The quota service\<close>

definition counterTTL :: duration where
  "counterTTL = 45 * 24 * hour_ns"

record Decision =
  d_Allowed :: bool
  d_Used :: int
  d_Limit :: int

record alert =
  al_tenant :: uuid
  al_period_start :: time
  al_usage :: int
  al_limit :: int
  al_threshold :: int

record qworld =
  q_db :: pgdb
  q_redis :: redis
  q_alerts :: "alert list"

definition on_qdb :: "(pgdb \<Rightarrow> 'r \<times> pgdb) \<Rightarrow> qworld \<Rightarrow> 'r \<times> qworld" where
  "on_qdb f s = (case f (q_db s) of (r, db) \<Rightarrow> (r, s\<lparr>q_db := db\<rparr>))"

definition on_redis :: "(redis \<Rightarrow> 'r \<times> redis) \<Rightarrow> qworld \<Rightarrow> 'r \<times> qworld" where
  "on_redis f s = (case f (q_redis s) of (r, rd) \<Rightarrow> (r, s\<lparr>q_redis := rd\<rparr>))"

definition usageKey :: "(uuid \<Rightarrow> string) \<Rightarrow> uuid \<Rightarrow> time \<Rightarrow> string" where
  "usageKey us tenantID periodStart = ''usage:'' @ us tenantID @ '':'' @ show_int (unix_seconds periodStart)"

definition crossed :: "int \<Rightarrow> int \<Rightarrow> int \<Rightarrow> int \<Rightarrow> bool" where
  "crossed prev now limit pct =
     (let threshold = wrap64 (limit * pct) sdiv 100 in prev < threshold \<and> now \<ge> threshold)"

definition alertKey :: "(uuid \<Rightarrow> string) \<Rightarrow> uuid \<Rightarrow> time \<Rightarrow> int \<Rightarrow> string" where
  "alertKey us tenantID periodStart pct =
     ''quota-alert:'' @ us tenantID @ '':'' @ show_int (unix_seconds periodStart) @ '':'' @ show_int pct"

definition notifyThreshold :: "(uuid \<Rightarrow> string) \<Rightarrow> string \<Rightarrow> uuid \<Rightarrow> Entitlements \<Rightarrow> int \<Rightarrow> int \<Rightarrow> qworld \<Rightarrow> qworld" where
  "notifyThreshold us webhookURL tenantID ent used pct s =
     (if webhookURL = [] then s
      else case on_redis (SetNX (alertKey us tenantID (e_PeriodStart ent) pct) 1 counterTTL) s of
             (Inl _, s') \<Rightarrow> s'
           | (Inr _, s') \<Rightarrow> s'\<lparr>q_alerts := q_alerts s' @ [\<lparr>al_tenant = tenantID, al_period_start = e_PeriodStart ent,
               al_usage = used, al_limit = e_MessageLimit ent, al_threshold = pct\<rparr>]\<rparr>)"

text \<open>The part of \<^verbatim>\<open>Reserve\<close> after the counter was incremented.\<close>

definition reserve_decide :: "(uuid \<Rightarrow> string) \<Rightarrow> string \<Rightarrow> uuid \<Rightarrow> Entitlements \<Rightarrow> int \<Rightarrow> int \<Rightarrow> qworld \<Rightarrow>
    (goerr + Decision) \<times> qworld" where
  "reserve_decide us webhookURL tenantID ent n used s =
     (let key = usageKey us tenantID (e_PeriodStart ent);
          s1 = (if used = n then snd (on_redis (Expire key counterTTL) s) else s)
      in if used > e_MessageLimit ent then
           (case on_redis (DecrBy key n) s1 of (r, s2) \<Rightarrow>
              (let rolledBack = (case r of Inl _ \<Rightarrow> wrap64 (used - n) | Inr v \<Rightarrow> v);
                   s3 = notifyThreshold us webhookURL tenantID ent rolledBack 100 s2
               in (Inr \<lparr>d_Allowed = False, d_Used = rolledBack, d_Limit = e_MessageLimit ent\<rparr>, s3)))
         else
           (let prev = wrap64 (used - n);
                s2 = (if crossed prev used (e_MessageLimit ent) 80
                      then notifyThreshold us webhookURL tenantID ent used 80 s1 else s1);
                s3 = (if used = e_MessageLimit ent
                      then notifyThreshold us webhookURL tenantID ent used 100 s2 else s2)
            in (Inr \<lparr>d_Allowed = True, d_Used = used, d_Limit = e_MessageLimit ent\<rparr>, s3)))"

text \<open>The two readings of the clock are \<open>now\<close>, for the Free plan's period, and \<open>now'\<close>.\<close>

definition Reserve :: "(uuid \<Rightarrow> string) \<Rightarrow> string \<Rightarrow> uuid \<Rightarrow> time \<Rightarrow> time \<Rightarrow> int \<Rightarrow> qworld \<Rightarrow>
    (goerr + Decision) \<times> qworld" where
  "Reserve us webhookURL tenantID now now' n s =
     (case on_qdb (EntitlementsOrFree tenantID now) s of
        (Inl err, s1) \<Rightarrow> (Inl err, s1)
      | (Inr ent, s1) \<Rightarrow>
          if \<not> now' < e_PeriodEnd ent then (Inl (sentinel_err ErrPeriodExpired), s1)
          else (case on_redis (IncrBy (usageKey us tenantID (e_PeriodStart ent)) n) s1 of
                  (Inl err, s2) \<Rightarrow> (Inl err, s2)
                | (Inr used, s2) \<Rightarrow> reserve_decide us webhookURL tenantID ent n used s2))"

definition Refund :: "(uuid \<Rightarrow> string) \<Rightarrow> uuid \<Rightarrow> time \<Rightarrow> int \<Rightarrow> qworld \<Rightarrow> goerr option \<times> qworld" where
  "Refund us tenantID now n s =
     (case on_qdb (EntitlementsOrFree tenantID now) s of
        (Inl err, s1) \<Rightarrow> (Some err, s1)
      | (Inr ent, s1) \<Rightarrow>
          (let key = usageKey us tenantID (e_PeriodStart ent)
           in case on_redis (DecrBy key n) s1 of
                (Inl err, s2) \<Rightarrow> (Some err, s2)
              | (Inr newVal, s2) \<Rightarrow>
                  (None, if newVal < 0 then snd (on_redis (IncrBy key (- newVal)) s2) else s2)))"

section \<open>The middleware\<close>

text \<open>\<^verbatim>\<open>statusRecorder\<close>: the first \<^verbatim>\<open>WriteHeader\<close> counts, 200 when there is none.\<close>

record statusRecorder =
  sr_status :: int
  sr_wroteHeader :: bool

definition WriteHeader :: "int \<Rightarrow> statusRecorder \<Rightarrow> statusRecorder" where
  "WriteHeader code sr = (if sr_wroteHeader sr then sr else \<lparr>sr_status = code, sr_wroteHeader = True\<rparr>)"

text \<open>
  The request as the middleware reads it: its path, the body's JSON (\<open>Inl\<close> a read error, \<open>Inr None\<close>
  text that is not JSON). The response is the status the client sees with the error code of the body.
\<close>

record quota_request =
  qr_path :: string
  qr_body :: "goerr + json option"

text \<open>Decoding \<^verbatim>\<open>channels\<close> into a slice of raw messages; the last matching member wins.\<close>

fun probe_channels :: "(string \<times> json) list \<Rightarrow> nat \<Rightarrow> nat option" where
  "probe_channels [] len = Some len"
| "probe_channels ((k, v) # ms) len =
     (if ToLower k = ''channels'' then
        (case v of JArr xs \<Rightarrow> probe_channels ms (length xs) | JNull \<Rightarrow> probe_channels ms 0 | _ \<Rightarrow> None)
      else probe_channels ms len)"

definition probe :: "json option \<Rightarrow> nat option" where
  "probe body = (case body of
     Some (JObj ms) \<Rightarrow> probe_channels ms 0
   | Some JNull \<Rightarrow> Some 0
   | _ \<Rightarrow> None)"

definition reservation_size :: "quota_request \<Rightarrow> goerr + int" where
  "reservation_size r =
     (if HasSuffix (qr_path r) ''/send-multi'' then
        (case qr_body r of
           Inl e \<Rightarrow> Inl e
         | Inr body \<Rightarrow> (case probe body of Some k \<Rightarrow> if k > 0 then Inr (int k) else Inr 1 | None \<Rightarrow> Inr 1))
      else Inr 1)"

datatype mw_response =
    Rejected int string
  | Served "int list"

text \<open>\<open>next\<close> returns the \<^verbatim>\<open>WriteHeader\<close> calls the downstream handler makes.\<close>

definition Middleware :: "(uuid \<Rightarrow> int \<Rightarrow> 's \<Rightarrow> (goerr + Decision) \<times> 's) \<Rightarrow> (uuid \<Rightarrow> int \<Rightarrow> 's \<Rightarrow> goerr option \<times> 's) \<Rightarrow>
    (quota_request \<Rightarrow> 's \<Rightarrow> int list \<times> 's) \<Rightarrow> uuid option \<Rightarrow> quota_request \<Rightarrow> 's \<Rightarrow> mw_response \<times> 's" where
  "Middleware reserve refund next claims r s =
     (case claims of
        None \<Rightarrow> (Rejected 401 ''unauthorized'', s)
      | Some tenantID \<Rightarrow>
          (case reservation_size r of
             Inl _ \<Rightarrow> (Rejected 400 ''failed to read body'', s)
           | Inr n \<Rightarrow>
               (case reserve tenantID n s of
                  (Inl err, s1) \<Rightarrow>
                    (if errors_Is err ErrPeriodExpired then (Rejected 402 ''SUBSCRIPTION_PERIOD_EXPIRED'', s1)
                     else (Rejected 500 ''internal server error'', s1))
                | (Inr decision, s1) \<Rightarrow>
                    if \<not> d_Allowed decision then (Rejected 429 ''QUOTA_EXCEEDED'', s1)
                    else
                      (case next r s1 of (codes, s2) \<Rightarrow>
                         (let recorder = fold WriteHeader codes \<lparr>sr_status = 200, sr_wroteHeader = False\<rparr>
                          in (Served codes,
                              if sr_status recorder \<ge> 400 then snd (refund tenantID n s2) else s2))))))"

end
