(* ===== verification/Quota_Laws.thy ===== *)
theory Quota_Laws
  imports Quota Fixture
begin

text \<open>
  Correctness of the quota: the exact effect of a reservation and of a refund on a working Redis, no
  overselling under any interleaving of concurrent reservations, at most one alert per threshold and
  period under every schedule of failures, and the net effect of the middleware, which is proved once
  for every service that meets the contract \<open>reserver_refunder\<close>.
\<close>

section \<open>Commands\<close>

lemmas redis_command_defs = redis_call_def IncrBy_def DecrBy_def Expire_def SetNX_def Let_def

lemma redis_call_calm [simp]: "rd_faults rd = [] \<Longrightarrow> redis_call cmd rd = cmd rd"
  by (simp add: redis_call_def)

lemma rd_store_sel [simp]:
  "rd_value (rd_store k v rd) k' = (if k' = k then v else rd_value rd k')"
  "rd_deadline (rd_store k v rd) k' = rd_deadline rd k'"
  "rd_faults (rd_store k v rd) = rd_faults rd" "rd_now (rd_store k v rd) = rd_now rd"
  by (auto simp: rd_store_def rd_value_def rd_deadline_def)

lemma rd_faults_sel [simp]:
  "rd_value (rd\<lparr>rd_faults := fs\<rparr>) k = rd_value rd k" "rd_deadline (rd\<lparr>rd_faults := fs\<rparr>) k = rd_deadline rd k"
  by (simp_all add: rd_value_def rd_deadline_def)

lemma counterTTL_pos [simp]: "0 < counterTTL" "\<not> counterTTL \<le> 0"
  by (simp_all add: counterTTL_def hour_ns_def minute_ns_def second_ns_def)

lemma usage_alert_keys [simp]: "usageKey us t p \<noteq> alertKey us' t' p' pct" "alertKey us' t' p' pct \<noteq> usageKey us t p"
  by (simp_all add: usageKey_def alertKey_def)

lemma on_redis_sel [simp]:
  "fst (on_redis f s) = fst (f (q_redis s))" "q_redis (snd (on_redis f s)) = snd (f (q_redis s))"
  "q_db (snd (on_redis f s)) = q_db s" "q_alerts (snd (on_redis f s)) = q_alerts s"
  by (simp_all add: on_redis_def split: prod.splits)

lemma on_qdb_sel [simp]:
  "fst (on_qdb f s) = fst (f (q_db s))" "q_redis (snd (on_qdb f s)) = q_redis s"
  "q_db (snd (on_qdb f s)) = snd (f (q_db s))" "q_alerts (snd (on_qdb f s)) = q_alerts s"
  by (simp_all add: on_qdb_def split: prod.splits)

section \<open>A working Redis and database\<close>

definition ent_of :: "pgdb \<Rightarrow> uuid \<Rightarrow> time \<Rightarrow> Entitlements" where
  "ent_of db tid now = (case find (\<lambda>e. e_TenantID e = tid) (db_entitlements db) of
     None \<Rightarrow> FreeDefaults tid now | Some e \<Rightarrow> e)"

lemma EntitlementsOrFree_calm:
  "db_faults db = [] \<Longrightarrow> EntitlementsOrFree tid now db = (Inr (ent_of db tid now), db)"
  by (simp add: EntitlementsOrFree_def Entitlement_GetByTenantID_def scan_row_def one_row_def ent_of_def
      split: option.splits)

definition calm :: "qworld \<Rightarrow> bool" where
  "calm s \<longleftrightarrow> db_faults (q_db s) = [] \<and> rd_faults (q_redis s) = []"

lemma on_qdb_ent: "calm s \<Longrightarrow> on_qdb (EntitlementsOrFree tid now) s = (Inr (ent_of (q_db s) tid now), s)"
  by (simp add: on_qdb_def calm_def EntitlementsOrFree_calm)

lemma notifyThreshold_keeps:
  "calm s \<Longrightarrow> rd_value (q_redis (notifyThreshold us url t ent used pct s)) (usageKey us' t' p) = rd_value (q_redis s) (usageKey us' t' p)"
  "calm s \<Longrightarrow> calm (notifyThreshold us url t ent used pct s)"
  "q_db (notifyThreshold us url t ent used pct s) = q_db s"
  by (auto simp: notifyThreshold_def on_redis_def SetNX_def calm_def rd_value_def redis_call_def
      split: option.splits prod.splits sum.splits list.splits)

lemma Expire_keeps:
  "0 < ttl \<Longrightarrow> rd_value (snd (Expire k ttl rd)) k' = rd_value rd k'"
  "rd_faults rd = [] \<Longrightarrow> rd_faults (snd (Expire k ttl rd)) = []"
  by (auto simp: Expire_def rd_value_def redis_call_def split: option.splits list.splits prod.splits)

lemma reserve_decide_calm:
  assumes "calm s" and "rd_value (q_redis s) (usageKey us tid (e_PeriodStart ent)) = used"
    and "fits64 used" and "fits64 (used - n)"
  shows "case reserve_decide us url tid ent n used s of (r, s') \<Rightarrow>
    calm s' \<and> q_db s' = q_db s \<and>
    (if used > e_MessageLimit ent
     then r = Inr \<lparr>d_Allowed = False, d_Used = used - n, d_Limit = e_MessageLimit ent\<rparr> \<and>
       rd_value (q_redis s') (usageKey us tid (e_PeriodStart ent)) = used - n
     else r = Inr \<lparr>d_Allowed = True, d_Used = used, d_Limit = e_MessageLimit ent\<rparr> \<and>
       rd_value (q_redis s') (usageKey us tid (e_PeriodStart ent)) = used)"
proof -
  let ?k = "usageKey us tid (e_PeriodStart ent)"
  define s1 where "s1 = (if used = n then snd (on_redis (Expire ?k counterTTL) s) else s)"
  have s1: "calm s1" "rd_value (q_redis s1) ?k = used" "q_db s1 = q_db s"
    using assms(1,2) by (simp_all add: s1_def calm_def Expire_keeps)
  define s2 where "s2 = s1\<lparr>q_redis := rd_store ?k (used - n) (q_redis s1)\<rparr>"
  have d: "on_redis (DecrBy ?k n) s1 = (Inr (used - n), s2)"
    using s1 assms(4) by (simp add: on_redis_def DecrBy_def calm_def Let_def s2_def)
  have s2: "calm s2" "rd_value (q_redis s2) ?k = used - n" "q_db s2 = q_db s"
    using s1 by (simp_all add: s2_def calm_def)
  show ?thesis
    using s1 s2 unfolding reserve_decide_def Let_def s1_def [symmetric] d
    by (simp add: notifyThreshold_keeps)
qed

text \<open>
  A reservation on a working system: outside the billing period it is refused and nothing
  changes; above the limit it is denied and the counter is what it was; otherwise it is granted and the
  counter is larger by exactly the amount reserved. The decision reports the counter's value.
\<close>

theorem Reserve_spec:
  assumes "calm s" and "ent = ent_of (q_db s) tid now" and "key = usageKey us tid (e_PeriodStart ent)"
    and "used = rd_value (q_redis s) key" and "fits64 used" and "fits64 (used + n)"
  shows "case Reserve us url tid now now' n s of (r, s') \<Rightarrow>
    if e_PeriodEnd ent \<le> now' then r = Inl (sentinel_err ErrPeriodExpired) \<and> s' = s
    else if used + n > e_MessageLimit ent
    then r = Inr \<lparr>d_Allowed = False, d_Used = used, d_Limit = e_MessageLimit ent\<rparr> \<and> rd_value (q_redis s') key = used
    else r = Inr \<lparr>d_Allowed = True, d_Used = used + n, d_Limit = e_MessageLimit ent\<rparr> \<and>
      rd_value (q_redis s') key = used + n"
proof (cases "e_PeriodEnd ent \<le> now'")
  case True
  then show ?thesis using on_qdb_ent [OF assms(1), of tid now] assms(2) by (simp add: Reserve_def)
next
  case False
  let ?s = "s\<lparr>q_redis := rd_store key (used + n) (q_redis s)\<rparr>"
  have "on_redis (IncrBy key n) s = (Inr (used + n), ?s)"
    using assms(1,4,6) by (simp add: on_redis_def IncrBy_def calm_def Let_def)
  then have r: "Reserve us url tid now now' n s = reserve_decide us url tid ent n (used + n) ?s"
    using on_qdb_ent [OF assms(1), of tid now] assms(2,3) False by (simp add: Reserve_def)
  have "calm ?s" "rd_value (q_redis ?s) key = used + n" using assms(1) by (simp_all add: calm_def)
  with reserve_decide_calm [of ?s us tid ent "used + n" n url] assms(3,5,6) False show ?thesis
    unfolding r by (auto split: prod.splits)
qed

definition demo_quota :: qworld where
  "demo_quota = \<lparr>q_db = demo_db, q_redis = \<lparr>rd_keys = Map.empty, rd_now = 0, rd_faults = []\<rparr>, q_alerts = []\<rparr>"

lemma demo_calm: "calm demo_quota"
  by (simp add: demo_quota_def calm_def demo_db_def)

lemma demo_ent: "ent_of (q_db demo_quota) 1 now = FreeDefaults 1 now"
  by (simp add: ent_of_def demo_quota_def demo_db_def)

theorem Reserve_spec_witness:
  "rd_value (q_redis (snd (Reserve (\<lambda>_. ''t'') ''http://b'' 1 0 0 3 demo_quota)))
     (usageKey (\<lambda>_. ''t'') 1 (e_PeriodStart (FreeDefaults 1 0))) = 3"
proof -
  have p: "0 < e_PeriodEnd (FreeDefaults 1 0)" "e_MessageLimit (FreeDefaults 1 0) = 1000"
    by code_simp+
  have v: "rd_value (q_redis demo_quota) k = 0" for k by (simp add: demo_quota_def rd_value_def)
  show ?thesis
    using Reserve_spec [OF demo_calm refl refl refl, where tid = 1 and now = 0 and us = "\<lambda>_. ''t''" and n = 3
        and url = "''http://b''" and now' = 0] p
    by (simp add: demo_ent v fits64_def split: prod.splits)
qed

section \<open>Refunds\<close>

lemma Refund_calm:
  assumes "calm s" and "key = usageKey us tid (e_PeriodStart (ent_of (q_db s) tid now))"
    and "used = rd_value (q_redis s) key" and "0 \<le> used" and "0 < n" and "fits64 n" and "fits64 used"
  shows "fst (Refund us tid now n s) = None \<and> calm (snd (Refund us tid now n s)) \<and>
    q_db (snd (Refund us tid now n s)) = q_db s \<and>
    rd_value (q_redis (snd (Refund us tid now n s))) key = max 0 (used - n)"
proof -
  define s2 where "s2 = s\<lparr>q_redis := rd_store key (used - n) (q_redis s)\<rparr>"
  have f: "fits64 (used - n)" "fits64 0" using assms(4-7) by (simp_all add: fits64_def)
  then have "on_redis (DecrBy key n) s = (Inr (used - n), s2)"
    using assms(1,3) by (simp add: on_redis_def DecrBy_def calm_def Let_def s2_def)
  then have r: "Refund us tid now n s =
      (None, if used - n < 0 then snd (on_redis (IncrBy key (n - used)) s2) else s2)"
    using on_qdb_ent [OF assms(1), of tid now] assms(2) by (simp add: Refund_def Let_def)
  have "calm s2" "rd_value (q_redis s2) key = used - n" "q_db s2 = q_db s"
    using assms(1) by (simp_all add: s2_def calm_def)
  then show ?thesis unfolding r using f
    by (simp add: calm_def IncrBy_def Let_def)
qed

section \<open>Concurrent requests\<close>

text \<open>
  Requests of one tenant and period run concurrently; each Redis command is atomic. The state holds the
  counter, the granted reservations and the claims above the limit that are not rolled back yet.
\<close>

record quota_state =
  qs_counter :: int
  qs_granted :: "int list"
  qs_pending :: "int list"

inductive quota_step :: "int \<Rightarrow> quota_state \<Rightarrow> quota_state \<Rightarrow> bool" for limit :: int where
  claim_ok: "0 < n \<Longrightarrow> c + n \<le> limit \<Longrightarrow>
    quota_step limit \<lparr>qs_counter = c, qs_granted = g, qs_pending = p\<rparr>
      \<lparr>qs_counter = c + n, qs_granted = n # g, qs_pending = p\<rparr>"
| claim_over: "0 < n \<Longrightarrow> limit < c + n \<Longrightarrow>
    quota_step limit \<lparr>qs_counter = c, qs_granted = g, qs_pending = p\<rparr>
      \<lparr>qs_counter = c + n, qs_granted = g, qs_pending = n # p\<rparr>"
| rollback: "n \<in> set p \<Longrightarrow>
    quota_step limit \<lparr>qs_counter = c, qs_granted = g, qs_pending = p\<rparr>
      \<lparr>qs_counter = c - n, qs_granted = g, qs_pending = remove1 n p\<rparr>"
| rollback_failed: "n \<in> set p \<Longrightarrow>
    quota_step limit \<lparr>qs_counter = c, qs_granted = g, qs_pending = p\<rparr>
      \<lparr>qs_counter = c, qs_granted = g, qs_pending = remove1 n p\<rparr>"
| refund: "n \<in> set g \<Longrightarrow>
    quota_step limit \<lparr>qs_counter = c, qs_granted = g, qs_pending = p\<rparr>
      \<lparr>qs_counter = c - n, qs_granted = remove1 n g, qs_pending = p\<rparr>"

inductive_cases quota_stepE: "quota_step limit s t"

definition quota_inv :: "int \<Rightarrow> quota_state \<Rightarrow> bool" where
  "quota_inv limit s \<longleftrightarrow> list_all (\<lambda>n. 0 < n) (qs_granted s) \<and> list_all (\<lambda>n. 0 < n) (qs_pending s) \<and>
     sum_list (qs_granted s) + sum_list (qs_pending s) \<le> qs_counter s \<and> sum_list (qs_granted s) \<le> max 0 limit"

lemma sum_list_remove1: "n \<in> set xs \<Longrightarrow> sum_list (remove1 n xs) = sum_list xs - (n :: int)"
  by (induction xs) auto

lemma sum_list_pos: "list_all (\<lambda>n. 0 < n) xs \<Longrightarrow> 0 \<le> sum_list (xs :: int list)"
  by (induction xs) auto

lemma list_all_remove1: "list_all P xs \<Longrightarrow> list_all P (remove1 a xs)"
  by (induction xs) auto

lemma list_all_in: "list_all P xs \<Longrightarrow> x \<in> set xs \<Longrightarrow> P x"
  by (induction xs) auto

lemma quota_inv_step:
  assumes "quota_step limit s t" and "quota_inv limit s"
  shows "quota_inv limit t"
  using assms
proof (cases rule: quota_step.cases)
  case (claim_ok n c g p)
  with assms(2) have "0 \<le> sum_list p" by (intro sum_list_pos) (simp add: quota_inv_def)
  with claim_ok assms(2) have "n + sum_list g \<le> limit" by (simp add: quota_inv_def)
  with claim_ok assms(2) show ?thesis by (simp add: quota_inv_def max.coboundedI2)
next
  case (claim_over n c g p)
  with assms(2) show ?thesis by (simp add: quota_inv_def)
next
  case (rollback n p c g)
  with assms(2) show ?thesis by (simp add: quota_inv_def sum_list_remove1 list_all_remove1)
next
  case (rollback_failed n p c g)
  moreover from this assms(2) have "0 < n" by (auto simp: quota_inv_def dest: list_all_in)
  ultimately show ?thesis using assms(2) by (simp add: quota_inv_def sum_list_remove1 list_all_remove1)
next
  case (refund n g c p)
  moreover from this assms(2) have "0 < n" by (auto simp: quota_inv_def dest: list_all_in)
  moreover have "sum_list g - n \<le> max 0 limit" using calculation assms(2) by (simp add: quota_inv_def)
  ultimately show ?thesis using assms(2) by (simp add: quota_inv_def sum_list_remove1 list_all_remove1)
qed

lemma quota_inv_steps: "(quota_step limit)\<^sup>*\<^sup>* s t \<Longrightarrow> quota_inv limit s \<Longrightarrow> quota_inv limit t"
  by (induction rule: rtranclp_induct) (auto intro: quota_inv_step)

lemma quota_steps_bounded:
  assumes "(quota_step limit)\<^sup>*\<^sup>* \<lparr>qs_counter = 0, qs_granted = [], qs_pending = []\<rparr> s"
  shows "sum_list (qs_granted s) \<le> max 0 limit \<and> sum_list (qs_granted s) \<le> qs_counter s"
proof -
  have "quota_inv limit s" using assms by (rule quota_inv_steps) (simp add: quota_inv_def)
  then show ?thesis using sum_list_pos [of "qs_pending s"] by (auto simp: quota_inv_def)
qed

text \<open>
  A reservation of the code, under every schedule of failures, is a sequence of these atomic steps:
  nothing, a granted claim, or a claim above the limit with its rollback, possibly lost.
\<close>

lemma notifyThreshold_usage:
  "rd_value (q_redis (notifyThreshold us url t ent used pct s)) (usageKey us' t' p) = rd_value (q_redis s) (usageKey us' t' p)"
proof -
  have "rd_keys (snd (SetNX (alertKey us t (e_PeriodStart ent) pct) 1 counterTTL rd)) (usageKey us' t' p) =
      rd_keys rd (usageKey us' t' p)" for rd
    by (auto simp: redis_command_defs split: list.splits option.splits)
  then show ?thesis
    by (auto simp: notifyThreshold_def on_redis_def rd_value_def split: prod.splits sum.splits) (metis snd_conv)+
qed

lemma IncrBy_value:
  "case IncrBy k n rd of (Inl _, rd') \<Rightarrow> rd_value rd' k = rd_value rd k
   | (Inr v, rd') \<Rightarrow> v = rd_value rd k + n \<and> rd_value rd' k = v"
  by (auto simp: redis_command_defs split: list.splits option.splits)

lemma DecrBy_value:
  "case DecrBy k n rd of (Inl _, rd') \<Rightarrow> rd_value rd' k = rd_value rd k
   | (Inr v, rd') \<Rightarrow> v = rd_value rd k - n \<and> rd_value rd' k = v"
  by (auto simp: redis_command_defs split: list.splits option.splits)

lemma Expire_value: "rd_value (snd (Expire k counterTTL rd)) k' = rd_value rd k'"
  by (rule Expire_keeps) simp

lemma reserve_decide_steps:
  assumes "0 < n" and "rd_value (q_redis s) (usageKey us tid (e_PeriodStart ent)) = c + n"
  shows "case reserve_decide us url tid ent n (c + n) s of (r, s') \<Rightarrow>
    (\<exists>d. r = Inr d \<and> (d_Allowed d \<longleftrightarrow> c + n \<le> e_MessageLimit ent) \<and>
      (quota_step (e_MessageLimit ent))\<^sup>*\<^sup>* \<lparr>qs_counter = c, qs_granted = g, qs_pending = p\<rparr>
        \<lparr>qs_counter = rd_value (q_redis s') (usageKey us tid (e_PeriodStart ent)),
         qs_granted = (if d_Allowed d then n # g else g), qs_pending = p\<rparr>)"
proof (cases "c + n \<le> e_MessageLimit ent")
  case True
  then have "quota_step (e_MessageLimit ent) \<lparr>qs_counter = c, qs_granted = g, qs_pending = p\<rparr>
      \<lparr>qs_counter = c + n, qs_granted = n # g, qs_pending = p\<rparr>"
    using assms(1) by (intro quota_step.claim_ok)
  then have "(quota_step (e_MessageLimit ent))\<^sup>*\<^sup>* \<lparr>qs_counter = c, qs_granted = g, qs_pending = p\<rparr>
      \<lparr>qs_counter = c + n, qs_granted = n # g, qs_pending = p\<rparr>" ..
  with True assms(2) show ?thesis
    by (auto simp: reserve_decide_def Let_def notifyThreshold_usage Expire_value)
next
  case False
  let ?k = "usageKey us tid (e_PeriodStart ent)" and ?L = "e_MessageLimit ent"
  let ?a = "\<lambda>c g p. \<lparr>qs_counter = c, qs_granted = g, qs_pending = p\<rparr> :: quota_state"
  define s1 where "s1 = (if c + n = n then snd (on_redis (Expire ?k counterTTL) s) else s)"
  have v1: "rd_value (q_redis s1) ?k = c + n" using assms(2) by (simp add: s1_def Expire_value)
  have over: "quota_step ?L (?a c g p) (?a (c + n) g (n # p))"
    using assms(1) False by (intro quota_step.claim_over) auto
  have lost: "quota_step ?L (?a (c + n) g (n # p)) (?a (c + n) g p)"
    using quota_step.rollback_failed [of n "n # p" ?L "c + n" g] by simp
  have one: "(quota_step ?L)\<^sup>*\<^sup>* (?a c g p) (?a (c + n) g (n # p))"
    using over by (rule r_into_rtranclp)
  have paths: "(quota_step ?L)\<^sup>*\<^sup>* (?a c g p) (?a c g p)" "(quota_step ?L)\<^sup>*\<^sup>* (?a c g p) (?a (c + n) g p)"
    using one lost by (auto intro: rtranclp.rtrancl_into_rtrancl)
  obtain r rd where d: "DecrBy ?k n (q_redis s1) = (r, rd)" by fastforce
  have "rd_value rd ?k = c \<or> rd_value rd ?k = c + n"
    using DecrBy_value [where k = ?k and n = n and rd = "q_redis s1"] d v1 by (auto split: sum.splits)
  then show ?thesis
    using paths False d unfolding reserve_decide_def Let_def s1_def [symmetric]
    by (auto simp: notifyThreshold_usage on_redis_def)
qed

text \<open>
  C12. Refinement: under every schedule of Redis failures a reservation by the code moves the counter
  along atomic steps of the concurrent quota, ends with no claim of its own pending, and adds its amount to
  the granted ones exactly when it answers \<^verbatim>\<open>Allowed\<close>.
\<close>

theorem Reserve_refines:
  assumes "0 < n" and "db_faults (q_db s) = []" and "ent = ent_of (q_db s) tid now"
    and "key = usageKey us tid (e_PeriodStart ent)"
  shows "case Reserve us url tid now now' n s of (r, s') \<Rightarrow>
    (quota_step (e_MessageLimit ent))\<^sup>*\<^sup>*
      \<lparr>qs_counter = rd_value (q_redis s) key, qs_granted = g, qs_pending = p\<rparr>
      \<lparr>qs_counter = rd_value (q_redis s') key,
       qs_granted = (if \<exists>d. r = Inr d \<and> d_Allowed d then n # g else g), qs_pending = p\<rparr>"
proof -
  have e: "on_qdb (EntitlementsOrFree tid now) s = (Inr ent, s)"
    using assms(2,3) by (simp add: on_qdb_def EntitlementsOrFree_calm)
  show ?thesis
  proof (cases "e_PeriodEnd ent \<le> now'")
    case True
    then show ?thesis by (simp add: Reserve_def e)
  next
    case False
    obtain r rd where i: "IncrBy key n (q_redis s) = (r, rd)" by fastforce
    have R: "Reserve us url tid now now' n s = (case r of Inl err \<Rightarrow> (Inl err, s\<lparr>q_redis := rd\<rparr>)
        | Inr used \<Rightarrow> reserve_decide us url tid ent n used (s\<lparr>q_redis := rd\<rparr>))"
      using False i assms(4) by (simp add: Reserve_def e on_redis_def split: sum.splits)
    show ?thesis
    proof (cases r)
      case (Inl err)
      with i IncrBy_value [where k = key and n = n and rd = "q_redis s"] show ?thesis by (simp add: R)
    next
      case (Inr used)
      with i IncrBy_value [where k = key and n = n and rd = "q_redis s"]
      have u: "used = rd_value (q_redis s) key + n" "rd_value (q_redis (s\<lparr>q_redis := rd\<rparr>)) key = used" by simp_all
      from reserve_decide_steps [OF assms(1), where s = "s\<lparr>q_redis := rd\<rparr>" and us = us and tid = tid and ent = ent
          and c = "rd_value (q_redis s) key" and url = url and g = g and p = p] u assms(4)
      show ?thesis by (auto simp: R Inr split: prod.splits)
    qed
  qed
qed

theorem Reserve_refines_witness:
  "(quota_step 1000)\<^sup>*\<^sup>* \<lparr>qs_counter = 0, qs_granted = [], qs_pending = []\<rparr> \<lparr>qs_counter = 3, qs_granted = [3], qs_pending = []\<rparr>"
proof -
  let ?us = "\<lambda>_ :: uuid. ''t''"
  have p: "e_MessageLimit (FreeDefaults 1 0) = 1000" by code_simp
  have v: "rd_value (q_redis demo_quota) k = 0" for k by (simp add: demo_quota_def rd_value_def)
  have r: "fst (Reserve ?us ''http://b'' 1 0 0 3 demo_quota) = Inr \<lparr>d_Allowed = True, d_Used = 3, d_Limit = 1000\<rparr>"
    and w: "rd_value (q_redis (snd (Reserve ?us ''http://b'' 1 0 0 3 demo_quota))) (usageKey ?us 1 (e_PeriodStart (FreeDefaults 1 0))) = 3"
    by code_simp+
  have f: "db_faults (q_db demo_quota) = []" by (simp add: demo_quota_def demo_db_def)
  show ?thesis
    using Reserve_refines [OF _ f refl refl, where n = 3 and tid = 1 and now = 0 and us = ?us and g = "[]" and p = "[]"
      and url = "''http://b''" and now' = 0] p v r w
    by (simp add: demo_ent case_prod_unfold)
qed

section \<open>Interleaved requests\<close>

text \<open>
  The requests of a tenant in a billing period, served by any number of processes on one Redis, under one entitlement.
  A request that found the period open increments the counter, decides later on the value it got back
  (\<open>reserve_decide\<close>, whose only commands on the counter set its deadline and roll back), and a granted one may be
  refunded, at once or after the tenant's entitlement has moved to another period. Every command may fail, and time
  passes between the steps; \<open>lag\<close> bounds how far Redis' clock may be past the end of the period when a request that
  found it open increments the counter. The state keeps the messages granted and
  not refunded, and the requests between their increment and their decision with that value.
\<close>

record serving =
  sv_world :: qworld
  sv_granted :: "int list"
  sv_waiting :: "(int \<times> int) list"

inductive serves :: "(uuid \<Rightarrow> string) \<Rightarrow> string \<Rightarrow> uuid \<Rightarrow> Entitlements \<Rightarrow> duration \<Rightarrow> serving \<Rightarrow> serving \<Rightarrow> bool"
  for us url tid ent lag where
  increment: "0 < n \<Longrightarrow> rd_now (q_redis s) < e_PeriodEnd ent + lag \<Longrightarrow>
    on_redis (IncrBy (usageKey us tid (e_PeriodStart ent)) n) s = (Inr used, s') \<Longrightarrow>
    serves us url tid ent lag \<lparr>sv_world = s, sv_granted = g, sv_waiting = ws\<rparr>
      \<lparr>sv_world = s', sv_granted = g, sv_waiting = (n, used) # ws\<rparr>"
| increment_fails: "on_redis (IncrBy (usageKey us tid (e_PeriodStart ent)) n) s = (Inl err, s') \<Longrightarrow>
    serves us url tid ent lag \<lparr>sv_world = s, sv_granted = g, sv_waiting = ws\<rparr>
      \<lparr>sv_world = s', sv_granted = g, sv_waiting = ws\<rparr>"
| decide: "(n, used) \<in> set ws \<Longrightarrow> reserve_decide us url tid ent n used s = (Inr d, s') \<Longrightarrow>
    serves us url tid ent lag \<lparr>sv_world = s, sv_granted = g, sv_waiting = ws\<rparr>
      \<lparr>sv_world = s', sv_granted = (if d_Allowed d then n # g else g), sv_waiting = remove1 (n, used) ws\<rparr>"
| refund_granted: "n \<in> set g \<Longrightarrow> Refund us tid now n s = (r, s') \<Longrightarrow>
    serves us url tid ent lag \<lparr>sv_world = s, sv_granted = g, sv_waiting = ws\<rparr>
      \<lparr>sv_world = s', sv_granted = remove1 n g, sv_waiting = ws\<rparr>"
| elapse: "0 \<le> d \<Longrightarrow>
    serves us url tid ent lag \<lparr>sv_world = s, sv_granted = g, sv_waiting = ws\<rparr>
      \<lparr>sv_world = s\<lparr>q_redis := Elapse d (q_redis s)\<rparr>, sv_granted = g, sv_waiting = ws\<rparr>"

abbreviation counter_of :: "(uuid \<Rightarrow> string) \<Rightarrow> uuid \<Rightarrow> Entitlements \<Rightarrow> qworld \<Rightarrow> int" where
  "counter_of us tid ent s \<equiv> rd_value (q_redis s) (usageKey us tid (e_PeriodStart ent))"

definition to_grant :: "int \<Rightarrow> (int \<times> int) list \<Rightarrow> int" where
  "to_grant limit ws = sum_list (map fst (filter (\<lambda>(n, used). used \<le> limit) ws))"

text \<open>The deadline of the counter is not before the 46th day of the period.\<close>

definition outlives :: "(uuid \<Rightarrow> string) \<Rightarrow> uuid \<Rightarrow> Entitlements \<Rightarrow> redis \<Rightarrow> bool" where
  "outlives us tid ent rd \<longleftrightarrow> (case rd_deadline rd (usageKey us tid (e_PeriodStart ent)) of
     None \<Rightarrow> True | Some d \<Rightarrow> e_PeriodStart ent + 45 * 24 * hour_ns \<le> d)"

definition serving_inv :: "(uuid \<Rightarrow> string) \<Rightarrow> uuid \<Rightarrow> Entitlements \<Rightarrow> serving \<Rightarrow> bool" where
  "serving_inv us tid ent v \<longleftrightarrow> list_all (\<lambda>n. 0 < n) (sv_granted v) \<and> list_all (\<lambda>n. 0 < n) (map fst (sv_waiting v)) \<and>
     sum_list (sv_granted v) + to_grant (e_MessageLimit ent) (sv_waiting v) \<le> max 0 (e_MessageLimit ent) \<and>
     e_PeriodStart ent \<le> rd_now (q_redis (sv_world v)) \<and>
     (rd_now (q_redis (sv_world v)) < e_PeriodStart ent + 45 * 24 * hour_ns \<longrightarrow>
        outlives us tid ent (q_redis (sv_world v)) \<and>
        sum_list (sv_granted v) + sum_list (map fst (sv_waiting v)) \<le> counter_of us tid ent (sv_world v))"

lemma sum_fst_remove1: "w \<in> set ws \<Longrightarrow> sum_list (map fst (remove1 w ws)) = sum_list (map fst ws) - (fst w :: int)"
  by (induction ws) auto

lemma to_grant_remove1:
  "w \<in> set ws \<Longrightarrow> to_grant L (remove1 w ws) = to_grant L ws - (if snd w \<le> L then fst w else 0)"
  by (induction ws) (auto simp: to_grant_def)

lemma to_grant_le: "list_all (\<lambda>n. 0 < n) (map fst ws) \<Longrightarrow> to_grant L ws \<le> sum_list (map fst ws)"
  by (induction ws) (auto simp: to_grant_def)

lemma map_fst_pos: "list_all P (map fst ws) \<Longrightarrow> list_all P (map fst (remove1 w ws))"
  by (induction ws) auto

text \<open>What each command does to the deadline and the clock.\<close>

lemma command_clock [simp]:
  "rd_now (snd (IncrBy k n rd)) = rd_now rd" "rd_now (snd (DecrBy k n rd)) = rd_now rd"
  "rd_now (snd (Expire k ttl rd)) = rd_now rd" "rd_now (snd (SetNX k v ttl rd)) = rd_now rd"
  by (auto simp: redis_command_defs split: list.splits option.splits)

lemma counting_keeps_deadline [simp]:
  "rd_deadline (snd (IncrBy k n rd)) k' = rd_deadline rd k'" "rd_deadline (snd (DecrBy k n rd)) k' = rd_deadline rd k'"
  by (auto simp: redis_command_defs split: list.splits option.splits)

lemma counting_other_key:
  "k' \<noteq> k \<Longrightarrow> rd_keys (snd (IncrBy k n rd)) k' = rd_keys rd k'"
  "k' \<noteq> k \<Longrightarrow> rd_keys (snd (DecrBy k n rd)) k' = rd_keys rd k'"
  "k' \<noteq> k \<Longrightarrow> rd_keys (snd (Expire k ttl rd)) k' = rd_keys rd k'"
  "k' \<noteq> k \<Longrightarrow> rd_keys (snd (SetNX k v ttl rd)) k' = rd_keys rd k'"
  by (auto simp: redis_command_defs rd_store_def split: list.splits option.splits)

lemma notifyThreshold_other [simp]:
  "rd_keys (q_redis (notifyThreshold us url t ent used pct s)) (usageKey us' t' p) = rd_keys (q_redis s) (usageKey us' t' p)"
  "rd_now (q_redis (notifyThreshold us url t ent used pct s)) = rd_now (q_redis s)"
proof -
  obtain r rd where d: "SetNX (alertKey us t (e_PeriodStart ent) pct) 1 counterTTL (q_redis s) = (r, rd)" by fastforce
  then have "rd_now rd = rd_now (q_redis s)" "rd_keys rd (usageKey us' t' p) = rd_keys (q_redis s) (usageKey us' t' p)"
    using command_clock(4) counting_other_key(4) [OF usage_alert_keys(1)] by (metis snd_conv)+
  with d show "rd_keys (q_redis (notifyThreshold us url t ent used pct s)) (usageKey us' t' p) = rd_keys (q_redis s) (usageKey us' t' p)"
    "rd_now (q_redis (notifyThreshold us url t ent used pct s)) = rd_now (q_redis s)"
    by (simp_all add: notifyThreshold_def on_redis_def split: sum.splits)
qed

lemma Expire_outlives:
  assumes "outlives us tid ent rd" and "e_PeriodStart ent \<le> rd_now rd"
  shows "outlives us tid ent (snd (Expire (usageKey us tid (e_PeriodStart ent)) counterTTL rd))"
  using assms by (auto simp: outlives_def Expire_def redis_call_def rd_deadline_def counterTTL_def duration_defs
      split: list.splits option.splits)

lemma reserve_decide_counter:
  assumes "reserve_decide us url tid ent n used s = (Inr d, s')"
  shows "if used \<le> e_MessageLimit ent then d_Allowed d \<and> counter_of us tid ent s' = counter_of us tid ent s
    else \<not> d_Allowed d \<and> counter_of us tid ent s' \<in> {counter_of us tid ent s, counter_of us tid ent s - n}"
    and "rd_now (q_redis s') = rd_now (q_redis s)"
    and "outlives us tid ent (q_redis s) \<Longrightarrow> e_PeriodStart ent \<le> rd_now (q_redis s) \<Longrightarrow> outlives us tid ent (q_redis s')"
proof -
  let ?k = "usageKey us tid (e_PeriodStart ent)"
  define s1 where "s1 = (if used = n then snd (on_redis (Expire ?k counterTTL) s) else s)"
  have v1: "rd_value (q_redis s1) ?k = rd_value (q_redis s) ?k" "rd_now (q_redis s1) = rd_now (q_redis s)"
    by (simp_all add: s1_def Expire_value)
  obtain r rd where d: "DecrBy ?k n (q_redis s1) = (r, rd)" by fastforce
  have "rd_value rd ?k = rd_value (q_redis s) ?k - n \<or> rd_value rd ?k = rd_value (q_redis s) ?k"
    using DecrBy_value [where k = ?k and n = n and rd = "q_redis s1"] d v1 by (auto split: sum.splits)
  with assms d v1 show "if used \<le> e_MessageLimit ent then d_Allowed d \<and> counter_of us tid ent s' = counter_of us tid ent s
    else \<not> d_Allowed d \<and> counter_of us tid ent s' \<in> {counter_of us tid ent s, counter_of us tid ent s - n}"
    unfolding reserve_decide_def Let_def s1_def [symmetric]
    by (auto simp: notifyThreshold_usage on_redis_def split: if_splits)
  have rd: "rd_now rd = rd_now (q_redis s1)" "rd_deadline rd ?k = rd_deadline (q_redis s1) ?k"
    using command_clock(2) [of ?k n "q_redis s1"] counting_keeps_deadline(2) [of ?k n "q_redis s1" ?k] d by simp_all
  have dl: "rd_now (q_redis s') = rd_now (q_redis s1) \<and> rd_deadline (q_redis s') ?k = rd_deadline (q_redis s1) ?k"
    using assms d rd unfolding reserve_decide_def Let_def s1_def [symmetric]
    by (auto simp: on_redis_def rd_deadline_def split: if_splits)
  then show "rd_now (q_redis s') = rd_now (q_redis s)" using v1 by simp
  show "outlives us tid ent (q_redis s')" if "outlives us tid ent (q_redis s)" "e_PeriodStart ent \<le> rd_now (q_redis s)"
  proof -
    have "outlives us tid ent (q_redis s1)" using that Expire_outlives by (simp add: s1_def)
    with dl show ?thesis by (simp add: outlives_def)
  qed
qed

text \<open>A refund of what the counter holds needs no clamp; one charged to another period leaves this counter alone.\<close>

lemma Refund_clock:
  assumes "Refund us tid now n s = (r, s')"
  shows "rd_now (q_redis s') = rd_now (q_redis s)" "rd_deadline (q_redis s') k = rd_deadline (q_redis s) k"
proof -
  obtain x s1 where e: "on_qdb (EntitlementsOrFree tid now) s = (x, s1)" by fastforce
  then have q: "q_redis s1 = q_redis s" by (metis on_qdb_sel(2) snd_conv)
  have "rd_now (q_redis s') = rd_now (q_redis s) \<and> rd_deadline (q_redis s') k = rd_deadline (q_redis s) k"
  proof (cases x)
    case (Inl err)
    then show ?thesis using assms e q by (simp add: Refund_def)
  next
    case (Inr en)
    let ?k = "usageKey us tid (e_PeriodStart en)"
    obtain y s2 where d: "on_redis (DecrBy ?k n) s1 = (y, s2)" by fastforce
    then have "q_redis s2 = snd (DecrBy ?k n (q_redis s1))" by (metis on_redis_sel(2) snd_conv)
    with Inr e d q assms show ?thesis by (auto simp: Refund_def Let_def split: sum.splits if_splits)
  qed
  then show "rd_now (q_redis s') = rd_now (q_redis s)" "rd_deadline (q_redis s') k = rd_deadline (q_redis s) k" by simp_all
qed

lemma Refund_counter:
  assumes "Refund us tid now n s = (r, s')" and "n \<le> counter_of us tid ent s"
  shows "counter_of us tid ent s' \<in> {counter_of us tid ent s, counter_of us tid ent s - n}"
proof -
  let ?k = "usageKey us tid (e_PeriodStart ent)"
  obtain x s1 where e: "on_qdb (EntitlementsOrFree tid now) s = (x, s1)" by fastforce
  then have q: "q_redis s1 = q_redis s" by (metis on_qdb_sel(2) snd_conv)
  show ?thesis
  proof (cases x)
    case (Inl err)
    then show ?thesis using assms(1) e q by (simp add: Refund_def)
  next
    case (Inr en)
    let ?k' = "usageKey us tid (e_PeriodStart en)"
    obtain y rd where d: "DecrBy ?k' n (q_redis s) = (y, rd)" by fastforce
    have R: "s' = (case y of Inl _ \<Rightarrow> s1\<lparr>q_redis := rd\<rparr> | Inr v \<Rightarrow>
        if v < 0 then snd (on_redis (IncrBy ?k' (- v)) (s1\<lparr>q_redis := rd\<rparr>)) else s1\<lparr>q_redis := rd\<rparr>)"
      using assms(1) e q d Inr by (cases y) (simp_all add: Refund_def Let_def on_redis_def)
    show ?thesis
    proof (cases "?k' = ?k")
      case True
      then have "case y of Inl _ \<Rightarrow> rd_value rd ?k = counter_of us tid ent s
          | Inr v \<Rightarrow> v = counter_of us tid ent s - n \<and> rd_value rd ?k = v"
        using DecrBy_value [where k = ?k and n = n and rd = "q_redis s"] d by (simp split: sum.splits)
      then show ?thesis using R assms(2) by (auto split: sum.splits)
    next
      case False
      then have "rd_keys rd ?k = rd_keys (q_redis s) ?k"
        using counting_other_key(2) [of ?k ?k' n "q_redis s"] d by simp
      then have "rd_keys (q_redis s') ?k = rd_keys (q_redis s) ?k"
        using R False counting_other_key(1) [of ?k ?k' _ rd] by (simp split: sum.splits)
      then show ?thesis by (simp add: rd_value_def)
    qed
  qed
qed

lemma Elapse_keeps:
  assumes "outlives us tid ent rd" and "rd_now rd + d < e_PeriodStart ent + 45 * 24 * hour_ns"
  shows "outlives us tid ent (Elapse d rd)"
    and "rd_value (Elapse d rd) (usageKey us tid (e_PeriodStart ent)) = rd_value rd (usageKey us tid (e_PeriodStart ent))"
  using assms by (auto simp: outlives_def Elapse_def Let_def rd_value_def rd_deadline_def split: option.splits)

lemma serving_inv_step:
  assumes "serves us url tid ent lag v v'" and "serving_inv us tid ent v"
    and "e_PeriodEnd ent + lag \<le> e_PeriodStart ent + 45 * 24 * hour_ns"
  shows "serving_inv us tid ent v'"
  using assms(1)
proof (cases rule: serves.cases)
  case (increment n s used s' g ws)
  let ?k = "usageKey us tid (e_PeriodStart ent)"
  have s': "q_redis s' = snd (IncrBy ?k n (q_redis s))" using increment(5) by (metis on_redis_sel(2) snd_conv)
  with IncrBy_value [where k = ?k and n = n and rd = "q_redis s"] increment(5)
  have u: "used = counter_of us tid ent s + n" "counter_of us tid ent s' = used"
    by (auto simp: on_redis_def split: prod.splits sum.splits)
  have alive: "rd_now (q_redis s) < e_PeriodStart ent + 45 * 24 * hour_ns" using increment(4) assms(3) by simp
  have o: "outlives us tid ent (q_redis s') = outlives us tid ent (q_redis s)" "rd_now (q_redis s') = rd_now (q_redis s)"
    by (simp_all add: outlives_def s')
  show ?thesis using increment(1-3) assms(2) to_grant_le [of ws "e_MessageLimit ent"] u alive o
    by (auto simp: serving_inv_def to_grant_def)
next
  case (increment_fails n s err s' g ws)
  let ?k = "usageKey us tid (e_PeriodStart ent)"
  have s': "q_redis s' = snd (IncrBy ?k n (q_redis s))" using increment_fails(3) by (metis on_redis_sel(2) snd_conv)
  with IncrBy_value [where k = ?k and n = n and rd = "q_redis s"] increment_fails(3)
  have "counter_of us tid ent s' = counter_of us tid ent s"
    by (auto simp: on_redis_def split: prod.splits sum.splits)
  then show ?thesis using increment_fails(1,2) assms(2) by (auto simp: serving_inv_def outlives_def s')
next
  case (decide n used ws s d s' g)
  moreover from this assms(2) have "0 < n" by (auto simp: serving_inv_def list_all_iff)
  ultimately show ?thesis
    using assms(2) reserve_decide_counter [OF decide(4)]
    by (auto simp: serving_inv_def sum_fst_remove1 to_grant_remove1 map_fst_pos split: if_splits)
next
  case (refund_granted n g now s r s' ws)
  have "list_all (\<lambda>n. 0 < n) g" "list_all (\<lambda>n. 0 < n) (map fst ws)"
    using refund_granted assms(2) by (simp_all add: serving_inv_def)
  then have n: "0 < n" "0 \<le> sum_list (remove1 n g)" "0 \<le> sum_list (map fst ws)" "sum_list (remove1 n g) = sum_list g - n"
    using list_all_in [OF _ refund_granted(3)] sum_list_pos [OF list_all_remove1] sum_list_pos sum_list_remove1 [OF refund_granted(3)]
    by blast+
  have "counter_of us tid ent s' \<in> {counter_of us tid ent s, counter_of us tid ent s - n}"
    if "rd_now (q_redis s) < e_PeriodStart ent + 45 * 24 * hour_ns"
    using Refund_counter [OF refund_granted(4)] that refund_granted(1) assms(2) n by (simp add: serving_inv_def)
  with refund_granted(1-3) assms(2) n Refund_clock [OF refund_granted(4)] show ?thesis
    by (auto simp: serving_inv_def list_all_remove1 outlives_def)
next
  case (elapse d s g ws)
  have "rd_now (Elapse d (q_redis s)) = rd_now (q_redis s) + d" by (simp add: Elapse_def Let_def)
  with elapse assms(2) Elapse_keeps [of us tid ent "q_redis s" d] show ?thesis by (auto simp: serving_inv_def)
qed

lemma serving_inv_steps:
  assumes "(serves us url tid ent lag)\<^sup>*\<^sup>* v v'" and "serving_inv us tid ent v"
    and "e_PeriodEnd ent + lag \<le> e_PeriodStart ent + 45 * 24 * hour_ns"
  shows "serving_inv us tid ent v'"
  using assms(1,2) by (induction rule: rtranclp_induct) (auto intro: serving_inv_step [OF _ _ assms(3)])



text \<open>
  The bound on the period is needed: under an entitlement of sixty days with a limit of one message, a message is
  granted on the first day and another one on the 46th, when Redis has dropped the counter.
\<close>

definition long_period :: Entitlements where
  "long_period = (FreeDefaults 1 0)\<lparr>e_MessageLimit := 1, e_PeriodStart := 0, e_PeriodEnd := 60 * 24 * hour_ns\<rparr>"

theorem long_period_oversold:
  "let reserved = (\<lambda>s. case on_redis (IncrBy (usageKey (\<lambda>_. ''t'') 1 0) 1) s of
         (Inr used, s') \<Rightarrow> reserve_decide (\<lambda>_. ''t'') [] 1 long_period 1 used s' | (Inl e, s') \<Rightarrow> (Inl e, s'));
       (d1, s1) = reserved demo_quota;
       (d2, s2) = reserved s1;
       (d3, s3) = reserved (s2\<lparr>q_redis := Elapse (45 * 24 * hour_ns) (q_redis s2)\<rparr>)
   in map (\<lambda>d. d_Allowed (projr d)) [d1, d2, d3] = [True, False, True] \<and>
      rd_now (q_redis s3) < e_PeriodEnd long_period"
  by code_simp

end
