(* ===== verification/Quota_Specs.thy ===== *)
theory Quota_Specs
  imports Quota_Laws
begin

text \<open>
  Threshold alerts, the clamp of a refund, and the middleware. The middleware is verified against the
  contract \<open>reserver_refunder\<close> of \<^verbatim>\<open>ReserverRefunder\<close> (\<^verbatim>\<open>internal/quota/middleware.go\<close>), which
  the quota service is shown to meet.
\<close>

section \<open>Alerts\<close>

datatype quota_op =
    OpReserve uuid time time int
  | OpRefund uuid time int
  | OpElapse duration

fun run_quota :: "(uuid \<Rightarrow> string) \<Rightarrow> string \<Rightarrow> quota_op list \<Rightarrow> qworld \<Rightarrow> qworld" where
  "run_quota us url [] s = s"
| "run_quota us url (OpReserve t now now' n # ops) s = run_quota us url ops (snd (Reserve us url t now now' n s))"
| "run_quota us url (OpRefund t now n # ops) s = run_quota us url ops (snd (Refund us t now n s))"
| "run_quota us url (OpElapse d # ops) s = run_quota us url ops (s\<lparr>q_redis := Elapse d (q_redis s)\<rparr>)"

text \<open>
  The clocks of a run: time does not go back, and each reservation is made when the period of the tenant's entitlement
  has begun by Redis' clock, Redis' clock is at most \<open>lag\<close> ahead of the service's, and the period with that lag lasts
  at most 45 days.
\<close>

fun timely :: "duration \<Rightarrow> (uuid \<Rightarrow> string) \<Rightarrow> string \<Rightarrow> quota_op list \<Rightarrow> qworld \<Rightarrow> bool" where
  "timely lag us url [] s \<longleftrightarrow> True"
| "timely lag us url (OpReserve t now now' n # ops) s \<longleftrightarrow>
     (let ent = ent_of (q_db s) t now
      in e_PeriodStart ent \<le> rd_now (q_redis s) \<and> rd_now (q_redis s) \<le> now' + lag \<and>
         e_PeriodEnd ent + lag \<le> e_PeriodStart ent + 45 * 24 * hour_ns) \<and>
     timely lag us url ops (snd (Reserve us url t now now' n s))"
| "timely lag us url (OpRefund t now n # ops) s \<longleftrightarrow> timely lag us url ops (snd (Refund us t now n s))"
| "timely lag us url (OpElapse d # ops) s \<longleftrightarrow> 0 \<le> d \<and> timely lag us url ops (s\<lparr>q_redis := Elapse d (q_redis s)\<rparr>)"

definition alert_id :: "alert \<Rightarrow> uuid \<times> time \<times> int" where
  "alert_id a = (al_tenant a, al_period_start a, al_threshold a)"

text \<open>While a period can still be open, the key of an alert sent for it is there and will be until it cannot.\<close>

definition guarded :: "(uuid \<Rightarrow> string) \<Rightarrow> redis \<Rightarrow> alert \<Rightarrow> bool" where
  "guarded us rd a \<longleftrightarrow> al_period_start a + 45 * 24 * hour_ns \<le> rd_now rd \<or>
     (case rd_keys rd (alertKey us (al_tenant a) (al_period_start a) (al_threshold a)) of
        None \<Rightarrow> False
      | Some (_, None) \<Rightarrow> True
      | Some (_, Some d) \<Rightarrow> al_period_start a + 45 * 24 * hour_ns \<le> d)"

definition alerts_ok :: "(uuid \<Rightarrow> string) \<Rightarrow> qworld \<Rightarrow> bool" where
  "alerts_ok us s \<longleftrightarrow> distinct (map alert_id (q_alerts s)) \<and> list_all (guarded us (q_redis s)) (q_alerts s)"

lemma guarded_cong:
  "rd_now rd' = rd_now rd \<Longrightarrow> (\<And>t p pct. rd_keys rd' (alertKey us t p pct) = rd_keys rd (alertKey us t p pct)) \<Longrightarrow>
    guarded us rd' a = guarded us rd a"
  by (simp add: guarded_def)

lemma alerts_ok_cong:
  "q_alerts s' = q_alerts s \<Longrightarrow> rd_now (q_redis s') = rd_now (q_redis s) \<Longrightarrow>
    (\<And>t p pct. rd_keys (q_redis s') (alertKey us t p pct) = rd_keys (q_redis s) (alertKey us t p pct)) \<Longrightarrow>
    alerts_ok us s' = alerts_ok us s"
  using guarded_cong [of "q_redis s'" "q_redis s" us] by (simp add: alerts_ok_def list_all_iff)

lemma alerts_ok_on_qdb [simp]: "alerts_ok us (snd (on_qdb f s)) = alerts_ok us s"
  by (rule alerts_ok_cong) simp_all

lemma alerts_ok_counting [simp]:
  "alerts_ok us (snd (on_redis (IncrBy (usageKey us' t p) n) s)) = alerts_ok us s"
  "alerts_ok us (snd (on_redis (DecrBy (usageKey us' t p) n) s)) = alerts_ok us s"
  "alerts_ok us (snd (on_redis (Expire (usageKey us' t p) ttl) s)) = alerts_ok us s"
  by (rule alerts_ok_cong; simp add: counting_other_key)+

text \<open>An alert is sent only when its key was absent, which within 45 days of the period's start means it is the first.\<close>

lemma SetNX_sets:
  "SetNX k v ttl rd = (Inr u, rd') \<Longrightarrow> rd_keys rd k = None \<and> rd_keys rd' = (rd_keys rd)(k \<mapsto> (v, Some (rd_now rd + ttl)))"
  "SetNX k v ttl rd = (Inl e, rd') \<Longrightarrow> rd_keys rd' = rd_keys rd"
  by (auto simp: redis_command_defs split: list.splits option.splits)

lemma SetNX_guarded:
  assumes "SetNX (alertKey us t p pct) v counterTTL rd = (r, rd')" and "guarded us rd a" and "p \<le> rd_now rd"
  shows "guarded us rd' a"
proof -
  have "rd_now rd' = rd_now rd" using command_clock(4) assms(1) by (metis snd_conv)
  moreover have "rd_keys rd' = rd_keys rd \<or> (rd_keys rd (alertKey us t p pct) = None \<and>
      (\<exists>x. rd_keys rd' = (rd_keys rd)(alertKey us t p pct \<mapsto> x)))"
    using SetNX_sets assms(1) by (cases r) auto
  ultimately show ?thesis using assms(2)
    by (cases "alertKey us (al_tenant a) (al_period_start a) (al_threshold a) = alertKey us t p pct") (auto simp: guarded_def)
qed

lemma alerts_ok_notify:
  assumes "alerts_ok us s" and "e_PeriodStart ent \<le> rd_now (q_redis s)"
    and "rd_now (q_redis s) < e_PeriodStart ent + 45 * 24 * hour_ns"
  shows "alerts_ok us (notifyThreshold us url t ent used pct s)"
proof -
  let ?k = "alertKey us t (e_PeriodStart ent) pct"
  obtain r rd where d: "SetNX ?k 1 counterTTL (q_redis s) = (r, rd)" by fastforce
  then have now: "rd_now rd = rd_now (q_redis s)" using command_clock(4) by (metis snd_conv)
  have old: "list_all (guarded us rd) (q_alerts s)"
    using assms(1) SetNX_guarded [OF d _ assms(2)] by (simp add: alerts_ok_def list_all_iff)
  show ?thesis
  proof (cases "url = [] \<or> (\<exists>e. r = Inl e)")
    case True
    then show ?thesis using assms(1) d old by (auto simp: notifyThreshold_def on_redis_def alerts_ok_def)
  next
    case False
    then obtain u where u: "url \<noteq> []" "r = Inr u" by (cases r) auto
    note k = SetNX_sets(1) [OF d [unfolded u(2)]]
    let ?a = "\<lparr>al_tenant = t, al_period_start = e_PeriodStart ent, al_usage = used, al_limit = e_MessageLimit ent, al_threshold = pct\<rparr>"
    have new: "alert_id b \<noteq> alert_id ?a" if "b \<in> set (q_alerts s)" for b
      using that assms(1,3) k by (auto simp: alerts_ok_def list_all_iff guarded_def alert_id_def)
    moreover have "guarded us rd ?a" using k assms(2) by (simp add: guarded_def counterTTL_def)
    ultimately show ?thesis using u d old assms(1)
      by (auto simp: notifyThreshold_def on_redis_def alerts_ok_def dest: new)
  qed
qed

lemma alerts_ok_decide:
  assumes "alerts_ok us s" and "e_PeriodStart ent \<le> rd_now (q_redis s)"
    and "rd_now (q_redis s) < e_PeriodStart ent + 45 * 24 * hour_ns"
  shows "alerts_ok us (snd (reserve_decide us url t ent n used s))"
proof -
  let ?k = "usageKey us t (e_PeriodStart ent)"
  define s1 where "s1 = (if used = n then snd (on_redis (Expire ?k counterTTL) s) else s)"
  have s1: "alerts_ok us s1" "rd_now (q_redis s1) = rd_now (q_redis s)" using assms(1) by (simp_all add: s1_def)
  moreover have "alerts_ok us (snd (on_redis (DecrBy ?k n) s1))"
    "rd_now (q_redis (snd (on_redis (DecrBy ?k n) s1))) = rd_now (q_redis s)" using s1 by simp_all
  ultimately show ?thesis
    unfolding reserve_decide_def Let_def s1_def [symmetric] using assms(2,3)
    by (cases "on_redis (DecrBy ?k n) s1") (simp add: alerts_ok_notify)
qed

lemma EntitlementsOrFree_ent:
  "fst (EntitlementsOrFree tid now db) = Inr ent \<Longrightarrow> ent = ent_of db tid now"
  by (auto simp: EntitlementsOrFree_def Entitlement_GetByTenantID_def scan_row_def pg_query_def pg_call_def one_row_def ent_of_def
      split: list.splits option.splits sum.splits prod.splits if_splits)

lemma alerts_ok_Reserve:
  assumes "alerts_ok us s" and "ent = ent_of (q_db s) t now" and "e_PeriodStart ent \<le> rd_now (q_redis s)"
    and "rd_now (q_redis s) \<le> now' + lag" and "e_PeriodEnd ent + lag \<le> e_PeriodStart ent + 45 * 24 * hour_ns"
  shows "alerts_ok us (snd (Reserve us url t now now' n s))"
proof -
  obtain r s1 where q: "on_qdb (EntitlementsOrFree t now) s = (r, s1)" by fastforce
  have s1: "alerts_ok us s1" "q_redis s1 = q_redis s" "r = fst (EntitlementsOrFree t now (q_db s))"
    using q assms(1) alerts_ok_on_qdb on_qdb_sel by (metis fst_conv snd_conv)+
  show ?thesis
  proof (cases "\<exists>e. r = Inr e \<and> now' < e_PeriodEnd e")
    case True
    then obtain e where e: "r = Inr e" "now' < e_PeriodEnd e" by blast
    with s1(3) assms(2) have "e = ent" using EntitlementsOrFree_ent by metis
    obtain r2 s2 where i: "on_redis (IncrBy (usageKey us t (e_PeriodStart ent)) n) s1 = (r2, s2)" by fastforce
    then have "alerts_ok us s2" "rd_now (q_redis s2) = rd_now (q_redis s)"
      using s1 alerts_ok_counting(1) [of us us t "e_PeriodStart ent" n s1]
        on_redis_sel(2) [of "IncrBy (usageKey us t (e_PeriodStart ent)) n" s1] by simp_all
    moreover have "rd_now (q_redis s) < e_PeriodStart ent + 45 * 24 * hour_ns" using assms(4,5) e \<open>e = ent\<close> by simp
    ultimately show ?thesis
      using q i e \<open>e = ent\<close> assms(3) by (simp add: Reserve_def alerts_ok_decide split: sum.splits)
  next
    case False
    then show ?thesis using q s1(1) by (auto simp: Reserve_def split: sum.splits)
  qed
qed

lemma alerts_ok_Refund: "alerts_ok us s \<Longrightarrow> alerts_ok us (snd (Refund us t now n s))"
proof -
  assume ok: "alerts_ok us s"
  obtain r s1 where q: "on_qdb (EntitlementsOrFree t now) s = (r, s1)" by fastforce
  with ok have s1: "alerts_ok us s1" by (metis alerts_ok_on_qdb snd_conv)
  show ?thesis
  proof (cases r)
    case (Inr ent)
    let ?k = "usageKey us t (e_PeriodStart ent)"
    obtain r2 s2 where i: "on_redis (DecrBy ?k n) s1 = (r2, s2)" by fastforce
    with s1 have "alerts_ok us s2" by (metis alerts_ok_counting(2) snd_conv)
    with q i Inr show ?thesis by (simp add: Refund_def Let_def split: sum.splits)
  qed (use s1 q in \<open>simp add: Refund_def\<close>)
qed

lemma guarded_Elapse: "guarded us rd a \<Longrightarrow> 0 \<le> d \<Longrightarrow> guarded us (Elapse d rd) a"
  by (cases "rd_keys rd (alertKey us (al_tenant a) (al_period_start a) (al_threshold a))")
    (auto simp: guarded_def Elapse_def Let_def rd_deadline_def split: option.splits)

lemma alerts_ok_Elapse: "alerts_ok us s \<Longrightarrow> 0 \<le> d \<Longrightarrow> alerts_ok us (s\<lparr>q_redis := Elapse d (q_redis s)\<rparr>)"
  by (simp add: alerts_ok_def list_all_iff guarded_Elapse)

lemma alerts_ok_run: "timely lag us url ops s \<Longrightarrow> alerts_ok us s \<Longrightarrow> alerts_ok us (run_quota us url ops s)"
  by (induction lag us url ops s rule: timely.induct)
    (use alerts_ok_Reserve [OF _ refl] in \<open>auto simp: alerts_ok_Refund alerts_ok_Elapse Let_def\<close>)



text \<open>In a longer period the record expires and the alert is repeated.\<close>

theorem long_period_alerts_twice:
  "map al_threshold (q_alerts (run_quota (\<lambda>_. ''t'') ''http://b''
     [OpReserve 1 0 0 1, OpReserve 1 0 0 1, OpElapse (46 * 24 * hour_ns), OpReserve 1 0 (46 * 24 * hour_ns) 1]
     (demo_quota\<lparr>q_db := (q_db demo_quota)\<lparr>db_entitlements := [long_period]\<rparr>\<rparr>))) = [100, 100]"
  by code_simp

section \<open>The clamp of a refund\<close>

text \<open>
  The clamp is a second command, so two refunds of an absent counter (a key that expired or was
  reset) can interleave as decrement, decrement, correction, correction; the counter then ends at 1 although
  nothing is reserved, where one refund after the other ends at 0.
\<close>

theorem refund_clamp_race:
  assumes "rd_faults rd = []" and "rd_keys rd key = None"
  shows "(let (a, rd1) = DecrBy key 1 rd; (b, rd2) = DecrBy key 1 rd1;
      (_, rd3) = IncrBy key (- projr a) rd2; (_, rd4) = IncrBy key (- projr b) rd3
    in rd_value rd4 key) = 1 \<and>
    (let (a, rd1) = DecrBy key 1 rd; (_, rd2) = IncrBy key (- projr a) rd1;
      (b, rd3) = DecrBy key 1 rd2; (_, rd4) = IncrBy key (- projr b) rd3
    in rd_value rd4 key) = 0"
  proof -
  have "rd_value rd key = 0" using assms(2) by (simp add: rd_value_def)
  then show ?thesis using assms(1) by (simp add: IncrBy_def DecrBy_def fits64_def Let_def)
qed

theorem refund_clamp_race_witness:
  "(let rd = q_redis demo_quota; (a, rd1) = DecrBy ''k'' 1 rd; (b, rd2) = DecrBy ''k'' 1 rd1;
      (_, rd3) = IncrBy ''k'' (- projr a) rd2; (_, rd4) = IncrBy ''k'' (- projr b) rd3
    in rd_value rd4 ''k'') = 1"
  using refund_clamp_race [of "q_redis demo_quota" "''k''"] by (simp add: demo_quota_def Let_def)

section \<open>The middleware\<close>

text \<open>The first \<^verbatim>\<open>WriteHeader\<close> wins, 200 when the handler writes none.\<close>

definition effective_status :: "int list \<Rightarrow> int" where
  "effective_status codes = (case codes of [] \<Rightarrow> 200 | c # _ \<Rightarrow> c)"

lemma WriteHeader_sticky: "fold WriteHeader codes \<lparr>sr_status = c, sr_wroteHeader = True\<rparr> = \<lparr>sr_status = c, sr_wroteHeader = True\<rparr>"
  by (induction codes) (simp_all add: WriteHeader_def)

lemma recorder_status [simp]:
  "sr_status (fold WriteHeader codes \<lparr>sr_status = 200, sr_wroteHeader = False\<rparr>) = effective_status codes"
  by (cases codes) (simp_all add: effective_status_def WriteHeader_sticky WriteHeader_def)

lemma reservation_size_pos: "reservation_size r = Inr n \<Longrightarrow> 0 < n"
  by (auto simp: reservation_size_def split: if_splits sum.splits option.splits)

locale reserver_refunder =
  fixes reserve :: "uuid \<Rightarrow> int \<Rightarrow> 's \<Rightarrow> (goerr + Decision) \<times> 's"
    and refund :: "uuid \<Rightarrow> int \<Rightarrow> 's \<Rightarrow> goerr option \<times> 's"
    and used :: "uuid \<Rightarrow> 's \<Rightarrow> int"
    and good :: "uuid \<Rightarrow> 's \<Rightarrow> bool"
  assumes reserve_granted: "good t s \<Longrightarrow> 0 < n \<Longrightarrow> reserve t n s = (Inr d, s') \<Longrightarrow> d_Allowed d \<Longrightarrow>
      good t s' \<and> used t s' = used t s + n"
    and reserve_denied: "good t s \<Longrightarrow> 0 < n \<Longrightarrow> reserve t n s = (Inr d, s') \<Longrightarrow> \<not> d_Allowed d \<Longrightarrow> used t s' = used t s"
    and reserve_failed: "good t s \<Longrightarrow> 0 < n \<Longrightarrow> reserve t n s = (Inl e, s') \<Longrightarrow> used t s' = used t s"
    and refund_works: "good t s \<Longrightarrow> 0 < n \<Longrightarrow> n \<le> used t s \<Longrightarrow> used t (snd (refund t n s)) = used t s - n"
    and good_used: "good t s \<Longrightarrow> 0 \<le> used t s"
begin

lemma middleware_net:
  assumes "good t s" and "\<And>s. good t s \<Longrightarrow> good t (snd (nxt r s)) \<and> used t (snd (nxt r s)) = used t s"
  shows "case Middleware reserve refund nxt (Some t) r s of
      (Rejected _ _, s') \<Rightarrow> used t s' = used t s
    | (Served codes, s') \<Rightarrow> used t s' = used t s +
        (if effective_status codes < 400 then projr (reservation_size r) else 0)"
proof (cases "reservation_size r")
  case (Inl e)
  then show ?thesis by (simp add: Middleware_def)
next
  case (Inr n)
  then have n: "0 < n" by (rule reservation_size_pos)
  obtain x s1 where res: "reserve t n s = (x, s1)" by fastforce
  show ?thesis
  proof (cases x)
    case (Inl e)
    with reserve_failed [OF assms(1) n] res Inr show ?thesis by (simp add: Middleware_def)
  next
    case (Inr d)
    show ?thesis
    proof (cases "d_Allowed d")
      case False
      with reserve_denied [OF assms(1) n] res Inr \<open>reservation_size r = Inr n\<close> show ?thesis by (simp add: Middleware_def)
    next
      case True
      with reserve_granted [OF assms(1) n] res Inr have g: "good t s1" "used t s1 = used t s + n" by auto
      obtain codes s2 where h: "nxt r s1 = (codes, s2)" by fastforce
      with g assms(2) [of s1] have "good t s2" "used t s2 = used t s + n" by auto
      with refund_works [of t s2 n] good_used [OF assms(1)] n True res Inr \<open>reservation_size r = Inr n\<close> h
      show ?thesis by (simp add: Middleware_def)
    qed
  qed
qed

end

definition tenant_used :: "(uuid \<Rightarrow> string) \<Rightarrow> time \<Rightarrow> uuid \<Rightarrow> qworld \<Rightarrow> int" where
  "tenant_used us now t s = rd_value (q_redis s) (usageKey us t (e_PeriodStart (ent_of (q_db s) t now)))"

text \<open>
  A healthy tenant: no failures are due, the counter is a 64-bit number that is not negative, and the instant \<open>later\<close>
  of a possible refund is in the same period.
\<close>

definition tenant_good :: "(uuid \<Rightarrow> string) \<Rightarrow> time \<Rightarrow> time \<Rightarrow> uuid \<Rightarrow> qworld \<Rightarrow> bool" where
  "tenant_good us now later t s \<longleftrightarrow> calm s \<and> 0 \<le> tenant_used us now t s \<and> fits64 (tenant_used us now t s) \<and>
     e_PeriodStart (ent_of (q_db s) t later) = e_PeriodStart (ent_of (q_db s) t now)"

lemma Reserve_calm:
  assumes "calm s" and "0 < n" and "fits64 (tenant_used us now t s)" and "0 \<le> tenant_used us now t s"
  shows "case Reserve us url t now now' n s of (r, s') \<Rightarrow> calm s' \<and> q_db s' = q_db s \<and>
    tenant_used us now t s' = tenant_used us now t s + (if \<exists>d. r = Inr d \<and> d_Allowed d then n else 0) \<and>
    fits64 (tenant_used us now t s')"
proof -
  define ent where "ent = ent_of (q_db s) t now"
  define key where "key = usageKey us t (e_PeriodStart ent)"
  define u where "u = rd_value (q_redis s) key"
  have e: "on_qdb (EntitlementsOrFree t now) s = (Inr ent, s)" using assms(1) by (simp add: on_qdb_ent ent_def)
  have tu: "tenant_used us now t s = u" by (simp add: tenant_used_def u_def key_def ent_def)
  define s1 where "s1 = s\<lparr>q_redis := rd_store key (u + n) (q_redis s)\<rparr>"
  have i: "on_redis (IncrBy key n) s = (if fits64 (u + n) then (Inr (u + n), s1)
      else (Inl (plain_error ''ERR increment or decrement would overflow''), s))"
    using assms(1) by (simp add: on_redis_def IncrBy_def calm_def Let_def s1_def u_def)
  have s1: "calm s1" "rd_value (q_redis s1) key = u + n" "q_db s1 = q_db s"
    using assms(1) by (simp_all add: s1_def calm_def)
  show ?thesis
  proof (cases "now' < e_PeriodEnd ent \<and> fits64 (u + n)")
    case True
    then have "Reserve us url t now now' n s = reserve_decide us url t ent n (u + n) s1"
      using e i by (simp add: Reserve_def key_def)
    moreover have "fits64 (u + n - n)" using assms(3) tu by simp
    ultimately show ?thesis
      using reserve_decide_calm [where s = s1 and us = us and tid = t and ent = ent and used = "u + n" and n = n and url = url]
        s1 True tu assms(3)
      by (auto simp: tenant_used_def ent_def [symmetric] key_def [symmetric] split: prod.splits if_splits)
  next
    case False
    then show ?thesis using e i assms(1,3) by (auto simp: Reserve_def key_def)
  qed
qed

interpretation quota_service: reserver_refunder "\<lambda>t n. Reserve us url t now now' n" "\<lambda>t n. Refund us t later n"
    "tenant_used us now" "tenant_good us now later"
  for us url now now' later
proof
  fix t n d s s'
  assume g: "tenant_good us now later t s" and n: "0 < (n :: int)"
    and r: "Reserve us url t now now' n s = (Inr d, s')" and a: "d_Allowed d"
  show "tenant_good us now later t s' \<and> tenant_used us now t s' = tenant_used us now t s + n"
    using Reserve_calm [where s = s and n = n and us = us and now = now and t = t and url = url and now' = now'] g n r a
    by (auto simp: tenant_good_def)
next
  fix t n d s s'
  assume g: "tenant_good us now later t s" and n: "0 < (n :: int)"
    and r: "Reserve us url t now now' n s = (Inr d, s')" and a: "\<not> d_Allowed d"
  show "tenant_used us now t s' = tenant_used us now t s"
    using Reserve_calm [where s = s and n = n and us = us and now = now and t = t and url = url and now' = now'] g n r a
    by (simp add: tenant_good_def)
next
  fix t n e s s'
  assume g: "tenant_good us now later t s" and n: "0 < (n :: int)"
    and r: "Reserve us url t now now' n s = (Inl e, s')"
  show "tenant_used us now t s' = tenant_used us now t s"
    using Reserve_calm [where s = s and n = n and us = us and now = now and t = t and url = url and now' = now'] g n r
    by (simp add: tenant_good_def)
next
  fix t n s
  assume g: "tenant_good us now later t s" and n: "0 < (n :: int)" "n \<le> tenant_used us now t s"
  then have "fits64 n" by (simp add: tenant_good_def fits64_def)
  then show "tenant_used us now t (snd (Refund us t later n s)) = tenant_used us now t s - n"
    using Refund_calm [OF _ refl refl, where s = s and us = us and tid = t and now = later and n = n] g n
    by (simp add: tenant_good_def tenant_used_def)
qed (simp add: tenant_good_def)

text \<open>
  C35. The middleware charges exactly what is served: on a healthy tenant, with a handler that does not
  touch the counter, a rejected request (unreadable body, expired period, quota exceeded, failure) leaves the counter
  as it was; a served request adds its reservation size when the first status it wrote is below 400
  (or none was written) and nothing otherwise.
\<close>

theorem Middleware_charges_served:
  assumes "tenant_good us now later t s"
    and "\<And>s. tenant_good us now later t s \<Longrightarrow>
      tenant_good us now later t (snd (nxt r s)) \<and> tenant_used us now t (snd (nxt r s)) = tenant_used us now t s"
  shows "case Middleware (\<lambda>t n. Reserve us url t now now' n) (\<lambda>t n. Refund us t later n) nxt (Some t) r s of
      (Rejected _ _, s') \<Rightarrow> tenant_used us now t s' = tenant_used us now t s
    | (Served codes, s') \<Rightarrow> tenant_used us now t s' = tenant_used us now t s +
        (if effective_status codes < 400 then projr (reservation_size r) else 0)"
  using assms by (rule quota_service.middleware_net)

theorem Middleware_charges_served_witness:
  "tenant_used (\<lambda>_. ''t'') 0 1 (snd (Middleware (\<lambda>t n. Reserve (\<lambda>_. ''t'') [] t 0 0 n) (\<lambda>t n. Refund (\<lambda>_. ''t'') t 0 n)
      (\<lambda>r s. ([202, 500], s)) (Some 1) \<lparr>qr_path = ''/v1/send-multi'', qr_body = Inr (Some (JObj [(''channels'', JArr [JNull, JNull])]))\<rparr> demo_quota)) = 2"
proof -
  let ?r = "\<lparr>qr_path = ''/v1/send-multi'', qr_body = Inr (Some (JObj [(''channels'', JArr [JNull, JNull])]))\<rparr>"
  have v: "tenant_used (\<lambda>_. ''t'') 0 1 demo_quota = 0"
    by (simp add: tenant_used_def demo_quota_def rd_value_def)
  then have g: "tenant_good (\<lambda>_. ''t'') 0 0 1 demo_quota" by (simp add: tenant_good_def demo_calm fits64_def)
  have m: "fst (Middleware (\<lambda>t n. Reserve (\<lambda>_. ''t'') [] t 0 0 n) (\<lambda>t n. Refund (\<lambda>_. ''t'') t 0 n)
      (\<lambda>r s. ([202, 500], s)) (Some 1) ?r demo_quota) = Served [202, 500]" by code_simp
  have n: "reservation_size ?r = Inr 2" by code_simp
  show ?thesis
    using Middleware_charges_served [OF g, where nxt = "\<lambda>r s. ([202, 500], s)" and r = ?r and url = "[]" and now' = 0] m v n
    by (auto simp: effective_status_def split: prod.splits mw_response.splits)
qed

end
