(* ===== verification/Ssrf.thy ===== *)
theory Ssrf
  imports Domain
begin

text \<open>
  The guard against server-side request forgery (\<^verbatim>\<open>internal/provider/ssrf_guard.go\<close>,
  \<^verbatim>\<open>url_validation.go\<close>): which addresses are refused, the dialer that checks every resolved address
  before it connects, and the static check of a destination URL. A \<^verbatim>\<open>net.IP\<close> is its bytes. The classifiers of
  \<^verbatim>\<open>net.IP\<close> and \<^verbatim>\<open>net.SplitHostPort\<close> are written out; \<^verbatim>\<open>url.Parse(u).Hostname()\<close>,
  \<^verbatim>\<open>net.ParseIP\<close>, \<^verbatim>\<open>IP.String\<close>, the resolver and the plain dial function are arguments.
\<close>

section \<open>Addresses\<close>

type_synonym byte = "8 word"
type_synonym IP = "byte list"

unbundle bit_operations_syntax

definition To4 :: "IP \<Rightarrow> IP option" where
  "To4 ip = (if length ip = 4 then Some ip
     else if length ip = 16 \<and> take 12 ip = replicate 10 0 @ [0xff, 0xff] then Some (drop 12 ip)
     else None)"

text \<open>\<^verbatim>\<open>IP.Equal\<close>: an IPv4 address equals its IPv4-mapped form.\<close>

definition IP_Equal :: "IP \<Rightarrow> IP \<Rightarrow> bool" where
  "IP_Equal ip x =
     (if length ip = length x then ip = x
      else if length ip = 4 \<and> length x = 16 then take 12 x = replicate 10 0 @ [0xff, 0xff] \<and> ip = drop 12 x
      else if length ip = 16 \<and> length x = 4 then take 12 ip = replicate 10 0 @ [0xff, 0xff] \<and> drop 12 ip = x
      else False)"

definition IsUnspecified :: "IP \<Rightarrow> bool" where
  "IsUnspecified ip \<longleftrightarrow> IP_Equal ip (replicate 10 0 @ [0xff, 0xff, 0, 0, 0, 0]) \<or> IP_Equal ip (replicate 16 0)"

definition IsLoopback :: "IP \<Rightarrow> bool" where
  "IsLoopback ip = (case To4 ip of
     Some ip4 \<Rightarrow> ip4 ! 0 = 127
   | None \<Rightarrow> IP_Equal ip (replicate 15 0 @ [1]))"

definition IsPrivate :: "IP \<Rightarrow> bool" where
  "IsPrivate ip = (case To4 ip of
     Some ip4 \<Rightarrow> ip4 ! 0 = 10 \<or> (ip4 ! 0 = 172 \<and> ip4 ! 1 AND 0xf0 = 16) \<or> (ip4 ! 0 = 192 \<and> ip4 ! 1 = 168)
   | None \<Rightarrow> length ip = 16 \<and> ip ! 0 AND 0xfe = 0xfc)"

definition IsMulticast :: "IP \<Rightarrow> bool" where
  "IsMulticast ip = (case To4 ip of
     Some ip4 \<Rightarrow> ip4 ! 0 AND 0xf0 = 0xe0
   | None \<Rightarrow> length ip = 16 \<and> ip ! 0 = 0xff)"

definition IsLinkLocalMulticast :: "IP \<Rightarrow> bool" where
  "IsLinkLocalMulticast ip = (case To4 ip of
     Some ip4 \<Rightarrow> ip4 ! 0 = 224 \<and> ip4 ! 1 = 0 \<and> ip4 ! 2 = 0
   | None \<Rightarrow> length ip = 16 \<and> ip ! 0 = 0xff \<and> ip ! 1 AND 0x0f = 0x02)"

definition IsLinkLocalUnicast :: "IP \<Rightarrow> bool" where
  "IsLinkLocalUnicast ip = (case To4 ip of
     Some ip4 \<Rightarrow> ip4 ! 0 = 169 \<and> ip4 ! 1 = 254
   | None \<Rightarrow> length ip = 16 \<and> ip ! 0 = 0xfe \<and> ip ! 1 AND 0xc0 = 0x80)"

text \<open>\<^verbatim>\<open>net.IPNet\<close>: a network number and a mask of the same length.\<close>

record IPNet =
  ipn_IP :: IP
  ipn_Mask :: "byte list"

definition Contains :: "IPNet \<Rightarrow> IP \<Rightarrow> bool" where
  "Contains n ip =
     (let x = (case To4 ip of Some ip4 \<Rightarrow> ip4 | None \<Rightarrow> ip)
      in length x = length (ipn_IP n) \<and>
         list_all (\<lambda>(nn, m, b). nn AND m = b AND m) (zip (ipn_IP n) (zip (ipn_Mask n) x)))"

text \<open>\<^verbatim>\<open>net.CIDRMask\<close> byte by byte, and the networks the CIDR literals denote.\<close>

fun cidr_mask :: "nat \<Rightarrow> nat \<Rightarrow> byte list" where
  "cidr_mask 0 ones = []"
| "cidr_mask (Suc k) ones = (if ones \<ge> 8 then 0xff # cidr_mask k (ones - 8)
     else NOT (push_bit (8 - ones) 1 - 1) # cidr_mask k 0)"

definition cidr :: "IP \<Rightarrow> nat \<Rightarrow> IPNet" where
  "cidr ip ones = \<lparr>ipn_IP = ip, ipn_Mask = cidr_mask (length ip) ones\<rparr>"

definition extraBlockedRanges :: "IPNet list" where
  "extraBlockedRanges =
     [cidr [100, 64, 0, 0] 10, cidr [192, 0, 0, 0] 24, cidr [192, 0, 2, 0] 24, cidr [198, 18, 0, 0] 15,
      cidr [240, 0, 0, 0] 4, cidr ([0, 0x64, 0xff, 0x9b] @ replicate 12 0) 96]"

fun any_contains :: "IPNet list \<Rightarrow> IP \<Rightarrow> bool" where
  "any_contains [] ip = False"
| "any_contains (b # bs) ip = (if Contains b ip then True else any_contains bs ip)"

definition IsBlockedIP :: "IP \<Rightarrow> bool" where
  "IsBlockedIP ip =
     (if IsLoopback ip \<or> IsLinkLocalUnicast ip \<or> IsLinkLocalMulticast ip \<or> IsPrivate ip \<or> IsUnspecified ip \<or> IsMulticast ip
      then True
      else any_contains extraBlockedRanges ip)"

section \<open>The guarded dialer\<close>

text \<open>\<^verbatim>\<open>net.SplitHostPort\<close> and \<^verbatim>\<open>net.JoinHostPort\<close>.\<close>

fun index_of :: "char \<Rightarrow> string \<Rightarrow> nat option" where
  "index_of c [] = None"
| "index_of c (x # xs) = (if x = c then Some 0 else map_option Suc (index_of c xs))"

definition last_index_of :: "char \<Rightarrow> string \<Rightarrow> nat option" where
  "last_index_of c s = map_option (\<lambda>i. length s - Suc i) (index_of c (rev s))"

definition addr_error :: "string \<Rightarrow> string \<Rightarrow> goerr + 'a" where
  "addr_error addr why = Inl (plain_error (''address '' @ addr @ '': '' @ why))"

definition SplitHostPort :: "string \<Rightarrow> goerr + string \<times> string" where
  "SplitHostPort hostport = (case last_index_of CHR '':'' hostport of
     None \<Rightarrow> addr_error hostport ''missing port in address''
   | Some i \<Rightarrow>
       (let rest = (\<lambda>host j k.
              if CHR ''['' \<in> set (drop j hostport) then addr_error hostport ''unexpected '[' in address''
              else if CHR '']'' \<in> set (drop k hostport) then addr_error hostport ''unexpected ']' in address''
              else Inr (host, drop (Suc i) hostport))
        in if HasPrefix hostport ''['' then
             (case index_of CHR '']'' hostport of
                None \<Rightarrow> addr_error hostport ''missing ']' in address''
              | Some e \<Rightarrow>
                  if Suc e = length hostport then addr_error hostport ''missing port in address''
                  else if Suc e = i then rest (drop 1 (take e hostport)) 1 (Suc e)
                  else if hostport ! Suc e = CHR '':'' then addr_error hostport ''too many colons in address''
                  else addr_error hostport ''missing port in address'')
           else if CHR '':'' \<in> set (take i hostport) then addr_error hostport ''too many colons in address''
           else rest (take i hostport) 0 0))"

definition JoinHostPort :: "string \<Rightarrow> string \<Rightarrow> string" where
  "JoinHostPort host port =
     (if CHR '':'' \<in> set host then ''['' @ host @ '']:'' @ port else host @ '':'' @ port)"

fun first_blocked :: "IP list \<Rightarrow> IP option" where
  "first_blocked [] = None"
| "first_blocked (ip # ips) = (if IsBlockedIP ip then Some ip else first_blocked ips)"

text \<open>The dial loop, carrying \<^verbatim>\<open>lastErr\<close>.\<close>

fun dial_loop :: "(IP \<Rightarrow> string) \<Rightarrow> (string \<Rightarrow> 's \<Rightarrow> (goerr + 'c) \<times> 's) \<Rightarrow> string \<Rightarrow> string \<Rightarrow> goerr option \<Rightarrow>
    IP list \<Rightarrow> 's \<Rightarrow> (goerr + 'c) \<times> 's" where
  "dial_loop ipString dial host port lastErr [] s =
     (Inl (case lastErr of Some e \<Rightarrow> e | None \<Rightarrow> plain_error (''no addresses returned for host '' @ host)), s)"
| "dial_loop ipString dial host port lastErr (ip # ips) s =
     (case dial (JoinHostPort (ipString ip) port) s of
        (Inr conn, s') \<Rightarrow> (Inr conn, s')
      | (Inl dialErr, s') \<Rightarrow> dial_loop ipString dial host port (Some dialErr) ips s')"

definition newGuardedDialer :: "(string \<Rightarrow> goerr + IP list) \<Rightarrow> (IP \<Rightarrow> string) \<Rightarrow> (string \<Rightarrow> 's \<Rightarrow> (goerr + 'c) \<times> 's) \<Rightarrow>
    string \<Rightarrow> 's \<Rightarrow> (goerr + 'c) \<times> 's" where
  "newGuardedDialer lookupIP ipString dial addr s =
     (case SplitHostPort addr of
        Inl err \<Rightarrow> (Inl (wrap ''split host/port: '' err []), s)
      | Inr (host, port) \<Rightarrow>
          (case lookupIP host of
             Inl err \<Rightarrow> (Inl (wrap ''resolve host: '' err []), s)
           | Inr ips \<Rightarrow>
               (case first_blocked ips of
                  Some ip \<Rightarrow> (Inl (wrap [] (sentinel_err errBlockedAddress)
                    ('': '' @ host @ '' resolved to '' @ ipString ip)), s)
                | None \<Rightarrow> dial_loop ipString dial host port None ips s)))"

section \<open>Destination URLs\<close>

definition ValidateHTTPSDestinationURL :: "(string \<Rightarrow> goerr + string) \<Rightarrow> (string \<Rightarrow> IP option) \<Rightarrow> string \<Rightarrow> goerr option" where
  "ValidateHTTPSDestinationURL urlHostname parseIP rawURL =
     (if \<not> HasPrefix rawURL ''https://'' then Some (plain_error ''url must use https'')
      else case urlHostname rawURL of
             Inl err \<Rightarrow> Some (wrap ''invalid url: '' err [])
           | Inr host \<Rightarrow>
               if host = [] then Some (plain_error ''url must include a host'')
               else if (case parseIP host of Some ip \<Rightarrow> IsBlockedIP ip | None \<Rightarrow> False)
               then Some (plain_error ''url resolves to a private/internal address'')
               else None)"

section \<open>Which addresses are blocked\<close>

text \<open>The reference: blocked IPv4 addresses as ranges of 32-bit numbers.\<close>

definition ip4_value :: "IP \<Rightarrow> nat" where
  "ip4_value ip = foldl (\<lambda>v b. v * 256 + unat b) 0 ip"

definition dotted :: "nat \<Rightarrow> nat \<Rightarrow> nat \<Rightarrow> nat \<Rightarrow> nat" where
  "dotted a b c d = ((a * 256 + b) * 256 + c) * 256 + d"

definition blocked_ip4_ranges :: "(nat \<times> nat) list" where
  "blocked_ip4_ranges =
     [(dotted 0 0 0 0, dotted 0 0 0 0), (dotted 10 0 0 0, dotted 10 255 255 255),
      (dotted 100 64 0 0, dotted 100 127 255 255), (dotted 127 0 0 0, dotted 127 255 255 255),
      (dotted 169 254 0 0, dotted 169 254 255 255), (dotted 172 16 0 0, dotted 172 31 255 255),
      (dotted 192 0 0 0, dotted 192 0 0 255), (dotted 192 0 2 0, dotted 192 0 2 255),
      (dotted 192 168 0 0, dotted 192 168 255 255), (dotted 198 18 0 0, dotted 198 19 255 255),
      (dotted 224 0 0 0, dotted 255 255 255 255)]"

end
