(* ===== verification/Ssrf_Laws.thy ===== *)
theory Ssrf_Laws
  imports Ssrf
begin

text \<open>
  Correctness of the guard: the address classes are exactly the documented ranges, whatever form an
  IPv4 address comes in, and the dialer never connects when a resolved address is blocked.
\<close>

section \<open>Ranges\<close>

lemma unat_and_prefix: "unat (b AND NOT (mask k) :: byte) = 2 ^ k * (unat b div 2 ^ k)"
proof -
  have "b AND NOT (mask k) = push_bit k (drop_bit k b)"
    by (rule bit_word_eqI) (auto simp: bit_simps)
  moreover have "unat b < 256" using unsigned_less [of b] by simp
  then have "2 ^ k * (unat b div 2 ^ k) < 256" by (metis times_div_less_eq_dividend order.strict_trans1)
  moreover have "unat (push_bit k (drop_bit k b)) = take_bit 8 (push_bit k (drop_bit k (unat b)))"
    by (simp only: unsigned_push_bit_eq unat_drop_bit_eq) simp
  ultimately show ?thesis
    by (simp add: drop_bit_eq_div push_bit_eq_mult take_bit_eq_mod ac_simps)
qed

lemma byte_prefix:
  fixes b c :: byte
  shows "(b AND NOT (mask k) = c) = (2 ^ k * (unat b div 2 ^ k) = unat c)"
  using unat_and_prefix [of b k] by (metis unsigned_word_eqI)

lemma byte_eq: "(b :: byte) = c \<longleftrightarrow> unat b = unat c"
  by (simp add: word_unat_eq_iff)

lemma high_masks: "(0xf0 :: byte) = NOT (mask 4)" "(0xc0 :: byte) = NOT (mask 6)" "(0xfe :: byte) = NOT (mask 1)"
  by (simp_all add: mask_eq_exp_minus_1)

lemma prefix_f0: "((b :: byte) AND 0xf0 = c) = (16 * (unat b div 16) = unat c)"
  unfolding high_masks byte_prefix by simp

lemma prefix_c0: "((b :: byte) AND 0xc0 = c) = (64 * (unat b div 64) = unat c)"
  unfolding high_masks byte_prefix by simp

lemma prefix_fe: "((b :: byte) AND 0xfe = c) = (2 * (unat b div 2) = unat c)"
  unfolding high_masks byte_prefix by simp

lemma prefix_cases:
  "((b :: byte) AND 0xf0 = 16) = (16 \<le> unat b \<and> unat b \<le> 31)" "((b :: byte) AND 0xf0 = 0xe0) = (224 \<le> unat b \<and> unat b \<le> 239)"
  "((b :: byte) AND 0xf0 = 240) = (240 \<le> unat b \<and> unat b \<le> 255)" "((b :: byte) AND 0xc0 = 64) = (64 \<le> unat b \<and> unat b \<le> 127)"
  "((b :: byte) AND 0xfe = 18) = (18 \<le> unat b \<and> unat b \<le> 19)"
  unfolding prefix_f0 prefix_c0 prefix_fe by (simp_all, arith+)

lemma byte_less: "unat (b :: byte) < 256"
  using unsigned_less [of b] by simp

lemma digit_cmp:
  assumes "r < 256" and "s < 256"
  shows "(x * 256 + r \<le> y * 256 + s) = (x < y \<or> x = y \<and> r \<le> (s :: nat))"
    and "(x * 256 + r < y * 256 + s) = (x < y \<or> x = y \<and> r < (s :: nat))"
    and "(x * 256 + r = y * 256 + s) = (x = y \<and> r = (s :: nat))"
proof -
  show "(x * 256 + r \<le> y * 256 + s) = (x < y \<or> x = y \<and> r \<le> s)" using assms by linarith
  show "(x * 256 + r < y * 256 + s) = (x < y \<or> x = y \<and> r < s)" using assms by linarith
  have "x = y" if "x * 256 + r = y * 256 + s" using that assms by linarith
  then show "(x * 256 + r = y * 256 + s) = (x = y \<and> r = s)" by auto
qed

lemma dotted_le:
  assumes "b < 256" "c < 256" "d < 256" "b' < 256" "c' < 256" "d' < 256"
  shows "dotted a b c d \<le> dotted a' b' c' d' \<longleftrightarrow>
     a < a' \<or> a = a' \<and> (b < b' \<or> b = b' \<and> (c < c' \<or> c = c' \<and> d \<le> d'))"
  unfolding dotted_def using assms by (simp only: digit_cmp) blast

lemma dotted_net:
  assumes "B < 256" "C < 256" "D < 256"
  shows "dotted a1 0 0 0 \<le> dotted A B C D \<and> dotted A B C D \<le> dotted a2 255 255 255 \<longleftrightarrow> a1 \<le> A \<and> A \<le> a2"
    and "b1 < 256 \<Longrightarrow> b2 < 256 \<Longrightarrow> dotted a b1 0 0 \<le> dotted A B C D \<and> dotted A B C D \<le> dotted a b2 255 255 \<longleftrightarrow>
      A = a \<and> b1 \<le> B \<and> B \<le> b2"
    and "b < 256 \<Longrightarrow> c < 256 \<Longrightarrow> dotted a b c 0 \<le> dotted A B C D \<and> dotted A B C D \<le> dotted a b c 255 \<longleftrightarrow>
      A = a \<and> B = b \<and> C = c"
    and "b < 256 \<Longrightarrow> c < 256 \<Longrightarrow> d < 256 \<Longrightarrow> dotted a b c d \<le> dotted A B C D \<and> dotted A B C D \<le> dotted a b c d \<longleftrightarrow>
      A = a \<and> B = b \<and> C = c \<and> D = d"
  using assms by (auto simp: dotted_le)

lemma ip4_value_dotted: "ip4_value [a, b, c, d] = dotted (unat a) (unat b) (unat c) (unat d)"
  by (simp add: ip4_value_def dotted_def)

lemma extraBlockedRanges_masks:
  "extraBlockedRanges =
     [\<lparr>ipn_IP = [100, 64, 0, 0], ipn_Mask = [0xff, 0xc0, 0, 0]\<rparr>, \<lparr>ipn_IP = [192, 0, 0, 0], ipn_Mask = [0xff, 0xff, 0xff, 0]\<rparr>,
      \<lparr>ipn_IP = [192, 0, 2, 0], ipn_Mask = [0xff, 0xff, 0xff, 0]\<rparr>, \<lparr>ipn_IP = [198, 18, 0, 0], ipn_Mask = [0xff, 0xfe, 0, 0]\<rparr>,
      \<lparr>ipn_IP = [240, 0, 0, 0], ipn_Mask = [0xf0, 0, 0, 0]\<rparr>,
      \<lparr>ipn_IP = [0, 0x64, 0xff, 0x9b, 0, 0, 0, 0, 0, 0, 0, 0, 0, 0, 0, 0],
       ipn_Mask = [0xff, 0xff, 0xff, 0xff, 0xff, 0xff, 0xff, 0xff, 0xff, 0xff, 0xff, 0xff, 0, 0, 0, 0]\<rparr>]"
  by code_simp

lemma byte_and_ff [simp]: "(b :: byte) AND 0xff = b"
proof -
  have "(0xff :: byte) = - 1" by simp
  then show ?thesis by (simp only: and.right_neutral)
qed

lemma To4_four [simp]: "To4 [a, b, c, d] = Some [a, b, c, d]"
  by (simp add: To4_def)

lemma IP_Equal_four:
  "IP_Equal [a, b, c, d] (replicate 10 0 @ [0xff, 0xff, 0, 0, 0, 0]) = (a = 0 \<and> b = 0 \<and> c = 0 \<and> d = 0)"
  "\<not> IP_Equal [a, b, c, d] (replicate 16 0)"
proof -
  show "IP_Equal [a, b, c, d] (replicate 10 0 @ [0xff, 0xff, 0, 0, 0, 0]) = (a = 0 \<and> b = 0 \<and> c = 0 \<and> d = 0)"
    by (simp add: IP_Equal_def)
  have "take 12 (replicate 16 (0 :: byte)) \<noteq> replicate 10 0 @ [0xff, 0xff]" by code_simp
  then show "\<not> IP_Equal [a, b, c, d] (replicate 16 0)" by (simp add: IP_Equal_def)
qed

lemmas classify_defs = IsLoopback_def IsLinkLocalUnicast_def IsLinkLocalMulticast_def IsPrivate_def IsUnspecified_def
  IsMulticast_def

lemma IsBlocked_four:
  "IsBlockedIP [a, b, c, d] \<longleftrightarrow>
     a = 127 \<or> (a = 169 \<and> b = 254) \<or> (a = 224 \<and> b = 0 \<and> c = 0) \<or>
     a = 10 \<or> (a = 172 \<and> b AND 0xf0 = 16) \<or> (a = 192 \<and> b = 168) \<or> (a = 0 \<and> b = 0 \<and> c = 0 \<and> d = 0) \<or>
     a AND 0xf0 = 0xe0 \<or> (a = 100 \<and> b AND 0xc0 = 64) \<or> (a = 192 \<and> b = 0 \<and> c = 0) \<or> (a = 192 \<and> b = 0 \<and> c = 2) \<or>
     (a = 198 \<and> b AND 0xfe = 18) \<or> a AND 0xf0 = 240"
  by (simp add: IsBlockedIP_def classify_defs IP_Equal_four Contains_def extraBlockedRanges_masks)

text \<open>
  C39. The guard blocks exactly the documented ranges: an IPv4 address is refused if and only if it is 0.0.0.0 or
  lies in 10/8, 100.64/10, 127/8, 169.254/16, 172.16/12, 192.0.0/24, 192.0.2/24, 192.168/16, 198.18/15, 224/4 or 240/4,
  compared as 32-bit numbers, and its IPv4-mapped IPv6 form is refused exactly when it is.
\<close>

theorem IsBlockedIP_ranges:
  "(IsBlockedIP [a, b, c, d] \<longleftrightarrow>
     list_ex (\<lambda>(lo, hi). lo \<le> ip4_value [a, b, c, d] \<and> ip4_value [a, b, c, d] \<le> hi) blocked_ip4_ranges) \<and>
   IsBlockedIP (replicate 10 0 @ [0xff, 0xff, a, b, c, d]) = IsBlockedIP [a, b, c, d]"
proof
  define A B C D where "A = unat a" and "B = unat b" and "C = unat c" and "D = unat d"
  have l: "A < 256" "B < 256" "C < 256" "D < 256" by (simp_all add: A_def B_def C_def D_def byte_less)
  have byte: "IsBlockedIP [a, b, c, d] \<longleftrightarrow>
     A = 127 \<or> (A = 169 \<and> B = 254) \<or> (A = 224 \<and> B = 0 \<and> C = 0) \<or>
     A = 10 \<or> (A = 172 \<and> 16 \<le> B \<and> B \<le> 31) \<or> (A = 192 \<and> B = 168) \<or> (A = 0 \<and> B = 0 \<and> C = 0 \<and> D = 0) \<or>
     (224 \<le> A \<and> A \<le> 239) \<or> (A = 100 \<and> 64 \<le> B \<and> B \<le> 127) \<or> (A = 192 \<and> B = 0 \<and> C = 0) \<or> (A = 192 \<and> B = 0 \<and> C = 2) \<or>
     (A = 198 \<and> 18 \<le> B \<and> B \<le> 19) \<or> (240 \<le> A \<and> A \<le> 255)"
    unfolding IsBlocked_four prefix_cases unfolding byte_eq A_def B_def C_def D_def by simp
  have eqr: "x \<le> y \<and> y \<le> x \<longleftrightarrow> y = x" for x y :: nat by auto
  have hi: "224 \<le> A \<and> A \<le> 255 \<longleftrightarrow> (224 \<le> A \<and> A \<le> 239) \<or> (240 \<le> A \<and> A \<le> 255)" by linarith
  have z: "dotted A B C D = dotted 0 0 0 0 \<longleftrightarrow> A = 0 \<and> B = 0 \<and> C = 0 \<and> D = 0" by (simp add: dotted_def)
  have rng: "list_ex (\<lambda>(lo, hi). lo \<le> dotted A B C D \<and> dotted A B C D \<le> hi) blocked_ip4_ranges \<longleftrightarrow>
     (A = 0 \<and> B = 0 \<and> C = 0 \<and> D = 0) \<or> A = 10 \<or> (A = 100 \<and> 64 \<le> B \<and> B \<le> 127) \<or> A = 127 \<or>
     (A = 169 \<and> B = 254) \<or> (A = 172 \<and> 16 \<le> B \<and> B \<le> 31) \<or> (A = 192 \<and> B = 0 \<and> C = 0) \<or>
     (A = 192 \<and> B = 0 \<and> C = 2) \<or> (A = 192 \<and> B = 168) \<or> (A = 198 \<and> 18 \<le> B \<and> B \<le> 19) \<or> 224 \<le> A \<and> A \<le> 255"
    unfolding blocked_ip4_ranges_def by (simp add: dotted_net [OF l(2-4)] eqr z)
  have "IsBlockedIP [a, b, c, d] \<longleftrightarrow>
     list_ex (\<lambda>(lo, hi). lo \<le> dotted A B C D \<and> dotted A B C D \<le> hi) blocked_ip4_ranges"
    unfolding byte rng hi by (rule iffI; elim disjE; simp)
  then show "IsBlockedIP [a, b, c, d] \<longleftrightarrow>
     list_ex (\<lambda>(lo, hi). lo \<le> ip4_value [a, b, c, d] \<and> ip4_value [a, b, c, d] \<le> hi) blocked_ip4_ranges"
    by (simp add: ip4_value_dotted A_def B_def C_def D_def)
next
  let ?m = "replicate 10 0 @ [0xff, 0xff, a, b, c, d] :: IP"
  have t: "To4 ?m = Some [a, b, c, d]" by (simp add: To4_def)
  have u: "IsUnspecified ?m = IsUnspecified [a, b, c, d]"
  proof -
    have "replicate 16 (0 :: byte) = replicate 10 0 @ [0, 0, 0, 0, 0, 0]" by code_simp
    then have "\<not> IP_Equal ?m (replicate 16 0)" by (simp add: IP_Equal_def)
    moreover have "IP_Equal ?m (replicate 10 0 @ [0xff, 0xff, 0, 0, 0, 0]) = (a = 0 \<and> b = 0 \<and> c = 0 \<and> d = 0)"
      by (simp add: IP_Equal_def)
    ultimately show ?thesis by (simp only: IsUnspecified_def IP_Equal_four simp_thms)
  qed
  have "Contains n ?m = Contains n [a, b, c, d]" for n by (simp add: Contains_def t)
  then have "any_contains ns ?m = any_contains ns [a, b, c, d]" for ns by (induction ns) auto
  then show "IsBlockedIP ?m = IsBlockedIP [a, b, c, d]"
    using t u by (simp add: IsBlockedIP_def IsLoopback_def IsLinkLocalUnicast_def IsLinkLocalMulticast_def
        IsPrivate_def IsMulticast_def)
qed

section \<open>The dialer\<close>

lemma first_blocked_None: "first_blocked ips = None \<longleftrightarrow> (\<forall>ip \<in> set ips. \<not> IsBlockedIP ip)"
  by (induction ips) auto

text \<open>An observer of the connections: the addresses dialled so far.\<close>

definition recording :: "(string \<Rightarrow> goerr + 'c) \<Rightarrow> string \<Rightarrow> string list \<Rightarrow> (goerr + 'c) \<times> string list" where
  "recording answer addr log = (answer addr, log @ [addr])"

lemma dial_loop_log:
  "\<exists>k. snd (dial_loop ipString (recording answer) host port e ips log) =
     log @ map (\<lambda>ip. JoinHostPort (ipString ip) port) (take k ips)"
proof (induction ips arbitrary: e log)
  case (Cons ip ips)
  show ?case
  proof (cases "answer (JoinHostPort (ipString ip) port)")
    case (Inl err)
    then have "dial_loop ipString (recording answer) host port e (ip # ips) log =
        dial_loop ipString (recording answer) host port (Some err) ips (log @ [JoinHostPort (ipString ip) port])"
      by (simp add: recording_def)
    moreover obtain k where "snd (dial_loop ipString (recording answer) host port (Some err) ips (log @ [JoinHostPort (ipString ip) port])) =
        (log @ [JoinHostPort (ipString ip) port]) @ map (\<lambda>ip. JoinHostPort (ipString ip) port) (take k ips)"
      using Cons.IH by blast
    ultimately have "snd (dial_loop ipString (recording answer) host port e (ip # ips) log) =
        (log @ [JoinHostPort (ipString ip) port]) @ map (\<lambda>ip. JoinHostPort (ipString ip) port) (take k ips)" by simp
    then show ?thesis by (intro exI [of _ "Suc k"]) simp
  next
    case (Inr conn)
    then show ?thesis by (intro exI [of _ 1]) (simp add: recording_def)
  qed
qed (auto intro: exI [of _ 0])

text \<open>
  No connection to a blocked address: whatever the resolver answers, the guarded dialer dials only
  addresses of that answer, in order, none of them blocked; and when a single address of the answer is blocked it dials
  nothing at all and fails with \<^verbatim>\<open>errBlockedAddress\<close>.
\<close>

theorem dialer_never_dials_blocked:
  assumes "SplitHostPort addr = Inr (host, port)" and "lookupIP host = Inr ips"
  shows "case newGuardedDialer lookupIP ipString (recording answer) addr [] of (r, log) \<Rightarrow>
    (\<exists>k. log = map (\<lambda>ip. JoinHostPort (ipString ip) port) (take k ips) \<and> (\<forall>ip \<in> set (take k ips). \<not> IsBlockedIP ip)) \<and>
    (list_ex IsBlockedIP ips \<longrightarrow> log = [] \<and> (\<exists>e. r = Inl e \<and> errors_Is e errBlockedAddress))"
proof (cases "first_blocked ips")
  case None
  then have ok: "\<forall>ip \<in> set ips. \<not> IsBlockedIP ip" by (simp add: first_blocked_None)
  obtain k where k: "snd (dial_loop ipString (recording answer) host port None ips []) =
      map (\<lambda>ip. JoinHostPort (ipString ip) port) (take k ips)"
    using dial_loop_log [of ipString answer host port None ips "[]"] by auto
  have "\<forall>ip \<in> set (take k ips). \<not> IsBlockedIP ip" using ok by (meson in_set_takeD)
  with k ok None assms show ?thesis
    by (auto simp: newGuardedDialer_def list_ex_iff split: prod.splits)
next
  case (Some ip)
  with assms show ?thesis
    by (simp add: newGuardedDialer_def) (metis take0 list.simps(8) empty_iff list.set(1))
qed

theorem dialer_never_dials_blocked_witness:
  "newGuardedDialer (\<lambda>_. Inr [[8, 8, 8, 8], [10, 0, 0, 1]]) (\<lambda>_. ''ip'') (recording (\<lambda>_. Inr ())) ''evil.test:443'' [] =
     (Inl \<lparr>err_chain = [errBlockedAddress], err_msg =
        ''refusing to connect to a private/internal address: evil.test resolved to ip''\<rparr>, []) \<and>
   (case newGuardedDialer (\<lambda>_. Inr [[8, 8, 8, 8], [10, 0, 0, 1]]) (\<lambda>_. ''ip'') (recording (\<lambda>_. Inr ())) ''evil.test:443'' [] of
      (r, log) \<Rightarrow> log = [])"
proof -
  have s: "SplitHostPort ''evil.test:443'' = Inr (''evil.test'', ''443'')" by code_simp
  have b: "list_ex IsBlockedIP [[8, 8, 8, 8], [10, 0, 0, 1]]" by code_simp
  have e: "newGuardedDialer (\<lambda>_. Inr [[8, 8, 8, 8], [10, 0, 0, 1]]) (\<lambda>_. ''ip'') (recording (\<lambda>_. Inr ())) ''evil.test:443'' [] =
     (Inl \<lparr>err_chain = [errBlockedAddress], err_msg =
        ''refusing to connect to a private/internal address: evil.test resolved to ip''\<rparr>, [])" by code_simp
  show ?thesis
    using dialer_never_dials_blocked [OF s, of "\<lambda>_. Inr [[8, 8, 8, 8], [10, 0, 0, 1]]" "[[8, 8, 8, 8], [10, 0, 0, 1]]"
        "\<lambda>_. ''ip''" "\<lambda>_. Inr ()"] b e by simp
qed

end
