(* ===== verification/Http.thy ===== *)
theory Http
  imports Ssrf
begin

text \<open>
  What the senders share: hexadecimal text, the HMAC signature (\<^verbatim>\<open>internal/provider/hmac_signing.go\<close>), HTTP
  requests with canonical header names, and decoding of JSON objects into structs. The text of a JSON
  value and its parser are the arguments \<open>he_marshal\<close> and \<open>he_parse\<close> of an environment; so are the URL
  check of \<^verbatim>\<open>http.NewRequest\<close>, HMAC-SHA256 and the formatting of instants. Bytes are characters.
\<close>

section \<open>Hexadecimal text and signatures\<close>

definition hex_digit :: "nat \<Rightarrow> char" where
  "hex_digit n = ''0123456789abcdef'' ! (n mod 16)"

definition hex_encode :: "byte list \<Rightarrow> string" where
  "hex_encode bs = concat (map (\<lambda>b. [hex_digit (unat b div 16), hex_digit (unat b mod 16)]) bs)"

lemma length_hex_encode: "length (hex_encode bs) = 2 * length bs"
  by (induction bs) (simp_all add: hex_encode_def)

definition SignHMAC :: "(string \<Rightarrow> string \<Rightarrow> byte list) \<Rightarrow> string \<Rightarrow> string \<Rightarrow> string \<Rightarrow> string" where
  "SignHMAC hmac secret timestamp body = hex_encode (hmac secret (timestamp @ ''.'' @ body))"

text \<open>\<^verbatim>\<open>%q\<close>: quoted text with the escapes of Go string literals.\<close>

definition quote_char :: "char \<Rightarrow> string" where
  "quote_char c = (let n = of_char c :: nat; bs = CHR 0x5C in
     if n = 34 \<or> n = 92 then [bs, c]
     else if 7 \<le> n \<and> n \<le> 13 then [bs, ''abtnvfr'' ! (n - 7)]
     else if n < 32 \<or> n = 127 then [bs, CHR ''x'', hex_digit (n div 16), hex_digit (n mod 16)]
     else [c])"

definition Quote :: "string \<Rightarrow> string" where
  "Quote s = [CHR 0x22] @ concat (map quote_char s) @ [CHR 0x22]"

text \<open>A text is split at its first separator in one way only.\<close>

lemma append_sep_inj:
  assumes "c \<notin> set a" and "c \<notin> set a'" and "a @ c # b = a' @ c # b'"
  shows "a = a' \<and> b = b'"
proof -
  have split: "takeWhile (\<lambda>x. x \<noteq> c) (a @ c # b) = a" if "c \<notin> set a" for a b
    using that by (induction a) auto
  from split [OF assms(1), of b] split [OF assms(2), of b'] assms(3) have "a = a'" by metis
  with assms(3) show ?thesis by simp
qed

section \<open>Requests and headers\<close>

record http_request =
  hq_method :: string
  hq_url :: string
  hq_headers :: "(string \<times> string) list"
  hq_body :: string

record http_response =
  hp_status :: int
  hp_body :: string

text \<open>\<^verbatim>\<open>io.ReadAll(io.LimitReader(resp.Body, 1<<20))\<close>; a read error is ignored, so \<open>hp_body\<close> is what could be read.\<close>

definition read_body :: "http_response \<Rightarrow> string" where
  "read_body r = take 1048576 (hp_body r)"

text \<open>
  \<^verbatim>\<open>textproto.CanonicalMIMEHeaderKey\<close>: a name of token characters gets an upper-case letter at its start
  and after each hyphen and lower-case letters elsewhere; any other name is left alone.
\<close>

definition ascii_upper :: "char \<Rightarrow> char" where
  "ascii_upper c = (let n = of_char c :: nat in if 97 \<le> n \<and> n \<le> 122 then char_of (n - 32) else c)"

definition token_char :: "char \<Rightarrow> bool" where
  "token_char c = (let n = of_char c :: nat in
     (48 \<le> n \<and> n \<le> 57) \<or> (65 \<le> n \<and> n \<le> 90) \<or> (97 \<le> n \<and> n \<le> 122) \<or> c \<in> set ''!#$%&*+-.^_`|~'' \<or> n = 39)"

fun canonical_from :: "bool \<Rightarrow> string \<Rightarrow> string" where
  "canonical_from up [] = []"
| "canonical_from up (c # cs) =
     (if up then ascii_upper c else ascii_lower c) # canonical_from (c = CHR ''-'') cs"

definition CanonicalHeaderKey :: "string \<Rightarrow> string" where
  "CanonicalHeaderKey name = (if list_all token_char name then canonical_from True name else name)"

text \<open>\<^verbatim>\<open>Header.Set\<close> replaces every value of the canonical name; \<^verbatim>\<open>Header.Get\<close> reads it.\<close>

definition Header_Set :: "string \<Rightarrow> string \<Rightarrow> (string \<times> string) list \<Rightarrow> (string \<times> string) list" where
  "Header_Set name v h = (CanonicalHeaderKey name, v) # filter (\<lambda>(k, _). k \<noteq> CanonicalHeaderKey name) h"

definition Header_Get :: "string \<Rightarrow> (string \<times> string) list \<Rightarrow> string" where
  "Header_Get name h = (case map_of h (CanonicalHeaderKey name) of None \<Rightarrow> [] | Some v \<Rightarrow> v)"

lemma map_of_Header_Set:
  "map_of (Header_Set name v h) k = (if k = CanonicalHeaderKey name then Some v else map_of h k)"
proof -
  have "map_of (filter (\<lambda>(k, _). k \<noteq> c) h) k = (if k = c then None else map_of h k)" for c
    by (induction h) auto
  then show ?thesis by (simp add: Header_Set_def)
qed

lemma ascii_lower_upper: "ascii_lower (ascii_upper c) = ascii_lower c" "ascii_lower (ascii_lower c) = ascii_lower c"
proof -
  have "char_of (of_char c - 32 + 32 :: nat) = c" if "97 \<le> (of_char c :: nat)" using that by simp
  then show "ascii_lower (ascii_upper c) = ascii_lower c" "ascii_lower (ascii_lower c) = ascii_lower c"
    by (auto simp: ascii_lower_def ascii_upper_def Let_def)
qed

lemma ToLower_canonical: "ToLower (CanonicalHeaderKey name) = ToLower name"
proof -
  have "ToLower (canonical_from up name) = ToLower name" for up
    by (induction name arbitrary: up) (simp_all add: ToLower_def ascii_lower_upper)
  then show ?thesis by (simp add: CanonicalHeaderKey_def)
qed

text \<open>
  The environment of a sender. A client is a function on a state of its own, so that a client which
  logs its requests is one of them.
\<close>

record http_env =
  he_marshal :: "json \<Rightarrow> string"
  he_parse :: "string \<Rightarrow> json option"
  he_check_url :: "string \<Rightarrow> goerr option"
  he_hmac :: "string \<Rightarrow> string \<Rightarrow> byte list"
  he_uuid_String :: "uuid \<Rightarrow> string"
  he_rfc3339 :: "time \<Rightarrow> string"
  he_clock :: "nat \<Rightarrow> time"

type_synonym 's client = "http_request \<Rightarrow> 's \<Rightarrow> (goerr + http_response) \<times> 's"

text \<open>Bytes received, kept as a \<^verbatim>\<open>json.RawMessage\<close>.\<close>

definition raw_of :: "http_env \<Rightarrow> string \<Rightarrow> RawMessage" where
  "raw_of E b = Some (case he_parse E b of Some v \<Rightarrow> v | None \<Rightarrow> JInvalid b)"

section \<open>Decoding JSON into structs\<close>

text \<open>
  \<^verbatim>\<open>json.Unmarshal\<close> into a struct: the members are stored in order, each by a setter that is given the
  name in lower case, since names match without regard to case; a value of the wrong type makes the
  whole call fail, and \<^verbatim>\<open>null\<close> changes nothing.
\<close>

fun decode_members :: "(string \<Rightarrow> json \<Rightarrow> 'a \<Rightarrow> 'a option) \<Rightarrow> (string \<times> json) list \<Rightarrow> 'a \<Rightarrow> 'a option" where
  "decode_members set_field [] x = Some x"
| "decode_members set_field ((k, v) # ms) x =
     (case set_field (ToLower k) v x of None \<Rightarrow> None | Some y \<Rightarrow> decode_members set_field ms y)"

definition decode_value :: "(string \<Rightarrow> json \<Rightarrow> 'a \<Rightarrow> 'a option) \<Rightarrow> json \<Rightarrow> 'a \<Rightarrow> 'a option" where
  "decode_value set_field v x = (case v of
     JNull \<Rightarrow> Some x | JObj ms \<Rightarrow> decode_members set_field ms x | _ \<Rightarrow> None)"

definition decode_struct :: "(string \<Rightarrow> json \<Rightarrow> 'a \<Rightarrow> 'a option) \<Rightarrow> 'a \<Rightarrow> RawMessage \<Rightarrow> goerr + 'a" where
  "decode_struct set_field zero raw = (case raw of
     None \<Rightarrow> Inl (plain_error ''unexpected end of JSON input'')
   | Some (JInvalid _) \<Rightarrow> Inl (plain_error ''invalid character in JSON'')
   | Some v \<Rightarrow> (case decode_value set_field v zero of
        None \<Rightarrow> Inl (plain_error ''json: cannot unmarshal'') | Some x \<Rightarrow> Inr x))"

definition decode_string :: "json \<Rightarrow> string \<Rightarrow> string option" where
  "decode_string v old = (case v of JStr s \<Rightarrow> Some s | JNull \<Rightarrow> Some old | _ \<Rightarrow> None)"

definition decode_int :: "json \<Rightarrow> int \<Rightarrow> int option" where
  "decode_int v old = (case v of
     JNum i \<Rightarrow> if fits64 i then Some i else None | JNull \<Rightarrow> Some old | _ \<Rightarrow> None)"

definition decode_bool :: "json \<Rightarrow> bool \<Rightarrow> bool option" where
  "decode_bool v old = (case v of JBool b \<Rightarrow> Some b | JNull \<Rightarrow> Some old | _ \<Rightarrow> None)"

text \<open>A slice: \<^verbatim>\<open>null\<close> clears it; a pointer is nil for \<^verbatim>\<open>null\<close>.\<close>

fun decode_all :: "(json \<Rightarrow> 'a option) \<Rightarrow> json list \<Rightarrow> 'a list option" where
  "decode_all d [] = Some []"
| "decode_all d (v # vs) = (case d v of None \<Rightarrow> None | Some x \<Rightarrow> map_option (Cons x) (decode_all d vs))"

definition decode_slice :: "(json \<Rightarrow> 'a option) \<Rightarrow> json \<Rightarrow> 'a list option" where
  "decode_slice d v = (case v of JNull \<Rightarrow> Some [] | JArr vs \<Rightarrow> decode_all d vs | _ \<Rightarrow> None)"

definition decode_ptr :: "(json \<Rightarrow> 'a option) \<Rightarrow> json \<Rightarrow> 'a option option" where
  "decode_ptr d v = (case v of JNull \<Rightarrow> Some None | _ \<Rightarrow> map_option Some (d v))"

text \<open>A \<^verbatim>\<open>map[string]string\<close>: members are added to the map, \<^verbatim>\<open>null\<close> makes it nil.\<close>

fun decode_string_members :: "(string \<times> json) list \<Rightarrow> (string \<times> string) list \<Rightarrow> (string \<times> string) list option" where
  "decode_string_members [] m = Some m"
| "decode_string_members ((k, v) # ms) m = (case decode_string v [] of
     None \<Rightarrow> None
   | Some s \<Rightarrow> decode_string_members ms ((k, s) # filter (\<lambda>(k', _). k' \<noteq> k) m))"

definition decode_string_map :: "json \<Rightarrow> (string \<times> string) list \<Rightarrow> (string \<times> string) list option" where
  "decode_string_map v m = (case v of JNull \<Rightarrow> Some [] | JObj ms \<Rightarrow> decode_string_members ms m | _ \<Rightarrow> None)"

end
