(* ===== verification/Services.thy ===== *)
theory Services
  imports Dispatcher Http
begin

text \<open>
  The service layer (\<^verbatim>\<open>internal/service\<close>): sending notifications, and the management of tenants, API
  keys, channels and webhook endpoints. Identifiers drawn with \<^verbatim>\<open>uuid.New\<close>, readings of the clock and random
  bytes are arguments, and so is \<^verbatim>\<open>bcrypt.GenerateFromPassword\<close>.
\<close>

section \<open>Secrets\<close>

text \<open>\<open>rand\<close> is what \<^verbatim>\<open>rand.Read\<close> leaves in a buffer of the given size.\<close>

definition generateRandomHex :: "(nat \<Rightarrow> goerr + byte list) \<Rightarrow> nat \<Rightarrow> goerr + string" where
  "generateRandomHex rand n = (case rand n of Inl err \<Rightarrow> Inl err | Inr b \<Rightarrow> Inr (hex_encode b))"

section \<open>Sending\<close>

record send_env =
  se_now :: time
  se_created :: time
  se_id :: uuid
  se_updated :: time

definition effectiveMaxRetries :: "int \<Rightarrow> ChannelConfig \<Rightarrow> int" where
  "effectiveMaxRetries maxRetries cfg = (case cc_DeliveryPrefs cfg of
     None \<Rightarrow> maxRetries
   | Some dp \<Rightarrow> (case dp_MaxRetries dp of None \<Rightarrow> maxRetries | Some n \<Rightarrow> n))"

definition validateSubjectForChannel :: "ChannelType \<Rightarrow> string option \<Rightarrow> goerr option" where
  "validateSubjectForChannel channel subject =
     (if channel \<noteq> ChannelEmail then None
      else case subject of
             None \<Rightarrow> Some (sentinel_with ErrValidationFailed ''subject is required for email notifications'')
           | Some s \<Rightarrow> if TrimSpace s = [] then Some (sentinel_with ErrValidationFailed ''subject is required for email notifications'')
               else None)"

definition new_notification :: "send_env \<Rightarrow> uuid \<Rightarrow> ChannelConfig \<Rightarrow> SendNotificationInput \<Rightarrow> int \<Rightarrow> Notification" where
  "new_notification env tenantID channelCfg input maxRetries =
     \<lparr>n_ID = se_id env, n_TenantID = tenantID, n_ChannelConfigID = cc_ID channelCfg, n_Channel = cc_Channel channelCfg,
      n_Subject = sni_Subject input, n_Body = sni_Body input, n_Metadata = sni_Metadata input, n_Status = StatusPending,
      n_AsynqTaskID = None, n_RetryCount = 0, n_MaxRetries = maxRetries, n_LastError = None, n_DeliveredAt = None,
      n_ProviderMsgID = None, n_CreatedAt = se_created env, n_UpdatedAt = se_created env\<rparr>"

definition deliver_payload :: "uuid \<Rightarrow> ChannelConfig \<Rightarrow> Notification \<Rightarrow> NotificationDeliverPayload" where
  "deliver_payload tenantID channelCfg notif =
     \<lparr>p_NotificationID = n_ID notif, p_TenantID = tenantID, p_ChannelType = cc_Channel channelCfg,
      p_ChannelConfigID = cc_ID channelCfg, p_Subject = (case n_Subject notif of None \<Rightarrow> [] | Some s \<Rightarrow> s),
      p_Body = n_Body notif, p_Metadata = n_Metadata notif, p_DeliveryPrefs = cc_DeliveryPrefs channelCfg\<rparr>"

text \<open>The part of \<^verbatim>\<open>Send\<close> after the checks. A failing \<^verbatim>\<open>SetAsynqTaskID\<close> is only logged.\<close>

definition send_persist :: "lib \<Rightarrow> send_env \<Rightarrow> uuid \<Rightarrow> ChannelConfig \<Rightarrow> Notification \<Rightarrow> 'a world_scheme \<Rightarrow>
    (goerr + Notification) \<times> 'a world_scheme" where
  "send_persist L env tenantID channelCfg notif w =
     (case on_db (Notification_Create notif) w of
        (Some err, w1) \<Rightarrow> (Inl (wrap ''create notification: '' err []), w1)
      | (None, w1) \<Rightarrow>
          (case EnqueueContext L (NewNotificationDeliverTask L (deliver_payload tenantID channelCfg notif) [n_MaxRetries notif]) w1 of
             (Inl err, w2) \<Rightarrow> (Inl (wrap ''enqueue task: '' err []), w2)
           | (Inr infoID, w2) \<Rightarrow> (Inr notif, snd (on_db (SetAsynqTaskID (n_ID notif) infoID (se_updated env)) w2))))"

definition Send :: "lib \<Rightarrow> int \<Rightarrow> send_env \<Rightarrow> uuid \<Rightarrow> SendNotificationInput \<Rightarrow> 'a world_scheme \<Rightarrow>
    (goerr + Notification) \<times> 'a world_scheme" where
  "Send L maxRetries env tenantID input w =
     (case on_db (Channel_GetByID (sni_ChannelConfigID input)) w of
        (Inl err, w1) \<Rightarrow> (Inl (wrap ''get channel config: '' err []), w1)
      | (Inr channelCfg, w1) \<Rightarrow>
          if cc_TenantID channelCfg \<noteq> tenantID then
            (Inl (sentinel_with ErrValidationFailed ''channel config does not belong to this tenant''), w1)
          else if \<not> cc_IsActive channelCfg then
            (Inl (sentinel_with ErrValidationFailed ''channel config is disabled''), w1)
          else case validateSubjectForChannel (cc_Channel channelCfg) (sni_Subject input) of
            Some err \<Rightarrow> (Inl err, w1)
          | None \<Rightarrow>
              (case on_db (EntitlementsOrFree tenantID (se_now env)) w1 of
                 (Inl err, w2) \<Rightarrow> (Inl err, w2)
               | (Inr ent, w2) \<Rightarrow>
                   if \<not> AllowsChannel ent (cc_Channel channelCfg) then
                     (Inl (sentinel_with ErrChannelNotInPlan (cc_Channel channelCfg)), w2)
                   else send_persist L env tenantID channelCfg
                          (new_notification env tenantID channelCfg input (effectiveMaxRetries maxRetries channelCfg)) w2))"

text \<open>
  \<^verbatim>\<open>SendMulti\<close> runs one \<^verbatim>\<open>Send\<close> per channel in an errgroup whose functions never fail, and collects under a
  mutex in the order they finish. The order is the argument: the list of indexes as they finish.
\<close>

fun send_each :: "lib \<Rightarrow> int \<Rightarrow> (nat \<Rightarrow> send_env) \<Rightarrow> uuid \<Rightarrow> SendMultiInput \<Rightarrow> nat list \<Rightarrow> 'a world_scheme \<Rightarrow>
    (Notification list \<times> goerr list) \<times> 'a world_scheme" where
  "send_each L maxRetries envs tenantID chans [] w = (([], []), w)"
| "send_each L maxRetries envs tenantID chans (i # order) w =
     (case Send L maxRetries (envs i) tenantID (chans ! i) w of
        (r, w1) \<Rightarrow> (case send_each L maxRetries envs tenantID chans order w1 of
          ((results, errs), w2) \<Rightarrow>
            (case r of Inl err \<Rightarrow> ((results, err # errs), w2) | Inr notif \<Rightarrow> ((notif # results, errs), w2))))"

definition SendMulti :: "lib \<Rightarrow> int \<Rightarrow> (nat \<Rightarrow> send_env) \<Rightarrow> uuid \<Rightarrow> SendMultiInput \<Rightarrow> nat list \<Rightarrow> 'a world_scheme \<Rightarrow>
    (Notification list \<times> goerr list) \<times> 'a world_scheme" where
  "SendMulti L maxRetries envs tenantID chans order w = send_each L maxRetries envs tenantID chans order w"

definition NotificationService_GetByID :: "uuid \<Rightarrow> pgdb \<Rightarrow> (goerr + Notification) \<times> pgdb" where
  "NotificationService_GetByID i = Notification_GetByID i"

definition NotificationService_List :: "NotificationFilter \<Rightarrow> pgdb \<Rightarrow> (goerr + Notification list \<times> int) \<times> pgdb" where
  "NotificationService_List f = Notification_List (if nf_Limit f \<le> 0 then f\<lparr>nf_Limit := 20\<rparr> else f)"

definition NotificationService_CountByStatus :: "pgdb \<Rightarrow> (goerr + (NotificationStatus \<rightharpoonup> int)) \<times> pgdb" where
  "NotificationService_CountByStatus = CountByStatus"

section \<open>Tenants\<close>

record CreateTenantResult =
  ctr_Tenant :: Tenant
  ctr_APIKey :: string
  ctr_APISecret :: string

text \<open>The two draws of random bytes are \<open>rand1\<close> and \<open>rand2\<close>, the two identifiers \<open>id1\<close> and \<open>id2\<close>.\<close>

definition TenantService_Create :: "(nat \<Rightarrow> goerr + byte list) \<Rightarrow> (nat \<Rightarrow> goerr + byte list) \<Rightarrow> (string \<Rightarrow> goerr + string) \<Rightarrow>
    time \<Rightarrow> uuid \<Rightarrow> uuid \<Rightarrow> CreateTenantInput \<Rightarrow> pgdb \<Rightarrow> (goerr + CreateTenantResult) \<times> pgdb" where
  "TenantService_Create rand1 rand2 bcrypt now id1 id2 input db =
     (if cti_Name input = [] then (Inl (sentinel_with ErrValidationFailed ''name is required''), db)
      else if cti_Slug input = [] then (Inl (sentinel_with ErrValidationFailed ''slug is required''), db)
      else case generateRandomHex rand1 32 of
        Inl err \<Rightarrow> (Inl (wrap ''generate api key: '' err []), db)
      | Inr apiKey \<Rightarrow> (case generateRandomHex rand2 32 of
          Inl err \<Rightarrow> (Inl (wrap ''generate api secret: '' err []), db)
        | Inr rawSecret \<Rightarrow> (case bcrypt rawSecret of
            Inl err \<Rightarrow> (Inl (wrap ''hash api secret: '' err []), db)
          | Inr hashedSecret \<Rightarrow>
              (let tenant = \<lparr>t_ID = id1, t_Name = cti_Name input, t_Slug = cti_Slug input, t_APIKey = apiKey,
                     t_APISecret = hashedSecret, t_IsActive = True, t_CreatedAt = now, t_UpdatedAt = now\<rparr>
               in case Tenant_Create tenant db of
                    (Some err, db1) \<Rightarrow> (Inl err, db1)
                  | (None, db1) \<Rightarrow>
                      (case APIKey_Create \<lparr>k_ID = id2, k_TenantID = id1, k_APIKey = apiKey, k_APISecretHash = hashedSecret,
                           k_Label = ''default'', k_CreatedAt = now, k_RevokedAt = None\<rparr> db1 of
                         (Some err, db2) \<Rightarrow> (Inl err, db2)
                       | (None, db2) \<Rightarrow> (Inr \<lparr>ctr_Tenant = tenant, ctr_APIKey = apiKey, ctr_APISecret = rawSecret\<rparr>, db2))))))"

definition TenantService_GetByID :: "uuid \<Rightarrow> pgdb \<Rightarrow> (goerr + Tenant) \<times> pgdb" where
  "TenantService_GetByID i = Tenant_GetByID i"

definition TenantService_GetBySlug :: "string \<Rightarrow> pgdb \<Rightarrow> (goerr + Tenant) \<times> pgdb" where
  "TenantService_GetBySlug slug = GetBySlug slug"

definition TenantService_Update :: "uuid \<Rightarrow> UpdateTenantInput \<Rightarrow> pgdb \<Rightarrow> (goerr + Tenant) \<times> pgdb" where
  "TenantService_Update i input = Tenant_Update i input"

definition TenantService_Delete :: "uuid \<Rightarrow> pgdb \<Rightarrow> goerr option \<times> pgdb" where
  "TenantService_Delete i = Tenant_Delete i"

definition TenantService_List :: "int \<Rightarrow> int \<Rightarrow> pgdb \<Rightarrow> (goerr + Tenant list \<times> int) \<times> pgdb" where
  "TenantService_List limit offset = Tenant_List (if limit \<le> 0 then 20 else limit) offset"

section \<open>API keys\<close>

definition APIKeyService_Create :: "(nat \<Rightarrow> goerr + byte list) \<Rightarrow> (nat \<Rightarrow> goerr + byte list) \<Rightarrow> (string \<Rightarrow> goerr + string) \<Rightarrow>
    time \<Rightarrow> time \<Rightarrow> uuid \<Rightarrow> uuid \<Rightarrow> string \<Rightarrow> pgdb \<Rightarrow> (goerr + APIKey \<times> string) \<times> pgdb" where
  "APIKeyService_Create rand1 rand2 bcrypt now now' newID tenantID label db =
     (case EntitlementsOrFree tenantID now db of
        (Inl err, db1) \<Rightarrow> (Inl err, db1)
      | (Inr ent, db1) \<Rightarrow> (case generateRandomHex rand1 32 of
          Inl err \<Rightarrow> (Inl err, db1)
        | Inr apiKey \<Rightarrow> (case generateRandomHex rand2 32 of
            Inl err \<Rightarrow> (Inl err, db1)
          | Inr rawSecret \<Rightarrow> (case bcrypt rawSecret of
              Inl err \<Rightarrow> (Inl err, db1)
            | Inr hash \<Rightarrow>
                (let k = \<lparr>k_ID = newID, k_TenantID = tenantID, k_APIKey = apiKey, k_APISecretHash = hash,
                       k_Label = (if label = [] then ''default'' else label), k_CreatedAt = now', k_RevokedAt = None\<rparr>
                 in case APIKey_CreateWithinLimit k (e_APIKeyLimit ent) db1 of
                      (Some err, db2) \<Rightarrow> (Inl err, db2)
                    | (None, db2) \<Rightarrow> (Inr (k, rawSecret), db2))))))"

definition APIKeyService_ListByTenant :: "uuid \<Rightarrow> pgdb \<Rightarrow> (goerr + APIKey list) \<times> pgdb" where
  "APIKeyService_ListByTenant tenantID = APIKey_ListByTenant tenantID"

definition APIKeyService_Revoke :: "uuid \<Rightarrow> uuid \<Rightarrow> pgdb \<Rightarrow> goerr option \<times> pgdb" where
  "APIKeyService_Revoke i tenantID = Revoke i tenantID"

section \<open>Channels\<close>

definition validate_with :: "Provider \<Rightarrow> RawMessage \<Rightarrow> goerr option" where
  "validate_with prov config = (case pr_ValidateConfig prov config of
     None \<Rightarrow> None
   | Some err \<Rightarrow> Some (wrap2 [] (sentinel_err ErrValidationFailed) '': invalid channel config: '' err))"

definition ChannelService_Create :: "Registry \<Rightarrow> time \<Rightarrow> time \<Rightarrow> uuid \<Rightarrow> uuid \<Rightarrow> CreateChannelConfigInput \<Rightarrow> pgdb \<Rightarrow>
    (goerr + ChannelConfig) \<times> pgdb" where
  "ChannelService_Create registry now now' newID tenantID input db =
     (if \<not> IsValidChannelType (cci_Channel input) then
        (Inl (sentinel_with ErrValidationFailed (''invalid channel type: '' @ cci_Channel input)), db)
      else case EntitlementsOrFree tenantID now db of
        (Inl err, db1) \<Rightarrow> (Inl err, db1)
      | (Inr ent, db1) \<Rightarrow>
          if \<not> AllowsChannel ent (cci_Channel input) then (Inl (sentinel_with ErrChannelNotInPlan (cci_Channel input)), db1)
          else if cci_Name input = [] then (Inl (sentinel_with ErrValidationFailed ''name is required''), db1)
          else case Registry_Get registry (cci_Channel input) of
            Inl err \<Rightarrow> (Inl (wrap2 [] (sentinel_err ErrUnsupportedChannel) '': '' err), db1)
          | Inr prov \<Rightarrow> (case validate_with prov (cci_Config input) of
              Some err \<Rightarrow> (Inl err, db1)
            | None \<Rightarrow> (case DeliveryPreferences_Validate (cci_DeliveryPrefs input) of
                Some err \<Rightarrow> (Inl err, db1)
              | None \<Rightarrow>
                  (let cfg = \<lparr>cc_ID = newID, cc_TenantID = tenantID, cc_Channel = cci_Channel input, cc_Name = cci_Name input,
                         cc_Config = cci_Config input, cc_IsActive = True, cc_DeliveryPrefs = cci_DeliveryPrefs input,
                         cc_CreatedAt = now', cc_UpdatedAt = now'\<rparr>
                   in case Channel_Create cfg db1 of
                        (Some err, db2) \<Rightarrow> (Inl err, db2)
                      | (None, db2) \<Rightarrow> (Inr cfg, db2)))))"

definition ChannelService_GetByID :: "uuid \<Rightarrow> pgdb \<Rightarrow> (goerr + ChannelConfig) \<times> pgdb" where
  "ChannelService_GetByID i = Channel_GetByID i"

definition ChannelService_ListByTenant :: "uuid \<Rightarrow> pgdb \<Rightarrow> (goerr + ChannelConfig list) \<times> pgdb" where
  "ChannelService_ListByTenant tenantID = Channel_ListByTenant tenantID"

definition ChannelService_Update :: "Registry \<Rightarrow> uuid \<Rightarrow> uuid \<Rightarrow> UpdateChannelConfigInput \<Rightarrow> pgdb \<Rightarrow>
    (goerr + ChannelConfig) \<times> pgdb" where
  "ChannelService_Update registry i tenantID input db =
     (case (case uci_Config input of
              None \<Rightarrow> (None, db)
            | Some config \<Rightarrow> (case Channel_GetByID i db of
                (Inl err, db1) \<Rightarrow> (Some err, db1)
              | (Inr existing, db1) \<Rightarrow> (case Registry_Get registry (cc_Channel existing) of
                  Inl err \<Rightarrow> (Some (wrap2 [] (sentinel_err ErrUnsupportedChannel) '': '' err), db1)
                | Inr prov \<Rightarrow> (validate_with prov config, db1)))) of
        (Some err, db1) \<Rightarrow> (Inl err, db1)
      | (None, db1) \<Rightarrow> (case DeliveryPreferences_Validate (uci_DeliveryPrefs input) of
            Some err \<Rightarrow> (Inl err, db1)
          | None \<Rightarrow> Channel_Update i tenantID input db1))"

definition ChannelService_Delete :: "uuid \<Rightarrow> uuid \<Rightarrow> pgdb \<Rightarrow> goerr option \<times> pgdb" where
  "ChannelService_Delete i tenantID = Channel_Delete i tenantID"

section \<open>Webhook endpoints\<close>

definition maxWebhookEndpointsPerTenant :: int where
  "maxWebhookEndpointsPerTenant = 3"

definition webhookEndpointSecretBytes :: nat where
  "webhookEndpointSecretBytes = 32"

text \<open>\<open>checkURL\<close> is \<open>ValidateHTTPSDestinationURL\<close> with the parsers of the standard library.\<close>

definition validateWebhookEndpointURL :: "(string \<Rightarrow> goerr option) \<Rightarrow> string \<Rightarrow> goerr option" where
  "validateWebhookEndpointURL checkURL rawURL = (case checkURL rawURL of
     None \<Rightarrow> None
   | Some err \<Rightarrow> Some (wrap2 [] (sentinel_err ErrValidationFailed) '': '' err))"

definition EndpointService_Create :: "(string \<Rightarrow> goerr option) \<Rightarrow> (nat \<Rightarrow> goerr + byte list) \<Rightarrow> time \<Rightarrow> uuid \<Rightarrow> uuid \<Rightarrow>
    CreateWebhookEndpointInput \<Rightarrow> pgdb \<Rightarrow> (goerr + WebhookEndpoint \<times> string) \<times> pgdb" where
  "EndpointService_Create checkURL rand now newID tenantID input db =
     (case validateWebhookEndpointURL checkURL (cwi_URL input) of
        Some err \<Rightarrow> (Inl err, db)
      | None \<Rightarrow> (case ValidateWebhookEvents (cwi_Events input) of
          Some err \<Rightarrow> (Inl err, db)
        | None \<Rightarrow> (case generateRandomHex rand webhookEndpointSecretBytes of
            Inl err \<Rightarrow> (Inl (wrap ''generate webhook secret: '' err []), db)
          | Inr secret \<Rightarrow>
              (let endpoint = \<lparr>we_ID = newID, we_TenantID = tenantID, we_URL = cwi_URL input, we_Secret = secret,
                     we_Events = cwi_Events input, we_IsActive = True, we_CreatedAt = now\<rparr>
               in case Endpoint_CreateWithinLimit endpoint maxWebhookEndpointsPerTenant db of
                    (Some err, db1) \<Rightarrow> (Inl err, db1)
                  | (None, db1) \<Rightarrow> (Inr (endpoint, secret), db1)))))"

definition EndpointService_GetByID :: "uuid \<Rightarrow> pgdb \<Rightarrow> (goerr + WebhookEndpoint) \<times> pgdb" where
  "EndpointService_GetByID i = Endpoint_GetByID i"

definition EndpointService_ListByTenant :: "uuid \<Rightarrow> pgdb \<Rightarrow> (goerr + WebhookEndpoint list) \<times> pgdb" where
  "EndpointService_ListByTenant tenantID = Endpoint_ListByTenant tenantID"

definition EndpointService_Update :: "(string \<Rightarrow> goerr option) \<Rightarrow> uuid \<Rightarrow> uuid \<Rightarrow> UpdateWebhookEndpointInput \<Rightarrow> pgdb \<Rightarrow>
    (goerr + WebhookEndpoint) \<times> pgdb" where
  "EndpointService_Update checkURL i tenantID input db =
     (case (case uwi_URL input of None \<Rightarrow> None | Some u \<Rightarrow> validateWebhookEndpointURL checkURL u) of
        Some err \<Rightarrow> (Inl err, db)
      | None \<Rightarrow> (case (case uwi_Events input of None \<Rightarrow> None | Some evs \<Rightarrow> ValidateWebhookEvents evs) of
          Some err \<Rightarrow> (Inl err, db)
        | None \<Rightarrow> Endpoint_Update i tenantID input db))"

definition EndpointService_Delete :: "uuid \<Rightarrow> uuid \<Rightarrow> pgdb \<Rightarrow> goerr option \<times> pgdb" where
  "EndpointService_Delete i tenantID = Endpoint_Delete i tenantID"

end
