(* ===== verification/Service_Laws.thy ===== *)
theory Service_Laws
  imports Services Fixture Repository_Specs Quota_Laws Task_Laws
begin

text \<open>
  Correctness of the services: what a send leaves behind on every path and under every schedule of database
  failures, accounting of the multi-channel send, the caps enforced through the services, and the consequences of the
  two-statement creation of a tenant.
\<close>

section \<open>Reads\<close>

lemma Channel_GetByID_tables [simp]: "tables (snd (Channel_GetByID i db)) = tables db"
  by (simp add: Channel_GetByID_def)

lemma EntitlementsOrFree_tables [simp]: "tables (snd (EntitlementsOrFree tid now db)) = tables db"
proof -
  have "snd (EntitlementsOrFree tid now db) = snd (Entitlement_GetByTenantID tid db)"
    by (auto simp: EntitlementsOrFree_def split: prod.splits sum.splits)
  then show ?thesis by (simp add: Entitlement_GetByTenantID_def)
qed

lemma Channel_GetByID_found:
  assumes "Channel_GetByID i db = (Inr cfg, db')"
  obtains c where "c \<in> set (db_channels db)" "cr_id c = i" "cfg = scanConfig c"
proof -
  obtain c where q: "pg_query (\<lambda>db. one_row (\<lambda>c. cr_id c = i) (db_channels db)) db = (Inr c, db')" and c: "cfg = scanConfig c"
    using assms by (auto simp: Channel_GetByID_def scan_row_def split: prod.splits sum.splits dberr.splits)
  from q have "one_row (\<lambda>c. cr_id c = i) (db_channels db) = Inr c" by (rule pg_query_result) simp
  then have "c \<in> set (db_channels db)" "cr_id c = i" by (auto simp: one_row_Inr dest: find_Some_in)
  then show ?thesis using c by (rule that)
qed

lemma Notification_Create_effect:
  "case Notification_Create n db of
     (Some _, db') \<Rightarrow> tables db' = tables db
   | (None, db') \<Rightarrow> tables db' = tables (db\<lparr>db_notifs := db_notifs db @ [inserted n]\<rparr>)"
  by (cases rule: pg_call_cases [of "sql_insert_notif n" db])
    (auto simp: Notification_Create_def exec_plain_def sql_insert_notif_def checked_def tables_def split: option.splits)

section \<open>Send\<close>

definition same_stores :: "'a world_scheme \<Rightarrow> 'a world_scheme \<Rightarrow> bool" where
  "same_stores w w' \<longleftrightarrow> tables (w_db w') = tables (w_db w) \<and> w_queue w' = w_queue w"

lemma same_stores_trans: "same_stores w w1 \<Longrightarrow> same_stores w1 w2 \<Longrightarrow> same_stores w w2"
  by (simp add: same_stores_def)

lemma on_db_read:
  assumes "\<And>d. tables (snd (f d)) = tables d" and "on_db f w = (r, w')"
  shows "same_stores w w'"
  using assms(1) [of "w_db w"] assms(2) by (auto simp: same_stores_def on_db_def split: prod.splits)

lemma on_db_result: "on_db f w = (r, w') \<Longrightarrow> f (w_db w) = (r, w_db w')"
  by (auto simp: on_db_def split: prod.splits)

lemma tables_with_notifs: "tables (d\<lparr>db_notifs := x\<rparr>) = (tables d)\<lparr>db_notifs := x\<rparr>"
  by (simp add: tables_def)

text \<open>The three ways in which persisting ends.\<close>

lemma send_persist_outcome:
  "case send_persist L env tid cfg n w of
     (Inr n', w') \<Rightarrow> n' = n \<and> w_queue w' = w_queue w @ [NewNotificationDeliverTask L (deliver_payload tid cfg n) [n_MaxRetries n]] \<and>
       map n_ID (db_notifs (w_db w')) = map n_ID (db_notifs (w_db w)) @ [n_ID n]
   | (Inl _, w') \<Rightarrow> w_queue w' = w_queue w \<and>
       (tables (w_db w') = tables (w_db w) \<or>
        tables (w_db w') = tables ((w_db w)\<lparr>db_notifs := db_notifs (w_db w) @ [inserted n]\<rparr>) \<and>
        lib_enqueue L (w_queue w) (NewNotificationDeliverTask L (deliver_payload tid cfg n) [n_MaxRetries n]) \<noteq> None)"
proof -
  let ?t = "NewNotificationDeliverTask L (deliver_payload tid cfg n) [n_MaxRetries n]"
  obtain r db1 where c: "Notification_Create n (w_db w) = (r, db1)" by fastforce
  then have on1: "on_db (Notification_Create n) w = (r, w\<lparr>w_db := db1\<rparr>)" by (simp add: on_db_def)
  note eff = Notification_Create_effect [where n = n and db = "w_db w", unfolded c]
  show ?thesis
  proof (cases r)
    case (Some e)
    with c eff show ?thesis by (simp add: send_persist_def on_db_def)
  next
    case None
    with eff have t: "tables db1 = tables ((w_db w)\<lparr>db_notifs := db_notifs (w_db w) @ [inserted n]\<rparr>)" by simp
    then have ids: "db_notifs db1 = db_notifs (w_db w) @ [inserted n]" by (rule tables_eq_fields(5) [THEN trans]) simp
    have upd: "map n_ID (db_notifs (snd (SetAsynqTaskID i x now d))) = map n_ID (db_notifs d)" for i x now d
      unfolding SetAsynqTaskID_def snd_exec
      by (rule pg_call_field) (simp_all add: sql_update_notif_def map_update_where task_id_set_def)
    show ?thesis
    proof (cases "lib_enqueue L (w_queue w) ?t")
      case None
      with \<open>r = None\<close> on1 ids upd show ?thesis
        by (simp add: send_persist_def EnqueueContext_def inserted_def)
    next
      case (Some e)
      with \<open>r = None\<close> c t show ?thesis by (simp add: send_persist_def on_db_def EnqueueContext_def)
    qed
  qed
qed

lemma Send_effect:
  "case Send L maxRetries env tid input w of
     (Inr n, w') \<Rightarrow>
       (\<exists>c \<in> set (db_channels (w_db w)). cr_id c = sni_ChannelConfigID input \<and> cr_tenant_id c = tid \<and> cr_is_active c \<and>
          n = new_notification env tid (scanConfig c) input (effectiveMaxRetries maxRetries (scanConfig c)) \<and>
          w_queue w' = w_queue w @ [NewNotificationDeliverTask L (deliver_payload tid (scanConfig c) n) [n_MaxRetries n]] \<and>
          map n_ID (db_notifs (w_db w')) = map n_ID (db_notifs (w_db w)) @ [se_id env])
   | (Inl _, w') \<Rightarrow> w_queue w' = w_queue w \<and>
       (tables (w_db w') = tables (w_db w) \<or>
        (\<exists>n t. n_Status n = StatusPending \<and> n_AsynqTaskID n = None \<and> lib_enqueue L (w_queue w) t \<noteq> None \<and>
          tables (w_db w') = tables ((w_db w)\<lparr>db_notifs := db_notifs (w_db w) @ [n]\<rparr>)))"
proof -
  obtain r1 w1 where g: "on_db (Channel_GetByID (sni_ChannelConfigID input)) w = (r1, w1)" by fastforce
  have s1: "same_stores w w1" by (rule on_db_read [OF Channel_GetByID_tables g])
  show ?thesis
  proof (cases r1)
    case (Inl e)
    with g s1 show ?thesis by (simp add: Send_def same_stores_def)
  next
    case (Inr cfg)
    have "Channel_GetByID (sni_ChannelConfigID input) (w_db w) = (Inr cfg, w_db w1)" using on_db_result [OF g] Inr by simp
    then obtain c where c: "c \<in> set (db_channels (w_db w))" "cr_id c = sni_ChannelConfigID input" "cfg = scanConfig c"
      by (rule Channel_GetByID_found)
    obtain r2 w2 where e: "on_db (EntitlementsOrFree tid (se_now env)) w1 = (r2, w2)" by fastforce
    have s2: "same_stores w w2" using s1 on_db_read [OF EntitlementsOrFree_tables e] by (rule same_stores_trans)
    let ?n = "new_notification env tid cfg input (effectiveMaxRetries maxRetries cfg)"
    show ?thesis
    proof (cases "cc_TenantID cfg = tid \<and> cc_IsActive cfg \<and> validateSubjectForChannel (cc_Channel cfg) (sni_Subject input) = None \<and>
        (\<exists>ent. r2 = Inr ent \<and> AllowsChannel ent (cc_Channel cfg))")
      case False
      then have "\<exists>err w'. Send L maxRetries env tid input w = (Inl err, w') \<and> (w' = w1 \<or> w' = w2)"
        using g e Inr by (auto simp: Send_def split: option.splits sum.splits)
      with s1 s2 show ?thesis by (auto simp: same_stores_def)
    next
      case True
      then have p: "Send L maxRetries env tid input w = send_persist L env tid cfg ?n w2" using g e Inr by (auto simp: Send_def)
      have q: "w_queue w2 = w_queue w" and d: "db_notifs (w_db w2) = db_notifs (w_db w)"
        and td: "tables (w_db w2) = tables (w_db w)"
        using s2 by (auto simp: same_stores_def dest: tables_eq_fields)
      have t: "tables ((w_db w2)\<lparr>db_notifs := x\<rparr>) = tables ((w_db w)\<lparr>db_notifs := x\<rparr>)" for x
        by (simp only: tables_with_notifs td)
      show ?thesis
      proof (cases "send_persist L env tid cfg ?n w2")
        case (Pair r w')
        note out = send_persist_outcome [where L = L and env = env and tid = tid and cfg = cfg and n = ?n and w = w2, unfolded Pair q d td t]
        show ?thesis
        proof (cases r)
          case (Inl err)
          with out p Pair show ?thesis
            by (auto simp: inserted_def intro!: exI [of _ "inserted ?n"] simp: new_notification_def)
        next
          case (Inr n)
          with out p Pair c True show ?thesis
            by (auto simp: scanConfig_def new_notification_def intro!: bexI [of _ c])
        qed
      qed
    qed
  qed
qed

text \<open>
  C23. Every outcome of a send, under every schedule of database failures and every answer of the broker. On success the
  channel is an active one of the sender's tenant, exactly one task was queued, it carries the new notification, and its
  row was added. On failure nothing was queued and no table changed, with a single exception: a refused enqueue
  leaves the new row behind, pending and without a task.
\<close>

theorem Send_outcome:
  "case Send L maxRetries env tid input w of
     (Inr n, w') \<Rightarrow>
       (\<exists>c \<in> set (db_channels (w_db w)). cr_id c = sni_ChannelConfigID input \<and> cr_tenant_id c = tid \<and> cr_is_active c \<and>
          n = new_notification env tid (scanConfig c) input (effectiveMaxRetries maxRetries (scanConfig c)) \<and>
          w_queue w' = w_queue w @ [NewNotificationDeliverTask L (deliver_payload tid (scanConfig c) n) [n_MaxRetries n]] \<and>
          map n_ID (db_notifs (w_db w')) = map n_ID (db_notifs (w_db w)) @ [se_id env])
   | (Inl _, w') \<Rightarrow> w_queue w' = w_queue w \<and>
       (tables (w_db w') = tables (w_db w) \<or>
        (\<exists>n t. n_Status n = StatusPending \<and> n_AsynqTaskID n = None \<and> lib_enqueue L (w_queue w) t \<noteq> None \<and>
          tables (w_db w') = tables ((w_db w)\<lparr>db_notifs := db_notifs (w_db w) @ [n]\<rparr>)))"
  by (rule Send_effect)

section \<open>SendMulti\<close>

lemma send_each_effect:
  "case send_each L maxRetries envs tid chans order w of
     ((results, errs), w') \<Rightarrow> length results + length errs = length order \<and>
       length (w_queue w') = length (w_queue w) + length results \<and> list_all (\<lambda>n. n_TenantID n = tid) results"
proof (induction order arbitrary: w)
  case (Cons i order)
  obtain r w1 where s: "Send L maxRetries (envs i) tid (chans ! i) w = (r, w1)" by fastforce
  obtain results errs w2 where e: "send_each L maxRetries envs tid chans order w1 = ((results, errs), w2)"
    by (metis surj_pair)
  note eff = Send_effect [where L = L and maxRetries = maxRetries and env = "envs i" and tid = tid
      and input = "chans ! i" and w = w, unfolded s]
  show ?case
    using Cons.IH [of w1] eff by (cases r) (auto simp: s e new_notification_def)
qed simp

text \<open>
  \<^verbatim>\<open>SendMulti\<close> accounts for every requested channel, in whatever order its sends finish: results and errors
  together are as many as the channels, one task was queued per result and none per error, and every result
  belongs to the sender's tenant.
\<close>

theorem SendMulti_accounts:
  assumes "distinct order" and "set order = {..<length chans}"
  shows "case SendMulti L maxRetries envs tid chans order w of
     ((results, errs), w') \<Rightarrow> length results + length errs = length chans \<and>
       length (w_queue w') = length (w_queue w) + length results \<and> list_all (\<lambda>n. n_TenantID n = tid) results"
proof -
  have "length order = length chans" using assms by (metis card_lessThan distinct_card)
  then show ?thesis
    using send_each_effect [where L = L and maxRetries = maxRetries and envs = envs and tid = tid and chans = chans
        and order = order and w = w]
    by (simp add: SendMulti_def)
qed

definition demo_lib :: lib where
  "demo_lib = \<lparr>lib_uuid_String = (\<lambda>i. show_int (uint i)), lib_NewSHA1 = (\<lambda>_ _. 7), lib_enqueue = (\<lambda>q t. None)\<rparr>"

definition demo_world :: world where
  "demo_world = \<lparr>w_db = demo_db, w_queue = []\<rparr>"

definition demo_env :: "nat \<Rightarrow> send_env" where
  "demo_env i = \<lparr>se_now = 41, se_created = 42, se_id = 200 + of_nat i, se_updated = 43\<rparr>"

definition demo_input :: "uuid \<Rightarrow> SendNotificationInput" where
  "demo_input c = \<lparr>sni_ChannelConfigID = c, sni_Subject = None, sni_Body = ''hi'', sni_Metadata = None\<rparr>"

theorem SendMulti_accounts_witness:
  "case SendMulti demo_lib 5 demo_env 1 [demo_input 10, demo_input 99] [1, 0] demo_world of
     ((results, errs), w') \<Rightarrow> length results + length errs = 2 \<and> length (w_queue w') = length results"
proof -
  have "set [1, 0 :: nat] = {..<length [demo_input 10, demo_input 99]}" by auto
  then show ?thesis using SendMulti_accounts [where order = "[1, 0]" and chans = "[demo_input 10, demo_input 99]" and L = demo_lib
      and maxRetries = 5 and envs = demo_env and tid = 1 and w = demo_world]
    by (simp add: demo_world_def split: prod.splits)
qed

section \<open>A successful send\<close>

lemma Channel_GetByID_calm:
  "db_faults db = [] \<Longrightarrow> find (\<lambda>c. cr_id c = i) (db_channels db) = Some c \<Longrightarrow> Channel_GetByID i db = (Inr (scanConfig c), db)"
  by (simp add: Channel_GetByID_def scan_row_def one_row_def)

lemma scanConfig_sel [simp]:
  "cc_ID (scanConfig c) = cr_id c" "cc_TenantID (scanConfig c) = cr_tenant_id c" "cc_Channel (scanConfig c) = cr_channel c"
  "cc_IsActive (scanConfig c) = cr_is_active c"
  by (simp_all add: scanConfig_def)

lemma on_db_calm: "f (w_db w) = (r, w_db w) \<Longrightarrow> on_db f w = (r, w)"
  by (cases w) (simp add: on_db_def)

lemma Notification_Create_calm:
  assumes "db_faults db = []" and "int4 (n_MaxRetries n)" and "IsValidChannelType (n_Channel n)" and "n_Status n = StatusPending"
    and "n_ID n \<notin> notif_ids db" and "n_TenantID n \<in> tenant_ids db" and "n_ChannelConfigID n \<in> channel_ids db"
  shows "Notification_Create n db = (None, db\<lparr>db_notifs := db_notifs db @ [inserted n]\<rparr>)"
  using assms by (simp add: Notification_Create_def exec_plain_def sql_insert_notif_def IsValidNotificationStatus_def)

lemma find_fresh: "n_ID n \<notin> n_ID ` set t \<Longrightarrow> n_ID (f n) = n_ID n \<Longrightarrow>
    find (\<lambda>m. n_ID m = n_ID n) (t @ [f n]) = Some (f n)"
  by (induction t) auto

lemma find_updated_fresh:
  assumes "n_ID n \<notin> n_ID ` set t"
  shows "find (\<lambda>m. n_ID m = n_ID n) (update_where (\<lambda>m. n_ID m = n_ID n) (task_id_set x now) (t @ [inserted n])) =
    Some (task_id_set x now (inserted n))"
proof -
  have "find (\<lambda>m. n_ID m = n_ID n) (t @ [inserted n]) = Some (inserted n)"
    using assms by (rule find_fresh) (simp add: inserted_def)
  then show ?thesis
    by (subst find_update_where_key) (simp_all add: task_id_set_def del: update_where_append)
qed

text \<open>
  A send works: with a reachable database and an accepting broker, a message to an active channel of the tenant
  that the plan includes, with a subject where the channel needs one, is stored as a pending
  notification with the task's identifier and queued as one delivery task with the effective retry limit.
\<close>

theorem Send_succeeds:
  assumes "db_faults (w_db w) = []" and "db_ok (w_db w)"
    and "find (\<lambda>c. cr_id c = sni_ChannelConfigID input) (db_channels (w_db w)) = Some c"
    and "cr_tenant_id c = tid" and "cr_is_active c"
    and "validateSubjectForChannel (cr_channel c) (sni_Subject input) = None"
    and "AllowsChannel (ent_of (w_db w) tid (se_now env)) (cr_channel c)"
    and "int4 (effectiveMaxRetries maxRetries (scanConfig c))" and "se_id env \<notin> notif_ids (w_db w)"
    and "\<And>t. lib_enqueue L (w_queue w) t = None"
  shows "case Send L maxRetries env tid input w of (r, w') \<Rightarrow>
    (\<exists>n t. r = Inr n \<and> n_Status n = StatusPending \<and> n_Body n = sni_Body input \<and> w_queue w' = w_queue w @ [t] \<and>
      tk_MaxRetry t = effectiveMaxRetries maxRetries (scanConfig c) \<and>
      unmarshal_deliver (tk_Body t) = Inr ((deliver_payload tid (scanConfig c) n)
        \<lparr>p_Metadata := Some (marshal_raw (sni_Metadata input))\<rparr>) \<and>
      find (\<lambda>m. n_ID m = se_id env) (db_notifs (w_db w')) = Some (n\<lparr>n_AsynqTaskID := Some (tk_TaskID t), n_UpdatedAt := se_updated env\<rparr>))"
proof -
  let ?cfg = "scanConfig c" and ?db = "w_db w"
  define n where "n = new_notification env tid ?cfg input (effectiveMaxRetries maxRetries ?cfg)"
  define t where "t = NewNotificationDeliverTask L (deliver_payload tid ?cfg n) [n_MaxRetries n]"
  let ?db1 = "?db\<lparr>db_notifs := db_notifs ?db @ [inserted n]\<rparr>"
  have c: "c \<in> set (db_channels ?db)" using assms(3) by (simp add: find_Some_in)
  have "IsValidChannelType (cr_channel c)" "cr_tenant_id c \<in> tenant_ids ?db"
    using assms(2) c by (auto simp: db_ok_def enums_ok_def refs_ok_def)
  then have cr: "Notification_Create n ?db = (None, ?db1)"
    using assms(1,4,8,9) c
    by (intro Notification_Create_calm) (auto simp: n_def new_notification_def scanConfig_def channel_ids_def)
  have "Send L maxRetries env tid input w = send_persist L env tid ?cfg n w"
    using assms(1,3-7) by (simp add: Send_def on_db_calm Channel_GetByID_calm EntitlementsOrFree_calm n_def)
  also have "\<dots> = (Inr n, w\<lparr>w_db := snd (SetAsynqTaskID (n_ID n) (tk_TaskID t) (se_updated env) ?db1), w_queue := w_queue w @ [t]\<rparr>)"
    using assms(10) by (simp add: send_persist_def on_db_def cr EnqueueContext_def t_def split: prod.splits)
  finally have s: "Send L maxRetries env tid input w = \<dots>" .
  have mt: "tk_MaxRetry t = effectiveMaxRetries maxRetries ?cfg"
    by (simp add: t_def NewNotificationDeliverTask_def Let_def n_def new_notification_def)
  have "fits64 k" if "cc_DeliveryPrefs ?cfg = Some dp" "dp_MaxRetries dp = Some k" for dp k
    using assms(8) that by (simp add: effectiveMaxRetries_def int4_def fits64_def)
  then have pl: "unmarshal_deliver (tk_Body t) = Inr ((deliver_payload tid ?cfg n)\<lparr>p_Metadata := Some (marshal_raw (sni_Metadata input))\<rparr>)"
    unfolding t_def by (subst deliver_wire) (simp_all add: deliver_payload_def marshal_raw_def n_def new_notification_def)
  have "n_ID n \<notin> n_ID ` set (db_notifs ?db)" using assms(9) by (simp add: n_def new_notification_def notif_ids_def)
  note fresh = find_updated_fresh [OF this, of "tk_TaskID t" "se_updated env"]
  have i: "n_ID n = se_id env" by (simp add: n_def new_notification_def)
  have row: "find (\<lambda>m. n_ID m = se_id env) (db_notifs (snd (SetAsynqTaskID (n_ID n) (tk_TaskID t) (se_updated env) ?db1))) =
      Some (n\<lparr>n_AsynqTaskID := Some (tk_TaskID t), n_UpdatedAt := se_updated env\<rparr>)"
    using assms(1) fresh unfolding i
    by (simp add: SetAsynqTaskID_def sql_update_notif_def del: update_where_append)
      (simp add: task_id_set_def inserted_def n_def new_notification_def)
  show ?thesis
    unfolding s using mt pl row
    by (auto simp: n_def [symmetric]) (auto simp: n_def new_notification_def)
qed

theorem Send_succeeds_witness:
  "case Send demo_lib 5 (demo_env 0) 1 (demo_input 10) demo_world of (r, w') \<Rightarrow> \<exists>n. r = Inr n \<and> n_Status n = StatusPending"
proof -
  have d: "db_faults (w_db demo_world) = []" "db_ok (w_db demo_world)"
    using demo_db_ok by (simp_all add: demo_world_def) (simp add: demo_db_def)
  have f: "find (\<lambda>c. cr_id c = sni_ChannelConfigID (demo_input 10)) (db_channels (w_db demo_world)) = Some acme_slack"
    by (simp add: demo_world_def demo_db_def demo_input_def acme_slack_def)
  have v: "validateSubjectForChannel (cr_channel acme_slack) (sni_Subject (demo_input 10)) = None"
    by (simp add: validateSubjectForChannel_def acme_slack_def ChannelEmail_def)
  have a: "AllowsChannel (ent_of (w_db demo_world) 1 (se_now (demo_env 0))) (cr_channel acme_slack)" by code_simp
  have i: "int4 (effectiveMaxRetries 5 (scanConfig acme_slack))" by code_simp
  have n: "se_id (demo_env 0) \<notin> notif_ids (w_db demo_world)"
    by (simp add: demo_env_def demo_world_def demo_db_def notif_ids_def queued_notif_def)
  have l: "lib_enqueue demo_lib (w_queue demo_world) t = None" for t by (simp add: demo_lib_def)
  show ?thesis
    using Send_succeeds [OF d f _ _ v a i n l] by (auto simp: acme_slack_def split: prod.splits)
qed

section \<open>Webhook endpoints\<close>

text \<open>
  Creating a webhook endpoint through the service: it succeeds only for a URL the destination check accepts and a
  valid event list, below three endpoints, adds exactly one active endpoint of the tenant with a secret of 64
  hexadecimal digits that is handed out once, and every error leaves the tables alone.
\<close>

theorem EndpointService_Create_spec:
  assumes "\<And>b. rand 32 = Inr b \<Longrightarrow> length b = 32"
  shows "case EndpointService_Create checkURL rand now newID tid input db of
      (Inr (ep, secret), db') \<Rightarrow> checkURL (cwi_URL input) = None \<and> ValidateWebhookEvents (cwi_Events input) = None \<and>
        endpoint_count tid db < 3 \<and> endpoint_count tid db' = endpoint_count tid db + 1 \<and>
        we_TenantID ep = tid \<and> we_IsActive ep \<and> we_Secret ep = secret \<and> length secret = 64
    | (Inl _, db') \<Rightarrow> tables db' = tables db"
proof (cases "validateWebhookEndpointURL checkURL (cwi_URL input) = None \<and> ValidateWebhookEvents (cwi_Events input) = None \<and>
    (\<exists>s. generateRandomHex rand 32 = Inr s)")
  case False
  then have "\<exists>e. EndpointService_Create checkURL rand now newID tid input db = (Inl e, db)"
    by (auto simp: EndpointService_Create_def webhookEndpointSecretBytes_def split: option.splits sum.splits)
  then show ?thesis by auto
next
  case True
  then obtain secret where s: "generateRandomHex rand 32 = Inr secret" by blast
  let ?ep = "\<lparr>we_ID = newID, we_TenantID = tid, we_URL = cwi_URL input, we_Secret = secret,
      we_Events = cwi_Events input, we_IsActive = True, we_CreatedAt = now\<rparr>"
  obtain r db' where c: "Endpoint_CreateWithinLimit ?ep 3 db = (r, db')" by fastforce
  have "length secret = 64" using s assms by (auto simp: generateRandomHex_def length_hex_encode split: sum.splits)
  moreover have "checkURL (cwi_URL input) = None" using True by (auto simp: validateWebhookEndpointURL_def split: option.splits)
  moreover have "EndpointService_Create checkURL rand now newID tid input db =
      (case r of Some e \<Rightarrow> (Inl e, db') | None \<Rightarrow> (Inr (?ep, secret), db'))"
    using True s c by (simp add: EndpointService_Create_def webhookEndpointSecretBytes_def maxWebhookEndpointsPerTenant_def
        split: option.splits)
  ultimately show ?thesis
    using True endpoint_cap.create_respects_cap [OF c [unfolded Endpoint_CreateWithinLimit_def]] by (cases r) auto
qed

theorem EndpointService_Create_spec_witness:
  "case EndpointService_Create (\<lambda>_. None) (\<lambda>n. Inr (replicate n 0)) 50 51 1 \<lparr>cwi_URL = ''https://a.test'', cwi_Events = [''notification.failed'']\<rparr> demo_db of
      (Inr (ep, secret), db') \<Rightarrow> endpoint_count 1 db' = endpoint_count 1 demo_db + 1
    | (Inl _, db') \<Rightarrow> tables db' = tables demo_db"
  using EndpointService_Create_spec [where rand = "\<lambda>n. Inr (replicate n 0)" and checkURL = "\<lambda>_. None" and now = 50
      and newID = 51 and tid = 1 and input = "\<lparr>cwi_URL = ''https://a.test'', cwi_Events = [''notification.failed'']\<rparr>" and db = demo_db]
  by (auto split: prod.splits sum.splits)

section \<open>Tenants\<close>

text \<open>
  Creating a tenant is two statements without a transaction: when the second, the insert of the initial API
  key, fails, the caller gets an error and no credentials, but the tenant's row stays and a second attempt with the
  same slug is refused as a validation failure.
\<close>

theorem tenant_create_not_atomic:
  assumes "db_faults db = [None, Some m]" and "cti_Name input \<noteq> []" and "cti_Slug input \<noteq> []"
    and "generateRandomHex rand1 32 = Inr key" and "generateRandomHex rand2 32 = Inr secret" and "bcrypt secret = Inr hash"
    and "id1 \<notin> tenant_ids db" and "cti_Slug input \<notin> t_Slug ` set (db_tenants db)" and "key \<notin> t_APIKey ` set (db_tenants db)"
    and "id3 \<notin> insert id1 (tenant_ids db)"
  shows "case TenantService_Create rand1 rand2 bcrypt now id1 id2 input db of (r, db') \<Rightarrow>
    (\<exists>e. r = Inl e) \<and> id1 \<in> tenant_ids db' \<and> db_api_keys db' = db_api_keys db \<and>
    fst (TenantService_Create rand1 rand2 bcrypt now' id3 id4 input db') =
      Inl (sentinel_with ErrValidationFailed ''tenants_slug_key'')"
  using assms
  by (simp add: TenantService_Create_def Tenant_Create_def APIKey_Create_def pg_call_def exec_unique_def exec_plain_def
      Let_def checked_def tenant_ids_def)

theorem tenant_create_not_atomic_witness:
  "case TenantService_Create (\<lambda>n. Inr (replicate n 1)) (\<lambda>n. Inr (replicate n 2)) Inr 50 3 70 \<lparr>cti_Name = ''N'', cti_Slug = ''n''\<rparr>
      (demo_db\<lparr>db_faults := [None, Some ''lost'']\<rparr>) of (r, db') \<Rightarrow> (\<exists>e. r = Inl e) \<and> 3 \<in> tenant_ids db'"
proof -
  let ?db = "demo_db\<lparr>db_faults := [None, Some ''lost'']\<rparr>"
  have r: "generateRandomHex (\<lambda>n. Inr (replicate n 1)) 32 = Inr (hex_encode (replicate 32 1))"
    "generateRandomHex (\<lambda>n. Inr (replicate n 2)) 32 = Inr (hex_encode (replicate 32 2))"
    by (simp_all add: generateRandomHex_def)
  have k: "hex_encode (replicate 32 1) \<notin> t_APIKey ` set (db_tenants ?db)"
  proof -
    have "length (hex_encode (replicate 32 (1 :: byte))) = 64" by (simp add: length_hex_encode)
    then show ?thesis by (auto simp: demo_defs)
  qed
  have f: "db_faults ?db = [None, Some ''lost'']" and i: "3 \<notin> tenant_ids ?db" "4 \<notin> insert 3 (tenant_ids ?db)"
    and sl: "''n'' \<notin> t_Slug ` set (db_tenants ?db)"
    by (simp_all add: tenant_ids_def demo_defs)
  have sl': "cti_Slug \<lparr>cti_Name = ''N'', cti_Slug = ''n''\<rparr> \<notin> t_Slug ` set (db_tenants ?db)" using sl by simp
  show ?thesis
    using tenant_create_not_atomic [where bcrypt = Inr and now = 50 and now' = 0 and ?id2.0 = 70 and ?id4.0 = 0,
      OF f _ _ r refl i(1) sl' k i(2)]
    by (auto split: prod.splits)
qed

end
