(* ===== verification/Maintenance.thy ===== *)
theory Maintenance
  imports Quota_Laws Repository_Specs
begin

text \<open>
  The nightly maintenance (\<^verbatim>\<open>internal/worker/retention.go\<close>): the loop that pages through every tenant, the
  retention purge and the reconciliation of the usage counters. The loop is a partial function, because its
  callback could add tenants for ever; that it returns is a theorem. The clock is read for each tenant: \<open>clock\<close> gives the
  reading when the tenant's entitlements are loaded and \<open>now\<close> the one of its purge. Redis' clock stands still during a run.
\<close>

section \<open>Model\<close>

definition TypeRetentionPurge :: string where
  "TypeRetentionPurge = ''retention:purge''"

definition TypeUsageReconcile :: string where
  "TypeUsageReconcile = ''usage:reconcile''"

definition pageSize :: int where
  "pageSize = 500"

fun visit_tenants :: "(Tenant \<Rightarrow> Entitlements \<Rightarrow> qworld \<Rightarrow> qworld) \<Rightarrow> (uuid \<Rightarrow> time) \<Rightarrow> Tenant list \<Rightarrow> qworld \<Rightarrow> qworld" where
  "visit_tenants fn clock [] s = s"
| "visit_tenants fn clock (t # ts) s =
     (case on_qdb (EntitlementsOrFree (t_ID t) (clock (t_ID t))) s of
        (Inl _, s1) \<Rightarrow> visit_tenants fn clock ts s1
      | (Inr ent, s1) \<Rightarrow> visit_tenants fn clock ts (fn t ent s1))"

partial_function (option) tenant_pages ::
    "(Tenant \<Rightarrow> Entitlements \<Rightarrow> qworld \<Rightarrow> qworld) \<Rightarrow> (uuid \<Rightarrow> time) \<Rightarrow> int \<Rightarrow> qworld \<Rightarrow> (goerr option \<times> qworld) option" where
  "tenant_pages fn clock offset s =
     (case on_qdb (Tenant_List pageSize offset) s of
        (Inl err, s1) \<Rightarrow> Some (Some (wrap ''list tenants: '' err []), s1)
      | (Inr (tenants, tot), s1) \<Rightarrow>
          (let s2 = visit_tenants fn clock tenants s1
           in if offset + pageSize \<ge> tot \<or> tenants = [] then Some (None, s2)
              else tenant_pages fn clock (offset + pageSize) s2))"

definition forEachTenant :: "(Tenant \<Rightarrow> Entitlements \<Rightarrow> qworld \<Rightarrow> qworld) \<Rightarrow> (uuid \<Rightarrow> time) \<Rightarrow> qworld \<Rightarrow>
    (goerr option \<times> qworld) option" where
  "forEachTenant fn clock s = tenant_pages fn clock 0 s"

text \<open>The callback of the purge; its error is logged.\<close>

definition purge_tenant :: "(uuid \<Rightarrow> time) \<Rightarrow> Tenant \<Rightarrow> Entitlements \<Rightarrow> qworld \<Rightarrow> qworld" where
  "purge_tenant now t ent s =
     (let cutoff = AddDate (now (t_ID t)) 0 0 (- e_RetentionDays ent)
      in snd (on_qdb (DeleteOlderThan (t_ID t) cutoff) s))"

definition HandleRetentionPurge :: "(uuid \<Rightarrow> time) \<Rightarrow> (uuid \<Rightarrow> time) \<Rightarrow> qworld \<Rightarrow> (goerr option \<times> qworld) option" where
  "HandleRetentionPurge now clock s = forEachTenant (purge_tenant now) clock s"

definition reconcile_tenant :: "(uuid \<Rightarrow> string) \<Rightarrow> Tenant \<Rightarrow> Entitlements \<Rightarrow> qworld \<Rightarrow> qworld" where
  "reconcile_tenant us t ent s =
     (case on_qdb (UsageByTenant (t_ID t) (e_PeriodStart ent) (e_PeriodEnd ent)) s of
        (Inl _, s1) \<Rightarrow> s1
      | (Inr report, s1) \<Rightarrow>
          (let key = ''usage:'' @ us (t_ID t) @ '':'' @ show_int (unix_seconds (e_PeriodStart ent))
           in snd (on_redis (Redis_Set key (ur_Sent report) (45 * 24 * hour_ns)) s1)))"

definition HandleUsageReconcile :: "(uuid \<Rightarrow> string) \<Rightarrow> (uuid \<Rightarrow> time) \<Rightarrow> qworld \<Rightarrow> (goerr option \<times> qworld) option" where
  "HandleUsageReconcile us clock s = forEachTenant (reconcile_tenant us) clock s"

section \<open>The loop\<close>

lemma Tenant_List_page:
  assumes "Tenant_List k off db = (Inr (ts, tot), db')"
  shows "ts = page k off (sort_key (\<lambda>t. - t_CreatedAt t) (db_tenants db))"
proof -
  obtain x d1 where 1: "pg_query (\<lambda>db. Inr (int (length (db_tenants db))) :: dberr + int) db = (x, d1)" by fastforce
  let ?q = "\<lambda>db. Inr (page k off (sort_key (\<lambda>t. - t_CreatedAt t) (db_tenants db))) :: dberr + Tenant list"
  from assms 1 have "pg_query ?q d1 = (Inr ts, db')"
    by (auto simp: Tenant_List_def split: sum.splits prod.splits)
  then have "?q d1 = Inr ts" by (rule pg_query_result) simp
  then show ?thesis using tables_eq_fields(1) [OF pg_query_tables [OF 1]] by simp
qed

text \<open>
  What the loop needs of its callback: it leaves the tenants alone, and it consumes no scripted failure when there is none.
\<close>

locale tenant_visitor =
  fixes fn :: "Tenant \<Rightarrow> Entitlements \<Rightarrow> qworld \<Rightarrow> qworld"
  assumes fn_tenants: "db_tenants (q_db (fn t ent s)) = db_tenants (q_db s)"
    and fn_calm: "db_faults (q_db s) = [] \<Longrightarrow> db_faults (q_db (fn t ent s)) = []"
begin

lemma visit_tenants_keeps:
  "db_tenants (q_db (visit_tenants fn clock ts s)) = db_tenants (q_db s)"
proof (induction ts arbitrary: s)
  case (Cons t ts)
  have "db_tenants (snd (EntitlementsOrFree (t_ID t) c (q_db s))) = db_tenants (q_db s)" for c
  proof -
    have "snd (EntitlementsOrFree (t_ID t) c (q_db s)) = snd (Entitlement_GetByTenantID (t_ID t) (q_db s))"
      by (auto simp: EntitlementsOrFree_def split: prod.splits sum.splits)
    then have "tables (snd (EntitlementsOrFree (t_ID t) c (q_db s))) = tables (q_db s)"
      by (simp add: Entitlement_GetByTenantID_def)
    then show ?thesis by (rule tables_eq_fields(1))
  qed
  then show ?case by (auto simp: on_qdb_def Cons.IH fn_tenants split: prod.splits sum.splits) (metis snd_conv)+
qed simp

lemma visit_tenants_calm: "db_faults (q_db s) = [] \<Longrightarrow> db_faults (q_db (visit_tenants fn clock ts s)) = []"
proof (induction ts arbitrary: s)
  case (Cons t ts)
  then show ?case by (simp add: on_qdb_def EntitlementsOrFree_calm fn_calm)
qed simp

lemma visit_tenants_append: "visit_tenants fn clock (ts @ us) s = visit_tenants fn clock us (visit_tenants fn clock ts s)"
  by (induction ts arbitrary: s) (auto split: prod.splits sum.splits)

lemma page_step: "0 \<le> off \<Longrightarrow> page k off t @ drop (nat (off + k)) t = drop (nat off) t" if "0 \<le> k"
proof -
  assume "0 \<le> off"
  then have "nat (off + k) = nat k + nat off" using that by simp
  then show ?thesis by (simp add: page_def flip: drop_drop)
qed

lemma pages_one_pass:
  assumes "db_faults (q_db s) = []" and "0 \<le> off"
  shows "tenant_pages fn clock off s =
    Some (None, visit_tenants fn clock (drop (nat off) (sort_key (\<lambda>t. - t_CreatedAt t) (db_tenants (q_db s)))) s)"
  using assms
proof (induction "nat (int (length (db_tenants (q_db s))) - off)" arbitrary: off s rule: less_induct)
  case less
  let ?all = "sort_key (\<lambda>t. - t_CreatedAt t) (db_tenants (q_db s))"
  let ?pg = "page pageSize off ?all"
  let ?s2 = "visit_tenants fn clock ?pg s"
  have list: "on_qdb (Tenant_List pageSize off) s = (Inr (?pg, int (length (db_tenants (q_db s)))), s)"
    using less.prems(1) by (cases s) (simp add: on_qdb_def Tenant_List_def)
  have split: "?pg @ drop (nat (off + pageSize)) ?all = drop (nat off) ?all"
    using less.prems(2) by (intro page_step) (simp_all add: pageSize_def)
  show ?case
  proof (cases "off + pageSize \<ge> int (length (db_tenants (q_db s))) \<or> ?pg = []")
    case True
    have "drop (nat (off + pageSize)) ?all = []"
      using True less.prems(2) by (auto simp: page_def pageSize_def)
    then have "?pg = drop (nat off) ?all" using split by simp
    then show ?thesis using True list by (subst tenant_pages.simps) (simp add: Let_def)
  next
    case False
    have "tenant_pages fn clock off s = tenant_pages fn clock (off + pageSize) ?s2"
      using False list by (subst tenant_pages.simps) (simp add: Let_def)
    also have "\<dots> = Some (None, visit_tenants fn clock (drop (nat (off + pageSize)) ?all) ?s2)"
      using less.hyps [of ?s2 "off + pageSize"] False less.prems
      by (simp add: visit_tenants_keeps visit_tenants_calm pageSize_def)
    finally show ?thesis by (simp add: visit_tenants_append [symmetric] split)
  qed
qed

lemma pages_return: "0 \<le> off \<Longrightarrow> \<exists>r. tenant_pages fn clock off s = Some r"
proof (induction "nat (int (length (db_tenants (q_db s))) - off)" arbitrary: off s rule: less_induct)
  case less
  obtain r s1 where l: "on_qdb (Tenant_List pageSize off) s = (r, s1)" by fastforce
  have "tables (snd (Tenant_List pageSize off (q_db s))) = tables (q_db s)"
    by (auto simp: Tenant_List_def split: prod.splits sum.splits) (metis pg_query_tables)+
  then have t: "db_tenants (q_db s1) = db_tenants (q_db s)"
    using l by (auto simp: on_qdb_def split: prod.splits dest: tables_eq_fields)
  show ?case
  proof (cases r)
    case (Inl e)
    with l show ?thesis by (subst tenant_pages.simps) simp
  next
    case (Inr p)
    obtain ts tot where p: "p = (ts, tot)" by fastforce
    let ?s2 = "visit_tenants fn clock ts s1"
    show ?thesis
    proof (cases "off + pageSize \<ge> tot \<or> ts = []")
      case True
      with l Inr p show ?thesis by (subst tenant_pages.simps) (simp add: Let_def)
    next
      case False
      have "Tenant_List pageSize off (q_db s) = (Inr (ts, tot), q_db s1)"
        using l Inr p by (auto simp: on_qdb_def split: prod.splits)
      then have "ts = page pageSize off (sort_key (\<lambda>t. - t_CreatedAt t) (db_tenants (q_db s)))" by (rule Tenant_List_page)
      then have "off < int (length (db_tenants (q_db s)))" using False less.prems by (auto simp: page_def)
      then have "\<exists>r. tenant_pages fn clock (off + pageSize) ?s2 = Some r"
        using less.hyps [of ?s2 "off + pageSize"] less.prems by (simp add: visit_tenants_keeps t pageSize_def)
      with False l Inr p show ?thesis by (subst tenant_pages.simps) (simp add: Let_def)
    qed
  qed
qed

end

section \<open>The purge and the reconciliation as callbacks\<close>

lemma DeleteOlderThan_tenants: "db_tenants (snd (DeleteOlderThan tid cutoff db)) = db_tenants db"
proof -
  obtain r db' where d: "DeleteOlderThan tid cutoff db = (r, db')" by fastforce
  have "db_tenants db' = db_tenants db"
    using d unfolding DeleteOlderThan_def
  proof (cases rule: pg_tx_cases)
    case (committed fs k db2)
    from committed(1) obtain f1 f2 f3 d1 d2
      where "purge_attempts tid cutoff (db\<lparr>db_faults := fs, db_faults := f1\<rparr>) = (Inr (), d1)"
        and "purge_metrics tid cutoff (d1\<lparr>db_faults := f2\<rparr>) = (Inr (), d2)"
        and "purge_notifs tid cutoff (d2\<lparr>db_faults := f3\<rparr>) = (Inr k, db2)"
      by (rule DeleteOlderThan_body)
    then have "db_tenants db2 = db_tenants db"
      by (auto simp: purge_attempts_def purge_metrics_def purge_notifs_def cascade_def Let_def)
    with committed(3) show ?thesis by (metis tables_eq_fields(1))
  qed (auto dest: tables_eq_fields)
  with d show ?thesis by simp
qed

lemma DeleteOlderThan_calm:
  assumes "db_ok db" and "db_faults db = []"
  shows "snd (DeleteOlderThan tid cutoff db) = purged tid cutoff db"
proof -
  let ?x = "db\<lparr>db_attempts := delete_where (\<lambda>a. da_NotificationID a \<in> old_notif_ids tid cutoff db) (db_attempts db),
      db_metrics := delete_where (\<lambda>m. dm_NotificationID m \<in> old_notif_ids tid cutoff db) (db_metrics db),
      db_notifs := delete_where (\<lambda>n. n_TenantID n = tid \<and> n_CreatedAt n < cutoff) (db_notifs db)\<rparr>"
  have x: "?x = purged tid cutoff db" by (simp add: purged_def delete_where_def)
  have f: "db_faults (purged tid cutoff db) = []" using assms(2) by (simp add: purged_def)
  have "cascade ?x = ?x" unfolding x using purged_refs_ok [OF assms(1)] by (rule cascade_id)
  then have "purge_notifs tid cutoff (db\<lparr>db_attempts := delete_where (\<lambda>a. da_NotificationID a \<in> old_notif_ids tid cutoff db) (db_attempts db),
      db_metrics := delete_where (\<lambda>m. dm_NotificationID m \<in> old_notif_ids tid cutoff db) (db_metrics db)\<rparr>) =
      (Inr (int (rows_affected (\<lambda>n. n_TenantID n = tid \<and> n_CreatedAt n < cutoff) (db_notifs db))), purged tid cutoff db)"
    by (simp add: purge_notifs_def Let_def x)
  then show ?thesis
    using assms(2) f by (simp add: DeleteOlderThan_def pg_tx_def purge_attempts_def purge_metrics_def old_notif_ids_def)
qed

lemma cascade_faults [simp]: "db_faults (cascade db) = db_faults db"
  by (simp add: cascade_def Let_def)

lemma DeleteOlderThan_faults: "db_faults db = [] \<Longrightarrow> db_faults (snd (DeleteOlderThan tid cutoff db)) = []"
  by (simp add: DeleteOlderThan_def pg_tx_def purge_attempts_def purge_metrics_def purge_notifs_def Let_def)

lemma snd_on_qdb: "snd (on_qdb f s) = s\<lparr>q_db := snd (f (q_db s))\<rparr>"
  by (simp add: on_qdb_def split: prod.splits)

lemma UsageByTenant_tables: "tables (snd (UsageByTenant tid from to db)) = tables db"
proof -
  let ?q1 = "\<lambda>db. let ns = filter (in_window tid from to) (db_notifs db) in
      Inr (int (length ns), int (length (filter (\<lambda>n. n_Status n = StatusDelivered) ns)),
        int (length (filter (\<lambda>n. n_Status n = StatusFailed) ns))) :: dberr + int \<times> int \<times> int"
  let ?q2 = "\<lambda>db. Inr (concat (map (\<lambda>n. map cr_channel (filter (\<lambda>c. cr_id c = n_ChannelConfigID n) (db_channels db)))
      (filter (in_window tid from to) (db_notifs db)))) :: dberr + string list"
  obtain x d1 where 1: "pg_query ?q1 db = (x, d1)" by fastforce
  obtain y d2 where 2: "pg_query ?q2 d1 = (y, d2)" by fastforce
  have "snd (UsageByTenant tid from to db) \<in> {d1, d2}"
    unfolding UsageByTenant_def 1 by (cases x; cases y) (auto simp: 2)
  then show ?thesis using pg_query_tables [OF 1] pg_query_tables [OF 2] by auto
qed

lemma UsageByTenant_calm:
  "db_faults db = [] \<Longrightarrow> \<exists>rep. UsageByTenant tid from to db = (Inr rep, db) \<and>
     ur_Sent rep = int (length (filter (in_window tid from to) (db_notifs db)))"
  by (simp add: UsageByTenant_def Let_def)

lemma on_qdb_calm: "f (q_db s) = (r, q_db s) \<Longrightarrow> on_qdb f s = (r, s)"
  by (cases s) (simp add: on_qdb_def)

interpretation purge: tenant_visitor "purge_tenant now" for now
  by unfold_locales (simp_all add: purge_tenant_def Let_def DeleteOlderThan_tenants DeleteOlderThan_faults)

lemma reconcile_db: "tables (q_db (reconcile_tenant us t ent s)) = tables (q_db s)"
proof -
  obtain r d where u: "UsageByTenant (t_ID t) (e_PeriodStart ent) (e_PeriodEnd ent) (q_db s) = (r, d)" by fastforce
  then have "tables d = tables (q_db s)" by (metis UsageByTenant_tables snd_conv)
  then show ?thesis by (cases r) (simp_all add: reconcile_tenant_def on_qdb_def u Let_def)
qed

interpretation reconcile: tenant_visitor "reconcile_tenant us" for us
proof
  fix t ent s
  show "db_tenants (q_db (reconcile_tenant us t ent s)) = db_tenants (q_db s)"
    by (rule tables_eq_fields(1) [OF reconcile_db])
  assume "db_faults (q_db s) = []"
  then obtain rep where "UsageByTenant (t_ID t) (e_PeriodStart ent) (e_PeriodEnd ent) (q_db s) = (Inr rep, q_db s)"
    using UsageByTenant_calm by blast
  then show "db_faults (q_db (reconcile_tenant us t ent s)) = []"
    using \<open>db_faults (q_db s) = []\<close> by (simp add: reconcile_tenant_def on_qdb_def Let_def)
qed

text \<open>
  C38. Both maintenance loops return: from every state, with any number of tenants and under every schedule of failures,
  the paging loop reaches its end or reports the error of the listing.
\<close>

theorem maintenance_returns:
  "(\<exists>r. HandleRetentionPurge now clock s = Some r) \<and> (\<exists>r. HandleUsageReconcile us clock s = Some r)"
  unfolding HandleRetentionPurge_def HandleUsageReconcile_def forEachTenant_def
  by (intro conjI purge.pages_return reconcile.pages_return) simp_all

section \<open>What the purge leaves\<close>

definition retention_cutoff :: "pgdb \<Rightarrow> (uuid \<Rightarrow> time) \<Rightarrow> (uuid \<Rightarrow> time) \<Rightarrow> uuid \<Rightarrow> time" where
  "retention_cutoff db now clock tid = AddDate (now tid) 0 0 (- e_RetentionDays (ent_of db tid (clock tid)))"

lemma purged_sel [simp]:
  "db_entitlements (purged tid cutoff db) = db_entitlements db" "db_faults (purged tid cutoff db) = db_faults db"
  by (simp_all add: purged_def)

lemma ent_of_purged [simp]: "ent_of (purged tid cutoff db) = ent_of db"
  by (rule ext)+ (simp add: ent_of_def)

lemma purge_visit:
  assumes "db_ok (q_db s)" and "db_faults (q_db s) = []"
  shows "db_notifs (q_db (visit_tenants (purge_tenant now) clock ts s)) =
    filter (\<lambda>n. \<not> (n_TenantID n \<in> t_ID ` set ts \<and> n_CreatedAt n < retention_cutoff (q_db s) now clock (n_TenantID n)))
      (db_notifs (q_db s))"
  using assms
proof (induction ts arbitrary: s)
  case (Cons t ts)
  let ?c = "retention_cutoff (q_db s) now clock (t_ID t)"
  let ?s = "s\<lparr>q_db := purged (t_ID t) ?c (q_db s)\<rparr>"
  have "visit_tenants (purge_tenant now) clock (t # ts) s = visit_tenants (purge_tenant now) clock ts ?s"
    using Cons.prems DeleteOlderThan_calm [OF Cons.prems, of "t_ID t" ?c]
    by (simp add: on_qdb_calm EntitlementsOrFree_calm purge_tenant_def Let_def retention_cutoff_def snd_on_qdb)
  moreover have "db_ok (q_db ?s)"
    using DeleteOlderThan_ok [OF Cons.prems(1), of "t_ID t" ?c] DeleteOlderThan_calm [OF Cons.prems] by simp
  moreover have "retention_cutoff (q_db ?s) now clock = retention_cutoff (q_db s) now clock"
    by (rule ext) (simp add: retention_cutoff_def)
  ultimately show ?case
    using Cons.IH [of ?s] Cons.prems(2) by (simp add: purged_def) (rule filter_cong, auto)
qed simp

text \<open>
  C37. The purge keeps exactly what each tenant's plan retains: on a working database it ends without an error and the
  notifications left are those created at or after their own tenant's cutoff, in order, where a tenant
  without an entitlements row is on the Free plan's seven days.
\<close>

theorem HandleRetentionPurge_exact:
  assumes "db_ok (q_db s)" and "db_faults (q_db s) = []"
  shows "\<exists>s'. HandleRetentionPurge now clock s = Some (None, s') \<and>
    db_notifs (q_db s') = filter (\<lambda>n. retention_cutoff (q_db s) now clock (n_TenantID n) \<le> n_CreatedAt n) (db_notifs (q_db s))"
proof -
  let ?ts = "sort_key (\<lambda>t. - t_CreatedAt t) (db_tenants (q_db s))"
  have "n_TenantID n \<in> t_ID ` set ?ts" if "n \<in> set (db_notifs (q_db s))" for n
    using assms(1) that by (auto simp: db_ok_def refs_ok_def tenant_ids_def)
  then have "db_notifs (q_db (visit_tenants (purge_tenant now) clock ?ts s)) =
      filter (\<lambda>n. retention_cutoff (q_db s) now clock (n_TenantID n) \<le> n_CreatedAt n) (db_notifs (q_db s))"
    unfolding purge_visit [OF assms] by (intro filter_cong) auto
  then show ?thesis
    using purge.pages_one_pass [OF assms(2), of 0 now clock] by (simp add: HandleRetentionPurge_def forEachTenant_def)
qed

theorem HandleRetentionPurge_exact_witness:
  "\<exists>s'. HandleRetentionPurge (\<lambda>_. AddDate 30 0 0 8) (\<lambda>_. 0) demo_quota = Some (None, s') \<and> db_notifs (q_db s') = []"
proof -
  have d: "db_ok (q_db demo_quota)" "db_faults (q_db demo_quota) = []"
    using demo_db_ok by (simp_all add: demo_quota_def) (simp add: demo_db_def)
  have "filter (\<lambda>n. retention_cutoff (q_db demo_quota) (\<lambda>_. AddDate 30 0 0 8) (\<lambda>_. 0) (n_TenantID n) \<le> n_CreatedAt n) (db_notifs (q_db demo_quota)) = []"
    by code_simp
  with HandleRetentionPurge_exact [OF d, of "\<lambda>_. AddDate 30 0 0 8" "\<lambda>_. 0"] show ?thesis by metis
qed

section \<open>What the reconciliation writes\<close>

definition window_count :: "pgdb \<Rightarrow> (uuid \<Rightarrow> time) \<Rightarrow> uuid \<Rightarrow> int" where
  "window_count db clock tid =
     (let ent = ent_of db tid (clock tid)
      in int (length (filter (in_window tid (e_PeriodStart ent) (e_PeriodEnd ent)) (db_notifs db))))"

definition counter_key :: "(uuid \<Rightarrow> string) \<Rightarrow> pgdb \<Rightarrow> (uuid \<Rightarrow> time) \<Rightarrow> uuid \<Rightarrow> string" where
  "counter_key us db clock tid = usageKey us tid (e_PeriodStart (ent_of db tid (clock tid)))"

lemma reconcile_step:
  assumes "calm s"
  shows "visit_tenants (reconcile_tenant us) clock (t # ts) s = visit_tenants (reconcile_tenant us) clock ts
      (snd (on_redis (Redis_Set (counter_key us (q_db s) clock (t_ID t)) (window_count (q_db s) clock (t_ID t)) counterTTL) s))"
proof -
  let ?ent = "ent_of (q_db s) (t_ID t) (clock (t_ID t))"
  have f: "db_faults (q_db s) = []" using assms by (simp add: calm_def)
  obtain rep where "UsageByTenant (t_ID t) (e_PeriodStart ?ent) (e_PeriodEnd ?ent) (q_db s) = (Inr rep, q_db s)"
    (is ?u) and r: "ur_Sent rep = window_count (q_db s) clock (t_ID t)"
    using UsageByTenant_calm [OF f] unfolding window_count_def Let_def by blast
  from \<open>?u\<close> have "on_qdb (UsageByTenant (t_ID t) (e_PeriodStart ?ent) (e_PeriodEnd ?ent)) s = (Inr rep, s)" by (rule on_qdb_calm)
  then show ?thesis
    using r on_qdb_ent [OF assms] by (simp add: reconcile_tenant_def Let_def counter_key_def usageKey_def counterTTL_def)
qed

lemma Redis_Set_calm:
  fixes k v ttl
  assumes "calm s"
  defines "s' \<equiv> snd (on_redis (Redis_Set k v ttl) s)"
  shows "calm s'" "q_db s' = q_db s" "rd_value (q_redis s') k' = (if k' = k then v else rd_value (q_redis s) k')"
  using assms by (simp_all add: calm_def Redis_Set_def rd_value_def)

lemma reconcile_visit:
  assumes "calm s" and "inj_on (counter_key us (q_db s) clock) (insert tid (t_ID ` set ts))"
  shows "rd_value (q_redis (visit_tenants (reconcile_tenant us) clock ts s)) (counter_key us (q_db s) clock tid) =
    (if tid \<in> t_ID ` set ts then window_count (q_db s) clock tid else rd_value (q_redis s) (counter_key us (q_db s) clock tid))"
  using assms
proof (induction ts arbitrary: s)
  case (Cons t ts)
  define s' where "s' = snd (on_redis (Redis_Set (counter_key us (q_db s) clock (t_ID t)) (window_count (q_db s) clock (t_ID t)) counterTTL) s)"
  note s' = Redis_Set_calm [OF Cons.prems(1), of "counter_key us (q_db s) clock (t_ID t)" "window_count (q_db s) clock (t_ID t)" counterTTL,
      folded s'_def]
  have "inj_on (counter_key us (q_db s') clock) (insert tid (t_ID ` set ts))"
    using Cons.prems(2) s'(2) by (auto intro: inj_on_subset)
  moreover have "counter_key us (q_db s) clock tid = counter_key us (q_db s) clock (t_ID t) \<longleftrightarrow> tid = t_ID t"
    using Cons.prems(2) by (auto simp: inj_on_def)
  ultimately show ?case
    using Cons.IH [of s'] s' reconcile_step [OF Cons.prems(1)] by (auto simp: s'_def [symmetric])
qed simp

lemma usageKey_inj:
  assumes "inj us" and "\<And>i. length (us i) = 36"
  shows "usageKey us a p = usageKey us b q \<Longrightarrow> a = b"
  using assms by (auto simp: usageKey_def dest: injD)

text \<open>
  The reconciliation writes the truth: with a reachable database and Redis it ends without an error and every tenant's
  counter equals the number of its notifications of the current period in the database. The printed identifiers are
  taken to be distinct and 36 characters long.
\<close>

theorem HandleUsageReconcile_counts:
  assumes "calm s" and "inj us" and "\<And>i. length (us i) = 36" and "t \<in> set (db_tenants (q_db s))"
  shows "\<exists>s'. HandleUsageReconcile us clock s = Some (None, s') \<and>
    rd_value (q_redis s') (counter_key us (q_db s) clock (t_ID t)) = window_count (q_db s) clock (t_ID t)"
proof -
  let ?ts = "sort_key (\<lambda>t. - t_CreatedAt t) (db_tenants (q_db s))"
  have "inj_on (counter_key us (q_db s) clock) (insert (t_ID t) (t_ID ` set ?ts))"
    using usageKey_inj [OF assms(2,3)] by (auto simp: inj_on_def counter_key_def)
  from reconcile_visit [OF assms(1) this] assms(4)
  have "rd_value (q_redis (visit_tenants (reconcile_tenant us) clock ?ts s)) (counter_key us (q_db s) clock (t_ID t)) =
      window_count (q_db s) clock (t_ID t)" by simp
  moreover have "db_faults (q_db s) = []" using assms(1) by (simp add: calm_def)
  ultimately show ?thesis
    using reconcile.pages_one_pass [of s 0 us clock] by (simp add: HandleUsageReconcile_def forEachTenant_def)
qed

text \<open>A printing of identifiers with both properties: twenty dashes and the sixteen bytes.\<close>

definition byte_text :: "uuid \<Rightarrow> string" where
  "byte_text i = replicate 20 CHR ''-'' @ map (\<lambda>k. char_of (unat i div 256 ^ k)) [0..<16]"

lemma base_digits_inj:
  "\<forall>k < n. a div 256 ^ k mod 256 = b div 256 ^ k mod 256 \<Longrightarrow> a < 256 ^ n \<Longrightarrow> b < 256 ^ n \<Longrightarrow> a = (b :: nat)"
proof (induction n arbitrary: a b)
  case (Suc n)
  have "\<forall>k < n. a div 256 div 256 ^ k mod 256 = b div 256 div 256 ^ k mod 256"
    using Suc.prems(1) by (auto simp: div_mult2_eq [symmetric] dest: spec [of _ "Suc _"])
  moreover have "a div 256 < 256 ^ n" "b div 256 < 256 ^ n" using Suc.prems(2,3) by (simp_all add: div_less_iff_less_mult mult.commute)
  ultimately have "a div 256 = b div 256" by (rule Suc.IH)
  moreover have "a mod 256 = b mod 256" using Suc.prems(1) [rule_format, of 0] by simp
  ultimately show ?case by (metis div_mult_mod_eq)
qed simp

lemma byte_text_inj: "inj byte_text"
proof
  fix a b :: uuid
  assume "byte_text a = byte_text b"
  then have "\<forall>k < 16. (char_of (unat a div 256 ^ k) :: char) = char_of (unat b div 256 ^ k)"
    by (auto simp: byte_text_def)
  then have "\<forall>k < 16. unat a div 256 ^ k mod 256 = unat b div 256 ^ k mod 256" by (simp add: char_of_eq_iff take_bit_eq_mod)
  moreover have "unat a < 256 ^ 16" "unat b < 256 ^ 16" using unsigned_less [of a] unsigned_less [of b] by simp_all
  ultimately have "unat a = unat b" by (rule base_digits_inj)
  then show "a = b" by (simp add: word_unat_eq_iff)
qed

theorem HandleUsageReconcile_counts_witness:
  "\<exists>s'. HandleUsageReconcile byte_text (\<lambda>_. 0) demo_quota = Some (None, s') \<and>
    rd_value (q_redis s') (counter_key byte_text demo_db (\<lambda>_. 0) 1) = 1"
proof -
  have t: "acme \<in> set (db_tenants (q_db demo_quota))" "t_ID acme = 1" "q_db demo_quota = demo_db"
    by (simp_all add: demo_quota_def demo_db_def acme_def)
  have w: "window_count demo_db (\<lambda>_. 0) 1 = 1" by code_simp
  show ?thesis
    using HandleUsageReconcile_counts [OF demo_calm byte_text_inj _ t(1), of "\<lambda>_. 0"] w
    by (simp add: t byte_text_def [of "_"])
qed

end
