(* ===== verification/Webhook_Delivery.thy ===== *)
theory Webhook_Delivery
  imports Services Service_Laws
begin

text \<open>
  Signed webhooks: the verification of a signature in the Go SDK
  (\<^verbatim>\<open>sdks/go/signature.go\<close>) and the worker that posts one event to one endpoint
  (\<^verbatim>\<open>internal/worker/webhook_event_delivery.go\<close>). HMAC-SHA256 is the argument \<open>hmac\<close>; the JSON text of an event, the
  check of a request's URL and the HTTP client, with a state of its own, are arguments too. Bytes are characters.
\<close>

section \<open>Signatures\<close>

text \<open>\<^verbatim>\<open>hex.DecodeString\<close>.\<close>

definition hex_value :: "char \<Rightarrow> nat option" where
  "hex_value c = (let n = of_char c in
     if 48 \<le> n \<and> n \<le> 57 then Some (n - 48)
     else if 97 \<le> n \<and> n \<le> 102 then Some (n - 87)
     else if 65 \<le> n \<and> n \<le> 70 then Some (n - 55)
     else None)"

fun hex_decode :: "string \<Rightarrow> byte list option" where
  "hex_decode [] = Some []"
| "hex_decode [c] = None"
| "hex_decode (a # b # cs) = (case (hex_value a, hex_value b, hex_decode cs) of
     (Some x, Some y, Some bs) \<Rightarrow> Some (of_nat (16 * x + y) # bs) | _ \<Rightarrow> None)"

definition ErrInvalidSignature :: goerr where
  "ErrInvalidSignature = plain_error ''notifyd: invalid webhook signature''"

definition VerifyWebhookSignature :: "(string \<Rightarrow> string \<Rightarrow> byte list) \<Rightarrow> string \<Rightarrow> string \<Rightarrow> string \<Rightarrow> string \<Rightarrow> goerr option" where
  "VerifyWebhookSignature hmac secret timestamp body signatureHeader =
     (if \<not> HasPrefix signatureHeader ''sha256='' then Some ErrInvalidSignature
      else case hex_decode (TrimPrefix signatureHeader ''sha256='') of
             None \<Rightarrow> Some ErrInvalidSignature
           | Some providedBytes \<Rightarrow>
               if providedBytes = hmac secret (timestamp @ ''.'' @ body) then None else Some ErrInvalidSignature)"

section \<open>The delivery worker\<close>

text \<open>The environment of the worker: the JSON encoder, the URL check of a request, HMAC and the clock.\<close>

record delivery_env =
  dv_marshal :: "WebhookEventPayload \<Rightarrow> goerr + string"
  dv_check_url :: "string \<Rightarrow> goerr option"
  dv_hmac :: "string \<Rightarrow> string \<Rightarrow> byte list"
  dv_now :: time

text \<open>The state is extended by the state of the client, where a client keeps what it dialled and sent.\<close>

record 's http_world = world +
  hw_client :: 's

definition event_request :: "delivery_env \<Rightarrow> WebhookEndpoint \<Rightarrow> WebhookEventPayload \<Rightarrow> string \<Rightarrow> http_request" where
  "event_request E endpoint event body =
     (let timestamp = show_int (unix_seconds (dv_now E));
          signature = SignHMAC (dv_hmac E) (we_Secret endpoint) timestamp body
      in \<lparr>hq_method = ''POST'', hq_url = we_URL endpoint,
          hq_headers = [(''Content-Type'', ''application/json''), (''X-Notifyd-Signature'', ''sha256='' @ signature),
            (''X-Notifyd-Timestamp'', timestamp), (''X-Notifyd-Event-Id'', ev_ID event)],
          hq_body = body\<rparr>)"

definition webhook_deliver :: "delivery_env \<Rightarrow> 's client \<Rightarrow> WebhookEndpoint \<Rightarrow> WebhookEventPayload \<Rightarrow> 's http_world \<Rightarrow>
    goerr option \<times> 's http_world" where
  "webhook_deliver E client endpoint event w =
     (case dv_marshal E event of
        Inl err \<Rightarrow> (Some (wrap2 ''marshal event payload: '' err '': '' (sentinel_err SkipRetry)), w)
      | Inr body \<Rightarrow> (case dv_check_url E (we_URL endpoint) of
          Some err \<Rightarrow> (Some (wrap2 ''build request: '' err '': '' (sentinel_err SkipRetry)), w)
        | None \<Rightarrow> (case client (event_request E endpoint event body) (hw_client w) of
            (Inl err, s) \<Rightarrow> (Some (wrap ''deliver webhook event: '' err []), w\<lparr>hw_client := s\<rparr>)
          | (Inr resp, s) \<Rightarrow>
              if hp_status resp \<ge> 200 \<and> hp_status resp < 300 then (None, w\<lparr>hw_client := s\<rparr>)
              else (Some (plain_error (''webhook endpoint returned '' @ show_int (hp_status resp))), w\<lparr>hw_client := s\<rparr>))))"

definition HandleWebhookEvent :: "delivery_env \<Rightarrow> 's client \<Rightarrow> Task \<Rightarrow> 's http_world \<Rightarrow> goerr option \<times> 's http_world" where
  "HandleWebhookEvent E client t w =
     (case unmarshal_event (tk_Body t) of
        Inl err \<Rightarrow> (Some (wrap2 ''unmarshal payload: '' err '': '' (sentinel_err SkipRetry)), w)
      | Inr p \<Rightarrow> (case on_db (Endpoint_GetByID (etp_EndpointID p)) w of
          (Inl err, w1) \<Rightarrow> (Some (wrap2 ''fetch webhook endpoint: '' err '': '' (sentinel_err SkipRetry)), w1)
        | (Inr endpoint, w1) \<Rightarrow>
            if \<not> we_IsActive endpoint then (Some (wrap ''webhook endpoint is inactive: '' (sentinel_err SkipRetry) []), w1)
            else webhook_deliver E client endpoint (etp_Event p) w1))"

section \<open>Laws of signatures\<close>

lemma hex_value_digit: "n < 16 \<Longrightarrow> hex_value (hex_digit n) = Some n"
proof -
  have "list_all (\<lambda>n. hex_value (hex_digit n) = Some n) [0..<16]" by code_simp
  then show "n < 16 \<Longrightarrow> hex_value (hex_digit n) = Some n" by (simp add: list_all_iff)
qed

lemma hex_roundtrip: "hex_decode (hex_encode bs) = Some bs"
proof (induction bs)
  case (Cons b bs)
  have "unat b < 256" using unsigned_less [of b] by simp
  then have "unat b div 16 < 16" by simp
  moreover have "of_nat (16 * (unat b div 16) + unat b mod 16) = b" by simp
  ultimately show ?case using Cons.IH by (simp add: hex_encode_def hex_value_digit)
qed (simp add: hex_encode_def)

lemma signed_message_inj:
  assumes "CHR ''.'' \<notin> set t" and "CHR ''.'' \<notin> set t'" and "t @ ''.'' @ b = t' @ ''.'' @ b'"
  shows "t = t' \<and> b = b'"
  using append_sep_inj [OF assms(1,2), of b b'] assms(3) by simp

lemma verify_iff:
  "VerifyWebhookSignature hmac secret ts body h = None \<longleftrightarrow>
     (\<exists>p. h = ''sha256='' @ p \<and> hex_decode p = Some (hmac secret (ts @ ''.'' @ body)))"
proof (cases "HasPrefix h ''sha256=''")
  case True
  then obtain p where h: "h = ''sha256='' @ p" by (auto simp: HasPrefix_iff)
  have t: "TrimPrefix h ''sha256='' = p" unfolding h by (rule TrimPrefix_append)
  show ?thesis
    using True unfolding VerifyWebhookSignature_def t by (auto simp: h ErrInvalidSignature_def split: option.splits)
next
  case False
  then have "\<nexists>p. h = ''sha256='' @ p" by (metis HasPrefix_append)
  with False show ?thesis by (simp add: VerifyWebhookSignature_def)
qed

text \<open>
  Signing and verification agree: the SDK accepts the header built from \<^verbatim>\<open>SignHMAC\<close> for the same secret,
  timestamp and body; it accepts a header if and only if it is \<^verbatim>\<open>sha256=\<close> with hexadecimal digits of the expected
  code; and for timestamps without a dot, as the worker writes them, the signed text determines timestamp and body, so
  a signature cannot be moved to another timestamp.
\<close>

theorem signature_roundtrip:
  "VerifyWebhookSignature hmac secret ts body (''sha256='' @ SignHMAC hmac secret ts body) = None \<and>
   (VerifyWebhookSignature hmac secret ts body h = None) =
     (\<exists>p. h = ''sha256='' @ p \<and> hex_decode p = Some (hmac secret (ts @ ''.'' @ body))) \<and>
   (if CHR ''.'' \<in> set ts \<or> CHR ''.'' \<in> set ts' then True
    else (ts @ ''.'' @ body = ts' @ ''.'' @ body') = (ts = ts' \<and> body = body'))"
proof (intro conjI)
  show "VerifyWebhookSignature hmac secret ts body (''sha256='' @ SignHMAC hmac secret ts body) = None"
    unfolding verify_iff SignHMAC_def using hex_roundtrip by blast
  show "(VerifyWebhookSignature hmac secret ts body h = None) =
     (\<exists>p. h = ''sha256='' @ p \<and> hex_decode p = Some (hmac secret (ts @ ''.'' @ body)))" by (rule verify_iff)
  show "if CHR ''.'' \<in> set ts \<or> CHR ''.'' \<in> set ts' then True
    else (ts @ ''.'' @ body = ts' @ ''.'' @ body') = (ts = ts' \<and> body = body')"
    using signed_message_inj [of ts ts' body body'] by auto
qed

section \<open>Laws of the worker\<close>

lemma Endpoint_GetByID_tables [simp]: "tables (snd (Endpoint_GetByID i db)) = tables db"
  by (simp add: Endpoint_GetByID_def)

lemma Endpoint_GetByID_found:
  assumes "Endpoint_GetByID i db = (Inr ep, db')"
  shows "ep \<in> set (db_endpoints db) \<and> we_ID ep = i"
proof -
  have q: "pg_query (\<lambda>db. one_row (\<lambda>w. we_ID w = i) (db_endpoints db)) db = (Inr ep, db')"
    using assms by (simp add: Endpoint_GetByID_def scan_row_Inr)
  from q have "one_row (\<lambda>w. we_ID w = i) (db_endpoints db) = Inr ep" by (rule pg_query_result) simp
  then show ?thesis by (auto simp: one_row_Inr dest: find_Some_in)
qed

definition header :: "http_request \<Rightarrow> string \<Rightarrow> string" where
  "header req name = (case map_of (hq_headers req) name of None \<Rightarrow> [] | Some v \<Rightarrow> v)"

text \<open>What a receiver with the endpoint's secret checks.\<close>

definition verifies :: "delivery_env \<Rightarrow> WebhookEndpoint \<Rightarrow> http_request \<Rightarrow> bool" where
  "verifies E ep req \<longleftrightarrow> hq_url req = we_URL ep \<and>
     VerifyWebhookSignature (dv_hmac E) (we_Secret ep) (header req ''X-Notifyd-Timestamp'') (hq_body req)
       (header req ''X-Notifyd-Signature'') = None"

lemma event_request_verifies: "verifies E ep (event_request E ep ev body)"
  unfolding verifies_def verify_iff
  by (auto simp: event_request_def header_def Let_def SignHMAC_def hex_roundtrip)

text \<open>The task gets as far as the client: its payload, its endpoint and the body of the request.\<close>

definition sendable :: "delivery_env \<Rightarrow> Task \<Rightarrow> pgdb \<Rightarrow> WebhookEventTaskPayload \<Rightarrow> WebhookEndpoint \<Rightarrow> string \<Rightarrow> bool" where
  "sendable E t db p ep body \<longleftrightarrow> unmarshal_event (tk_Body t) = Inr p \<and> fst (Endpoint_GetByID (etp_EndpointID p) db) = Inr ep \<and>
     we_IsActive ep \<and> dv_marshal E (etp_Event p) = Inr body \<and> dv_check_url E (we_URL ep) = None"

text \<open>The database answers, and the endpoint of the task is missing or deactivated.\<close>

definition endpoint_gone :: "Task \<Rightarrow> pgdb \<Rightarrow> bool" where
  "endpoint_gone t db \<longleftrightarrow> db_faults db = [] \<and> (\<exists>p. unmarshal_event (tk_Body t) = Inr p \<and>
     (\<forall>ep \<in> set (db_endpoints db). we_ID ep = etp_EndpointID p \<longrightarrow> \<not> we_IsActive ep))"

lemma HandleWebhookEvent_steps:
  obtains (sends) p ep body s a where "sendable E t (w_db w) p ep body"
      "client (event_request E ep (etp_Event p) body) (hw_client w) = (a, s)"
      "HandleWebhookEvent E client t w = (case a of Inl err \<Rightarrow> Some (wrap ''deliver webhook event: '' err [])
         | Inr resp \<Rightarrow> if 200 \<le> hp_status resp \<and> hp_status resp < 300 then None
             else Some (plain_error (''webhook endpoint returned '' @ show_int (hp_status resp))),
         w\<lparr>w_db := snd (Endpoint_GetByID (etp_EndpointID p) (w_db w)), hw_client := s\<rparr>)"
  | (drops) e d where "\<And>p ep body. \<not> sendable E t (w_db w) p ep body" "errors_Is e SkipRetry" "tables d = tables (w_db w)"
      "HandleWebhookEvent E client t w = (Some e, w\<lparr>w_db := d\<rparr>)"
proof (cases "\<exists>p ep body. sendable E t (w_db w) p ep body")
  case True
  then obtain p ep body where r: "sendable E t (w_db w) p ep body" by blast
  obtain d where g: "Endpoint_GetByID (etp_EndpointID p) (w_db w) = (Inr ep, d)"
    using r by (cases "Endpoint_GetByID (etp_EndpointID p) (w_db w)") (simp add: sendable_def)
  obtain a s where a: "client (event_request E ep (etp_Event p) body) (hw_client w) = (a, s)" by fastforce
  show thesis
    by (rule sends [OF r a]) (use r g a in \<open>auto simp: HandleWebhookEvent_def webhook_deliver_def sendable_def on_db_def split: sum.splits\<close>)
next
  case False
  then have no: "\<not> sendable E t (w_db w) p ep body" for p ep body by blast
  have "\<exists>e d. errors_Is e SkipRetry \<and> tables d = tables (w_db w) \<and> HandleWebhookEvent E client t w = (Some e, w\<lparr>w_db := d\<rparr>)"
  proof (cases "unmarshal_event (tk_Body t)")
    case (Inl err)
    then show ?thesis by (intro exI [of _ "wrap2 ''unmarshal payload: '' err '': '' (sentinel_err SkipRetry)"] exI [of _ "w_db w"])
      (simp add: HandleWebhookEvent_def)
  next
    case (Inr p)
    obtain r d where g: "Endpoint_GetByID (etp_EndpointID p) (w_db w) = (r, d)" by fastforce
    then have t: "tables d = tables (w_db w)" by (metis Endpoint_GetByID_tables snd_conv)
    have "\<exists>e. errors_Is e SkipRetry \<and> HandleWebhookEvent E client t w = (Some e, w\<lparr>w_db := d\<rparr>)"
    proof (cases "\<exists>ep body. r = Inr ep \<and> we_IsActive ep \<and> dv_marshal E (etp_Event p) = Inr body")
      case True
      then obtain ep body where ep: "r = Inr ep" "we_IsActive ep" "dv_marshal E (etp_Event p) = Inr body" by blast
      moreover from ep no [of p ep body] Inr g obtain err where "dv_check_url E (we_URL ep) = Some err"
        by (auto simp: sendable_def)
      ultimately show ?thesis using Inr g by (simp add: HandleWebhookEvent_def on_db_def webhook_deliver_def)
    next
      case False
      then show ?thesis using Inr g
        by (cases r) (auto simp: HandleWebhookEvent_def on_db_def webhook_deliver_def split: sum.splits)
    qed
    with t show ?thesis by blast
  qed
  then show thesis using drops [OF no] by blast
qed

text \<open>
  C25. Every outcome of an attempt to deliver an event, for an HTTP client whose own errors are not asynq's \<^verbatim>\<open>SkipRetry\<close>:
  no table and no queue changes. When the payload decodes, the lookup returns an active endpoint, the event is encoded and its
  URL is well formed, the client is called once, with a request to that endpoint that verifies under the endpoint's secret with the SDK; the
  attempt succeeds exactly when the answer's status is in the 200s, and any other answer and any error of the
  client, as a refusal by the guard or a failed name lookup, is an error that asynq retries. In
  every other case the client is not called and an error is returned, which asynq does not retry when the endpoint is missing or deactivated.
\<close>

theorem HandleWebhookEvent_outcome:
  assumes "\<forall>q s err s'. client q s = (Inl err, s') \<longrightarrow> \<not> errors_Is err SkipRetry"
  shows "case HandleWebhookEvent E client t w of (r, w') \<Rightarrow>
    tables (w_db w') = tables (w_db w) \<and> w_queue w' = w_queue w \<and>
    (if \<exists>p ep body. sendable E t (w_db w) p ep body
     then \<exists>p ep body req. sendable E t (w_db w) p ep body \<and> ep \<in> set (db_endpoints (w_db w)) \<and> we_ID ep = etp_EndpointID p \<and>
       verifies E ep req \<and> hq_body req = body \<and> hw_client w' = snd (client req (hw_client w)) \<and>
       (case fst (client req (hw_client w)) of
          Inr resp \<Rightarrow> if 200 \<le> hp_status resp \<and> hp_status resp < 300 then r = None else \<exists>e. r = Some e \<and> \<not> errors_Is e SkipRetry
        | Inl _ \<Rightarrow> \<exists>e. r = Some e \<and> \<not> errors_Is e SkipRetry)
     else hw_client w' = hw_client w \<and> (\<exists>e. r = Some e \<and> (endpoint_gone t (w_db w) \<longrightarrow> errors_Is e SkipRetry)))"
proof (cases rule: HandleWebhookEvent_steps [where E = E and client = client and t = t and w = w])
  case (sends p ep body s a)
  let ?q = "event_request E ep (etp_Event p) body"
  have "ep \<in> set (db_endpoints (w_db w)) \<and> we_ID ep = etp_EndpointID p"
    using sends(1) Endpoint_GetByID_found by (metis sendable_def prod.collapse)
  moreover have "hq_body ?q = body" by (simp add: event_request_def Let_def)
  moreover have "case a of Inl err \<Rightarrow> \<not> errors_Is err SkipRetry | Inr _ \<Rightarrow> True"
    using assms sends(2) by (cases a) auto
  moreover have "\<exists>p ep body. sendable E t (w_db w) p ep body" using sends(1) by blast
  ultimately show ?thesis
    using sends(1) unfolding sends(3) prod.case if_P [OF \<open>\<exists>p ep body. sendable E t (w_db w) p ep body\<close>]
    by (intro conjI exI [of _ p] exI [of _ ep] exI [of _ body] exI [of _ ?q])
      (auto simp: sends(2) event_request_verifies split: sum.splits)
next
  case (drops e d)
  then show ?thesis by simp
qed

text \<open>
  A failed lookup drops the event: when the database does not answer the lookup of the endpoint, the event is given up
  without a retry and without a request, although the endpoint exists and is active.
\<close>

theorem endpoint_lookup_failure_drops_event:
  assumes "db_faults (w_db w) = Some m # fs" and "unmarshal_event (tk_Body t) = Inr p"
    and "find (\<lambda>e. we_ID e = etp_EndpointID p) (db_endpoints (w_db w)) = Some ep" and "we_IsActive ep"
  shows "case HandleWebhookEvent E client t w of (r, w') \<Rightarrow>
    hw_client w' = hw_client w \<and> (\<exists>e. r = Some e \<and> errors_Is e SkipRetry)"
  using assms by (simp add: HandleWebhookEvent_def on_db_def Endpoint_GetByID_def pg_query_def pg_call_def scan_row_def)

definition demo_event_task :: Task where
  "demo_event_task = NewWebhookEventTask demo_lib \<lparr>etp_EndpointID = 50, etp_Event = \<lparr>ev_ID = ''e'', ev_Type = ''notification.failed'',
     ev_CreatedAt = 0, ev_Data = \<lparr>ed_NotificationID = 100, ed_ChannelConfigID = 10, ed_Channel = ''slack'', ed_Status = ''failed'',
       ed_Attempts = 1, ed_Metadata = None\<rparr>\<rparr>\<rparr>"

definition demo_delivery :: delivery_env where
  "demo_delivery = \<lparr>dv_marshal = (\<lambda>_. Inr ''{}''), dv_check_url = (\<lambda>_. None),
     dv_hmac = (\<lambda>k m. map (\<lambda>c. of_nat (of_char c)) (k @ m)), dv_now = 0\<rparr>"

text \<open>A client that fails, and counts its calls.\<close>

definition unreachable :: "nat client" where
  "unreachable q n = (Inl (plain_error ''connection refused''), n + 1)"

lemma unreachable_answer: "fst (unreachable q n) = Inl (plain_error ''connection refused'')"
  by (simp add: unreachable_def)

lemma demo_event: "\<exists>p. unmarshal_event (tk_Body demo_event_task) = Inr p \<and> etp_EndpointID p = 50"
  by (simp add: demo_event_task_def NewWebhookEventTask_def marshal_event_def unmarshal_event_def)

lemma demo_endpoint:
  "find (\<lambda>e. we_ID e = 50) (db_endpoints (demo_db\<lparr>db_faults := fs\<rparr>)) = Some acme_hook" "we_IsActive acme_hook"
  by (simp_all add: demo_db_def acme_hook_def)

theorem HandleWebhookEvent_outcome_witness:
  "\<exists>e. HandleWebhookEvent demo_delivery unreachable demo_event_task \<lparr>w_db = demo_db, w_queue = [], hw_client = 0\<rparr> =
     (Some e, \<lparr>w_db = demo_db, w_queue = [], hw_client = 1\<rparr>) \<and> \<not> errors_Is e SkipRetry"
proof -
  let ?w = "\<lparr>w_db = demo_db, w_queue = [], hw_client = 0\<rparr> :: nat http_world"
  obtain r w' where h: "HandleWebhookEvent demo_delivery unreachable demo_event_task ?w = (r, w')" by fastforce
  obtain p where p: "unmarshal_event (tk_Body demo_event_task) = Inr p" "etp_EndpointID p = 50" using demo_event by blast
  have g: "Endpoint_GetByID 50 demo_db = (Inr acme_hook, demo_db)"
    by (simp add: Endpoint_GetByID_def scan_row_def one_row_def demo_db_def acme_hook_def)
  then have s: "\<exists>p ep body. sendable demo_delivery demo_event_task (w_db ?w) p ep body"
    using p demo_endpoint(2) by (auto simp: sendable_def demo_delivery_def)
  have "\<forall>q n err n'. unreachable q n = (Inl err, n') \<longrightarrow> \<not> errors_Is err SkipRetry" by (auto simp: unreachable_def)
  from HandleWebhookEvent_outcome [OF this, where E = demo_delivery and t = demo_event_task and w = ?w] h s
  have "\<exists>e. r = Some e \<and> \<not> errors_Is e SkipRetry" by (auto simp: unreachable_answer)
  moreover have "w' = ?w\<lparr>hw_client := 1\<rparr>"
    using h p g by (simp add: HandleWebhookEvent_def on_db_def webhook_deliver_def unreachable_def demo_delivery_def acme_hook_def)
  ultimately show ?thesis using h by auto
qed

theorem endpoint_lookup_failure_drops_event_witness:
  "case HandleWebhookEvent demo_delivery unreachable demo_event_task
      \<lparr>w_db = demo_db\<lparr>db_faults := [Some ''timeout'']\<rparr>, w_queue = [], hw_client = 0\<rparr> of (r, w') \<Rightarrow> hw_client w' = 0"
proof -
  let ?w = "\<lparr>w_db = demo_db\<lparr>db_faults := [Some ''timeout'']\<rparr>, w_queue = [], hw_client = 0\<rparr> :: nat http_world"
  obtain p where p: "unmarshal_event (tk_Body demo_event_task) = Inr p" "etp_EndpointID p = 50" using demo_event by blast
  then have "find (\<lambda>e. we_ID e = etp_EndpointID p) (db_endpoints (w_db ?w)) = Some acme_hook"
    using demo_endpoint(1) by simp
  from endpoint_lookup_failure_drops_event [OF _ p(1) this demo_endpoint(2), of "''timeout''" "[]" demo_delivery unreachable]
  show ?thesis by (auto split: prod.splits)
qed

end
