(* ===== verification/Providers.thy ===== *)
theory Providers
  imports Http Dispatcher
begin

text \<open>
  The channels that post to an HTTP service (\<^verbatim>\<open>internal/provider\<close>: \<^verbatim>\<open>discord.go\<close>, \<^verbatim>\<open>telegram.go\<close>,
  \<^verbatim>\<open>whatsapp.go\<close>, \<^verbatim>\<open>slack.go\<close>, \<^verbatim>\<open>webhook.go\<close>): their configurations, what they accept, the text they compose and
  how they read the answer. The HTTP client and the environment of \<open>Http\<close> are arguments. A request carries
  its JSON body with the members in the order \<^verbatim>\<open>json.Marshal\<close> writes them.
\<close>

section \<open>Shared shapes\<close>

definition CapReadReceipts :: string where "CapReadReceipts = ''read_receipts''"
definition CapDeliveryStatus :: string where "CapDeliveryStatus = ''delivery_status''"

record DeliveryMetrics =
  mx_ProviderMsgID :: string
  mx_DeliveredAt :: "time option"
  mx_ReadAt :: "time option"
  mx_Interactions :: RawMessage

definition basic_metrics :: "string \<Rightarrow> DeliveryMetrics" where
  "basic_metrics i = \<lparr>mx_ProviderMsgID = i, mx_DeliveredAt = None, mx_ReadAt = None, mx_Interactions = None\<rparr>"

definition sent :: "string \<Rightarrow> RawMessage \<Rightarrow> SendResponse" where
  "sent i data = \<lparr>rs_Success = True, rs_ProviderMsgID = i, rs_ProviderData = data, rs_ErrorMessage = [], rs_Permanent = False\<rparr>"

definition not_sent :: "RawMessage \<Rightarrow> string \<Rightarrow> bool \<Rightarrow> SendResponse" where
  "not_sent data msg permanent =
     \<lparr>rs_Success = False, rs_ProviderMsgID = [], rs_ProviderData = data, rs_ErrorMessage = msg, rs_Permanent = permanent\<rparr>"

lemma sent_sel [simp]:
  "rs_Success (sent i d)" "rs_ProviderMsgID (sent i d) = i" "rs_ProviderData (sent i d) = d" "\<not> rs_Permanent (sent i d)"
  "\<not> rs_Success (not_sent d m p)" "rs_ProviderData (not_sent d m p) = d" "rs_ErrorMessage (not_sent d m p) = m"
  "rs_Permanent (not_sent d m p) = p" "rs_ProviderMsgID (not_sent d m p) = []"
  by (simp_all add: sent_def not_sent_def)

definition json_post :: "string \<Rightarrow> string \<Rightarrow> http_request" where
  "json_post url body = \<lparr>hq_method = ''POST'', hq_url = url,
     hq_headers = Header_Set ''Content-Type'' ''application/json'' [], hq_body = body\<rparr>"

definition status_2xx :: "int \<Rightarrow> bool" where
  "status_2xx s \<longleftrightarrow> s \<ge> 200 \<and> s < 300"

section \<open>Discord\<close>

type_synonym discordConfig = string

definition discord_field :: "string \<Rightarrow> json \<Rightarrow> discordConfig \<Rightarrow> discordConfig option" where
  "discord_field k v c = (if k = ''webhook_url'' then decode_string v c else Some c)"

definition discord_ValidateConfig :: "RawMessage \<Rightarrow> goerr option" where
  "discord_ValidateConfig raw = (case decode_struct discord_field [] raw of
     Inl err \<Rightarrow> Some (wrap ''invalid discord config: '' err [])
   | Inr webhookURL \<Rightarrow>
       if webhookURL = [] then Some (plain_error ''discord config: webhook_url is required'') else None)"

definition buildDiscordMessage :: "SendRequest \<Rightarrow> string" where
  "buildDiscordMessage req =
     (if sr_Subject req = [] then sr_Body req
      else if sr_FormatMode req = ''plain'' \<or> sr_FormatMode req = ''html'' then sr_Subject req @ newline @ sr_Body req
      else ''**'' @ sr_Subject req @ ''**'' @ newline @ sr_Body req)"

definition discord_Send :: "http_env \<Rightarrow> 's client \<Rightarrow> RawMessage \<Rightarrow> SendRequest \<Rightarrow> 's \<Rightarrow> (goerr + SendResponse) \<times> 's" where
  "discord_Send E client rawConfig req s = (case decode_struct discord_field [] rawConfig of
     Inl err \<Rightarrow> (Inl (wrap ''unmarshal discord config: '' err []), s)
   | Inr webhookURL \<Rightarrow>
       (let payload = he_marshal E (JObj [(''content'', JStr (buildDiscordMessage req))])
        in case he_check_url E webhookURL of
             Some err \<Rightarrow> (Inl (wrap ''create request: '' err []), s)
           | None \<Rightarrow> (case client (json_post webhookURL payload) s of
                (Inl err, s1) \<Rightarrow> (Inr (not_sent None (err_msg err) False), s1)
              | (Inr resp, s1) \<Rightarrow>
                  (let respBody = read_body resp
                   in if hp_status resp \<ge> 200 \<and> hp_status resp < 300 then (Inr (sent [] (raw_of E respBody)), s1)
                      else (Inr (not_sent (raw_of E respBody)
                        (''discord API returned '' @ show_int (hp_status resp) @ '': '' @ respBody) False), s1)))))"

definition discord_Capabilities :: "string list" where
  "discord_Capabilities = []"

definition discord_FetchMetrics :: "string \<Rightarrow> goerr + DeliveryMetrics" where
  "discord_FetchMetrics providerMsgID = Inl (sentinel_err ErrMetricsNotSupported)"

section \<open>Telegram\<close>

record telegramConfig =
  tg_BotToken :: string
  tg_ChatID :: string

definition telegram_zero :: telegramConfig where
  "telegram_zero = \<lparr>tg_BotToken = [], tg_ChatID = []\<rparr>"

definition telegram_field :: "string \<Rightarrow> json \<Rightarrow> telegramConfig \<Rightarrow> telegramConfig option" where
  "telegram_field k v c =
     (if k = ''bot_token'' then map_option (\<lambda>s. c\<lparr>tg_BotToken := s\<rparr>) (decode_string v (tg_BotToken c))
      else if k = ''chat_id'' then map_option (\<lambda>s. c\<lparr>tg_ChatID := s\<rparr>) (decode_string v (tg_ChatID c))
      else Some c)"

definition telegram_Capabilities :: "string list" where
  "telegram_Capabilities = [CapDeliveryStatus]"

definition telegram_ValidateConfig :: "RawMessage \<Rightarrow> goerr option" where
  "telegram_ValidateConfig raw = (case decode_struct telegram_field telegram_zero raw of
     Inl err \<Rightarrow> Some (wrap ''invalid telegram config: '' err [])
   | Inr cfg \<Rightarrow>
       if tg_BotToken cfg = [] then Some (plain_error ''telegram config: bot_token is required'')
       else if tg_ChatID cfg = [] then Some (plain_error ''telegram config: chat_id is required'')
       else None)"

definition buildTelegramMessage :: "SendRequest \<Rightarrow> string \<times> string" where
  "buildTelegramMessage req =
     (if sr_FormatMode req = ''plain'' then
        (if sr_Subject req \<noteq> [] then sr_Subject req @ newline @ sr_Body req else sr_Body req, [])
      else if sr_FormatMode req = ''html'' then
        (if sr_Subject req \<noteq> [] then ''<b>'' @ sr_Subject req @ ''</b>'' @ newline @ sr_Body req else sr_Body req, ''HTML'')
      else
        (if sr_Subject req \<noteq> [] then ''*'' @ sr_Subject req @ ''*'' @ newline @ sr_Body req else sr_Body req, ''Markdown''))"

text \<open>\<^verbatim>\<open>telegramSendResult\<close>: \<^verbatim>\<open>ok\<close> and \<^verbatim>\<open>result.message_id\<close>.\<close>

definition telegram_result_field :: "string \<Rightarrow> json \<Rightarrow> bool \<times> int \<Rightarrow> (bool \<times> int) option" where
  "telegram_result_field k v r =
     (if k = ''ok'' then map_option (\<lambda>b. (b, snd r)) (decode_bool v (fst r))
      else if k = ''result'' then
        map_option (\<lambda>i. (fst r, i)) (decode_value (\<lambda>k v i. if k = ''message_id'' then decode_int v i else Some i) v (snd r))
      else Some r)"

definition extractTelegramMessageID :: "http_env \<Rightarrow> string \<Rightarrow> string" where
  "extractTelegramMessageID E respBody =
     (case decode_struct telegram_result_field (False, 0) (raw_of E respBody) of
        Inl _ \<Rightarrow> []
      | Inr (ok, messageID) \<Rightarrow> if \<not> ok \<or> messageID = 0 then [] else show_int messageID)"

definition telegram_request :: "http_env \<Rightarrow> telegramConfig \<Rightarrow> SendRequest \<Rightarrow> http_request" where
  "telegram_request E cfg req = (case buildTelegramMessage req of (text, parseMode) \<Rightarrow>
     json_post (''https://api.telegram.org/bot'' @ tg_BotToken cfg @ ''/sendMessage'')
       (he_marshal E (JObj ([(''chat_id'', JStr (tg_ChatID cfg))] @
          (if parseMode \<noteq> [] then [(''parse_mode'', JStr parseMode)] else []) @ [(''text'', JStr text)]))))"

definition telegram_Send :: "http_env \<Rightarrow> 's client \<Rightarrow> RawMessage \<Rightarrow> SendRequest \<Rightarrow> 's \<Rightarrow> (goerr + SendResponse) \<times> 's" where
  "telegram_Send E client rawConfig req s = (case decode_struct telegram_field telegram_zero rawConfig of
     Inl err \<Rightarrow> (Inl (wrap ''unmarshal telegram config: '' err []), s)
   | Inr cfg \<Rightarrow>
       (let httpReq = telegram_request E cfg req
        in case he_check_url E (hq_url httpReq) of
             Some err \<Rightarrow> (Inl (wrap ''create request: '' err []), s)
           | None \<Rightarrow> (case client httpReq s of
                (Inl err, s1) \<Rightarrow> (Inr (not_sent None (err_msg err) False), s1)
              | (Inr resp, s1) \<Rightarrow>
                  (let respBody = read_body resp
                   in if hp_status resp \<noteq> 200 then
                        (Inr (not_sent (raw_of E respBody)
                          (''telegram API returned '' @ show_int (hp_status resp) @ '': '' @ respBody) False), s1)
                      else (Inr (sent (extractTelegramMessageID E respBody) (raw_of E respBody)), s1)))))"

definition telegram_FetchMetrics :: "string \<Rightarrow> goerr + DeliveryMetrics" where
  "telegram_FetchMetrics providerMsgID =
     (if providerMsgID = [] then Inl (sentinel_err ErrMetricsNotSupported) else Inr (basic_metrics providerMsgID))"

section \<open>WhatsApp\<close>

record whatsappConfig =
  wa_PhoneNumberID :: string
  wa_AccessToken :: string
  wa_Recipient :: string

definition whatsapp_zero :: whatsappConfig where
  "whatsapp_zero = \<lparr>wa_PhoneNumberID = [], wa_AccessToken = [], wa_Recipient = []\<rparr>"

definition whatsapp_field :: "string \<Rightarrow> json \<Rightarrow> whatsappConfig \<Rightarrow> whatsappConfig option" where
  "whatsapp_field k v c =
     (if k = ''phone_number_id'' then map_option (\<lambda>s. c\<lparr>wa_PhoneNumberID := s\<rparr>) (decode_string v (wa_PhoneNumberID c))
      else if k = ''access_token'' then map_option (\<lambda>s. c\<lparr>wa_AccessToken := s\<rparr>) (decode_string v (wa_AccessToken c))
      else if k = ''recipient'' then map_option (\<lambda>s. c\<lparr>wa_Recipient := s\<rparr>) (decode_string v (wa_Recipient c))
      else Some c)"

definition whatsapp_Capabilities :: "string list" where
  "whatsapp_Capabilities = [CapReadReceipts, CapDeliveryStatus]"

definition whatsapp_ValidateConfig :: "RawMessage \<Rightarrow> goerr option" where
  "whatsapp_ValidateConfig raw = (case decode_struct whatsapp_field whatsapp_zero raw of
     Inl err \<Rightarrow> Some (wrap ''invalid whatsapp config: '' err [])
   | Inr cfg \<Rightarrow>
       if wa_PhoneNumberID cfg = [] then Some (plain_error ''whatsapp config: phone_number_id is required'')
       else if wa_AccessToken cfg = [] then Some (plain_error ''whatsapp config: access_token is required'')
       else if wa_Recipient cfg = [] then Some (plain_error ''whatsapp config: recipient is required'')
       else None)"

definition buildWhatsAppMessage :: "SendRequest \<Rightarrow> string" where
  "buildWhatsAppMessage req =
     (if sr_Subject req \<noteq> [] then sr_Subject req @ newline @ sr_Body req else sr_Body req)"

text \<open>\<^verbatim>\<open>whatsappSendResult\<close>: the identifiers of \<^verbatim>\<open>messages\<close>.\<close>

definition whatsapp_message_id :: "json \<Rightarrow> string option" where
  "whatsapp_message_id v = decode_value (\<lambda>k v i. if k = ''id'' then decode_string v i else Some i) v []"

definition whatsapp_result_field :: "string \<Rightarrow> json \<Rightarrow> string list \<Rightarrow> string list option" where
  "whatsapp_result_field k v r = (if k = ''messages'' then decode_slice whatsapp_message_id v else Some r)"

definition extractWhatsAppMessageID :: "http_env \<Rightarrow> string \<Rightarrow> string" where
  "extractWhatsAppMessageID E respBody =
     (case decode_struct whatsapp_result_field [] (raw_of E respBody) of
        Inl _ \<Rightarrow> []
      | Inr [] \<Rightarrow> []
      | Inr (i # _) \<Rightarrow> i)"

definition whatsapp_request :: "http_env \<Rightarrow> whatsappConfig \<Rightarrow> SendRequest \<Rightarrow> http_request" where
  "whatsapp_request E cfg req =
     (let r = json_post (''https://graph.facebook.com/v19.0/'' @ wa_PhoneNumberID cfg @ ''/messages'')
            (he_marshal E (JObj [(''messaging_product'', JStr ''whatsapp''),
               (''text'', JObj [(''body'', JStr (buildWhatsAppMessage req))]),
               (''to'', JStr (wa_Recipient cfg)), (''type'', JStr ''text'')]))
      in r\<lparr>hq_headers := Header_Set ''Authorization'' (''Bearer '' @ wa_AccessToken cfg) (hq_headers r)\<rparr>)"

definition whatsapp_Send :: "http_env \<Rightarrow> 's client \<Rightarrow> RawMessage \<Rightarrow> SendRequest \<Rightarrow> 's \<Rightarrow> (goerr + SendResponse) \<times> 's" where
  "whatsapp_Send E client rawConfig req s = (case decode_struct whatsapp_field whatsapp_zero rawConfig of
     Inl err \<Rightarrow> (Inl (wrap ''unmarshal whatsapp config: '' err []), s)
   | Inr cfg \<Rightarrow>
       (let httpReq = whatsapp_request E cfg req
        in case he_check_url E (hq_url httpReq) of
             Some err \<Rightarrow> (Inl (wrap ''create request: '' err []), s)
           | None \<Rightarrow> (case client httpReq s of
                (Inl err, s1) \<Rightarrow> (Inr (not_sent None (err_msg err) False), s1)
              | (Inr resp, s1) \<Rightarrow>
                  (let respBody = read_body resp
                   in if hp_status resp < 200 \<or> hp_status resp \<ge> 300 then
                        (Inr (not_sent (raw_of E respBody)
                          (''whatsapp API returned '' @ show_int (hp_status resp) @ '': '' @ respBody) False), s1)
                      else (Inr (sent (extractWhatsAppMessageID E respBody) (raw_of E respBody)), s1)))))"

definition whatsapp_FetchMetrics :: "string \<Rightarrow> goerr + DeliveryMetrics" where
  "whatsapp_FetchMetrics providerMsgID =
     (if providerMsgID = [] then Inl (plain_error ''whatsapp fetch metrics: providerMsgID is required'')
      else Inr (basic_metrics providerMsgID))"

section \<open>Slack\<close>

definition slackWebhookPrefix :: string where
  "slackWebhookPrefix = ''https://hooks.slack.com/''"

type_synonym slackConfig = string

definition slack_field :: "string \<Rightarrow> json \<Rightarrow> slackConfig \<Rightarrow> slackConfig option" where
  "slack_field k v c = (if k = ''webhook_url'' then decode_string v c else Some c)"

definition slack_ValidateConfig :: "RawMessage \<Rightarrow> goerr option" where
  "slack_ValidateConfig raw = (case decode_struct slack_field [] raw of
     Inl err \<Rightarrow> Some (wrap ''invalid slack config: '' err [])
   | Inr webhookURL \<Rightarrow>
       if webhookURL = [] then Some (plain_error ''slack config: webhook_url is required'')
       else if \<not> HasPrefix webhookURL slackWebhookPrefix then
         Some (plain_error (''slack config: webhook_url must start with '' @ slackWebhookPrefix))
       else None)"

text \<open>
  The three patterns of the Markdown conversion, with the leftmost match and the shortest groups. In
  them \<open>.\<close> is any byte but a newline and \<open>\S\<close> any byte but white space. \<open>shortest\<close> extends a group that
  already has a first byte until what follows satisfies \<open>rest\<close>.
\<close>

fun shortest :: "(char \<Rightarrow> bool) \<Rightarrow> (string \<Rightarrow> 'r option) \<Rightarrow> string \<Rightarrow> string \<Rightarrow> (string \<times> 'r) option" where
  "shortest ok rest grp [] = None"
| "shortest ok rest grp (c # cs) =
     (if \<not> ok c then None
      else case rest cs of
             Some r \<Rightarrow> Some (grp @ [c], r)
           | None \<Rightarrow> shortest ok rest (grp @ [c]) cs)"

definition strip :: "string \<Rightarrow> string \<Rightarrow> string option" where
  "strip p s = (if HasPrefix s p then Some (drop (length p) s) else None)"

definition dot :: "char \<Rightarrow> bool" where
  "dot c \<longleftrightarrow> c \<noteq> CHR 0x0A"

definition non_space :: "char \<Rightarrow> bool" where
  "non_space c \<longleftrightarrow> c \<notin> {CHR 0x09, CHR 0x0A, CHR 0x0C, CHR 0x0D, CHR 0x20}"

text \<open>A pattern matched at the start of a string: its replacement and what follows the match.\<close>

type_synonym pattern = "string \<Rightarrow> (string \<times> string) option"

definition spanPattern :: "string \<Rightarrow> string \<Rightarrow> string \<Rightarrow> pattern" where
  "spanPattern mark open_new close_new s = (case strip mark s of
     None \<Rightarrow> None
   | Some t \<Rightarrow> (case shortest dot (strip mark) [] t of
        None \<Rightarrow> None
      | Some (g, r) \<Rightarrow> Some (open_new @ g @ close_new, r)))"

definition linkTail :: "string \<Rightarrow> (string \<times> string) option" where
  "linkTail s = (case strip '']('' s of
     None \<Rightarrow> None
   | Some t \<Rightarrow> shortest non_space (strip '')'') [] t)"

definition linkPattern :: pattern where
  "linkPattern s = (case strip ''['' s of
     None \<Rightarrow> None
   | Some t \<Rightarrow> (case shortest dot linkTail [] t of
        None \<Rightarrow> None
      | Some (text, url, r) \<Rightarrow> Some (''<'' @ url @ ''|'' @ text @ ''>'', r)))"

text \<open>\<^verbatim>\<open>ReplaceAllString\<close>: every match from left to right; no pattern here matches the empty string.\<close>

fun replace_all :: "pattern \<Rightarrow> string \<Rightarrow> string" where
  "replace_all p [] = []"
| "replace_all p (c # cs) = (case p (c # cs) of
     None \<Rightarrow> c # replace_all p cs
   | Some (out, r) \<Rightarrow> if length r \<le> length cs then out @ replace_all p r else c # replace_all p cs)"

definition boldPlaceholder :: string where
  "boldPlaceholder = [CHR 0xEE, CHR 0x80, CHR 0x80]"

definition literal :: "string \<Rightarrow> string \<Rightarrow> pattern" where
  "literal old new s = map_option (Pair new) (strip old s)"

definition MarkdownToSlackMrkdwn :: "string \<Rightarrow> string" where
  "MarkdownToSlackMrkdwn text =
     (let t1 = replace_all (literal boldPlaceholder []) text;
          t2 = replace_all linkPattern t1;
          t3 = replace_all (spanPattern ''**'' boldPlaceholder boldPlaceholder) t2;
          t4 = replace_all (spanPattern ''*'' ''_'' ''_'') t3
      in replace_all (literal boldPlaceholder ''*'') t4)"

definition buildSlackMessage :: "SendRequest \<Rightarrow> string" where
  "buildSlackMessage req =
     (let body = (if sr_FormatMode req = ''markdown'' then MarkdownToSlackMrkdwn (sr_Body req) else sr_Body req)
      in if sr_Subject req = [] then body
         else (if sr_FormatMode req = ''markdown'' then ''*'' @ sr_Subject req @ ''*'' else sr_Subject req)
                @ newline @ body)"

definition slack_Send :: "http_env \<Rightarrow> 's client \<Rightarrow> RawMessage \<Rightarrow> SendRequest \<Rightarrow> 's \<Rightarrow> (goerr + SendResponse) \<times> 's" where
  "slack_Send E client rawConfig req s = (case decode_struct slack_field [] rawConfig of
     Inl err \<Rightarrow> (Inl (wrap ''unmarshal slack config: '' err []), s)
   | Inr webhookURL \<Rightarrow>
       if sr_FormatMode req = ''html'' then
         (Inr (not_sent None ''slack: html format is not supported; use markdown or plain'' True), s)
       else
         (let payload = he_marshal E (JObj [(''text'', JStr (buildSlackMessage req))])
          in case he_check_url E webhookURL of
               Some err \<Rightarrow> (Inl (wrap ''create request: '' err []), s)
             | None \<Rightarrow> (case client (json_post webhookURL payload) s of
                  (Inl err, s1) \<Rightarrow> (Inr (not_sent None (err_msg err) False), s1)
                | (Inr resp, s1) \<Rightarrow>
                    (let respBody = read_body resp
                     in if hp_status resp \<ge> 200 \<and> hp_status resp < 300 then (Inr (sent [] (raw_of E respBody)), s1)
                        else (Inr (not_sent (raw_of E respBody)
                          (''slack API returned '' @ show_int (hp_status resp) @ '': '' @ respBody)
                          (hp_status resp \<noteq> 429 \<and> hp_status resp < 500)), s1)))))"

definition slack_Capabilities :: "string list" where
  "slack_Capabilities = []"

definition slack_FetchMetrics :: "string \<Rightarrow> goerr + DeliveryMetrics" where
  "slack_FetchMetrics providerMsgID = Inl (sentinel_err ErrMetricsNotSupported)"

section \<open>Webhook\<close>

text \<open>
  The configured headers are a Go map; \<open>order\<close>, an argument, is the order in which a \<^verbatim>\<open>range\<close> loop
  visits its members.
\<close>

record webhookConfig =
  wh_URL :: string
  wh_Secret :: string
  wh_Headers :: "(string \<times> string) list"

definition webhook_zero :: webhookConfig where
  "webhook_zero = \<lparr>wh_URL = [], wh_Secret = [], wh_Headers = []\<rparr>"

definition webhook_field :: "string \<Rightarrow> json \<Rightarrow> webhookConfig \<Rightarrow> webhookConfig option" where
  "webhook_field k v c =
     (if k = ''url'' then map_option (\<lambda>s. c\<lparr>wh_URL := s\<rparr>) (decode_string v (wh_URL c))
      else if k = ''secret'' then map_option (\<lambda>s. c\<lparr>wh_Secret := s\<rparr>) (decode_string v (wh_Secret c))
      else if k = ''headers'' then map_option (\<lambda>h. c\<lparr>wh_Headers := h\<rparr>) (decode_string_map v (wh_Headers c))
      else Some c)"

text \<open>The pattern \<^verbatim>\<open>(?i)^x-notifyd\<close>.\<close>

definition webhookHeaderBlockPattern :: "string \<Rightarrow> bool" where
  "webhookHeaderBlockPattern name \<longleftrightarrow> HasPrefix (ToLower name) ''x-notifyd''"

fun validateWebhookHeaderNames :: "(string \<times> string) list \<Rightarrow> bool \<Rightarrow> goerr option" where
  "validateWebhookHeaderNames [] hasSecret = None"
| "validateWebhookHeaderNames ((name, v) # hs) hasSecret =
     (let lower = ToLower name
      in if lower = ''host'' then Some (plain_error (''webhook config: header '' @ Quote name @ '' is not allowed''))
         else if hasSecret \<and> lower = ''authorization'' then
           Some (plain_error (''webhook config: header '' @ Quote name @ '' is not allowed when secret is set''))
         else if webhookHeaderBlockPattern name then
           Some (plain_error (''webhook config: header '' @ Quote name @ '' is reserved for notifyd's own use''))
         else validateWebhookHeaderNames hs hasSecret)"

definition validateWebhookConfig :: "((string \<times> string) list \<Rightarrow> (string \<times> string) list) \<Rightarrow> webhookConfig \<Rightarrow> goerr option" where
  "validateWebhookConfig order cfg =
     (if wh_URL cfg = [] then Some (plain_error ''webhook config: url is required'')
      else if \<not> HasPrefix (wh_URL cfg) ''https://'' then Some (plain_error ''webhook config: url must use https'')
      else validateWebhookHeaderNames (order (wh_Headers cfg)) (wh_Secret cfg \<noteq> []))"

definition webhook_ValidateConfig :: "((string \<times> string) list \<Rightarrow> (string \<times> string) list) \<Rightarrow> RawMessage \<Rightarrow> goerr option" where
  "webhook_ValidateConfig order raw = (case decode_struct webhook_field webhook_zero raw of
     Inl err \<Rightarrow> Some (wrap ''invalid webhook config: '' err [])
   | Inr cfg \<Rightarrow> validateWebhookConfig order cfg)"

text \<open>\<^verbatim>\<open>json.Marshal\<close> fails on metadata that is not JSON.\<close>

definition buildWebhookPayload :: "http_env \<Rightarrow> SendRequest \<Rightarrow> goerr + string" where
  "buildWebhookPayload E req =
     (let metadata = (case sr_Metadata req of None \<Rightarrow> Some (JObj []) | Some v \<Rightarrow> Some v)
      in if \<not> raw_valid metadata then Inl (plain_error ''json: error calling MarshalJSON'')
         else Inr (he_marshal E (JObj [(''notification_id'', JStr (he_uuid_String E (sr_NotificationID req))),
            (''subject'', JStr (sr_Subject req)), (''body'', JStr (sr_Body req)), (''format'', JStr (sr_FormatMode req)),
            (''metadata'', marshal_raw metadata), (''sent_at'', JStr (he_rfc3339 E (he_clock E 0)))])))"

definition webhook_request :: "http_env \<Rightarrow> ((string \<times> string) list \<Rightarrow> (string \<times> string) list) \<Rightarrow> webhookConfig \<Rightarrow> string \<Rightarrow> http_request" where
  "webhook_request E order cfg body =
     (let r = json_post (wh_URL cfg) body;
          h1 = fold (\<lambda>(name, v). Header_Set name v) (order (wh_Headers cfg)) (hq_headers r);
          timestamp = show_int (unix_seconds (he_clock E 1));
          h2 = (if wh_Secret cfg \<noteq> []
                then Header_Set ''X-Notifyd-Signature'' (''sha256='' @ SignHMAC (he_hmac E) (wh_Secret cfg) timestamp body)
                       (Header_Set ''X-Notifyd-Timestamp'' timestamp h1)
                else h1)
      in r\<lparr>hq_headers := h2\<rparr>)"

definition isRedirectStatus :: "int \<Rightarrow> bool" where
  "isRedirectStatus statusCode \<longleftrightarrow> statusCode \<ge> 300 \<and> statusCode < 400"

definition classifyWebhookTransportError :: "goerr \<Rightarrow> SendResponse" where
  "classifyWebhookTransportError err = not_sent None (err_msg err) (errors_Is err errBlockedAddress)"

definition webhook_Send :: "((string \<times> string) list \<Rightarrow> (string \<times> string) list) \<Rightarrow> http_env \<Rightarrow> 's client \<Rightarrow> RawMessage \<Rightarrow> SendRequest \<Rightarrow>
    's \<Rightarrow> (goerr + SendResponse) \<times> 's" where
  "webhook_Send order E client rawConfig req s = (case decode_struct webhook_field webhook_zero rawConfig of
     Inl err \<Rightarrow> (Inl (wrap ''unmarshal webhook config: '' err []), s)
   | Inr cfg \<Rightarrow> (case buildWebhookPayload E req of
       Inl err \<Rightarrow> (Inl (wrap ''build webhook payload: '' err []), s)
     | Inr body \<Rightarrow> (case he_check_url E (wh_URL cfg) of
         Some err \<Rightarrow> (Inl (wrap ''create request: '' err []), s)
       | None \<Rightarrow> (case client (webhook_request E order cfg body) s of
            (Inl err, s1) \<Rightarrow> (Inr (classifyWebhookTransportError err), s1)
          | (Inr resp, s1) \<Rightarrow>
              (let respBody = read_body resp
               in if hp_status resp \<ge> 200 \<and> hp_status resp < 300 then (Inr (sent [] (raw_of E respBody)), s1)
                  else if isRedirectStatus (hp_status resp) then
                    (Inr (not_sent None (''webhook returned redirect status '' @ show_int (hp_status resp) @
                       ''; redirects are not followed'') True), s1)
                  else (Inr (not_sent (raw_of E respBody)
                    (''webhook endpoint returned '' @ show_int (hp_status resp) @ '': '' @ respBody)
                    (hp_status resp \<noteq> 429 \<and> hp_status resp < 500)), s1))))))"

definition webhook_Capabilities :: "string list" where
  "webhook_Capabilities = []"

definition webhook_FetchMetrics :: "string \<Rightarrow> goerr + DeliveryMetrics" where
  "webhook_FetchMetrics providerMsgID = Inl (sentinel_err ErrMetricsNotSupported)"

section \<open>Registration\<close>

text \<open>A channel as the registry's record: its client's state is fixed at the call.\<close>

definition channel_provider :: "string \<Rightarrow> (RawMessage \<Rightarrow> SendRequest \<Rightarrow> 's \<Rightarrow> (goerr + SendResponse) \<times> 's) \<Rightarrow>
    (RawMessage \<Rightarrow> goerr option) \<Rightarrow> 's \<Rightarrow> Provider" where
  "channel_provider name send validate s =
     \<lparr>pr_Type = name, pr_Send = (\<lambda>cfg req. fst (send cfg req s)), pr_ValidateConfig = validate\<rparr>"

text \<open>What \<^verbatim>\<open>cmd/worker/main.go\<close> registers, the email provider given as \<open>email\<close>.\<close>

definition worker_registry :: "http_env \<Rightarrow> ((string \<times> string) list \<Rightarrow> (string \<times> string) list) \<Rightarrow> 's client \<Rightarrow> 's client \<Rightarrow> Provider \<Rightarrow> 's \<Rightarrow> Registry" where
  "worker_registry E order client guarded email s =
     Register (channel_provider ''webhook'' (webhook_Send order E guarded) (webhook_ValidateConfig order) s)
     (Register (channel_provider ''slack'' (slack_Send E client) slack_ValidateConfig s)
     (Register email
     (Register (channel_provider ''whatsapp'' (whatsapp_Send E client) whatsapp_ValidateConfig s)
     (Register (channel_provider ''telegram'' (telegram_Send E client) telegram_ValidateConfig s)
     (Register (channel_provider ''discord'' (discord_Send E client) discord_ValidateConfig s) Map.empty)))))"

end
