(* ===== verification/Email.thy ===== *)
theory Email
  imports Http Dispatcher
begin

text \<open>
  The email channel (\<^verbatim>\<open>internal/provider/email.go\<close>): the configuration and its validation, the composition of
  the message, the SMTP session and the classification of its failures. Arguments stand for
  \<^verbatim>\<open>mail.ParseAddress\<close>, \<^verbatim>\<open>mime.QEncoding.Encode\<close>, the quoted-printable writer, goldmark, the formatting of dates, the random source and
  the SMTP connection: \<open>server\<close> answers each command of the session and \<open>starttls\<close> says whether the
  server advertises the extension. A context deadline shows as a failing command.
\<close>

section \<open>Configuration\<close>

record emailConfig =
  ec_Host :: string
  ec_Port :: int
  ec_Username :: string
  ec_Password :: string
  ec_From :: string
  ec_To :: "string list"
  ec_CC :: "string list"
  ec_ReplyTo :: string

definition email_zero :: emailConfig where
  "email_zero = \<lparr>ec_Host = [], ec_Port = 0, ec_Username = [], ec_Password = [], ec_From = [], ec_To = [],
     ec_CC = [], ec_ReplyTo = []\<rparr>"

definition email_field :: "string \<Rightarrow> json \<Rightarrow> emailConfig \<Rightarrow> emailConfig option" where
  "email_field k v c =
     (if k = ''host'' then map_option (\<lambda>s. c\<lparr>ec_Host := s\<rparr>) (decode_string v (ec_Host c))
      else if k = ''port'' then map_option (\<lambda>i. c\<lparr>ec_Port := i\<rparr>) (decode_int v (ec_Port c))
      else if k = ''username'' then map_option (\<lambda>s. c\<lparr>ec_Username := s\<rparr>) (decode_string v (ec_Username c))
      else if k = ''password'' then map_option (\<lambda>s. c\<lparr>ec_Password := s\<rparr>) (decode_string v (ec_Password c))
      else if k = ''from'' then map_option (\<lambda>s. c\<lparr>ec_From := s\<rparr>) (decode_string v (ec_From c))
      else if k = ''to'' then map_option (\<lambda>l. c\<lparr>ec_To := l\<rparr>) (decode_slice (\<lambda>j. decode_string j []) v)
      else if k = ''cc'' then map_option (\<lambda>l. c\<lparr>ec_CC := l\<rparr>) (decode_slice (\<lambda>j. decode_string j []) v)
      else if k = ''reply_to'' then map_option (\<lambda>s. c\<lparr>ec_ReplyTo := s\<rparr>) (decode_string v (ec_ReplyTo c))
      else Some c)"

text \<open>A parsed address: its canonical form (\<^verbatim>\<open>Address.String()\<close>) and the bare \<^verbatim>\<open>user@domain\<close>.\<close>

record mail_Address =
  ma_String :: string
  ma_Address :: string

record mail_env =
  ml_ParseAddress :: "string \<Rightarrow> goerr + mail_Address"
  ml_QEncode :: "string \<Rightarrow> string"
  ml_quotedprintable :: "string \<Rightarrow> string"
  ml_goldmark :: "string \<Rightarrow> string option"
  ml_RFC1123Z :: "time \<Rightarrow> string"
  ml_rand :: "nat \<Rightarrow> goerr + byte list"
  ml_clock :: "nat \<Rightarrow> time"

fun validateAddressList :: "mail_env \<Rightarrow> string \<Rightarrow> string list \<Rightarrow> goerr option" where
  "validateAddressList M field [] = None"
| "validateAddressList M field (addr # addrs) = (case ml_ParseAddress M addr of
     Inl err \<Rightarrow> Some (wrap (''email config: '' @ field @ '': invalid address '' @ Quote addr @ '': '') err [])
   | Inr _ \<Rightarrow> validateAddressList M field addrs)"

definition validateEmailConfig :: "mail_env \<Rightarrow> emailConfig \<Rightarrow> goerr option" where
  "validateEmailConfig M cfg =
     (if ec_Host cfg = [] then Some (plain_error ''email config: host is required'')
      else if ec_Port cfg \<le> 0 \<or> ec_Port cfg > 65535 then Some (plain_error ''email config: port must be between 1 and 65535'')
      else if ec_Username cfg = [] then Some (plain_error ''email config: username is required'')
      else if ec_Password cfg = [] then Some (plain_error ''email config: password is required'')
      else if ec_From cfg = [] then Some (plain_error ''email config: from is required'')
      else case ml_ParseAddress M (ec_From cfg) of
        Inl err \<Rightarrow> Some (wrap ''email config: from: '' err [])
      | Inr _ \<Rightarrow>
          if ec_To cfg = [] then Some (plain_error ''email config: to is required'')
          else case validateAddressList M ''to'' (ec_To cfg) of
            Some err \<Rightarrow> Some err
          | None \<Rightarrow> (case validateAddressList M ''cc'' (ec_CC cfg) of
              Some err \<Rightarrow> Some err
            | None \<Rightarrow>
                if ec_ReplyTo cfg \<noteq> [] then
                  (case ml_ParseAddress M (ec_ReplyTo cfg) of
                     Inl err \<Rightarrow> Some (wrap ''email config: reply_to: '' err [])
                   | Inr _ \<Rightarrow> None)
                else None))"

definition email_ValidateConfig :: "mail_env \<Rightarrow> RawMessage \<Rightarrow> goerr option" where
  "email_ValidateConfig M raw = (case decode_struct email_field email_zero raw of
     Inl err \<Rightarrow> Some (wrap ''invalid email config: '' err [])
   | Inr cfg \<Rightarrow> validateEmailConfig M cfg)"

section \<open>Failures\<close>

text \<open>
  The errors of a send, as \<^verbatim>\<open>isPermanentSMTPError\<close> tells them apart: a reply of the server
  (\<^verbatim>\<open>*textproto.Error\<close>) with its code, the two error types of the file, and every other one (the network, TLS, a
  deadline). What an SMTP command can fail with is a \<open>server_error\<close>; \<^verbatim>\<open>fmt.Errorf\<close> with \<^verbatim>\<open>%w\<close> keeps the kind.
\<close>

datatype server_error = Reply int string | Transport string

datatype email_error =
    SmtpReply int string
  | permanentEmailError string
  | transientSMTPError string
  | OtherError string

fun email_msg :: "email_error \<Rightarrow> string" where
  "email_msg (SmtpReply code msg) = msg"
| "email_msg (permanentEmailError msg) = msg"
| "email_msg (transientSMTPError msg) = msg"
| "email_msg (OtherError msg) = msg"

fun wrap_email :: "string \<Rightarrow> server_error \<Rightarrow> email_error" where
  "wrap_email pre (Reply code msg) = SmtpReply code (pre @ msg)"
| "wrap_email pre (Transport msg) = OtherError (pre @ msg)"

fun isPermanentSMTPError :: "email_error \<Rightarrow> bool" where
  "isPermanentSMTPError (SmtpReply code msg) \<longleftrightarrow> code \<ge> 500 \<and> code < 600"
| "isPermanentSMTPError (permanentEmailError msg) \<longleftrightarrow> True"
| "isPermanentSMTPError (transientSMTPError msg) \<longleftrightarrow> False"
| "isPermanentSMTPError (OtherError msg) \<longleftrightarrow> False"

definition classifyEmailSendError :: "email_error \<Rightarrow> SendResponse" where
  "classifyEmailSendError err = \<lparr>rs_Success = False, rs_ProviderMsgID = [], rs_ProviderData = None,
     rs_ErrorMessage = email_msg err, rs_Permanent = isPermanentSMTPError err\<rparr>"

section \<open>The message\<close>

definition crlf :: string where
  "crlf = [CHR 0x0D, CHR 0x0A]"

definition parseAddressField :: "mail_env \<Rightarrow> string \<Rightarrow> string \<Rightarrow> email_error + mail_Address" where
  "parseAddressField M field raw = (case ml_ParseAddress M raw of
     Inl err \<Rightarrow> Inl (permanentEmailError (''email message: '' @ field @ '': invalid address '' @ Quote raw @ '': '' @ err_msg err))
   | Inr addr \<Rightarrow> Inr addr)"

fun parseAddressList :: "mail_env \<Rightarrow> string \<Rightarrow> string list \<Rightarrow> email_error + mail_Address list" where
  "parseAddressList M field [] = Inr []"
| "parseAddressList M field (raw # raws) = (case parseAddressField M field raw of
     Inl err \<Rightarrow> Inl err
   | Inr addr \<Rightarrow> (case parseAddressList M field raws of Inl err \<Rightarrow> Inl err | Inr addrs \<Rightarrow> Inr (addr # addrs)))"

fun join :: "string \<Rightarrow> string list \<Rightarrow> string" where
  "join sep [] = []"
| "join sep [p] = p"
| "join sep (p # q # ps) = p @ sep @ join sep (q # ps)"

definition joinAddresses :: "mail_Address list \<Rightarrow> string" where
  "joinAddresses addrs = join '', '' (map ma_String addrs)"

text \<open>\<^verbatim>\<open>%x\<close> of a non-negative number.\<close>

fun hex_nat :: "nat \<Rightarrow> string" where
  "hex_nat n = (if n < 16 then [hex_digit n] else hex_nat (n div 16) @ [hex_digit (n mod 16)])"

declare hex_nat.simps [simp del]

definition randomHexID :: "mail_env \<Rightarrow> nat \<Rightarrow> string" where
  "randomHexID M n = (case ml_rand M n of
     Inl _ \<Rightarrow> hex_nat (nat (ml_clock M 1))
   | Inr buf \<Rightarrow> hex_encode buf)"

text \<open>\<^verbatim>\<open>strings.Cut(s, "@")\<close>: what follows the first at sign.\<close>

definition after_at :: "string \<Rightarrow> string option" where
  "after_at s = map_option (\<lambda>i. drop (Suc i) s) (index_of (CHR ''@'') s)"

definition generateMessageID :: "mail_env \<Rightarrow> string \<Rightarrow> string" where
  "generateMessageID M fromAddress =
     (let domain = (case after_at fromAddress of
            None \<Rightarrow> ''notifyd.invalid''
          | Some after \<Rightarrow> if after \<noteq> [] then after else ''notifyd.invalid'')
      in ''<'' @ randomHexID M 16 @ ''@'' @ domain @ ''>'')"

definition header_line :: "string \<Rightarrow> string \<Rightarrow> string" where
  "header_line name v = name @ '': '' @ v @ crlf"

definition buildEmailHeaders :: "mail_env \<Rightarrow> emailConfig \<Rightarrow> string \<Rightarrow> email_error + string" where
  "buildEmailHeaders M cfg subject = (case parseAddressField M ''from'' (ec_From cfg) of
     Inl err \<Rightarrow> Inl err
   | Inr from_addr \<Rightarrow> (case parseAddressList M ''to'' (ec_To cfg) of
       Inl err \<Rightarrow> Inl err
     | Inr to_addrs \<Rightarrow> (case parseAddressList M ''cc'' (ec_CC cfg) of
         Inl err \<Rightarrow> Inl err
       | Inr cc \<Rightarrow> (case (if ec_ReplyTo cfg \<noteq> []
                        then (case parseAddressField M ''reply_to'' (ec_ReplyTo cfg) of
                                Inl err \<Rightarrow> Inl err | Inr a \<Rightarrow> Inr (Some a))
                        else Inr None) of
           Inl err \<Rightarrow> Inl err
         | Inr replyTo \<Rightarrow> Inr (
             header_line ''From'' (ma_String from_addr) @
             header_line ''To'' (joinAddresses to_addrs) @
             (if cc \<noteq> [] then header_line ''Cc'' (joinAddresses cc) else []) @
             (case replyTo of None \<Rightarrow> [] | Some a \<Rightarrow> header_line ''Reply-To'' (ma_String a)) @
             header_line ''Subject'' (ml_QEncode M subject) @
             header_line ''Date'' (ml_RFC1123Z M (ml_clock M 0)) @
             header_line ''Message-ID'' (generateMessageID M (ec_From cfg)) @
             header_line ''MIME-Version'' ''1.0'')))))"

definition writeSinglePart :: "mail_env \<Rightarrow> string \<Rightarrow> string \<Rightarrow> string" where
  "writeSinglePart M contentType body =
     header_line ''Content-Type'' contentType @ header_line ''Content-Transfer-Encoding'' ''quoted-printable'' @ crlf @
     ml_quotedprintable M body @ crlf"

definition writeMarkdownAlternative :: "mail_env \<Rightarrow> string \<Rightarrow> string" where
  "writeMarkdownAlternative M body =
     (let boundary = ''notifyd-markdown-boundary'';
          htmlBody = (case ml_goldmark M body of None \<Rightarrow> body | Some h \<Rightarrow> h)
      in ''Content-Type: multipart/alternative; boundary='' @ boundary @ crlf @ crlf @
         ''--'' @ boundary @ crlf @ writeSinglePart M ''text/plain; charset=UTF-8'' body @
         ''--'' @ boundary @ crlf @ writeSinglePart M ''text/html; charset=UTF-8'' htmlBody @
         ''--'' @ boundary @ ''--'' @ crlf)"

definition buildEmailMessage :: "mail_env \<Rightarrow> emailConfig \<Rightarrow> SendRequest \<Rightarrow> email_error + string" where
  "buildEmailMessage M cfg req = (case buildEmailHeaders M cfg (sr_Subject req) of
     Inl err \<Rightarrow> Inl err
   | Inr headers \<Rightarrow> Inr (headers @
       (if sr_FormatMode req = ''html'' then writeSinglePart M ''text/html; charset=UTF-8'' (sr_Body req)
        else if sr_FormatMode req = ''markdown'' then writeMarkdownAlternative M (sr_Body req)
        else writeSinglePart M ''text/plain; charset=UTF-8'' (sr_Body req))))"

section \<open>The session\<close>

definition implicitTLSPort :: int where
  "implicitTLSPort = 465"

text \<open>
  The commands of a session. \<open>Dial\<close> opens the connection, with TLS from the first byte when its flag is
  set; \<open>Greet\<close> is \<^verbatim>\<open>smtp.NewClient\<close>; \<open>WriteBody\<close> and \<open>CloseBody\<close> are the writer of \<^verbatim>\<open>DATA\<close>.
\<close>

datatype smtp_command =
    Dial string bool
  | Greet string
  | StartTLS string
  | Auth string string
  | MailFrom string
  | RcptTo string
  | Data
  | WriteBody string
  | CloseBody
  | Quit

type_synonym 's smtp_server = "smtp_command \<Rightarrow> 's \<Rightarrow> server_error option \<times> 's"

definition dialWithContext :: "'s smtp_server \<Rightarrow> string \<Rightarrow> int \<Rightarrow> 's \<Rightarrow> email_error option \<times> 's" where
  "dialWithContext server addr port s = (case server (Dial addr (port = implicitTLSPort)) s of
     (Some err, s1) \<Rightarrow> (Some (wrap_email ''dial: '' err), s1)
   | (None, s1) \<Rightarrow> (None, s1))"

fun send_recipients :: "mail_env \<Rightarrow> 's smtp_server \<Rightarrow> string list \<Rightarrow> 's \<Rightarrow> email_error option \<times> 's" where
  "send_recipients M server [] s = (None, s)"
| "send_recipients M server (raw # raws) s = (case parseAddressField M ''recipient'' raw of
     Inl err \<Rightarrow> (Some err, s)
   | Inr rcpt \<Rightarrow> (case server (RcptTo (ma_Address rcpt)) s of
       (Some err, s1) \<Rightarrow> (Some (wrap_email (''rcpt to '' @ ma_Address rcpt @ '': '') err), s1)
     | (None, s1) \<Rightarrow> send_recipients M server raws s1))"

definition send_body :: "'s smtp_server \<Rightarrow> string \<Rightarrow> 's \<Rightarrow> email_error option \<times> 's" where
  "send_body server message s = (case server Data s of
     (Some err, s1) \<Rightarrow> (Some (wrap_email ''data: '' err), s1)
   | (None, s1) \<Rightarrow> (case server (WriteBody message) s1 of
       (Some err, s2) \<Rightarrow> (Some (wrap_email ''write message: '' err), snd (server CloseBody s2))
     | (None, s2) \<Rightarrow> (case server CloseBody s2 of
         (Some err, s3) \<Rightarrow> (Some (wrap_email ''close data: '' err), s3)
       | (None, s3) \<Rightarrow> (None, snd (server Quit s3)))))"

definition deliverMessage :: "mail_env \<Rightarrow> 's smtp_server \<Rightarrow> emailConfig \<Rightarrow> string \<Rightarrow> 's \<Rightarrow> email_error option \<times> 's" where
  "deliverMessage M server cfg message s = (case parseAddressField M ''from'' (ec_From cfg) of
     Inl err \<Rightarrow> (Some err, s)
   | Inr from_addr \<Rightarrow> (case server (MailFrom (ma_Address from_addr)) s of
       (Some err, s1) \<Rightarrow> (Some (wrap_email ''mail from: '' err), s1)
     | (None, s1) \<Rightarrow> (case send_recipients M server (ec_To cfg @ ec_CC cfg) s1 of
         (Some err, s2) \<Rightarrow> (Some err, s2)
       | (None, s2) \<Rightarrow> send_body server message s2)))"

definition secure_session :: "'s smtp_server \<Rightarrow> ('s \<Rightarrow> bool) \<Rightarrow> emailConfig \<Rightarrow> 's \<Rightarrow> email_error option \<times> 's" where
  "secure_session server starttls cfg s =
     (if ec_Port cfg \<noteq> implicitTLSPort then
        (if \<not> starttls s then
           (Some (transientSMTPError ''server does not advertise STARTTLS; refusing to send credentials over plaintext''), s)
         else case server (StartTLS (ec_Host cfg)) s of
                (Some err, s1) \<Rightarrow> (Some (wrap_email ''starttls: '' err), s1)
              | (None, s1) \<Rightarrow> (None, s1))
      else (None, s))"

definition sendViaSMTP :: "mail_env \<Rightarrow> 's smtp_server \<Rightarrow> ('s \<Rightarrow> bool) \<Rightarrow> emailConfig \<Rightarrow> string \<Rightarrow> 's \<Rightarrow> email_error option \<times> 's" where
  "sendViaSMTP M server starttls cfg message s =
     (case dialWithContext server (JoinHostPort (ec_Host cfg) (show_int (ec_Port cfg))) (ec_Port cfg) s of
        (Some err, s1) \<Rightarrow> (Some err, s1)
      | (None, s1) \<Rightarrow> (case server (Greet (ec_Host cfg)) s1 of
          (Some err, s2) \<Rightarrow> (Some (wrap_email ''smtp handshake: '' err), s2)
        | (None, s2) \<Rightarrow> (case secure_session server starttls cfg s2 of
            (Some err, s3) \<Rightarrow> (Some err, s3)
          | (None, s3) \<Rightarrow> (case server (Auth (ec_Username cfg) (ec_Password cfg)) s3 of
              (Some err, s4) \<Rightarrow> (Some (wrap_email ''auth: '' err), s4)
            | (None, s4) \<Rightarrow> deliverMessage M server cfg message s4))))"

definition email_Send :: "mail_env \<Rightarrow> 's smtp_server \<Rightarrow> ('s \<Rightarrow> bool) \<Rightarrow> RawMessage \<Rightarrow> SendRequest \<Rightarrow> 's \<Rightarrow>
    (goerr + SendResponse) \<times> 's" where
  "email_Send M server starttls rawConfig req s = (case decode_struct email_field email_zero rawConfig of
     Inl err \<Rightarrow> (Inl (wrap ''unmarshal email config: '' err []), s)
   | Inr cfg \<Rightarrow> (case buildEmailMessage M cfg req of
       Inl err \<Rightarrow> (Inr (classifyEmailSendError err), s)
     | Inr message \<Rightarrow> (case sendViaSMTP M server starttls cfg message s of
         (Some err, s1) \<Rightarrow> (Inr (classifyEmailSendError err), s1)
       | (None, s1) \<Rightarrow>
           (Inr \<lparr>rs_Success = True, rs_ProviderMsgID = [], rs_ProviderData = None, rs_ErrorMessage = [], rs_Permanent = False\<rparr>, s1))))"

definition email_Capabilities :: "string list" where
  "email_Capabilities = []"

definition email_FetchMetrics :: "string \<Rightarrow> goerr + unit" where
  "email_FetchMetrics providerMsgID = Inl (sentinel_err ErrMetricsNotSupported)"

end
