(* ===== verification/Email_Laws.thy ===== *)
theory Email_Laws
  imports Email
begin

text \<open>
  Laws of the email channel: the order of an SMTP session, credentials only after TLS, and which failures
  are final. A session is observed through a server that records every command with its answer.
\<close>

section \<open>Recorded sessions\<close>

type_synonym session_log = "(smtp_command \<times> server_error option) list"

definition recorded_server :: "'s smtp_server \<Rightarrow> ('s \<times> session_log) smtp_server" where
  "recorded_server server cmd sl = (case sl of (s, log) \<Rightarrow>
     (case server cmd s of (r, s1) \<Rightarrow> (r, (s1, log @ [(cmd, r)]))))"

lemma recorded_apply: "server cmd s = (r, s1) \<Longrightarrow> recorded_server server cmd (s, log) = (r, (s1, log @ [(cmd, r)]))"
  by (simp add: recorded_server_def)

lemma recorded_step:
  "recorded_server server cmd (s, log) = (r, sl1) \<longleftrightarrow> (\<exists>s1. server cmd s = (r, s1) \<and> sl1 = (s1, log @ [(cmd, r)]))"
  by (auto simp: recorded_server_def split: prod.splits)

text \<open>What a failure says about the commands: a final one was a 5xx reply to one of them.\<close>

fun fatal :: "server_error \<Rightarrow> bool" where
  "fatal (Reply code msg) \<longleftrightarrow> 500 \<le> code \<and> code < 600"
| "fatal (Transport msg) \<longleftrightarrow> False"

lemma permanent_wrap [simp]: "isPermanentSMTPError (wrap_email pre e) = fatal e"
  by (cases e) simp_all

definition final_reply :: "session_log \<Rightarrow> bool" where
  "final_reply l = list_ex (\<lambda>(c, r). case r of None \<Rightarrow> False | Some e \<Rightarrow> fatal e) l"

lemma final_reply_simps [simp]:
  "\<not> final_reply []" "final_reply ((c, None) # l) = final_reply l"
  "final_reply ((c, Some e) # l) \<longleftrightarrow> fatal e \<or> final_reply l" "final_reply (l @ m) \<longleftrightarrow> final_reply l \<or> final_reply m"
  by (simp_all add: final_reply_def)

text \<open>No \<^verbatim>\<open>AUTH\<close> before the connection is encrypted.\<close>

fun tls_before_auth :: "bool \<Rightarrow> session_log \<Rightarrow> bool" where
  "tls_before_auth tls [] = True"
| "tls_before_auth tls ((Auth u p, r) # l) = (tls \<and> tls_before_auth tls l)"
| "tls_before_auth tls ((StartTLS h, r) # l) = tls_before_auth (tls \<or> r = None) l"
| "tls_before_auth tls ((Dial a implicit, r) # l) = tls_before_auth (implicit \<and> r = None) l"
| "tls_before_auth tls ((cmd, r) # l) = tls_before_auth tls l"

fun envelope :: "smtp_command \<Rightarrow> bool" where
  "envelope (Dial _ _) = False"
| "envelope (Greet _) = False"
| "envelope (StartTLS _) = False"
| "envelope (Auth _ _) = False"
| "envelope _ = True"

lemma tls_before_auth_envelope: "list_all (\<lambda>(c, _). envelope c) l \<Longrightarrow> tls_before_auth b l"
  by (induction b l rule: tls_before_auth.induct) auto

text \<open>Every configured address parses, as \<^verbatim>\<open>validateEmailConfig\<close> checks.\<close>

definition parses :: "mail_env \<Rightarrow> string \<Rightarrow> bool" where
  "parses M raw \<longleftrightarrow> (\<exists>a. ml_ParseAddress M raw = Inr a)"

lemma parses_field: "parses M raw \<longleftrightarrow> (\<exists>a. parseAddressField M field raw = Inr a)"
  by (auto simp: parses_def parseAddressField_def split: sum.splits)

definition bare :: "mail_env \<Rightarrow> string \<Rightarrow> string" where
  "bare M raw = (case ml_ParseAddress M raw of Inl _ \<Rightarrow> [] | Inr a \<Rightarrow> ma_Address a)"

lemma recipients_log:
  assumes "send_recipients M (recorded_server server) raws (s, log) = (r, (s', log'))" and "list_all (parses M) raws"
  shows "\<exists>l. log' = log @ l \<and> list_all (\<lambda>(c, _). envelope c) l \<and>
    (case r of None \<Rightarrow> l = map (\<lambda>raw. (RcptTo (bare M raw), None)) raws
     | Some e \<Rightarrow> isPermanentSMTPError e \<longrightarrow> final_reply l)"
  using assms
proof (induction raws arbitrary: s log)
  case (Cons raw raws)
  then obtain a where a: "ml_ParseAddress M raw = Inr a" by (auto simp: parses_def)
  let ?c = "RcptTo (ma_Address a)"
  obtain q s1 where q: "server ?c s = (q, s1)" by fastforce
  show ?case
  proof (cases q)
    case None
    then have "send_recipients M (recorded_server server) raws (s1, log @ [(?c, None)]) = (r, (s', log'))"
      using Cons.prems a q by (simp add: parseAddressField_def recorded_apply)
    from Cons.IH [OF this] Cons.prems obtain l where "log' = log @ (?c, None) # l"
      and "list_all (\<lambda>(c, _). envelope c) l"
      and "case r of None \<Rightarrow> l = map (\<lambda>raw. (RcptTo (bare M raw), None)) raws
        | Some e \<Rightarrow> isPermanentSMTPError e \<longrightarrow> final_reply l" by auto
    then show ?thesis using a
      by (intro exI [of _ "(?c, None) # l"])
        (auto simp: bare_def split: option.splits)
  next
    case (Some e)
    then show ?thesis using Cons.prems a q
      by (auto simp: parseAddressField_def recorded_apply intro!: exI [of _ "[(?c, Some e)]"])
  qed
qed auto

lemma body_log:
  assumes "send_body (recorded_server server) message (s, log) = (r, (s', log'))"
  shows "\<exists>l. log' = log @ l \<and> list_all (\<lambda>(c, _). envelope c) l \<and>
    (case r of None \<Rightarrow> \<exists>q. l = [(Data, None), (WriteBody message, None), (CloseBody, None), (Quit, q)]
     | Some e \<Rightarrow> isPermanentSMTPError e \<longrightarrow> final_reply l)"
proof -
  obtain r1 s1 where 1: "server Data s = (r1, s1)" by fastforce
  obtain r2 s2 where 2: "server (WriteBody message) s1 = (r2, s2)" by fastforce
  obtain r3 s3 where 3: "server CloseBody s2 = (r3, s3)" by fastforce
  obtain r4 s4 where 4: "server Quit s3 = (r4, s4)" by fastforce
  show ?thesis
    using assms 1 2 3 4
    by (cases r1; cases r2; cases r3) (auto simp: send_body_def recorded_apply)
qed


lemma deliver_log:
  assumes "deliverMessage M (recorded_server server) cfg message (s, log) = (r, (s', log'))"
    and "parses M (ec_From cfg)" and "list_all (parses M) (ec_To cfg @ ec_CC cfg)"
  shows "\<exists>l. log' = log @ l \<and> list_all (\<lambda>(c, _). envelope c) l \<and>
    (case r of None \<Rightarrow> \<exists>q. l = (MailFrom (bare M (ec_From cfg)), None) #
         map (\<lambda>raw. (RcptTo (bare M raw), None)) (ec_To cfg @ ec_CC cfg) @
         [(Data, None), (WriteBody message, None), (CloseBody, None), (Quit, q)]
     | Some e \<Rightarrow> isPermanentSMTPError e \<longrightarrow> final_reply l)"
proof -
  obtain a where a: "ml_ParseAddress M (ec_From cfg) = Inr a" using assms(2) by (auto simp: parses_def)
  let ?c = "MailFrom (ma_Address a)"
  obtain q s1 where q: "server ?c s = (q, s1)" by fastforce
  show ?thesis
  proof (cases q)
    case (Some e)
    then show ?thesis using assms(1) a q
      by (auto simp: deliverMessage_def parseAddressField_def recorded_apply)
  next
    case None
    obtain r2 s2 log2 where r2: "send_recipients M (recorded_server server) (ec_To cfg @ ec_CC cfg) (s1, log @ [(?c, None)]) =
        (r2, (s2, log2))" by (metis prod.exhaust)
    from recipients_log [OF this assms(3)] obtain l2 where l2: "log2 = (log @ [(?c, None)]) @ l2"
      "list_all (\<lambda>(c, _). envelope c) l2"
      "case r2 of None \<Rightarrow> l2 = map (\<lambda>raw. (RcptTo (bare M raw), None)) (ec_To cfg @ ec_CC cfg)
        | Some e \<Rightarrow> isPermanentSMTPError e \<longrightarrow> final_reply l2" by blast
    show ?thesis
    proof (cases r2)
      case (Some e)
      then show ?thesis using assms(1) a q None r2 l2
        by (auto simp: deliverMessage_def parseAddressField_def recorded_apply intro!: exI [of _ "(?c, None) # l2"])
    next
      case n2: None
      then have "send_body (recorded_server server) message (s2, log2) = (r, (s', log'))"
        using assms(1) a q None r2 by (simp add: deliverMessage_def parseAddressField_def recorded_apply)
      from body_log [OF this] obtain l3 where "log' = log2 @ l3" "list_all (\<lambda>(c, _). envelope c) l3"
        "case r of None \<Rightarrow> \<exists>q. l3 = [(Data, None), (WriteBody message, None), (CloseBody, None), (Quit, q)]
          | Some e \<Rightarrow> isPermanentSMTPError e \<longrightarrow> final_reply l3" by blast
      then show ?thesis using a n2 l2
        by (intro exI [of _ "(?c, None) # l2 @ l3"]) (auto simp: bare_def split: option.splits)
    qed
  qed
qed

section \<open>Whole sends\<close>

text \<open>The commands of a session up to the envelope, when all of them are accepted.\<close>

definition session_opening :: "emailConfig \<Rightarrow> session_log" where
  "session_opening cfg =
     [(Dial (JoinHostPort (ec_Host cfg) (show_int (ec_Port cfg))) (ec_Port cfg = implicitTLSPort), None),
      (Greet (ec_Host cfg), None)] @
     (if ec_Port cfg \<noteq> implicitTLSPort then [(StartTLS (ec_Host cfg), None)] else []) @
     [(Auth (ec_Username cfg) (ec_Password cfg), None)]"

lemma opening_tls: "list_all (\<lambda>(c, _). envelope c) l \<Longrightarrow> tls_before_auth False (session_opening cfg @ l)"
  by (simp add: session_opening_def tls_before_auth_envelope)

lemma session_log:
  assumes "sendViaSMTP M (recorded_server server) (\<lambda>(s, _). starttls s) cfg message (s, []) = (r, (s', log))"
    and "parses M (ec_From cfg)" and "list_all (parses M) (ec_To cfg @ ec_CC cfg)"
  shows "tls_before_auth False log \<and>
    (case r of None \<Rightarrow> \<exists>q. log = session_opening cfg @ (MailFrom (bare M (ec_From cfg)), None) #
         map (\<lambda>raw. (RcptTo (bare M raw), None)) (ec_To cfg @ ec_CC cfg) @
         [(Data, None), (WriteBody message, None), (CloseBody, None), (Quit, q)]
     | Some e \<Rightarrow> isPermanentSMTPError e \<longrightarrow> final_reply log)"
proof -
  let ?d = "Dial (JoinHostPort (ec_Host cfg) (show_int (ec_Port cfg))) (ec_Port cfg = implicitTLSPort)"
  let ?g = "Greet (ec_Host cfg)" and ?t = "StartTLS (ec_Host cfg)" and ?u = "Auth (ec_Username cfg) (ec_Password cfg)"
  let ?pre = "if ec_Port cfg \<noteq> implicitTLSPort then [(?t, None)] else [] :: session_log"
  obtain r1 s1 where 1: "server ?d s = (r1, s1)" by fastforce
  obtain r2 s2 where 2: "server ?g s1 = (r2, s2)" by fastforce
  obtain r3 s3 where 3: "server ?t s2 = (r3, s3)" by fastforce
  define s3' where "s3' = (if ec_Port cfg \<noteq> implicitTLSPort then s3 else s2)"
  obtain r4 s4 where 4: "server ?u s3' = (r4, s4)" by fastforce
  show ?thesis
  proof (cases "r1 = None \<and> r2 = None \<and> (ec_Port cfg \<noteq> implicitTLSPort \<longrightarrow> starttls s2 \<and> r3 = None) \<and> r4 = None")
    case True
    then have "deliverMessage M (recorded_server server) cfg message (s4, session_opening cfg) = (r, (s', log))"
      using assms(1) 1 2 3 4
      by (auto simp: sendViaSMTP_def dialWithContext_def secure_session_def recorded_apply session_opening_def s3'_def
          split: if_splits)
    from deliver_log [OF this assms(2,3)] show ?thesis
      by (auto simp: opening_tls split: option.splits)
  next
    case False
    then show ?thesis
      using assms(1) 1 2 3 4
      by (auto simp: sendViaSMTP_def dialWithContext_def secure_session_def recorded_apply s3'_def
          split: option.splits if_splits)
  qed
qed

lemma parses_list: "parseAddressList M field raws = Inr addrs \<Longrightarrow> list_all (parses M) raws"
  by (induction raws arbitrary: addrs) (auto simp: parses_field [of _ _ field] split: sum.splits)

lemma list_parses: "list_all (parses M) raws \<Longrightarrow> \<exists>addrs. parseAddressList M field raws = Inr addrs"
  by (induction raws) (auto simp: parses_field [of _ _ field])

lemma message_parses:
  assumes "buildEmailMessage M cfg req = Inr message"
  shows "parses M (ec_From cfg)" and "list_all (parses M) (ec_To cfg @ ec_CC cfg)"
proof -
  from assms obtain h where h: "buildEmailHeaders M cfg (sr_Subject req) = Inr h"
    by (auto simp: buildEmailMessage_def split: sum.splits)
  then show "parses M (ec_From cfg)"
    by (auto simp: buildEmailHeaders_def parses_field [of _ _ "''from''"] split: sum.splits)
  from h obtain ts cs where "parseAddressList M ''to'' (ec_To cfg) = Inr ts" "parseAddressList M ''cc'' (ec_CC cfg) = Inr cs"
    by (auto simp: buildEmailHeaders_def split: sum.splits)
  then show "list_all (parses M) (ec_To cfg @ ec_CC cfg)" by (simp add: parses_list)
qed

lemma validated_parses:
  assumes "validateEmailConfig M cfg = None"
  shows "parses M (ec_From cfg)" and "list_all (parses M) (ec_To cfg)" and "list_all (parses M) (ec_CC cfg)"
    and "ec_ReplyTo cfg \<noteq> [] \<Longrightarrow> parses M (ec_ReplyTo cfg)"
proof -
  have *: "list_all (parses M) raws" if "validateAddressList M f raws = None" for f raws
    using that by (induction raws) (auto simp: parses_def split: sum.splits)
  show "parses M (ec_From cfg)" "list_all (parses M) (ec_To cfg)" "list_all (parses M) (ec_CC cfg)"
    "ec_ReplyTo cfg \<noteq> [] \<Longrightarrow> parses M (ec_ReplyTo cfg)"
    using assms * [of "''to''"] * [of "''cc''"]
    by (auto simp: validateEmailConfig_def parses_def split: if_splits sum.splits option.splits)
qed

lemma validated_message:
  assumes "validateEmailConfig M cfg = None"
  shows "\<exists>message. buildEmailMessage M cfg req = Inr message"
proof -
  note v = validated_parses [OF assms]
  obtain f where "parseAddressField M ''from'' (ec_From cfg) = Inr f" using v(1) parses_field by blast
  moreover obtain ts where "parseAddressList M ''to'' (ec_To cfg) = Inr ts" using list_parses [OF v(2)] by blast
  moreover obtain cs where "parseAddressList M ''cc'' (ec_CC cfg) = Inr cs" using list_parses [OF v(3)] by blast
  moreover have "ec_ReplyTo cfg \<noteq> [] \<Longrightarrow> \<exists>a. parseAddressField M ''reply_to'' (ec_ReplyTo cfg) = Inr a"
    using v(4) parses_field by blast
  ultimately show ?thesis
    by (auto simp: buildEmailMessage_def buildEmailHeaders_def)
qed

text \<open>
  C19. Credentials travel only over an encrypted connection: in every session of the email channel, whatever
  the server answers and advertises, each \<^verbatim>\<open>AUTH\<close> follows a successful \<^verbatim>\<open>STARTTLS\<close> or a connection that is TLS from the
  first byte.
\<close>

theorem email_credentials_need_tls:
  "tls_before_auth False (snd (snd (email_Send M (recorded_server server) (\<lambda>(s, _). starttls s) raw req (s, []))))"
proof -
  have "tls_before_auth False (snd (snd (sendViaSMTP M (recorded_server server) (\<lambda>(s, _). starttls s) cfg message (s, []))))"
    if "buildEmailMessage M cfg req = Inr message" for cfg message
  proof -
    obtain r s1 l where r: "sendViaSMTP M (recorded_server server) (\<lambda>(s, _). starttls s) cfg message (s, []) = (r, (s1, l))"
      by (metis prod.exhaust)
    with session_log [OF r message_parses [OF that]] show ?thesis by simp
  qed
  then show ?thesis
    by (fastforce simp: email_Send_def split: sum.splits prod.splits option.splits)
qed

text \<open>
  A successful email is one complete session: the connection, the greeting, \<^verbatim>\<open>STARTTLS\<close> on any port but 465,
  the credentials, the sender, every recipient of \<^verbatim>\<open>to\<close> and \<^verbatim>\<open>cc\<close> once and in order as bare addresses, and the
  composed message, each accepted by the server; only the answer to \<^verbatim>\<open>QUIT\<close> does not matter.
\<close>

theorem email_success_session:
  assumes "decode_struct email_field email_zero raw = Inr cfg"
    and "email_Send M (recorded_server server) (\<lambda>(s, _). starttls s) raw req (s, []) = (Inr r, (s', log))"
    and "rs_Success r"
  shows "\<exists>message q. buildEmailMessage M cfg req = Inr message \<and>
    log = session_opening cfg @ (MailFrom (bare M (ec_From cfg)), None) #
      map (\<lambda>raw. (RcptTo (bare M raw), None)) (ec_To cfg @ ec_CC cfg) @
      [(Data, None), (WriteBody message, None), (CloseBody, None), (Quit, q)]"
proof -
  obtain message where m: "buildEmailMessage M cfg req = Inr message"
    using assms by (auto simp: email_Send_def classifyEmailSendError_def split: sum.splits)
  then have "sendViaSMTP M (recorded_server server) (\<lambda>(s, _). starttls s) cfg message (s, []) = (None, (s', log))"
    using assms by (auto simp: email_Send_def classifyEmailSendError_def split: prod.splits option.splits)
  from session_log [OF this message_parses [OF m]] m show ?thesis by auto
qed

text \<open>
  C17. A channel configuration that passed validation fails for good only by the server's word: when a send over it
  fails permanently, so that the notification is not retried, the server answered one of the commands with a 5xx reply.
\<close>

theorem email_permanent_needs_5xx:
  assumes "decode_struct email_field email_zero raw = Inr cfg" and "email_ValidateConfig M raw = None"
    and "email_Send M (recorded_server server) (\<lambda>(s, _). starttls s) raw req (s, []) = (Inr r, (s', log))"
    and "\<not> rs_Success r" and "rs_Permanent r"
  shows "final_reply log"
proof -
  have v: "validateEmailConfig M cfg = None" using assms(1,2) by (simp add: email_ValidateConfig_def)
  from validated_message [OF v] obtain message where m: "buildEmailMessage M cfg req = Inr message" by blast
  then obtain e where "sendViaSMTP M (recorded_server server) (\<lambda>(s, _). starttls s) cfg message (s, []) = (Some e, (s', log))"
    and "isPermanentSMTPError e"
    using assms by (auto simp: email_Send_def classifyEmailSendError_def split: prod.splits option.splits)
  with session_log [OF _ message_parses [OF m]] show ?thesis by fastforce
qed

section \<open>A concrete session\<close>

definition demo_mail :: mail_env where
  "demo_mail = \<lparr>ml_ParseAddress = (\<lambda>s. if s = [] then Inl (plain_error ''mail: no address'') else Inr \<lparr>ma_String = ''<'' @ s @ ''>'', ma_Address = s\<rparr>),
     ml_QEncode = (\<lambda>s. s), ml_quotedprintable = (\<lambda>s. s), ml_goldmark = (\<lambda>s. Some s), ml_RFC1123Z = (\<lambda>t. show_int t),
     ml_rand = (\<lambda>n. Inr (replicate n 7)), ml_clock = (\<lambda>_. 0)\<rparr>"

definition demo_email :: json where
  "demo_email = JObj [(''host'', JStr ''smtp.acme.test''), (''port'', JNum 587), (''username'', JStr ''u''), (''password'', JStr ''p''),
     (''from'', JStr ''ops@acme.test''), (''to'', JArr [JStr ''a@acme.test'', JStr ''b@acme.test''])]"

definition demo_email_cfg :: emailConfig where
  "demo_email_cfg = \<lparr>ec_Host = ''smtp.acme.test'', ec_Port = 587, ec_Username = ''u'', ec_Password = ''p'', ec_From = ''ops@acme.test'',
     ec_To = [''a@acme.test'', ''b@acme.test''], ec_CC = [], ec_ReplyTo = []\<rparr>"

definition demo_mail_request :: SendRequest where
  "demo_mail_request = \<lparr>sr_NotificationID = 100, sr_Subject = ''s'', sr_Body = ''b'', sr_Metadata = None, sr_FormatMode = []\<rparr>"

definition demo_session :: "(smtp_command \<Rightarrow> server_error option) \<Rightarrow> (goerr + SendResponse) \<times> (unit \<times> session_log)" where
  "demo_session answers = email_Send demo_mail (recorded_server (\<lambda>c s. (answers c, s))) (\<lambda>(s, _). True) (Some demo_email)
     demo_mail_request ((), [])"

lemma demo_email_decodes: "decode_struct email_field email_zero (Some demo_email) = Inr demo_email_cfg"
  by code_simp

theorem email_success_session_witness: "(RcptTo ''b@acme.test'', None) \<in> set (snd (snd (demo_session (\<lambda>_. None))))"
proof -
  have "case fst (demo_session (\<lambda>_. None)) of Inl _ \<Rightarrow> False | Inr r \<Rightarrow> rs_Success r" by code_simp
  then obtain r s1 l where d: "demo_session (\<lambda>_. None) = (Inr r, (s1, l))" and "rs_Success r"
    by (cases "demo_session (\<lambda>_. None)") (auto split: sum.splits)
  from email_success_session [OF demo_email_decodes d [unfolded demo_session_def] this(2)] d show ?thesis
    by (auto simp: demo_email_cfg_def bare_def demo_mail_def)
qed

theorem email_permanent_needs_5xx_witness:
  "final_reply (snd (snd (demo_session (\<lambda>c. if c = Data then Some (Reply 554 ''no'') else None))))"
proof -
  let ?d = "demo_session (\<lambda>c. if c = Data then Some (Reply 554 ''no'') else None)"
  have "case fst ?d of Inl _ \<Rightarrow> False | Inr r \<Rightarrow> \<not> rs_Success r \<and> rs_Permanent r" by code_simp
  then obtain r s1 l where d: "?d = (Inr r, (s1, l))" and r: "\<not> rs_Success r" "rs_Permanent r"
    by (cases ?d) (auto split: sum.splits)
  have "email_ValidateConfig demo_mail (Some demo_email) = None" by code_simp
  from email_permanent_needs_5xx [OF demo_email_decodes this d [unfolded demo_session_def] r] d show ?thesis by simp
qed

text \<open>
  The message identifier takes its domain from the raw \<^verbatim>\<open>from\<close> field, so a sender with a display name, which
  the validation accepts, gets a second closing bracket.
\<close>

lemma message_id_of_display_name:
  "generateMessageID M ''Ops <ops@acme.test>'' = ''<'' @ randomHexID M 16 @ ''@acme.test>>''"
  by (simp add: generateMessageID_def after_at_def Let_def)

end
