(* ===== verification/Provider_Laws.thy ===== *)
theory Provider_Laws
  imports Providers Email_Laws Delivery_Specs
begin

text \<open>
  Laws of the providers. The interface \<open>http_channel\<close> states what the dispatcher may rely on for a channel that posts to an
  HTTP service: one request at most, success exactly on an accepted status, and which failures are
  final. Its client lemmas are proved once and interpreted on the five channels of the code. The email
  channel has laws of its own about the order of an SMTP session.
\<close>

section \<open>The interface of the HTTP channels\<close>

text \<open>
  The outcomes of one send: an error or a refusal before anything is sent, a failure of the transport,
  an accepted answer, a rejected one. \<open>good\<close> and \<open>final\<close> classify statuses, \<open>blocked\<close> transport errors.
\<close>

inductive channel_outcome :: "(int \<Rightarrow> bool) \<Rightarrow> (int \<Rightarrow> bool) \<Rightarrow> (goerr \<Rightarrow> bool) \<Rightarrow> 's client \<Rightarrow> 's \<Rightarrow>
    (goerr + SendResponse) \<times> 's \<Rightarrow> bool"
  for good final blocked client s where
  unsent: "channel_outcome good final blocked client s (Inl err, s)"
| refused: "channel_outcome good final blocked client s (Inr (not_sent None m True), s)"
| unreachable: "client q s = (Inl e, s1) \<Longrightarrow>
    channel_outcome good final blocked client s (Inr (not_sent None (err_msg e) (blocked e)), s1)"
| answered: "client q s = (Inr resp, s1) \<Longrightarrow> good (hp_status resp) \<Longrightarrow>
    channel_outcome good final blocked client s (Inr (sent i d), s1)"
| rejected: "client q s = (Inr resp, s1) \<Longrightarrow> \<not> good (hp_status resp) \<Longrightarrow>
    channel_outcome good final blocked client s (Inr (not_sent d m (final (hp_status resp))), s1)"

inductive_cases channel_outcomeE: "channel_outcome good final blocked client s (r, s1)"

locale http_channel =
  fixes send :: "'s client \<Rightarrow> RawMessage \<Rightarrow> SendRequest \<Rightarrow> 's \<Rightarrow> (goerr + SendResponse) \<times> 's"
    and good :: "int \<Rightarrow> bool" and final :: "int \<Rightarrow> bool" and blocked :: "goerr \<Rightarrow> bool"
  assumes outcome: "channel_outcome good final blocked client s (send client cfg req s)"
    and good_2xx: "good st \<Longrightarrow> 200 \<le> st \<and> st < 300"
begin

lemma success_needs_2xx:
  assumes "fst (send client cfg req s) = Inr r" and "rs_Success r"
  shows "\<exists>q resp s1. client q s = (Inr resp, s1) \<and> 200 \<le> hp_status resp \<and> hp_status resp < 300"
  using outcome [of client s cfg req] assms good_2xx
  by (cases "send client cfg req s") (fastforce elim!: channel_outcomeE)

lemma one_request: "snd (send client cfg req s) = s \<or> (\<exists>q. snd (send client cfg req s) = snd (client q s))"
  using outcome [of client s cfg req]
  by (cases "send client cfg req s") (auto elim!: channel_outcomeE, (metis snd_conv)+)

text \<open>On a client that always answers, a failed send is final exactly when its status is.\<close>

lemma rejection_class:
  assumes "\<And>q. fst (client q s) = Inr resp" and "\<not> good (hp_status resp)"
    and "fst (send client cfg req s) = Inr r" and "snd (send client cfg req s) \<noteq> s"
  shows "\<not> rs_Success r \<and> (rs_Permanent r \<longleftrightarrow> final (hp_status resp))"
proof -
  have "resp' = resp" if "client q s = (Inr resp', s1)" for q resp' s1 using assms(1) [of q] that by simp
  then show ?thesis
    using outcome [of client s cfg req] assms
    by (cases "send client cfg req s") (auto elim!: channel_outcomeE, (metis fst_conv sum.distinct(1))+)
qed

end

text \<open>Statuses after which a retry cannot help: \<^verbatim>\<open>status != 429 && status < 500\<close>.\<close>

definition client_error :: "int \<Rightarrow> bool" where
  "client_error st \<longleftrightarrow> st \<noteq> 429 \<and> st < 500"

lemmas send_defs = discord_Send_def telegram_Send_def whatsapp_Send_def slack_Send_def webhook_Send_def

interpretation discord: http_channel "discord_Send E" status_2xx "\<lambda>_. False" "\<lambda>_. False"
  by unfold_locales (auto simp: discord_Send_def status_2xx_def Let_def split: sum.splits option.splits prod.splits
      intro: channel_outcome.intros)

interpretation telegram: http_channel "telegram_Send E" "\<lambda>st. st = 200" "\<lambda>_. False" "\<lambda>_. False"
  by unfold_locales (auto simp: telegram_Send_def Let_def split: sum.splits option.splits prod.splits
      intro: channel_outcome.intros)

interpretation whatsapp: http_channel "whatsapp_Send E" status_2xx "\<lambda>_. False" "\<lambda>_. False"
  by unfold_locales (auto simp: whatsapp_Send_def status_2xx_def Let_def not_le not_less split: sum.splits option.splits prod.splits
      intro: channel_outcome.intros)

lemma answered_class:
  assumes "client q s = (Inr resp, s1)" and "\<not> good (hp_status resp)" and "b = final (hp_status resp)"
  shows "channel_outcome good final blocked client s (Inr (not_sent d m b), s1)"
  unfolding assms(3) using assms(1,2) by (rule channel_outcome.rejected)

lemma blocked_class:
  assumes "client q s = (Inl e, s1)" and "b = blocked e"
  shows "channel_outcome good final blocked client s (Inr (not_sent None (err_msg e) b), s1)"
  unfolding assms(2) using assms(1) by (rule channel_outcome.unreachable)

interpretation slack: http_channel "slack_Send E" status_2xx client_error "\<lambda>_. False"
  by unfold_locales (auto simp: slack_Send_def status_2xx_def client_error_def Let_def split: sum.splits option.splits prod.splits
      intro: channel_outcome.intros answered_class)

interpretation webhook: http_channel "webhook_Send order E" status_2xx client_error "\<lambda>e. errors_Is e errBlockedAddress"
  by unfold_locales (auto simp: webhook_Send_def status_2xx_def client_error_def isRedirectStatus_def
      classifyWebhookTransportError_def Let_def split: sum.splits option.splits prod.splits
      intro: channel_outcome.intros answered_class blocked_class)

section \<open>What the worker's registry promises\<close>

lemma handler_success:
  assumes "HandleNotificationDeliver emit registry ax t w = (None, w')" and "unmarshal_deliver (tk_Body t) = Inr p"
  shows "\<exists>prov cfg req resp. registry (p_ChannelType p) = Some prov \<and> pr_Send prov cfg req = Inr resp \<and> rs_Success resp"
  using assms
  by (auto simp: HandleNotificationDeliver_def Registry_Get_def handleDeliveryError_def handleProviderFailure_def
      handlePermanentProviderFailure_def Let_def split: prod.splits sum.splits option.splits if_splits)

lemma worker_registry_lookup:
  assumes "pr_Type email = ''email''"
  shows "worker_registry E order client guarded email s ''discord'' =
      Some (channel_provider ''discord'' (discord_Send E client) discord_ValidateConfig s)"
    "worker_registry E order client guarded email s ''telegram'' =
      Some (channel_provider ''telegram'' (telegram_Send E client) telegram_ValidateConfig s)"
    "worker_registry E order client guarded email s ''whatsapp'' =
      Some (channel_provider ''whatsapp'' (whatsapp_Send E client) whatsapp_ValidateConfig s)"
    "worker_registry E order client guarded email s ''slack'' =
      Some (channel_provider ''slack'' (slack_Send E client) slack_ValidateConfig s)"
    "worker_registry E order client guarded email s ''webhook'' =
      Some (channel_provider ''webhook'' (webhook_Send order E guarded) (webhook_ValidateConfig order) s)"
    "worker_registry E order client guarded email s ''email'' = Some email"
  using assms by (simp_all add: worker_registry_def Register_def channel_provider_def)

text \<open>
  C16. No notification counts as delivered unless the remote service accepted it: when an attempt of the
  worker over Discord, Telegram, WhatsApp, Slack or a webhook ends without an error, the HTTP client (the guarded
  one for webhooks) was answered with a status from 200 to 299.
\<close>

theorem delivered_needs_2xx:
  assumes "HandleNotificationDeliver emit (worker_registry E order client guarded email s) ax t w = (None, w')"
    and "unmarshal_deliver (tk_Body t) = Inr p" and "pr_Type email = ''email''"
    and "IsValidChannelType (p_ChannelType p)" and "p_ChannelType p \<noteq> ''email''"
  shows "\<exists>q resp s1. (if p_ChannelType p = ''webhook'' then guarded else client) q s = (Inr resp, s1) \<and>
    200 \<le> hp_status resp \<and> hp_status resp < 300"
proof -
  obtain prov cfg req r where p: "worker_registry E order client guarded email s (p_ChannelType p) = Some prov"
    and r: "pr_Send prov cfg req = Inr r" "rs_Success r"
    using handler_success [OF assms(1,2)] by blast
  note look = worker_registry_lookup [OF assms(3), of E order client guarded s]
  have "p_ChannelType p \<in> {''discord'', ''telegram'', ''whatsapp'', ''slack'', ''webhook''}"
    using assms(4,5) by (auto simp: IsValidChannelType_iff)
  then consider "p_ChannelType p = ''discord''" | "p_ChannelType p = ''telegram''" | "p_ChannelType p = ''whatsapp''"
    | "p_ChannelType p = ''slack''" | "p_ChannelType p = ''webhook''" by auto
  then show ?thesis
  proof cases
    case 1
    then have "fst (discord_Send E client cfg req s) = Inr r" using p r(1) look(1) by (auto simp: channel_provider_def)
    from discord.success_needs_2xx [OF this r(2)] 1 show ?thesis by simp
  next
    case 2
    then have "fst (telegram_Send E client cfg req s) = Inr r" using p r(1) look(2) by (auto simp: channel_provider_def)
    from telegram.success_needs_2xx [OF this r(2)] 2 show ?thesis by simp
  next
    case 3
    then have "fst (whatsapp_Send E client cfg req s) = Inr r" using p r(1) look(3) by (auto simp: channel_provider_def)
    from whatsapp.success_needs_2xx [OF this r(2)] 3 show ?thesis by simp
  next
    case 4
    then have "fst (slack_Send E client cfg req s) = Inr r" using p r(1) look(4) by (auto simp: channel_provider_def)
    from slack.success_needs_2xx [OF this r(2)] 4 show ?thesis by simp
  next
    case 5
    then have "fst (webhook_Send order E guarded cfg req s) = Inr r" using p r(1) look(5) by (auto simp: channel_provider_def)
    from webhook.success_needs_2xx [OF this r(2)] 5 show ?thesis by simp
  qed
qed

section \<open>Responses that are not JSON\<close>

text \<open>A success whose response is not JSON: the notification is delivered, no attempt is stored.\<close>

lemma unparsable_success_unrecorded:
  assumes "unmarshal_deliver (tk_Body t) = Inr p" and "deliverable ax p (w_db w)"
    and "answer registry p (w_db w) = Some (Inr resp)" and "rs_Success resp" and "\<not> raw_valid (rs_ProviderData resp)"
  shows "case HandleNotificationDeliver (Emit L now) registry ax t w of (r, w') \<Rightarrow>
    r = None \<and> db_attempts (w_db w') = db_attempts (w_db w) \<and>
    db_notifs (w_db w') = update_where (\<lambda>n. n_ID n = p_NotificationID p) (delivered_row ax resp) (db_notifs (w_db w))"
proof -
  obtain w3 where w3: "HandleNotificationDeliver (Emit L now) registry ax t w =
      (None, snd (Emit L now (emit_params p WebhookEventDelivered (ax_retried ax + 1)) w3))"
    "db_notifs (w_db w3) = update_where (\<lambda>n. n_ID n = p_NotificationID p) (delivered_row ax resp) (db_notifs (w_db w))"
    "db_attempts (w_db w3) = db_attempts (w_db w) @ recorded ((new_attempt ax (p_NotificationID p) (ax_retried ax + 1))
      \<lparr>da_Status := AttemptSuccess, da_ProviderResponse := rs_ProviderData resp\<rparr>)"
    using success_effect [OF assms(1-4), of "Emit L now"] by blast
  have "tables (w_db (snd (Emit L now ps w3))) = tables (w_db w3)" for ps by (rule Emit_tables)
  note t = tables_eq_fields [OF this]
  show ?thesis unfolding w3(1) prod.case t w3(2,3) using assms(5) by (simp add: recorded_def)
qed

lemma slack_ok_answer:
  assumes "p_ChannelType p = ''slack''" and "find (\<lambda>c. cr_id c = p_ChannelConfigID p) (db_channels db) = Some c"
    and "slack_ValidateConfig (Some (cr_config c)) = None" and "\<And>url. he_check_url E url = None"
    and "sr_FormatMode (buildSendRequest p (scanConfig c)) \<noteq> ''html''"
    and "\<And>q. fst (client q s) = Inr \<lparr>hp_status = 200, hp_body = ''ok''\<rparr>" and "he_parse E ''ok'' = None"
    and "pr_Type email = ''email''"
  shows "answer (worker_registry E order client guarded email s) p db = Some (Inr (sent [] (Some (JInvalid ''ok''))))"
proof -
  let ?req = "buildSendRequest p (scanConfig c)"
  obtain url where url: "decode_struct slack_field [] (Some (cr_config c)) = Inr url"
    using assms(3) by (auto simp: slack_ValidateConfig_def split: sum.splits)
  let ?q = "json_post url (he_marshal E (JObj [(''text'', JStr (buildSlackMessage ?req))]))"
  obtain s1 where "client ?q s = (Inr \<lparr>hp_status = 200, hp_body = ''ok''\<rparr>, s1)" using assms(6) [of ?q]
    by (metis prod.collapse)
  then have "fst (slack_Send E client (Some (cr_config c)) ?req s) = Inr (sent [] (Some (JInvalid ''ok'')))"
    using url assms(4,5,7) by (simp add: slack_Send_def Let_def read_body_def raw_of_def)
  then show ?thesis
    using assms(1,2) worker_registry_lookup(4) [OF assms(8), of E order client guarded s]
    by (simp add: answer_def channel_provider_def scanConfig_def)
qed

text \<open>
  Slack's successes leave no trace among the attempts: Slack answers an accepted message with status 200 and the
  text \<^verbatim>\<open>ok\<close>, which is not JSON, so the insert of the attempt is refused by the driver and its error ignored; the
  notification is marked delivered and its attempts are what they were.
\<close>

theorem slack_success_unrecorded:
  assumes "unmarshal_deliver (tk_Body t) = Inr p" and "deliverable ax p (w_db w)" and "p_ChannelType p = ''slack''"
    and "find (\<lambda>c. cr_id c = p_ChannelConfigID p) (db_channels (w_db w)) = Some c"
    and "slack_ValidateConfig (Some (cr_config c)) = None" and "\<And>url. he_check_url E url = None"
    and "sr_FormatMode (buildSendRequest p (scanConfig c)) \<noteq> ''html''"
    and "\<And>q. fst (client q s) = Inr \<lparr>hp_status = 200, hp_body = ''ok''\<rparr>" and "he_parse E ''ok'' = None"
    and "pr_Type email = ''email''"
  shows "case HandleNotificationDeliver (Emit L now) (worker_registry E order client guarded email s) ax t w of (r, w') \<Rightarrow>
    r = None \<and> db_attempts (w_db w') = db_attempts (w_db w) \<and>
    db_notifs (w_db w') = update_where (\<lambda>n. n_ID n = p_NotificationID p)
      (delivered_row ax (sent [] (Some (JInvalid ''ok'')))) (db_notifs (w_db w))"
  using unparsable_success_unrecorded [OF assms(1,2)
      slack_ok_answer [where client = client and s = s and E = E and email = email, OF assms(3-10)]]
  by (simp add: raw_valid_def)

section \<open>Headers of a webhook\<close>

lemma header_names_ok:
  "validateWebhookHeaderNames hs b = None \<Longrightarrow> (n, v) \<in> set hs \<Longrightarrow> \<not> webhookHeaderBlockPattern n"
  by (induction hs b rule: validateWebhookHeaderNames.induct) (auto simp: Let_def split: if_splits)

lemma fold_headers:
  "(k, v) \<in> set (fold (\<lambda>(name, v). Header_Set name v) hs h) \<Longrightarrow>
    (k, v) \<in> set h \<or> (\<exists>name. (name, v) \<in> set hs \<and> k = CanonicalHeaderKey name)"
proof (induction hs arbitrary: h)
  case (Cons a hs)
  obtain n u where a: "a = (n, u)" by fastforce
  from Cons.IH [of "Header_Set n u h"] Cons.prems a
  consider "(k, v) \<in> set (Header_Set n u h)" | "\<exists>name. (name, v) \<in> set hs \<and> k = CanonicalHeaderKey name" by auto
  then show ?case using a by cases (auto simp: Header_Set_def)
qed simp

lemma notifyd_headers [simp]:
  "CanonicalHeaderKey ''X-Notifyd-Signature'' = ''X-Notifyd-Signature''"
  "CanonicalHeaderKey ''X-Notifyd-Timestamp'' = ''X-Notifyd-Timestamp''"
  "CanonicalHeaderKey ''Content-Type'' = ''Content-Type''"
  by code_simp+

text \<open>
  C26. A tenant cannot forge notifyd's headers: in the request of a webhook whose configuration was validated, every
  header of the \<^verbatim>\<open>X-Notifyd\<close> family, in any spelling, is the timestamp or the signature that notifyd computed with the
  configured secret, and there is none without a secret.
\<close>

theorem webhook_headers_authentic:
  assumes "validateWebhookConfig order cfg = None" and "\<And>hs. set (order hs) = set hs"
    and "(k, v) \<in> set (hq_headers (webhook_request E order cfg body))" and "HasPrefix (ToLower k) ''x-notifyd''"
  shows "wh_Secret cfg \<noteq> [] \<and>
    (let timestamp = show_int (unix_seconds (he_clock E 1))
     in (k, v) \<in> {(''X-Notifyd-Timestamp'', timestamp),
           (''X-Notifyd-Signature'', ''sha256='' @ SignHMAC (he_hmac E) (wh_Secret cfg) timestamp body)})"
proof -
  have names: "validateWebhookHeaderNames (order (wh_Headers cfg)) (wh_Secret cfg \<noteq> []) = None"
    using assms(1) by (simp add: validateWebhookConfig_def split: if_splits)
  have "(k, v) \<notin> set (fold (\<lambda>(name, v). Header_Set name v) (order (wh_Headers cfg)) (hq_headers (json_post (wh_URL cfg) body)))"
  proof
    assume "(k, v) \<in> set (fold (\<lambda>(name, v). Header_Set name v) (order (wh_Headers cfg)) (hq_headers (json_post (wh_URL cfg) body)))"
    from fold_headers [OF this] show False
    proof
      assume "(k, v) \<in> set (hq_headers (json_post (wh_URL cfg) body))"
      then have k: "k = ''Content-Type''" by (simp add: json_post_def Header_Set_def)
      have "\<not> HasPrefix (ToLower ''Content-Type'') ''x-notifyd''" by code_simp
      with k assms(4) show False by simp
    next
      assume "\<exists>name. (name, v) \<in> set (order (wh_Headers cfg)) \<and> k = CanonicalHeaderKey name"
      then obtain name where n: "(name, v) \<in> set (order (wh_Headers cfg))" "k = CanonicalHeaderKey name" by blast
      with header_names_ok [OF names n(1)] assms(4) show False
        by (simp add: webhookHeaderBlockPattern_def ToLower_canonical)
    qed
  qed
  then show ?thesis using assms(3)
    by (auto simp: webhook_request_def Let_def Header_Set_def split: if_splits)
qed

section \<open>Validated configurations\<close>

lemma decoded_config:
  "(case decode_struct f z raw of Inl err \<Rightarrow> Some (g err) | Inr cfg \<Rightarrow> h cfg) = None \<Longrightarrow>
    \<exists>cfg. decode_struct f z raw = Inr cfg"
  by (auto split: sum.splits)

lemma telegram_url: "hq_url (telegram_request E cfg req) = ''https://api.telegram.org/bot'' @ tg_BotToken cfg @ ''/sendMessage''"
  by (simp add: telegram_request_def json_post_def split: prod.splits)

lemma whatsapp_url: "hq_url (whatsapp_request E cfg req) = ''https://graph.facebook.com/v19.0/'' @ wa_PhoneNumberID cfg @ ''/messages''"
  by (simp add: whatsapp_request_def json_post_def Let_def)

text \<open>The address a send over this configuration posts to; an email has none.\<close>

definition config_url :: "('c \<Rightarrow> string) \<Rightarrow> (string \<Rightarrow> json \<Rightarrow> 'c \<Rightarrow> 'c option) \<Rightarrow> 'c \<Rightarrow> RawMessage \<Rightarrow> string option" where
  "config_url url set_field zero raw = (case decode_struct set_field zero raw of Inl _ \<Rightarrow> None | Inr cfg \<Rightarrow> Some (url cfg))"

text \<open>
  C40. A configuration that a provider's validation accepts is one its send can use, up to the syntax of its address:
  for JSON metadata, each of the six providers answers a send over it with a response, a success or a classified
  failure, unless \<^verbatim>\<open>http.NewRequest\<close> refuses the address the configuration gives, and then the send returns that error
  and has sent nothing. Sending an email, and sending where the address is well formed, never returns an error; an HTML
  message to Slack is refused before its address is looked at.
\<close>

theorem validated_config_sends:
  assumes "(validate, send, address) \<in> set
      [(discord_ValidateConfig, discord_Send E client, config_url (\<lambda>url. url) discord_field []),
       (telegram_ValidateConfig, telegram_Send E client,
          config_url (\<lambda>cfg. ''https://api.telegram.org/bot'' @ tg_BotToken cfg @ ''/sendMessage'') telegram_field telegram_zero),
       (whatsapp_ValidateConfig, whatsapp_Send E client,
          config_url (\<lambda>cfg. ''https://graph.facebook.com/v19.0/'' @ wa_PhoneNumberID cfg @ ''/messages'') whatsapp_field whatsapp_zero),
       (slack_ValidateConfig, slack_Send E client,
          if sr_FormatMode req = ''html'' then (\<lambda>_. None) else config_url (\<lambda>url. url) slack_field []),
       (webhook_ValidateConfig order, webhook_Send order E guarded, config_url wh_URL webhook_field webhook_zero),
       (email_ValidateConfig M, email_Send M server starttls, (\<lambda>_. None))]"
    and "validate raw = None" and "raw_valid (sr_Metadata req)"
  shows "case Option.bind (address raw) (he_check_url E) of
      None \<Rightarrow> \<exists>r. fst (send raw req s) = Inr r
    | Some err \<Rightarrow> send raw req s = (Inl (wrap ''create request: '' err []), s)"
proof -
  have body: "\<exists>b. buildWebhookPayload E req = Inr b"
    using assms(3) by (auto simp: buildWebhookPayload_def raw_valid_def Let_def split: option.splits json.splits)
  let ?ok = "\<lambda>send address. case Option.bind (address raw) (he_check_url E) of
      None \<Rightarrow> \<exists>r. fst (send raw req s) = Inr r
    | Some err \<Rightarrow> send raw req s = (Inl (wrap ''create request: '' err []), s)"
  have "?ok (discord_Send E client) (config_url (\<lambda>url. url) discord_field [])" if "discord_ValidateConfig raw = None"
    using decoded_config [OF that [unfolded discord_ValidateConfig_def]]
    by (auto simp: discord_Send_def config_url_def Let_def split: prod.splits sum.splits option.splits)
  moreover have "?ok (telegram_Send E client)
      (config_url (\<lambda>cfg. ''https://api.telegram.org/bot'' @ tg_BotToken cfg @ ''/sendMessage'') telegram_field telegram_zero)"
    if "telegram_ValidateConfig raw = None"
    using decoded_config [OF that [unfolded telegram_ValidateConfig_def]]
    by (auto simp: telegram_Send_def telegram_url config_url_def Let_def split: prod.splits sum.splits option.splits)
  moreover have "?ok (whatsapp_Send E client)
      (config_url (\<lambda>cfg. ''https://graph.facebook.com/v19.0/'' @ wa_PhoneNumberID cfg @ ''/messages'') whatsapp_field whatsapp_zero)"
    if "whatsapp_ValidateConfig raw = None"
    using decoded_config [OF that [unfolded whatsapp_ValidateConfig_def]]
    by (auto simp: whatsapp_Send_def whatsapp_url config_url_def Let_def split: prod.splits sum.splits option.splits)
  moreover have "?ok (slack_Send E client) (if sr_FormatMode req = ''html'' then (\<lambda>_. None) else config_url (\<lambda>url. url) slack_field [])"
    if "slack_ValidateConfig raw = None"
    using decoded_config [OF that [unfolded slack_ValidateConfig_def]]
    by (auto simp: slack_Send_def config_url_def Let_def split: prod.splits sum.splits option.splits)
  moreover have "?ok (webhook_Send order E guarded) (config_url wh_URL webhook_field webhook_zero)"
    if "webhook_ValidateConfig order raw = None"
    using decoded_config [OF that [unfolded webhook_ValidateConfig_def]] body
    by (auto simp: webhook_Send_def config_url_def Let_def split: prod.splits sum.splits option.splits)
  moreover have "?ok (email_Send M server starttls) (\<lambda>_. None)" if "email_ValidateConfig M raw = None"
    using decoded_config [OF that [unfolded email_ValidateConfig_def]]
    by (auto simp: email_Send_def split: prod.splits sum.splits option.splits)
  ultimately show ?thesis using assms(1,2) by auto
qed

section \<open>Slack's Markdown\<close>

text \<open>Text without asterisks, brackets or the placeholder's first byte is left alone.\<close>

lemma replace_all_none: "\<forall>c cs. c \<in> set s \<longrightarrow> p (c # cs) = None \<Longrightarrow> replace_all p s = s"
  by (induction s) auto

lemma plain_text_unchanged:
  assumes "set s \<inter> {CHR ''*'', CHR ''['', CHR 0xEE} = {}"
  shows "MarkdownToSlackMrkdwn s = s"
proof -
  have "replace_all p s = s"
    if "p \<in> {literal boldPlaceholder [], linkPattern, spanPattern ''**'' boldPlaceholder boldPlaceholder,
      spanPattern ''*'' ''_'' ''_'', literal boldPlaceholder ''*''}" for p
    by (rule replace_all_none) (use that assms in \<open>auto simp: literal_def linkPattern_def spanPattern_def strip_def
        HasPrefix_def boldPlaceholder_def\<close>)
  then show ?thesis by (simp add: MarkdownToSlackMrkdwn_def)
qed

lemma mrkdwn_example:
  "MarkdownToSlackMrkdwn ''see **disk** at *node1*: [log](http://l)'' = ''see *disk* at _node1_: <http://l|log>''"
  by code_simp

section \<open>Metrics\<close>

text \<open>
  What a channel declares and what it can report: a channel without capabilities says that metrics are not supported, and one with
  them returns a record for every message it has the identifier of. The record confirms the identifier only: WhatsApp declares read
  receipts but never reports one.
\<close>

lemmas metrics_defs = discord_FetchMetrics_def slack_FetchMetrics_def webhook_FetchMetrics_def email_FetchMetrics_def telegram_FetchMetrics_def
  whatsapp_FetchMetrics_def basic_metrics_def

lemma metrics_as_declared:
  "(discord_Capabilities = [] \<and> discord_FetchMetrics i = Inl (sentinel_err ErrMetricsNotSupported)) \<and>
   (slack_Capabilities = [] \<and> slack_FetchMetrics i = Inl (sentinel_err ErrMetricsNotSupported)) \<and>
   (webhook_Capabilities = [] \<and> webhook_FetchMetrics i = Inl (sentinel_err ErrMetricsNotSupported)) \<and>
   (email_Capabilities = [] \<and> email_FetchMetrics i = Inl (sentinel_err ErrMetricsNotSupported)) \<and>
   (CapDeliveryStatus \<in> set telegram_Capabilities \<and> (i \<noteq> [] \<longrightarrow> (\<exists>m. telegram_FetchMetrics i = Inr m \<and> mx_ProviderMsgID m = i)))"
  by (simp add: metrics_defs discord_Capabilities_def slack_Capabilities_def webhook_Capabilities_def email_Capabilities_def telegram_Capabilities_def)

lemma whatsapp_reports_no_receipts:
  "CapReadReceipts \<in> set whatsapp_Capabilities" "whatsapp_FetchMetrics i = Inr m \<Longrightarrow> mx_ReadAt m = None \<and> mx_DeliveredAt m = None"
  by (auto simp: metrics_defs whatsapp_Capabilities_def split: if_splits)

section \<open>A concrete worker\<close>

definition demo_http :: http_env where
  "demo_http = \<lparr>he_marshal = (\<lambda>_. ''{}''), he_parse = (\<lambda>s. if s = ''{}'' then Some (JObj []) else None), he_check_url = (\<lambda>_. None),
     he_hmac = (\<lambda>_ _. [1, 2]), he_uuid_String = (\<lambda>u. show_int (uint u)), he_rfc3339 = show_int, he_clock = (\<lambda>_. 0)\<rparr>"

definition demo_client :: "unit client" where
  "demo_client q s = (Inr \<lparr>hp_status = 200, hp_body = ''ok''\<rparr>, s)"

definition demo_email_provider :: Provider where
  "demo_email_provider = \<lparr>pr_Type = ''email'', pr_Send = (\<lambda>_ _. Inl (plain_error ''unused'')), pr_ValidateConfig = (\<lambda>_. None)\<rparr>"

definition demo_worker :: "goerr option \<times> world" where
  "demo_worker = HandleNotificationDeliver (Emit demo_lib 60)
     (worker_registry demo_http (\<lambda>h. h) demo_client demo_client demo_email_provider ()) (demo_ctx 0) demo_task demo_world"

lemma demo_deliverable_world: "deliverable (demo_ctx 0) received_payload (w_db demo_world)"
  by (simp add: demo_world_def demo_deliverable demo_db_def int4_def)

lemma demo_slack_config:
  "slack_ValidateConfig (Some (JObj [(''webhook_url'', JStr ''https://hooks.slack.com/x'')])) = None"
  by code_simp

lemmas demo_worker_simps = received_payload_def demo_payload_def demo_world_def demo_db_def demo_slack_config acme_slack_def
  demo_http_def demo_client_def demo_email_provider_def buildSendRequest_def scanConfig_def unmarshalDeliveryPrefs_def

theorem slack_success_unrecorded_witness:
  "db_attempts (w_db (snd demo_worker)) = [] \<and> map n_Status (db_notifs (w_db (snd demo_worker))) = [StatusDelivered]"
proof -
  obtain r w' where d: "demo_worker = (r, w')" by fastforce
  have "case demo_worker of (r, w') \<Rightarrow> r = None \<and> db_attempts (w_db w') = db_attempts (w_db demo_world) \<and>
      db_notifs (w_db w') = update_where (\<lambda>n. n_ID n = p_NotificationID received_payload)
        (delivered_row (demo_ctx 0) (sent [] (Some (JInvalid ''ok'')))) (db_notifs (w_db demo_world))"
    unfolding demo_worker_def
    by (rule slack_success_unrecorded [OF demo_unmarshal demo_deliverable_world, where c = acme_slack])
      (simp_all add: demo_worker_simps)
  then show ?thesis
    by (simp add: d demo_world_def demo_defs update_where_def delivered_row_def received_payload_def demo_payload_def)
qed

theorem delivered_needs_2xx_witness:
  "\<exists>q resp s1. demo_client q () = (Inr resp, s1) \<and> 200 \<le> hp_status resp \<and> hp_status resp < 300"
proof -
  have a: "answer (worker_registry demo_http (\<lambda>h. h) demo_client demo_client demo_email_provider ()) received_payload
      (w_db demo_world) = Some (Inr (sent [] (Some (JInvalid ''ok''))))"
    by (rule slack_ok_answer [where c = acme_slack]) (simp_all add: demo_worker_simps)
  obtain w' where "demo_worker = (None, w')"
    using unparsable_success_unrecorded [OF demo_unmarshal demo_deliverable_world a, of demo_lib 60]
    by (auto simp: demo_worker_def raw_valid_def)
  from delivered_needs_2xx [OF this [unfolded demo_worker_def] demo_unmarshal] show ?thesis
    by (simp add: received_payload_def demo_payload_def demo_email_provider_def IsValidChannelType_iff)
qed

definition demo_webhook :: webhookConfig where
  "demo_webhook = \<lparr>wh_URL = ''https://acme.test/in'', wh_Secret = ''k'', wh_Headers = [(''x-team'', ''ops'')]\<rparr>"

theorem webhook_headers_authentic_witness:
  "Header_Get ''X-Notifyd-Signature'' (hq_headers (webhook_request demo_http (\<lambda>h. h) demo_webhook ''{}'')) =
     ''sha256='' @ SignHMAC (he_hmac demo_http) ''k'' ''0'' ''{}''"
proof -
  let ?h = "hq_headers (webhook_request demo_http (\<lambda>h. h) demo_webhook ''{}'')"
  have v: "validateWebhookConfig (\<lambda>h. h) demo_webhook = None" by code_simp
  have "map_of ?h ''X-Notifyd-Signature'' \<noteq> None" by (simp add: webhook_request_def Let_def map_of_Header_Set demo_webhook_def)
  then obtain u where u: "map_of ?h ''X-Notifyd-Signature'' = Some u" by blast
  have "HasPrefix (ToLower ''X-Notifyd-Signature'') ''x-notifyd''" by code_simp
  from webhook_headers_authentic [OF v _ map_of_SomeD [OF u] this]
  have "u = ''sha256='' @ SignHMAC (he_hmac demo_http) (wh_Secret demo_webhook) (show_int (unix_seconds (he_clock demo_http 1))) ''{}''"
    by (simp add: Let_def)
  moreover have "show_int (unix_seconds (he_clock demo_http 1)) = ''0''" by code_simp
  ultimately show ?thesis using u by (simp add: Header_Get_def demo_webhook_def)
qed

theorem validated_config_sends_witness:
  "(\<exists>r. fst (slack_Send demo_http demo_client (Some (JObj [(''webhook_url'', JStr ''https://hooks.slack.com/x'')])) demo_mail_request ()) = Inr r) \<and>
   discord_Send (demo_http\<lparr>he_check_url := (\<lambda>u. if u = ''%zz'' then Some (plain_error ''invalid URL escape'') else None)\<rparr>) demo_client
     (Some (JObj [(''webhook_url'', JStr ''%zz'')])) demo_mail_request () =
   (Inl (wrap ''create request: '' (plain_error ''invalid URL escape'') []), ())"
proof
  have "raw_valid (sr_Metadata demo_mail_request)" by (simp add: demo_mail_request_def raw_valid_def)
  note ok = validated_config_sends [OF _ _ this]
  show "\<exists>r. fst (slack_Send demo_http demo_client (Some (JObj [(''webhook_url'', JStr ''https://hooks.slack.com/x'')])) demo_mail_request ()) = Inr r"
    using ok [where validate = slack_ValidateConfig and E = demo_http and client = demo_client and s = "()"
        and raw = "Some (JObj [(''webhook_url'', JStr ''https://hooks.slack.com/x'')])" and send = "slack_Send demo_http demo_client"
        and address = "if sr_FormatMode demo_mail_request = ''html'' then (\<lambda>_. None) else config_url (\<lambda>url. url) slack_field []"]
      demo_slack_config by (simp add: demo_http_def split: option.splits bind_splits)
  let ?E = "demo_http\<lparr>he_check_url := (\<lambda>u. if u = ''%zz'' then Some (plain_error ''invalid URL escape'') else None)\<rparr>"
  have "discord_ValidateConfig (Some (JObj [(''webhook_url'', JStr ''%zz'')])) = None"
    and "config_url (\<lambda>url. url) discord_field [] (Some (JObj [(''webhook_url'', JStr ''%zz'')])) = Some ''%zz''" by code_simp+
  then show "discord_Send ?E demo_client (Some (JObj [(''webhook_url'', JStr ''%zz'')])) demo_mail_request () =
     (Inl (wrap ''create request: '' (plain_error ''invalid URL escape'') []), ())"
    using ok [where validate = discord_ValidateConfig and E = ?E and client = demo_client and s = "()"
        and raw = "Some (JObj [(''webhook_url'', JStr ''%zz'')])" and send = "discord_Send ?E demo_client"
        and address = "config_url (\<lambda>url. url) discord_field []"] by simp
qed

end
