(* ===== verification/Auth.thy ===== *)
theory Auth
  imports Services Quota
begin

text \<open>
  Requests and responses of the HTTP API, and who may make them: the claims of a token and the JWT manager
  (\<^verbatim>\<open>internal/auth/claims.go\<close>, \<^verbatim>\<open>jwt.go\<close>), the three authenticating middlewares (\<^verbatim>\<open>middleware.go\<close>, \<^verbatim>\<open>admin_middleware.go\<close>,
  \<^verbatim>\<open>hmac_middleware.go\<close>), the response helpers (\<^verbatim>\<open>pkg/response\<close>), pagination and the token endpoint
  (\<^verbatim>\<open>internal/handler/pagination.go\<close>, \<^verbatim>\<open>auth_handler.go\<close>). The JWT library, bcrypt, SHA-256, HMAC, the JSON parsers and the
  parsers of identifiers and instants are arguments, gathered in \<open>api_env\<close>.
\<close>

section \<open>Claims\<close>

record TenantClaims =
  tc_Issuer :: string
  tc_Subject :: string
  tc_ExpiresAt :: time
  tc_IssuedAt :: time
  tc_NotBefore :: time
  tc_ID :: string
  tc_TenantID :: uuid
  tc_TenantSlug :: string
  tc_IsAdmin :: bool

record JWTManager =
  jm_signingKey :: string
  jm_issuer :: string
  jm_expiration :: duration

text \<open>
  The JWT library: signing with HS256, and parsing, which asks a function for the key of a token's algorithm (its name
  and whether it is one of the HMAC methods) and returns the claims with the token's validity.
\<close>

record jwt_lib =
  jl_SignedString :: "string \<Rightarrow> TenantClaims \<Rightarrow> goerr + string"
  jl_ParseWithClaims :: "(string \<Rightarrow> bool \<Rightarrow> goerr + string) \<Rightarrow> string \<Rightarrow> time \<Rightarrow> goerr + TenantClaims \<times> bool"

section \<open>Requests and responses\<close>

text \<open>
  A request: \<open>rq_body\<close> is what the client sends, or the error of reading it; \<open>rq_param\<close> is \<^verbatim>\<open>chi.URLParam\<close>, \<open>rq_query\<close> is
  \<^verbatim>\<open>r.URL.Query().Get\<close>, and \<open>rq_claims\<close> the claims the middleware put into the context.
\<close>

record api_request =
  rq_method :: string
  rq_uri :: string
  rq_path :: string
  rq_headers :: "(string \<times> string) list"
  rq_body :: "goerr + string"
  rq_param :: "string \<Rightarrow> string"
  rq_query :: "string \<Rightarrow> string"
  rq_claims :: "TenantClaims option"

text \<open>
  The bodies of responses. Fields tagged \<^verbatim>\<open>json:"-"\<close> are blanked by the functions \<open>visible_*\<close>, so a body holds what the
  client can read.
\<close>

datatype api_body =
    NoBody
  | ErrorBody string
  | TokenBody string string
  | NotificationBody Notification
  | MultiBody "Notification list" "string list"
  | NotificationsBody "Notification list" int int int
  | AttemptsBody "DeliveryAttempt list"
  | MetricBody DeliveryMetric
  | KeysBody "APIKey list"
  | KeyCreatedBody APIKey string
  | ChannelBody ChannelConfig
  | ChannelsBody "ChannelConfig list"
  | EndpointBody WebhookEndpoint
  | EndpointsBody "WebhookEndpoint list"
  | EndpointCreatedBody WebhookEndpoint string
  | TenantBody Tenant
  | TenantsBody "Tenant list" int int int
  | TenantCreatedBody CreateTenantResult
  | EntitlementsBody Entitlements
  | UsageBody UsageReport
  | HealthBody string "(string \<times> string) list"

record api_response =
  ar_status :: int
  ar_body :: api_body

definition response_JSON :: "int \<Rightarrow> api_body \<Rightarrow> api_response" where
  "response_JSON status data = \<lparr>ar_status = status, ar_body = data\<rparr>"

definition response_Error :: "int \<Rightarrow> string \<Rightarrow> api_response" where
  "response_Error status msg = response_JSON status (ErrorBody msg)"

lemma response_sel [simp]:
  "ar_status (response_JSON st b) = st" "ar_body (response_JSON st b) = b"
  "ar_status (response_Error st m) = st" "ar_body (response_Error st m) = ErrorBody m"
  by (simp_all add: response_JSON_def response_Error_def)

type_synonym 's handler = "api_request \<Rightarrow> 's \<Rightarrow> api_response \<times> 's"

definition visible_key :: "APIKey \<Rightarrow> APIKey" where
  "visible_key k = k\<lparr>k_APISecretHash := []\<rparr>"

definition visible_tenant :: "Tenant \<Rightarrow> Tenant" where
  "visible_tenant t = t\<lparr>t_APISecret := []\<rparr>"

definition visible_endpoint :: "WebhookEndpoint \<Rightarrow> WebhookEndpoint" where
  "visible_endpoint e = e\<lparr>we_Secret := []\<rparr>"

section \<open>The environment\<close>

record api_env =
  ap_decode :: "string \<Rightarrow> RawMessage"
  ap_parse :: "string \<Rightarrow> json option"
  ap_uuid_Parse :: "string \<Rightarrow> goerr + uuid"
  ap_uuid_String :: "uuid \<Rightarrow> string"
  ap_time_Parse :: "string \<Rightarrow> goerr + time"
  ap_duration_String :: "duration \<Rightarrow> string"
  ap_jwt :: jwt_lib
  ap_mgr :: JWTManager
  ap_adminAPIKey :: string
  ap_adminAPISecret :: string
  ap_svcSecret :: string
  ap_sha256 :: "string \<Rightarrow> byte list"
  ap_hmac :: "string \<Rightarrow> string \<Rightarrow> byte list"
  ap_bcrypt :: "string \<Rightarrow> goerr + string"
  ap_bcrypt_Compare :: "string \<Rightarrow> string \<Rightarrow> goerr option"
  ap_rand :: "nat \<Rightarrow> nat \<Rightarrow> goerr + byte list"
  ap_newID :: "nat \<Rightarrow> uuid"
  ap_clock :: "nat \<Rightarrow> time"
  ap_checkURL :: "string \<Rightarrow> goerr option"
  ap_registry :: Registry
  ap_lib :: lib
  ap_maxRetries :: int
  ap_send_env :: "nat \<Rightarrow> send_env"
  ap_order :: "nat \<Rightarrow> nat list"
  ap_billingURL :: string
  ap_dbPing :: "goerr option"
  ap_redisPing :: "goerr option"

section \<open>Tokens\<close>

text \<open>\<^verbatim>\<open>jwt.NewNumericDate\<close> truncates to whole seconds.\<close>

definition NewNumericDate :: "time \<Rightarrow> time" where
  "NewNumericDate t = (t div second_ns) * second_ns"

definition GenerateToken :: "api_env \<Rightarrow> uuid \<Rightarrow> string \<Rightarrow> bool \<Rightarrow> goerr + string" where
  "GenerateToken E tenantID tenantSlug isAdmin =
     (let now = ap_clock E 0; m = ap_mgr E
      in jl_SignedString (ap_jwt E) (jm_signingKey m)
           \<lparr>tc_Issuer = jm_issuer m, tc_Subject = ap_uuid_String E tenantID,
            tc_ExpiresAt = NewNumericDate (now + jm_expiration m), tc_IssuedAt = NewNumericDate now,
            tc_NotBefore = NewNumericDate now, tc_ID = ap_uuid_String E (ap_newID E 0), tc_TenantID = tenantID,
            tc_TenantSlug = tenantSlug, tc_IsAdmin = isAdmin\<rparr>)"

definition token_key :: "api_env \<Rightarrow> string \<Rightarrow> bool \<Rightarrow> goerr + string" where
  "token_key E alg is_hmac =
     (if \<not> is_hmac then Inl (plain_error (''unexpected signing method: '' @ alg)) else Inr (jm_signingKey (ap_mgr E)))"

definition ValidateToken :: "api_env \<Rightarrow> string \<Rightarrow> goerr + TenantClaims" where
  "ValidateToken E tokenString =
     (case jl_ParseWithClaims (ap_jwt E) (token_key E) tokenString (ap_clock E 0) of
        Inl err \<Rightarrow> Inl (wrap ''invalid token: '' err [])
      | Inr (claims, valid) \<Rightarrow> if \<not> valid then Inl (plain_error ''invalid token claims'') else Inr claims)"

section \<open>Middlewares\<close>

text \<open>\<^verbatim>\<open>strings.SplitN(s, " ", 2)\<close>: both parts when there is a space.\<close>

definition cut_space :: "string \<Rightarrow> (string \<times> string) option" where
  "cut_space s = map_option (\<lambda>i. (take i s, drop (Suc i) s)) (index_of (CHR '' '') s)"

definition auth_Middleware :: "api_env \<Rightarrow> 's handler \<Rightarrow> 's handler" where
  "auth_Middleware E h r s =
     (let authHeader = Header_Get ''Authorization'' (rq_headers r)
      in if authHeader = [] then (response_Error 401 ''missing authorization header'', s)
         else case cut_space authHeader of
           None \<Rightarrow> (response_Error 401 ''invalid authorization format'', s)
         | Some (scheme, token) \<Rightarrow>
             if ToLower scheme \<noteq> ''bearer'' then (response_Error 401 ''invalid authorization format'', s)
             else case ValidateToken E token of
               Inl _ \<Rightarrow> (response_Error 401 ''invalid or expired token'', s)
             | Inr claims \<Rightarrow> h (r\<lparr>rq_claims := Some claims\<rparr>) s)"

definition AdminMiddleware :: "'s handler \<Rightarrow> 's handler" where
  "AdminMiddleware h r s = (case rq_claims r of
     None \<Rightarrow> (response_Error 403 ''admin access required'', s)
   | Some claims \<Rightarrow> if \<not> tc_IsAdmin claims then (response_Error 403 ''admin access required'', s) else h r s)"

definition maxBodyBytes :: nat where
  "maxBodyBytes = 1048576"

definition timestampWindow :: duration where
  "timestampWindow = 5 * minute_ns"

text \<open>\<^verbatim>\<open>io.ReadAll\<close> of a \<^verbatim>\<open>MaxBytesReader\<close>.\<close>

definition read_all :: "api_request \<Rightarrow> goerr + string" where
  "read_all r = (case rq_body r of
     Inl err \<Rightarrow> Inl err
   | Inr b \<Rightarrow> if length b > maxBodyBytes then Inl (plain_error ''http: request body too large'') else Inr b)"

definition canonical_request :: "api_env \<Rightarrow> string \<Rightarrow> string \<Rightarrow> string \<Rightarrow> string \<Rightarrow> string" where
  "canonical_request E method uri tsHeader body =
     method @ newline @ uri @ newline @ tsHeader @ newline @ hex_encode (ap_sha256 E body)"

definition service_signature :: "api_env \<Rightarrow> string \<Rightarrow> string \<Rightarrow> string \<Rightarrow> string \<Rightarrow> string" where
  "service_signature E method uri tsHeader body =
     hex_encode (ap_hmac E (ap_svcSecret E) (canonical_request E method uri tsHeader body))"

definition HMACMiddleware :: "api_env \<Rightarrow> 's handler \<Rightarrow> 's handler" where
  "HMACMiddleware E h r s =
     (if ap_svcSecret E = [] then (response_Error 503 ''service auth not configured'', s)
      else case read_all r of
        Inl _ \<Rightarrow> (response_Error 400 ''failed to read body'', s)
      | Inr body \<Rightarrow>
          (let tsHeader = Header_Get ''X-Service-Timestamp'' (rq_headers r)
           in if tsHeader = [] then (response_Error 401 ''invalid credentials'', s)
              else case ap_time_Parse E tsHeader of
                Inl _ \<Rightarrow> (response_Error 401 ''invalid credentials'', s)
              | Inr ts \<Rightarrow>
                  (let diff = ap_clock E 0 - ts
                   in if diff > timestampWindow \<or> diff < - timestampWindow then (response_Error 401 ''invalid credentials'', s)
                      else
                        (let expected = service_signature E (rq_method r) (rq_uri r) tsHeader body;
                             provided = Header_Get ''X-Service-Signature'' (rq_headers r)
                         in if provided = [] \<or> expected \<noteq> provided then (response_Error 401 ''invalid credentials'', s)
                            else h (r\<lparr>rq_body := Inr body\<rparr>) s))))"

section \<open>Decoding requests\<close>

text \<open>\<^verbatim>\<open>json.NewDecoder(r.Body).Decode\<close> reads the first value of the limited body.\<close>

definition decode_body :: "api_env \<Rightarrow> (string \<Rightarrow> json \<Rightarrow> 'a \<Rightarrow> 'a option) \<Rightarrow> 'a \<Rightarrow> api_request \<Rightarrow> goerr + 'a" where
  "decode_body E set_field zero r = (case rq_body r of
     Inl err \<Rightarrow> Inl err
   | Inr b \<Rightarrow> decode_struct set_field zero (ap_decode E (take maxBodyBytes b)))"

text \<open>\<^verbatim>\<open>strconv.Atoi\<close>.\<close>

fun digits_value :: "int \<Rightarrow> string \<Rightarrow> int option" where
  "digits_value acc [] = Some acc"
| "digits_value acc (c # cs) = (let n = of_char c in
     if 48 \<le> n \<and> n \<le> 57 then digits_value (10 * acc + (n - 48)) cs else None)"

definition Atoi :: "string \<Rightarrow> int option" where
  "Atoi s =
     (let (neg, ds) = (case s of
            [] \<Rightarrow> (False, [])
          | c # cs \<Rightarrow> if c = CHR ''-'' then (True, cs) else if c = CHR ''+'' then (False, cs) else (False, s))
      in if ds = [] then None
         else case digits_value 0 ds of
                None \<Rightarrow> None
              | Some v \<Rightarrow> (let i = (if neg then - v else v) in if fits64 i then Some i else None))"

definition parsePagination :: "api_request \<Rightarrow> int \<times> int" where
  "parsePagination r =
     ((case Atoi (rq_query r ''limit'') of None \<Rightarrow> 20 | Some v \<Rightarrow> if v > 0 \<and> v \<le> 100 then v else 20),
      (case Atoi (rq_query r ''offset'') of None \<Rightarrow> 0 | Some v \<Rightarrow> if v \<ge> 0 then v else 0))"

section \<open>The token endpoint\<close>

record tokenRequest =
  tr_APIKey :: string
  tr_APISecret :: string

definition token_field :: "string \<Rightarrow> json \<Rightarrow> tokenRequest \<Rightarrow> tokenRequest option" where
  "token_field k v c =
     (if k = ''api_key'' then map_option (\<lambda>s. c\<lparr>tr_APIKey := s\<rparr>) (decode_string v (tr_APIKey c))
      else if k = ''api_secret'' then map_option (\<lambda>s. c\<lparr>tr_APISecret := s\<rparr>) (decode_string v (tr_APISecret c))
      else Some c)"

definition token_response :: "api_env \<Rightarrow> uuid \<Rightarrow> string \<Rightarrow> bool \<Rightarrow> api_response" where
  "token_response E tenantID slug isAdmin = (case GenerateToken E tenantID slug isAdmin of
     Inl _ \<Rightarrow> response_Error 500 ''failed to generate token''
   | Inr token \<Rightarrow> response_JSON 200 (TokenBody token (ap_duration_String E (jm_expiration (ap_mgr E)))))"

definition issueAdminToken :: "api_env \<Rightarrow> string \<Rightarrow> api_response" where
  "issueAdminToken E providedSecret =
     (if providedSecret \<noteq> ap_adminAPISecret E then response_Error 401 ''invalid credentials''
      else token_response E uuid_Nil [] True)"

definition issueTenantToken :: "api_env \<Rightarrow> tokenRequest \<Rightarrow> 'a world_scheme \<Rightarrow> api_response \<times> 'a world_scheme" where
  "issueTenantToken E req w = (case on_db (GetByAPIKey (tr_APIKey req)) w of
     (Inl _, w1) \<Rightarrow> (response_Error 401 ''invalid credentials'', w1)
   | (Inr key, w1) \<Rightarrow>
       if k_RevokedAt key \<noteq> None then (response_Error 401 ''invalid credentials'', w1)
       else case on_db (Tenant_GetByID (k_TenantID key)) w1 of
         (Inl _, w2) \<Rightarrow> (response_Error 401 ''invalid credentials'', w2)
       | (Inr tenant, w2) \<Rightarrow>
           if \<not> t_IsActive tenant then (response_Error 403 ''tenant is disabled'', w2)
           else (case ap_bcrypt_Compare E (k_APISecretHash key) (tr_APISecret req) of
                   Some _ \<Rightarrow> (response_Error 401 ''invalid credentials'', w2)
                 | None \<Rightarrow> (token_response E (t_ID tenant) (t_Slug tenant) False, w2)))"

definition IssueToken :: "api_env \<Rightarrow> 'a world_scheme handler" where
  "IssueToken E r w = (case decode_body E token_field \<lparr>tr_APIKey = [], tr_APISecret = []\<rparr> r of
     Inl _ \<Rightarrow> (response_Error 400 ''invalid request body'', w)
   | Inr req \<Rightarrow>
       if tr_APIKey req = [] \<or> tr_APISecret req = [] then (response_Error 400 ''api_key and api_secret are required'', w)
       else if ap_adminAPIKey E \<noteq> [] \<and> tr_APIKey req = ap_adminAPIKey E then (issueAdminToken E (tr_APISecret req), w)
       else issueTenantToken E req w)"

end
