(* ===== verification/Handlers.thy ===== *)
theory Handlers
  imports Auth
begin

text \<open>
  The HTTP handlers (\<^verbatim>\<open>internal/handler\<close>) over the services, and the route table (\<^verbatim>\<open>internal/router/router.go\<close>): which middlewares
  stand before which handler. \<open>with_claims\<close>, \<open>with_id\<close> and \<open>with_body\<close> are the three checks the handlers open with,
  \<open>ladder\<close> is their chain of \<^verbatim>\<open>errors.Is\<close> tests. Matching a path against the table is chi's business; here a request comes with its route.
\<close>

section \<open>Shared steps\<close>

definition with_claims :: "api_request \<Rightarrow> 's \<Rightarrow> (TenantClaims \<Rightarrow> api_response \<times> 's) \<Rightarrow> api_response \<times> 's" where
  "with_claims r s f = (case rq_claims r of None \<Rightarrow> (response_Error 401 ''unauthorized'', s) | Some claims \<Rightarrow> f claims)"

definition with_id :: "api_env \<Rightarrow> string \<Rightarrow> string \<Rightarrow> api_request \<Rightarrow> 's \<Rightarrow> (uuid \<Rightarrow> api_response \<times> 's) \<Rightarrow> api_response \<times> 's" where
  "with_id E param msg r s f = (case ap_uuid_Parse E (rq_param r param) of
     Inl _ \<Rightarrow> (response_Error 400 msg, s) | Inr i \<Rightarrow> f i)"

definition with_body :: "api_env \<Rightarrow> (string \<Rightarrow> json \<Rightarrow> 'b \<Rightarrow> 'b option) \<Rightarrow> 'b \<Rightarrow> api_request \<Rightarrow> 's \<Rightarrow> ('b \<Rightarrow> api_response \<times> 's) \<Rightarrow>
    api_response \<times> 's" where
  "with_body E set_field zero r s f = (case decode_body E set_field zero r of
     Inl _ \<Rightarrow> (response_Error 400 ''invalid request body'', s) | Inr input \<Rightarrow> f input)"

fun ladder :: "(sentinel \<times> int \<times> string) list \<Rightarrow> goerr \<Rightarrow> api_response" where
  "ladder [] err = response_Error 500 ''internal server error''"
| "ladder ((s, status, msg) # rest) err = (if errors_Is err s then response_Error status msg else ladder rest err)"

text \<open>A service call with its error ladder and the response of a success.\<close>

definition respond :: "(sentinel \<times> int \<times> string) list \<Rightarrow> ('r \<Rightarrow> api_response) \<Rightarrow> (goerr + 'r) \<times> 's \<Rightarrow> api_response \<times> 's" where
  "respond l ok x = (case x of (Inl err, s) \<Rightarrow> (ladder l err, s) | (Inr v, s) \<Rightarrow> (ok v, s))"

definition respond_done :: "(sentinel \<times> int \<times> string) list \<Rightarrow> goerr option \<times> 's \<Rightarrow> api_response \<times> 's" where
  "respond_done l x = (case x of
     (Some err, s) \<Rightarrow> (ladder l err, s) | (None, s) \<Rightarrow> (\<lparr>ar_status = 204, ar_body = NoBody\<rparr>, s))"

definition not_found :: "string \<Rightarrow> (sentinel \<times> int \<times> string) list" where
  "not_found msg = [(ErrNotFound, 404, msg)]"

text \<open>Fields of the request structs that need a parser of their own.\<close>

definition decode_uuid :: "api_env \<Rightarrow> json \<Rightarrow> uuid \<Rightarrow> uuid option" where
  "decode_uuid E v old = (case v of
     JStr s \<Rightarrow> (case ap_uuid_Parse E s of Inl _ \<Rightarrow> None | Inr u \<Rightarrow> Some u) | JNull \<Rightarrow> Some old | _ \<Rightarrow> None)"

definition decode_time :: "api_env \<Rightarrow> json \<Rightarrow> time \<Rightarrow> time option" where
  "decode_time E v old = (case v of
     JStr s \<Rightarrow> (case ap_time_Parse E s of Inl _ \<Rightarrow> None | Inr t \<Rightarrow> Some t) | JNull \<Rightarrow> Some old | _ \<Rightarrow> None)"

definition decode_prefs :: "json \<Rightarrow> DeliveryPreferences option option" where
  "decode_prefs v = (case unmarshal_prefs_ptr (Some v) of Inl _ \<Rightarrow> None | Inr p \<Rightarrow> Some p)"

section \<open>Notifications\<close>

definition send_zero :: SendNotificationInput where
  "send_zero = \<lparr>sni_ChannelConfigID = uuid_Nil, sni_Subject = None, sni_Body = [], sni_Metadata = None\<rparr>"

definition send_field :: "api_env \<Rightarrow> string \<Rightarrow> json \<Rightarrow> SendNotificationInput \<Rightarrow> SendNotificationInput option" where
  "send_field E k v c =
     (if k = ''channel_config_id'' then map_option (\<lambda>u. c\<lparr>sni_ChannelConfigID := u\<rparr>) (decode_uuid E v (sni_ChannelConfigID c))
      else if k = ''subject'' then map_option (\<lambda>p. c\<lparr>sni_Subject := p\<rparr>) (decode_ptr (\<lambda>j. decode_string j []) v)
      else if k = ''body'' then map_option (\<lambda>s. c\<lparr>sni_Body := s\<rparr>) (decode_string v (sni_Body c))
      else if k = ''metadata'' then Some (c\<lparr>sni_Metadata := unmarshal_raw v\<rparr>)
      else Some c)"

definition multi_field :: "api_env \<Rightarrow> string \<Rightarrow> json \<Rightarrow> SendMultiInput \<Rightarrow> SendMultiInput option" where
  "multi_field E k v c =
     (if k = ''channels'' then decode_slice (\<lambda>j. decode_value (send_field E) j send_zero) v else Some c)"

definition NotificationHandler_Send :: "api_env \<Rightarrow> 'a world_scheme handler" where
  "NotificationHandler_Send E r w = with_claims r w (\<lambda>claims. with_body E (send_field E) send_zero r w (\<lambda>input.
     if sni_ChannelConfigID input = uuid_Nil then (response_Error 400 ''channel_config_id is required'', w)
     else if sni_Body input = [] then (response_Error 400 ''body is required'', w)
     else respond [(ErrNotFound, 404, ''channel config not found''), (ErrValidationFailed, 400, ''validation failed''),
            (ErrChannelNotInPlan, 403, ''CHANNEL_NOT_IN_PLAN'')]
          (\<lambda>notif. response_JSON 202 (NotificationBody notif))
          (Send (ap_lib E) (ap_maxRetries E) (ap_send_env E 0) (tc_TenantID claims) input w)))"

definition sanitizeNotificationError :: "goerr \<Rightarrow> string" where
  "sanitizeNotificationError err =
     (if errors_Is err ErrNotFound then ''channel config not found''
      else if errors_Is err ErrValidationFailed then ''validation failed''
      else if errors_Is err ErrUnsupportedChannel then ''unsupported channel''
      else if errors_Is err ErrChannelNotInPlan then ''CHANNEL_NOT_IN_PLAN''
      else ''internal server error'')"

definition NotificationHandler_SendMulti :: "api_env \<Rightarrow> 'a world_scheme handler" where
  "NotificationHandler_SendMulti E r w = with_claims r w (\<lambda>claims. with_body E (multi_field E) [] r w (\<lambda>channels.
     if length channels = 0 \<or> length channels > 50 then (response_Error 400 ''channels count must be between 1 and 50'', w)
     else case SendMulti (ap_lib E) (ap_maxRetries E) (ap_send_env E) (tc_TenantID claims) channels (ap_order E (length channels)) w of
            ((results, errs), w1) \<Rightarrow> (response_JSON 202 (MultiBody results (map sanitizeNotificationError errs)), w1)))"

text \<open>The lookup shared by the three handlers of one notification: a foreign one looks like a missing one.\<close>

definition own_notification :: "api_env \<Rightarrow> api_request \<Rightarrow> 'a world_scheme \<Rightarrow>
    (uuid \<Rightarrow> Notification \<Rightarrow> 'a world_scheme \<Rightarrow> api_response \<times> 'a world_scheme) \<Rightarrow> api_response \<times> 'a world_scheme" where
  "own_notification E r w f = with_claims r w (\<lambda>claims. with_id E ''notificationID'' ''invalid notification ID'' r w (\<lambda>i.
     case on_db (NotificationService_GetByID i) w of
       (Inl err, w1) \<Rightarrow> (ladder (not_found ''notification not found'') err, w1)
     | (Inr notif, w1) \<Rightarrow>
         if n_TenantID notif \<noteq> tc_TenantID claims then (response_Error 404 ''notification not found'', w1)
         else f i notif w1))"

definition NotificationHandler_GetByID :: "api_env \<Rightarrow> 'a world_scheme handler" where
  "NotificationHandler_GetByID E r w =
     own_notification E r w (\<lambda>i notif w1. (response_JSON 200 (NotificationBody notif), w1))"

definition NotificationHandler_ListAttempts :: "api_env \<Rightarrow> 'a world_scheme handler" where
  "NotificationHandler_ListAttempts E r w =
     own_notification E r w (\<lambda>i notif w1. respond [] (\<lambda>l. response_JSON 200 (AttemptsBody l)) (on_db (Attempt_ListByNotification i) w1))"

definition NotificationHandler_GetMetrics :: "api_env \<Rightarrow> 'a world_scheme handler" where
  "NotificationHandler_GetMetrics E r w =
     own_notification E r w (\<lambda>i notif w1. respond (not_found ''delivery metrics not yet available'')
       (\<lambda>m. response_JSON 200 (MetricBody m)) (on_db (GetByNotificationID i) w1))"

definition NotificationHandler_List :: "api_env \<Rightarrow> 'a world_scheme handler" where
  "NotificationHandler_List E r w = with_claims r w (\<lambda>claims.
     (case parsePagination r of (limit, offset) \<Rightarrow>
        (let s = rq_query r ''status''; c = rq_query r ''channel''
         in if s \<noteq> [] \<and> \<not> IsValidNotificationStatus s then (response_Error 400 ''invalid status filter'', w)
            else if c \<noteq> [] \<and> \<not> IsValidChannelType c then (response_Error 400 ''invalid channel filter'', w)
            else respond [] (\<lambda>(ns, n). response_JSON 200 (NotificationsBody ns n limit offset))
              (on_db (NotificationService_List \<lparr>nf_TenantID = tc_TenantID claims,
                  nf_Status = (if s \<noteq> [] then Some s else None), nf_Channel = (if c \<noteq> [] then Some c else None),
                  nf_Limit = limit, nf_Offset = offset\<rparr>) w))))"

section \<open>API keys\<close>

definition APIKeyHandler_List :: "api_env \<Rightarrow> 'a world_scheme handler" where
  "APIKeyHandler_List E r w = with_claims r w (\<lambda>claims.
     respond [] (\<lambda>ks. response_JSON 200 (KeysBody (map visible_key ks)))
       (on_db (APIKeyService_ListByTenant (tc_TenantID claims)) w))"

definition APIKeyHandler_Create :: "api_env \<Rightarrow> 'a world_scheme handler" where
  "APIKeyHandler_Create E r w = with_claims r w (\<lambda>claims.
     with_body E (\<lambda>k v label. if k = ''label'' then decode_string v label else Some label) [] r w (\<lambda>label.
       respond [(ErrKeyLimitReached, 403, ''KEY_LIMIT_REACHED'')]
         (\<lambda>(key, rawSecret). response_JSON 201 (KeyCreatedBody (visible_key key) rawSecret))
         (on_db (APIKeyService_Create (ap_rand E 1) (ap_rand E 2) (ap_bcrypt E) (ap_clock E 1) (ap_clock E 2) (ap_newID E 1)
            (tc_TenantID claims) label) w)))"

definition APIKeyHandler_Revoke :: "api_env \<Rightarrow> 'a world_scheme handler" where
  "APIKeyHandler_Revoke E r w = with_claims r w (\<lambda>claims. with_id E ''keyID'' ''invalid key ID'' r w (\<lambda>i.
     respond_done (not_found ''key not found'') (on_db (APIKeyService_Revoke i (tc_TenantID claims)) w)))"

section \<open>Channels\<close>

definition create_channel_zero :: CreateChannelConfigInput where
  "create_channel_zero = \<lparr>cci_Channel = [], cci_Name = [], cci_Config = None, cci_DeliveryPrefs = None\<rparr>"

definition create_channel_field :: "string \<Rightarrow> json \<Rightarrow> CreateChannelConfigInput \<Rightarrow> CreateChannelConfigInput option" where
  "create_channel_field k v c =
     (if k = ''channel'' then map_option (\<lambda>s. c\<lparr>cci_Channel := s\<rparr>) (decode_string v (cci_Channel c))
      else if k = ''name'' then map_option (\<lambda>s. c\<lparr>cci_Name := s\<rparr>) (decode_string v (cci_Name c))
      else if k = ''config'' then Some (c\<lparr>cci_Config := unmarshal_raw v\<rparr>)
      else if k = ''delivery_prefs'' then map_option (\<lambda>p. c\<lparr>cci_DeliveryPrefs := p\<rparr>) (decode_prefs v)
      else Some c)"

definition update_channel_zero :: UpdateChannelConfigInput where
  "update_channel_zero = \<lparr>uci_Name = None, uci_Config = None, uci_IsActive = None, uci_DeliveryPrefs = None\<rparr>"

definition update_channel_field :: "string \<Rightarrow> json \<Rightarrow> UpdateChannelConfigInput \<Rightarrow> UpdateChannelConfigInput option" where
  "update_channel_field k v c =
     (if k = ''name'' then map_option (\<lambda>p. c\<lparr>uci_Name := p\<rparr>) (decode_ptr (\<lambda>j. decode_string j []) v)
      else if k = ''config'' then Some (c\<lparr>uci_Config := (if v = JNull then None else Some (unmarshal_raw v))\<rparr>)
      else if k = ''is_active'' then map_option (\<lambda>p. c\<lparr>uci_IsActive := p\<rparr>) (decode_ptr (\<lambda>j. decode_bool j False) v)
      else if k = ''delivery_prefs'' then map_option (\<lambda>p. c\<lparr>uci_DeliveryPrefs := p\<rparr>) (decode_prefs v)
      else Some c)"

definition ChannelHandler_Create :: "api_env \<Rightarrow> 'a world_scheme handler" where
  "ChannelHandler_Create E r w = with_claims r w (\<lambda>claims. with_body E create_channel_field create_channel_zero r w (\<lambda>input.
     respond [(ErrValidationFailed, 400, ''validation failed''), (ErrUnsupportedChannel, 400, ''unsupported channel''),
         (ErrChannelNotInPlan, 403, ''CHANNEL_NOT_IN_PLAN'')]
       (\<lambda>cfg. response_JSON 201 (ChannelBody cfg))
       (on_db (ChannelService_Create (ap_registry E) (ap_clock E 1) (ap_clock E 2) (ap_newID E 1) (tc_TenantID claims) input) w)))"

definition ChannelHandler_GetByID :: "api_env \<Rightarrow> 'a world_scheme handler" where
  "ChannelHandler_GetByID E r w = with_claims r w (\<lambda>claims. with_id E ''channelID'' ''invalid channel ID'' r w (\<lambda>i.
     case on_db (ChannelService_GetByID i) w of
       (Inl err, w1) \<Rightarrow> (ladder (not_found ''channel config not found'') err, w1)
     | (Inr cfg, w1) \<Rightarrow>
         if cc_TenantID cfg \<noteq> tc_TenantID claims then (response_Error 404 ''channel config not found'', w1)
         else (response_JSON 200 (ChannelBody cfg), w1)))"

definition ChannelHandler_List :: "api_env \<Rightarrow> 'a world_scheme handler" where
  "ChannelHandler_List E r w = with_claims r w (\<lambda>claims.
     respond [] (\<lambda>cs. response_JSON 200 (ChannelsBody cs)) (on_db (ChannelService_ListByTenant (tc_TenantID claims)) w))"

definition ChannelHandler_Update :: "api_env \<Rightarrow> 'a world_scheme handler" where
  "ChannelHandler_Update E r w = with_claims r w (\<lambda>claims. with_id E ''channelID'' ''invalid channel ID'' r w (\<lambda>i.
     with_body E update_channel_field update_channel_zero r w (\<lambda>input.
       respond [(ErrValidationFailed, 400, ''invalid channel configuration''), (ErrUnsupportedChannel, 400, ''unsupported channel''),
           (ErrNotFound, 404, ''channel config not found'')]
         (\<lambda>cfg. response_JSON 200 (ChannelBody cfg))
         (on_db (ChannelService_Update (ap_registry E) i (tc_TenantID claims) input) w))))"

definition ChannelHandler_Delete :: "api_env \<Rightarrow> 'a world_scheme handler" where
  "ChannelHandler_Delete E r w = with_claims r w (\<lambda>claims. with_id E ''channelID'' ''invalid channel ID'' r w (\<lambda>i.
     respond_done (not_found ''channel config not found'') (on_db (ChannelService_Delete i (tc_TenantID claims)) w)))"

section \<open>Webhook endpoints\<close>

definition create_endpoint_field :: "string \<Rightarrow> json \<Rightarrow> CreateWebhookEndpointInput \<Rightarrow> CreateWebhookEndpointInput option" where
  "create_endpoint_field k v c =
     (if k = ''url'' then map_option (\<lambda>s. c\<lparr>cwi_URL := s\<rparr>) (decode_string v (cwi_URL c))
      else if k = ''events'' then map_option (\<lambda>l. c\<lparr>cwi_Events := l\<rparr>) (decode_slice (\<lambda>j. decode_string j []) v)
      else Some c)"

definition update_endpoint_field :: "string \<Rightarrow> json \<Rightarrow> UpdateWebhookEndpointInput \<Rightarrow> UpdateWebhookEndpointInput option" where
  "update_endpoint_field k v c =
     (if k = ''url'' then map_option (\<lambda>p. c\<lparr>uwi_URL := p\<rparr>) (decode_ptr (\<lambda>j. decode_string j []) v)
      else if k = ''events'' then map_option (\<lambda>p. c\<lparr>uwi_Events := p\<rparr>) (decode_ptr (decode_slice (\<lambda>j. decode_string j [])) v)
      else if k = ''is_active'' then map_option (\<lambda>p. c\<lparr>uwi_IsActive := p\<rparr>) (decode_ptr (\<lambda>j. decode_bool j False) v)
      else Some c)"

definition WebhookEndpointHandler_List :: "api_env \<Rightarrow> 'a world_scheme handler" where
  "WebhookEndpointHandler_List E r w = with_claims r w (\<lambda>claims.
     respond [] (\<lambda>es. response_JSON 200 (EndpointsBody (map visible_endpoint es)))
       (on_db (EndpointService_ListByTenant (tc_TenantID claims)) w))"

definition newWebhookEndpointCreatedResponse :: "WebhookEndpoint \<Rightarrow> string \<Rightarrow> api_body" where
  "newWebhookEndpointCreatedResponse endpoint secret = EndpointCreatedBody (visible_endpoint endpoint) secret"

definition WebhookEndpointHandler_Create :: "api_env \<Rightarrow> 'a world_scheme handler" where
  "WebhookEndpointHandler_Create E r w = with_claims r w (\<lambda>claims.
     with_body E create_endpoint_field \<lparr>cwi_URL = [], cwi_Events = []\<rparr> r w (\<lambda>input.
       respond [(ErrValidationFailed, 400, ''validation failed''), (ErrWebhookLimitReached, 403, ''WEBHOOK_LIMIT_REACHED'')]
         (\<lambda>(endpoint, secret). response_JSON 201 (newWebhookEndpointCreatedResponse endpoint secret))
         (on_db (EndpointService_Create (ap_checkURL E) (ap_rand E 1) (ap_clock E 1) (ap_newID E 1) (tc_TenantID claims) input) w)))"

definition WebhookEndpointHandler_Update :: "api_env \<Rightarrow> 'a world_scheme handler" where
  "WebhookEndpointHandler_Update E r w = with_claims r w (\<lambda>claims. with_id E ''webhookID'' ''invalid webhook ID'' r w (\<lambda>i.
     with_body E update_endpoint_field \<lparr>uwi_URL = None, uwi_Events = None, uwi_IsActive = None\<rparr> r w (\<lambda>input.
       respond [(ErrValidationFailed, 400, ''validation failed''), (ErrNotFound, 404, ''webhook endpoint not found'')]
         (\<lambda>e. response_JSON 200 (EndpointBody (visible_endpoint e)))
         (on_db (EndpointService_Update (ap_checkURL E) i (tc_TenantID claims) input) w))))"

definition WebhookEndpointHandler_Delete :: "api_env \<Rightarrow> 'a world_scheme handler" where
  "WebhookEndpointHandler_Delete E r w = with_claims r w (\<lambda>claims. with_id E ''webhookID'' ''invalid webhook ID'' r w (\<lambda>i.
     respond_done (not_found ''webhook endpoint not found'') (on_db (EndpointService_Delete i (tc_TenantID claims)) w)))"

section \<open>Tenants\<close>

definition create_tenant_field :: "string \<Rightarrow> json \<Rightarrow> CreateTenantInput \<Rightarrow> CreateTenantInput option" where
  "create_tenant_field k v c =
     (if k = ''name'' then map_option (\<lambda>s. c\<lparr>cti_Name := s\<rparr>) (decode_string v (cti_Name c))
      else if k = ''slug'' then map_option (\<lambda>s. c\<lparr>cti_Slug := s\<rparr>) (decode_string v (cti_Slug c))
      else Some c)"

definition update_tenant_field :: "string \<Rightarrow> json \<Rightarrow> UpdateTenantInput \<Rightarrow> UpdateTenantInput option" where
  "update_tenant_field k v c =
     (if k = ''name'' then map_option (\<lambda>p. c\<lparr>uti_Name := p\<rparr>) (decode_ptr (\<lambda>j. decode_string j []) v)
      else if k = ''is_active'' then map_option (\<lambda>p. c\<lparr>uti_IsActive := p\<rparr>) (decode_ptr (\<lambda>j. decode_bool j False) v)
      else Some c)"

definition TenantHandler_Create :: "api_env \<Rightarrow> 'a world_scheme handler" where
  "TenantHandler_Create E r w = with_body E create_tenant_field \<lparr>cti_Name = [], cti_Slug = []\<rparr> r w (\<lambda>input.
     respond [(ErrValidationFailed, 400, ''validation failed'')]
       (\<lambda>res. response_JSON 201 (TenantCreatedBody (res\<lparr>ctr_Tenant := visible_tenant (ctr_Tenant res)\<rparr>)))
       (on_db (TenantService_Create (ap_rand E 1) (ap_rand E 2) (ap_bcrypt E) (ap_clock E 1) (ap_newID E 1) (ap_newID E 2) input) w))"

definition TenantHandler_GetByID :: "api_env \<Rightarrow> 'a world_scheme handler" where
  "TenantHandler_GetByID E r w = with_id E ''tenantID'' ''invalid tenant ID'' r w (\<lambda>i.
     respond (not_found ''tenant not found'') (\<lambda>t. response_JSON 200 (TenantBody (visible_tenant t)))
       (on_db (TenantService_GetByID i) w))"

definition TenantHandler_GetBySlug :: "api_env \<Rightarrow> 'a world_scheme handler" where
  "TenantHandler_GetBySlug E r w = (let slug = rq_param r ''slug''
     in if slug = [] then (response_Error 400 ''slug is required'', w)
        else respond (not_found ''tenant not found'') (\<lambda>t. response_JSON 200 (TenantBody (visible_tenant t)))
          (on_db (TenantService_GetBySlug slug) w))"

definition TenantHandler_Update :: "api_env \<Rightarrow> 'a world_scheme handler" where
  "TenantHandler_Update E r w = with_id E ''tenantID'' ''invalid tenant ID'' r w (\<lambda>i.
     with_body E update_tenant_field \<lparr>uti_Name = None, uti_IsActive = None\<rparr> r w (\<lambda>input.
       respond [(ErrNotFound, 404, ''tenant not found''), (ErrValidationFailed, 400, ''validation failed'')]
         (\<lambda>t. response_JSON 200 (TenantBody (visible_tenant t))) (on_db (TenantService_Update i input) w)))"

definition TenantHandler_Delete :: "api_env \<Rightarrow> 'a world_scheme handler" where
  "TenantHandler_Delete E r w = with_id E ''tenantID'' ''invalid tenant ID'' r w (\<lambda>i.
     respond_done (not_found ''tenant not found'') (on_db (TenantService_Delete i) w))"

definition TenantHandler_List :: "api_env \<Rightarrow> 'a world_scheme handler" where
  "TenantHandler_List E r w = (case parsePagination r of (limit, offset) \<Rightarrow>
     respond [] (\<lambda>(ts, n). response_JSON 200 (TenantsBody (map visible_tenant ts) n limit offset))
       (on_db (TenantService_List limit offset) w))"

section \<open>Entitlements and usage\<close>

record putEntitlementsRequest =
  pe_TenantID :: uuid
  pe_PlanCode :: string
  pe_MessageLimit :: int
  pe_AllowedChannels :: "string list"
  pe_APIKeyLimit :: int
  pe_RetentionDays :: int
  pe_PeriodStart :: time
  pe_PeriodEnd :: time

definition put_zero :: putEntitlementsRequest where
  "put_zero = \<lparr>pe_TenantID = uuid_Nil, pe_PlanCode = [], pe_MessageLimit = 0, pe_AllowedChannels = [], pe_APIKeyLimit = 0,
     pe_RetentionDays = 0, pe_PeriodStart = zero_time, pe_PeriodEnd = zero_time\<rparr>"

definition put_field :: "api_env \<Rightarrow> string \<Rightarrow> json \<Rightarrow> putEntitlementsRequest \<Rightarrow> putEntitlementsRequest option" where
  "put_field E k v c =
     (if k = ''tenant_id'' then map_option (\<lambda>x. c\<lparr>pe_TenantID := x\<rparr>) (decode_uuid E v (pe_TenantID c))
      else if k = ''plan_code'' then map_option (\<lambda>x. c\<lparr>pe_PlanCode := x\<rparr>) (decode_string v (pe_PlanCode c))
      else if k = ''message_limit'' then map_option (\<lambda>x. c\<lparr>pe_MessageLimit := x\<rparr>) (decode_int v (pe_MessageLimit c))
      else if k = ''allowed_channels'' then map_option (\<lambda>x. c\<lparr>pe_AllowedChannels := x\<rparr>) (decode_slice (\<lambda>j. decode_string j []) v)
      else if k = ''api_key_limit'' then map_option (\<lambda>x. c\<lparr>pe_APIKeyLimit := x\<rparr>) (decode_int v (pe_APIKeyLimit c))
      else if k = ''retention_days'' then map_option (\<lambda>x. c\<lparr>pe_RetentionDays := x\<rparr>) (decode_int v (pe_RetentionDays c))
      else if k = ''period_start'' then map_option (\<lambda>x. c\<lparr>pe_PeriodStart := x\<rparr>) (decode_time E v (pe_PeriodStart c))
      else if k = ''period_end'' then map_option (\<lambda>x. c\<lparr>pe_PeriodEnd := x\<rparr>) (decode_time E v (pe_PeriodEnd c))
      else Some c)"

text \<open>The entitlements an accepted request describes; \<^verbatim>\<open>UpdatedAt\<close> is left at its zero value.\<close>

definition entitlements_of :: "uuid \<Rightarrow> putEntitlementsRequest \<Rightarrow> Entitlements" where
  "entitlements_of tenantID req = \<lparr>e_TenantID = tenantID, e_PlanCode = pe_PlanCode req, e_MessageLimit = pe_MessageLimit req,
     e_AllowedChannels = pe_AllowedChannels req, e_APIKeyLimit = pe_APIKeyLimit req, e_RetentionDays = pe_RetentionDays req,
     e_PeriodStart = pe_PeriodStart req, e_PeriodEnd = pe_PeriodEnd req, e_UpdatedAt = zero_time\<rparr>"

definition EntitlementHandler_Put :: "api_env \<Rightarrow> 'a world_scheme handler" where
  "EntitlementHandler_Put E r w = with_id E ''tenantID'' ''invalid tenant ID'' r w (\<lambda>tenantID.
     with_body E (put_field E) put_zero r w (\<lambda>req.
       if pe_TenantID req = uuid_Nil \<or> pe_TenantID req \<noteq> tenantID then (response_Error 400 ''validation failed'', w)
       else if pe_PlanCode req = [] \<or> pe_MessageLimit req < 0 \<or> pe_APIKeyLimit req < 1 \<or> pe_RetentionDays req < 1 \<or>
           \<not> pe_PeriodEnd req > pe_PeriodStart req then (response_Error 400 ''validation failed'', w)
       else case find (\<lambda>c. \<not> IsValidChannelType c) (pe_AllowedChannels req) of
         Some c \<Rightarrow> (response_Error 400 (''invalid channel: '' @ c), w)
       | None \<Rightarrow>
           (let ent = entitlements_of tenantID req
            in case on_db (Entitlement_Upsert ent) w of
                 (Some _, w1) \<Rightarrow> (response_Error 500 ''internal server error'', w1)
               | (None, w1) \<Rightarrow> (response_JSON 200 (EntitlementsBody ent), w1))))"

definition EntitlementHandler_Usage :: "api_env \<Rightarrow> 'a world_scheme handler" where
  "EntitlementHandler_Usage E r w = with_id E ''tenantID'' ''invalid tenant ID'' r w (\<lambda>tenantID.
     case ap_time_Parse E (rq_query r ''period_start'') of
       Inl _ \<Rightarrow> (response_Error 400 ''invalid period_start'', w)
     | Inr from \<Rightarrow> (case ap_time_Parse E (rq_query r ''period_end'') of
         Inl _ \<Rightarrow> (response_Error 400 ''invalid period_end'', w)
       | Inr to \<Rightarrow> respond [] (\<lambda>report. response_JSON 200 (UsageBody report)) (on_db (UsageByTenant tenantID from to) w)))"

section \<open>Health\<close>

definition Health :: "api_env \<Rightarrow> 's handler" where
  "Health E r s =
     (let status = (if ap_dbPing E \<noteq> None \<or> ap_redisPing E \<noteq> None then ''degraded'' else ''ok'');
          check = (\<lambda>p. if p = None then ''ok'' else ''error'')
      in (response_JSON (if status \<noteq> ''ok'' then 503 else 200)
           (HealthBody status [(''postgres'', check (ap_dbPing E)), (''redis'', check (ap_redisPing E))]), s))"

section \<open>Routes\<close>

text \<open>The state of the API process: the database and the queue, Redis and the billing alerts sent.\<close>

record api_world = world +
  aw_redis :: redis
  aw_alerts :: "alert list"

definition on_quota :: "(qworld \<Rightarrow> 'r \<times> qworld) \<Rightarrow> api_world \<Rightarrow> 'r \<times> api_world" where
  "on_quota f w = (case f \<lparr>q_db = w_db w, q_redis = aw_redis w, q_alerts = aw_alerts w\<rparr> of
     (x, q) \<Rightarrow> (x, w\<lparr>w_db := q_db q, aw_redis := q_redis q, aw_alerts := q_alerts q\<rparr>))"

text \<open>
  The quota middleware around a handler; the response the handler writes is kept beside the state.
\<close>

definition quotaMW :: "api_env \<Rightarrow> api_world handler \<Rightarrow> api_world handler" where
  "quotaMW E h r w =
     (case Middleware
        (\<lambda>tid n (w, x). case on_quota (Reserve (ap_uuid_String E) (ap_billingURL E) tid (ap_clock E 3) (ap_clock E 4) n) w of
           (d, w1) \<Rightarrow> (d, (w1, x)))
        (\<lambda>tid n (w, x). case on_quota (Refund (ap_uuid_String E) tid (ap_clock E 5) n) w of (e, w1) \<Rightarrow> (e, (w1, x)))
        (\<lambda>q (w, x). case h r w of (resp, w1) \<Rightarrow> ([ar_status resp], (w1, resp)))
        (map_option tc_TenantID (rq_claims r))
        \<lparr>qr_path = rq_path r, qr_body = (case read_all r of Inl e \<Rightarrow> Inl e | Inr b \<Rightarrow> Inr (ap_parse E b))\<rparr>
        (w, response_Error 500 []) of
        (Rejected code msg, (w1, x)) \<Rightarrow> (response_Error code msg, w1)
      | (Served codes, (w1, resp)) \<Rightarrow> (resp, w1))"

datatype route =
    GetHealth | PostToken
  | GetKeys | PostKeys | DeleteKey
  | GetChannels | PostChannels | GetChannel | PatchChannel | DeleteChannel
  | GetWebhooks | PostWebhooks | PutWebhook | DeleteWebhook
  | PostSend | PostSendMulti | GetNotifications | GetNotification | GetAttempts | GetMetrics
  | GetTenants | PostTenants | GetTenantBySlug | GetTenant | PatchTenant | DeleteTenant
  | PutEntitlements | GetUsage

datatype guard = Public | TenantAuth | TenantQuota | AdminAuth | ServiceAuth

fun guard_of :: "route \<Rightarrow> guard" where
  "guard_of GetHealth = Public"
| "guard_of PostToken = Public"
| "guard_of PostSend = TenantQuota"
| "guard_of PostSendMulti = TenantQuota"
| "guard_of GetTenants = AdminAuth"
| "guard_of PostTenants = AdminAuth"
| "guard_of GetTenantBySlug = AdminAuth"
| "guard_of GetTenant = AdminAuth"
| "guard_of PatchTenant = AdminAuth"
| "guard_of DeleteTenant = AdminAuth"
| "guard_of PutEntitlements = ServiceAuth"
| "guard_of GetUsage = ServiceAuth"
| "guard_of _ = TenantAuth"

fun handler_of :: "api_env \<Rightarrow> route \<Rightarrow> 'a world_scheme handler" where
  "handler_of E GetHealth = Health E"
| "handler_of E PostToken = IssueToken E"
| "handler_of E GetKeys = APIKeyHandler_List E"
| "handler_of E PostKeys = APIKeyHandler_Create E"
| "handler_of E DeleteKey = APIKeyHandler_Revoke E"
| "handler_of E GetChannels = ChannelHandler_List E"
| "handler_of E PostChannels = ChannelHandler_Create E"
| "handler_of E GetChannel = ChannelHandler_GetByID E"
| "handler_of E PatchChannel = ChannelHandler_Update E"
| "handler_of E DeleteChannel = ChannelHandler_Delete E"
| "handler_of E GetWebhooks = WebhookEndpointHandler_List E"
| "handler_of E PostWebhooks = WebhookEndpointHandler_Create E"
| "handler_of E PutWebhook = WebhookEndpointHandler_Update E"
| "handler_of E DeleteWebhook = WebhookEndpointHandler_Delete E"
| "handler_of E PostSend = NotificationHandler_Send E"
| "handler_of E PostSendMulti = NotificationHandler_SendMulti E"
| "handler_of E GetNotifications = NotificationHandler_List E"
| "handler_of E GetNotification = NotificationHandler_GetByID E"
| "handler_of E GetAttempts = NotificationHandler_ListAttempts E"
| "handler_of E GetMetrics = NotificationHandler_GetMetrics E"
| "handler_of E GetTenants = TenantHandler_List E"
| "handler_of E PostTenants = TenantHandler_Create E"
| "handler_of E GetTenantBySlug = TenantHandler_GetBySlug E"
| "handler_of E GetTenant = TenantHandler_GetByID E"
| "handler_of E PatchTenant = TenantHandler_Update E"
| "handler_of E DeleteTenant = TenantHandler_Delete E"
| "handler_of E PutEntitlements = EntitlementHandler_Put E"
| "handler_of E GetUsage = EntitlementHandler_Usage E"

text \<open>A request as it arrives carries no claims.\<close>

definition serve :: "api_env \<Rightarrow> route \<Rightarrow> api_world handler" where
  "serve E rt r w =
     (let r0 = r\<lparr>rq_claims := None\<rparr>; h = handler_of E rt
      in case guard_of rt of
           Public \<Rightarrow> h r0 w
         | TenantAuth \<Rightarrow> auth_Middleware E h r0 w
         | TenantQuota \<Rightarrow> auth_Middleware E (quotaMW E h) r0 w
         | AdminAuth \<Rightarrow> auth_Middleware E (AdminMiddleware h) r0 w
         | ServiceAuth \<Rightarrow> HMACMiddleware E h r0 w)"

end
