(* ===== verification/Api_Laws.thy ===== *)
theory Api_Laws
  imports Handlers Webhook_Delivery
begin

text \<open>
  Laws of the API as a whole: what a route does without credentials, that a tenant's token reaches only that tenant's
  records, what a service signature binds, and whom the token endpoint serves.
\<close>

section \<open>Credentials\<close>

definition bearer :: "api_env \<Rightarrow> api_request \<Rightarrow> TenantClaims option" where
  "bearer E r = (case cut_space (Header_Get ''Authorization'' (rq_headers r)) of
     None \<Rightarrow> None
   | Some (scheme, token) \<Rightarrow>
       if ToLower scheme \<noteq> ''bearer'' then None
       else (case ValidateToken E token of Inl _ \<Rightarrow> None | Inr claims \<Rightarrow> Some claims))"

lemma auth_Middleware_bearer:
  "bearer E r = Some c \<Longrightarrow> auth_Middleware E h r s = h (r\<lparr>rq_claims := Some c\<rparr>) s"
  "bearer E r = None \<Longrightarrow> \<exists>m. auth_Middleware E h r s = (response_Error 401 m, s)"
  by (auto simp: bearer_def auth_Middleware_def Let_def cut_space_def split: option.splits if_splits sum.splits)

definition service_authentic :: "api_env \<Rightarrow> api_request \<Rightarrow> bool" where
  "service_authentic E r \<longleftrightarrow> ap_svcSecret E \<noteq> [] \<and>
     (\<exists>body ts. read_all r = Inr body \<and> ap_time_Parse E (Header_Get ''X-Service-Timestamp'' (rq_headers r)) = Inr ts \<and>
        \<bar>ap_clock E 0 - ts\<bar> \<le> timestampWindow \<and>
        Header_Get ''X-Service-Signature'' (rq_headers r) =
          service_signature E (rq_method r) (rq_uri r) (Header_Get ''X-Service-Timestamp'' (rq_headers r)) body)"

lemma HMACMiddleware_cases:
  "(\<exists>body. read_all r = Inr body \<and> service_authentic E r \<and> HMACMiddleware E h r s = h (r\<lparr>rq_body := Inr body\<rparr>) s) \<or>
   (\<exists>st m. st \<in> {400, 401, 503} \<and> HMACMiddleware E h r s = (response_Error st m, s))"
  by (auto simp: HMACMiddleware_def service_authentic_def Let_def abs_le_iff split: sum.splits)

text \<open>
  The credentials a route asks for, as \<^verbatim>\<open>docs/API.md\<close> lists them: none for the health check and the token endpoint,
  an administrator's token for the tenants' routes, a service signature for the two billing routes, and a tenant's token for
  all others.
\<close>

definition authorised :: "api_env \<Rightarrow> route \<Rightarrow> api_request \<Rightarrow> bool" where
  "authorised E rt r \<longleftrightarrow>
     (if rt \<in> {GetHealth, PostToken} then True
      else if rt \<in> {PutEntitlements, GetUsage} then service_authentic E r
      else if rt \<in> {GetTenants, PostTenants, GetTenantBySlug, GetTenant, PatchTenant, DeleteTenant}
        then (case bearer E r of None \<Rightarrow> False | Some c \<Rightarrow> tc_IsAdmin c)
      else bearer E r \<noteq> None)"

lemma authorised_guard:
  "authorised E rt r = (case guard_of rt of
     Public \<Rightarrow> True
   | TenantAuth \<Rightarrow> bearer E r \<noteq> None
   | TenantQuota \<Rightarrow> bearer E r \<noteq> None
   | AdminAuth \<Rightarrow> (case bearer E r of None \<Rightarrow> False | Some c \<Rightarrow> tc_IsAdmin c)
   | ServiceAuth \<Rightarrow> service_authentic E r)"
  by (cases rt) (simp_all add: authorised_def)

lemma bearer_claims [simp]: "bearer E (r\<lparr>rq_claims := c\<rparr>) = bearer E r"
  by (simp add: bearer_def)

lemma bearer_param [simp]: "bearer E (r\<lparr>rq_param := p\<rparr>) = bearer E r"
  by (simp add: bearer_def)

lemma read_all_param [simp]: "read_all (r\<lparr>rq_param := p\<rparr>) = read_all r"
  by (simp add: read_all_def)

lemma service_authentic_param [simp]: "service_authentic E (r\<lparr>rq_param := p\<rparr>) = service_authentic E r"
  by (simp add: service_authentic_def)

lemma read_all_claims [simp]: "read_all (r\<lparr>rq_claims := c\<rparr>) = read_all r"
  by (simp add: read_all_def)

lemma service_authentic_claims [simp]: "service_authentic E (r\<lparr>rq_claims := c\<rparr>) = service_authentic E r"
  by (simp add: service_authentic_def)

lemma turned_away:
  assumes "\<not> authorised E rt r"
  shows "\<exists>st m. st \<in> {400, 401, 403, 503} \<and> serve E rt r w = (response_Error st m, w)"
proof (cases "guard_of rt = ServiceAuth")
  case True
  then show ?thesis
    using assms HMACMiddleware_cases [of "r\<lparr>rq_claims := None\<rparr>" E "handler_of E rt" w]
    by (auto simp: serve_def authorised_guard)
next
  case False
  let ?r = "r\<lparr>rq_claims := None\<rparr>"
  show ?thesis
  proof (cases "bearer E r")
    case None
    then obtain m where "auth_Middleware E h ?r w = (response_Error 401 (m h), w)" for h :: "api_world handler"
      using auth_Middleware_bearer(2) [of E ?r _ w] by (metis bearer_claims)
    then show ?thesis using assms False by (auto simp: serve_def authorised_guard split: guard.splits)
  next
    case (Some c)
    then have "guard_of rt = AdminAuth" "\<not> tc_IsAdmin c"
      using assms False by (auto simp: authorised_guard split: guard.splits)
    then have "serve E rt r w = (response_Error 403 ''admin access required'', w)"
      using Some by (simp add: serve_def auth_Middleware_bearer(1) [of E ?r c] AdminMiddleware_def)
    then show ?thesis by blast
  qed
qed

text \<open>
  C7. Without the credentials its route asks for, a request is turned away with an error and changes nothing: no
  valid token on a tenant's route, no admin token on an admin route, no authentic service signature on a billing route.
\<close>

theorem unauthorised_requests_change_nothing:
  assumes "\<not> authorised E rt r"
  shows "\<exists>st m. st \<in> {400, 401, 403, 503} \<and> serve E rt r w = (response_Error st m, w)"
  using assms by (rule turned_away)

section \<open>Tenant isolation\<close>

text \<open>Every record of a response belongs to the tenant \<open>T\<close>; attempts and metrics through their notification.\<close>

fun owned :: "uuid \<Rightarrow> pgdb \<Rightarrow> api_body \<Rightarrow> bool" where
  "owned T db NoBody = True"
| "owned T db (ErrorBody m) = True"
| "owned T db (NotificationBody n) = (n_TenantID n = T)"
| "owned T db (MultiBody ns es) = (\<forall>n \<in> set ns. n_TenantID n = T)"
| "owned T db (NotificationsBody ns i j k) = (\<forall>n \<in> set ns. n_TenantID n = T)"
| "owned T db (AttemptsBody as) =
     (\<exists>n \<in> set (db_notifs db). n_TenantID n = T \<and> (\<forall>a \<in> set as. da_NotificationID a = n_ID n))"
| "owned T db (MetricBody m) = (\<exists>n \<in> set (db_notifs db). n_TenantID n = T \<and> dm_NotificationID m = n_ID n)"
| "owned T db (KeysBody ks) = (\<forall>k \<in> set ks. k_TenantID k = T)"
| "owned T db (KeyCreatedBody k secret) = (k_TenantID k = T)"
| "owned T db (ChannelBody c) = (cc_TenantID c = T)"
| "owned T db (ChannelsBody cs) = (\<forall>c \<in> set cs. cc_TenantID c = T)"
| "owned T db (EndpointBody e) = (we_TenantID e = T)"
| "owned T db (EndpointsBody es) = (\<forall>e \<in> set es. we_TenantID e = T)"
| "owned T db (EndpointCreatedBody e secret) = (we_TenantID e = T)"
| "owned T db _ = False"

named_theorems owns \<open>steps of a handler whose response belongs to the tenant\<close>

abbreviation owned_answer :: "uuid \<Rightarrow> pgdb \<Rightarrow> api_response \<times> 's \<Rightarrow> bool" where
  "owned_answer T db x \<equiv> owned T db (ar_body (fst x))"

lemma owned_ladder [simp]: "owned T db (ar_body (ladder l err))"
  by (induction l err rule: ladder.induct) auto

lemma owned_with_claims [owns]:
  "rq_claims r = Some c \<Longrightarrow> owned_answer T db (f c) \<Longrightarrow> owned_answer T db (with_claims r s f)"
  by (simp add: with_claims_def)

lemma owned_with_id [owns]: "(\<And>i. owned_answer T db (f i)) \<Longrightarrow> owned_answer T db (with_id E p m r s f)"
  by (simp add: with_id_def split: sum.splits)

lemma owned_with_body [owns]: "(\<And>x. owned_answer T db (f x)) \<Longrightarrow> owned_answer T db (with_body E fld z r s f)"
  by (simp add: with_body_def split: sum.splits)

lemma owned_respond [owns]:
  "(\<And>v s. x = (Inr v, s) \<Longrightarrow> owned T db (ar_body (ok v))) \<Longrightarrow> owned_answer T db (respond l ok x)"
  by (cases x) (auto simp: respond_def split: sum.splits)

lemma owned_respond_done [owns]: "owned_answer T db (respond_done l x)"
  by (cases x) (auto simp: respond_done_def split: option.splits)

lemma on_db_Inr: "on_db f w = (x, w') \<longleftrightarrow> (\<exists>db'. f (w_db w) = (x, db') \<and> w' = w\<lparr>w_db := db'\<rparr>)"
  by (auto simp: on_db_def split: prod.splits)

text \<open>What the reads and writes of the repositories return.\<close>

lemma query_rows:
  "scan_rows (pg_query (\<lambda>db. Inr (q db)) db) = (Inr v, db') \<Longrightarrow> (\<And>d fs. q (d\<lparr>db_faults := fs\<rparr>) = q d) \<Longrightarrow> v = q db"
  by (auto simp: scan_rows_Inr dest: pg_query_result)

lemma listed_tenant:
  "Channel_ListByTenant T db = (Inr cs, db') \<Longrightarrow> c \<in> set cs \<Longrightarrow> cc_TenantID c = T"
  "APIKey_ListByTenant T db = (Inr ks, db') \<Longrightarrow> k \<in> set ks \<Longrightarrow> k_TenantID k = T"
  "Endpoint_ListByTenant T db = (Inr es, db') \<Longrightarrow> e \<in> set es \<Longrightarrow> we_TenantID e = T"
  by (auto simp: Channel_ListByTenant_def APIKey_ListByTenant_def Endpoint_ListByTenant_def scanConfig_def dest!: query_rows)

lemma updated_tenant:
  "Channel_Update i T input db = (Inr c, db') \<Longrightarrow> cc_TenantID c = T"
  "Endpoint_Update i T ein db = (Inr e, db') \<Longrightarrow> we_TenantID e = T"
proof -
  assume "Channel_Update i T input db = (Inr c, db')"
  then obtain row where "pg_call (sql_update_channel i T input) db = (Inr row, db')" and c: "c = scanConfig row"
    by (auto simp: Channel_Update_def scan_row_Inr split: prod.splits sum.splits)
  then have "cr_tenant_id row = T"
    by (cases rule: pg_call_cases [of "sql_update_channel i T input" db])
      (auto simp: sql_update_channel_def Let_def checked_def channel_set_def find_Some_iff split: option.splits)
  with c show "cc_TenantID c = T" by (simp add: scanConfig_def)
next
  assume "Endpoint_Update i T ein db = (Inr e, db')"
  then show "we_TenantID e = T"
    unfolding Endpoint_Update_def
    by (auto simp: scan_row_Inr pg_call_def endpoint_set_def find_Some_iff Let_def
        split: prod.splits sum.splits option.splits list.splits)
qed

lemma Send_tenant: "Send L mr env T input w = (Inr n, w') \<Longrightarrow> n_TenantID n = T"
  using Send_effect [where L = L and maxRetries = mr and env = env and tid = T and input = input and w = w]
  by (auto simp: new_notification_def)

lemma send_each_tenant: "n \<in> set (fst (fst (send_each L mr envs T chans order w))) \<Longrightarrow> n_TenantID n = T"
proof (induction order arbitrary: w)
  case (Cons i order)
  obtain x w1 where x: "Send L mr (envs i) T (chans ! i) w = (x, w1)" by fastforce
  obtain y w2 where y: "send_each L mr envs T chans order w1 = (y, w2)" by fastforce
  show ?case using Cons.prems Cons.IH [of w1] x y by (cases x; cases y) (auto dest: Send_tenant)
qed simp

lemma listed_notifications:
  "NotificationService_List f db = (Inr (ns, tot), db') \<Longrightarrow> n \<in> set ns \<Longrightarrow> n_TenantID n = nf_TenantID f"
proof -
  assume l: "NotificationService_List f db = (Inr (ns, tot), db')" and n: "n \<in> set ns"
  let ?f = "if nf_Limit f \<le> 0 then f\<lparr>nf_Limit := 20\<rparr> else f"
  from Notification_List_result(2) [OF l [unfolded NotificationService_List_def]]
  have "set ns \<subseteq> {n. notif_matches ?f n}"
    by (auto simp: matching_page_def page_def dest!: in_set_takeD in_set_dropD)
  with n show "n_TenantID n = nf_TenantID f" by (auto simp: notif_matches_def split: if_splits)
qed

lemma found_notification:
  "Notification_GetByID i db = (Inr n, db') \<Longrightarrow> n \<in> set (db_notifs db) \<and> n_ID n = i"
  unfolding Notification_GetByID_def scan_row_Inr
  by (drule pg_query_result) (auto simp: one_row_Inr find_Some_iff)

lemma owned_notification [owns]:
  assumes "rq_claims r = Some c"
    and "\<And>i n w1. n \<in> set (db_notifs (w_db w)) \<Longrightarrow> n_ID n = i \<Longrightarrow> n_TenantID n = tc_TenantID c \<Longrightarrow>
      owned_answer (tc_TenantID c) (w_db w) (f i n w1)"
  shows "owned_answer (tc_TenantID c) (w_db w) (own_notification E r w f)"
  unfolding own_notification_def
  by (intro owns, rule assms(1))
    (auto simp: NotificationService_GetByID_def on_db_def not_found_def split: prod.splits sum.splits
      intro!: assms(2) dest: found_notification)

lemma owned_channel [owns]:
  assumes "rq_claims r = Some c"
  shows "owned_answer (tc_TenantID c) db (ChannelHandler_GetByID E r w)"
  unfolding ChannelHandler_GetByID_def
  by (intro owns, rule assms) (auto split: prod.splits sum.splits)

lemma attempts_notification:
  "Attempt_ListByNotification i db = (Inr as, db') \<Longrightarrow> a \<in> set as \<Longrightarrow> da_NotificationID a = i"
  "GetByNotificationID i db = (Inr m, db') \<Longrightarrow> dm_NotificationID m = i"
proof -
  show "Attempt_ListByNotification i db = (Inr as, db') \<Longrightarrow> a \<in> set as \<Longrightarrow> da_NotificationID a = i"
    by (auto simp: Attempt_ListByNotification_def dest!: query_rows)
  assume "GetByNotificationID i db = (Inr m, db')"
  then have "pg_query (\<lambda>db. one_row (\<lambda>m. dm_NotificationID m = i) (db_metrics db)) db = (Inr m, db')"
    by (auto simp: GetByNotificationID_def split: prod.splits sum.splits)
  then show "dm_NotificationID m = i" by (drule_tac pg_query_result) (auto simp: one_row_Inr find_Some_iff)
qed

lemma created_tenant:
  "APIKeyService_Create r1 r2 bc t1 t2 i T label db = (Inr (k, sec), db') \<Longrightarrow> k_TenantID k = T"
  "ChannelService_Create reg t1 t2 i T cin db = (Inr c, db') \<Longrightarrow> cc_TenantID c = T"
  "EndpointService_Create chk rnd t1 i T ein db = (Inr (e, sec), db') \<Longrightarrow> we_TenantID e = T"
  "ChannelService_Update reg i T uin db = (Inr c, db') \<Longrightarrow> cc_TenantID c = T"
  "EndpointService_Update chk i T win db = (Inr e, db') \<Longrightarrow> we_TenantID e = T"
  by (auto simp: APIKeyService_Create_def ChannelService_Create_def EndpointService_Create_def ChannelService_Update_def
      EndpointService_Update_def Let_def split: prod.splits sum.splits option.splits if_splits dest: updated_tenant)

lemmas handler_defs = APIKeyHandler_List_def APIKeyHandler_Create_def APIKeyHandler_Revoke_def ChannelHandler_Create_def
  ChannelHandler_List_def ChannelHandler_Update_def ChannelHandler_Delete_def WebhookEndpointHandler_List_def
  WebhookEndpointHandler_Create_def WebhookEndpointHandler_Update_def WebhookEndpointHandler_Delete_def
  NotificationHandler_GetByID_def NotificationHandler_ListAttempts_def NotificationHandler_GetMetrics_def

lemmas service_defs = APIKeyService_ListByTenant_def ChannelService_ListByTenant_def EndpointService_ListByTenant_def
  newWebhookEndpointCreatedResponse_def visible_key_def visible_endpoint_def

lemma owned_send:
  assumes "rq_claims r = Some c"
  shows "owned_answer (tc_TenantID c) db (NotificationHandler_Send E r w)"
    "owned_answer (tc_TenantID c) db (NotificationHandler_SendMulti E r w)"
proof -
  show "owned_answer (tc_TenantID c) db (NotificationHandler_Send E r w)"
    unfolding NotificationHandler_Send_def
    by (intro owns, rule assms) (auto intro!: owns dest: Send_tenant)
  show "owned_answer (tc_TenantID c) db (NotificationHandler_SendMulti E r w)"
    unfolding NotificationHandler_SendMulti_def SendMulti_def
    by (intro owns, rule assms) (auto split: prod.splits dest!: arg_cong [where f = "\<lambda>x. fst (fst x)"], metis send_each_tenant)
qed

lemma owned_list:
  assumes "rq_claims r = Some c"
  shows "owned_answer (tc_TenantID c) db (NotificationHandler_List E r w)"
  unfolding NotificationHandler_List_def
  by (intro owns, rule assms)
    (auto simp: Let_def on_db_Inr split: prod.splits intro!: owns, (drule (1) listed_notifications, simp)+)

lemma owned_quotaMW:
  assumes "\<And>w'. owned_answer T db (h r w')"
  shows "owned_answer T db (quotaMW E h r w)"
  unfolding quotaMW_def Middleware_def Let_def
  using assms by (auto split: prod.splits option.splits sum.splits mw_response.splits if_splits) (metis fst_conv)+

lemma handler_owned:
  assumes "guard_of rt = TenantAuth" and "rq_claims r = Some c"
  shows "owned_answer (tc_TenantID c) (w_db w) (handler_of E rt r w)"
  using assms(1)
proof (cases rt)
  case GetNotifications
  then show ?thesis using owned_list [OF assms(2)] by simp
next
  case GetChannel
  then show ?thesis using owned_channel [OF assms(2)] by simp
qed (simp_all add: handler_defs, ((rule owned_with_claims [OF assms(2)] owned_notification [OF assms(2)]; (intro owns)?;
    auto simp: on_db_Inr service_defs dest: listed_tenant created_tenant attempts_notification)[1])+)

text \<open>
  C5. A tenant's token reaches only that tenant: whatever the request asks for and whatever fails, every notification,
  attempt, metric, key, channel and webhook endpoint in the response of a tenant's route belongs to the tenant
  named in the token.
\<close>

theorem tenant_isolation:
  assumes "guard_of rt \<in> {TenantAuth, TenantQuota}" and "bearer E r = Some c"
  shows "owned (tc_TenantID c) (w_db w) (ar_body (fst (serve E rt r w)))"
proof -
  let ?r = "r\<lparr>rq_claims := Some c\<rparr>"
  have auth: "auth_Middleware E h (r\<lparr>rq_claims := None\<rparr>) w = h ?r w" for h :: "api_world handler"
    using auth_Middleware_bearer(1) [of E "r\<lparr>rq_claims := None\<rparr>" c h w] assms(2) by simp
  have c: "rq_claims ?r = Some c" by simp
  show ?thesis
  proof (cases "guard_of rt = TenantAuth")
    case True
    then show ?thesis using handler_owned [OF True c, of w E] by (simp add: serve_def auth)
  next
    case False
    then have "rt = PostSend \<or> rt = PostSendMulti" using assms(1) by (cases rt) auto
    moreover have "owned_answer (tc_TenantID c) db (quotaMW E (handler_of E rt) ?r w)" if "rt = PostSend \<or> rt = PostSendMulti" for db
      using that owned_send [OF c] by (intro owned_quotaMW) auto
    ultimately show ?thesis by (auto simp: serve_def auth)
  qed
qed

section \<open>Service signatures\<close>

lemma hex_encode_inj: "hex_encode a = hex_encode b \<Longrightarrow> a = b"
  by (metis hex_roundtrip option.inject)

lemma canonical_request_inj:
  assumes "canonical_request E m u t b = canonical_request E m' u' t' b'"
    and "\<forall>x \<in> {m, u, t, m', u', t'}. CHR 0x0A \<notin> set x"
  shows "m = m' \<and> u = u' \<and> t = t' \<and> ap_sha256 E b = ap_sha256 E b'"
proof -
  let ?n = "CHR 0x0A" and ?h = "hex_encode (ap_sha256 E b)" and ?h' = "hex_encode (ap_sha256 E b')"
  have free: "?n \<notin> set m" "?n \<notin> set m'" "?n \<notin> set u" "?n \<notin> set u'" "?n \<notin> set t" "?n \<notin> set t'"
    using assms(2) by simp_all
  have "m @ ?n # u @ ?n # t @ ?n # ?h = m' @ ?n # u' @ ?n # t' @ ?n # ?h'"
    using assms(1) by (simp only: canonical_request_def newline_def append.simps)
  from append_sep_inj [OF free(1,2) this] have 1: "m = m'" "u @ ?n # t @ ?n # ?h = u' @ ?n # t' @ ?n # ?h'" by blast+
  from append_sep_inj [OF free(3,4) 1(2)] have 2: "u = u'" "t @ ?n # ?h = t' @ ?n # ?h'" by blast+
  from append_sep_inj [OF free(5,6) 2(2)] have "t = t'" "?h = ?h'" by blast+
  with 1 2 hex_encode_inj show ?thesis by blast
qed

text \<open>
  C27. A service signature is good for one request only: when the middleware lets a request pass whose signature was made
  for some method, URI, timestamp and body, and no part holds a line break, as HTTP requires, then the request has exactly
  these, or the two signed texts are a collision of the keyed hash, or the two bodies a collision of SHA-256.
\<close>

theorem service_signature_binds:
  assumes "ar_status (fst (HMACMiddleware E h r s)) < 400"
    and "Header_Get ''X-Service-Signature'' (rq_headers r) = service_signature E method uri ts body"
    and "\<forall>x \<in> {rq_method r, rq_uri r, Header_Get ''X-Service-Timestamp'' (rq_headers r), method, uri, ts}. CHR 0x0A \<notin> set x"
  shows "\<exists>b. read_all r = Inr b \<and>
    (let ts' = Header_Get ''X-Service-Timestamp'' (rq_headers r);
         x = canonical_request E (rq_method r) (rq_uri r) ts' b; y = canonical_request E method uri ts body
     in rq_method r = method \<and> rq_uri r = uri \<and> ts' = ts \<and> b = body \<or>
        x \<noteq> y \<and> ap_hmac E (ap_svcSecret E) x = ap_hmac E (ap_svcSecret E) y \<or>
        b \<noteq> body \<and> ap_sha256 E b = ap_sha256 E body)"
proof -
  from HMACMiddleware_cases [of r E h s] assms(1) obtain b where b: "read_all r = Inr b" "service_authentic E r" by auto
  let ?ts = "Header_Get ''X-Service-Timestamp'' (rq_headers r)"
  have "service_signature E (rq_method r) (rq_uri r) ?ts b = service_signature E method uri ts body"
    using b assms(2) by (auto simp: service_authentic_def)
  then have "ap_hmac E (ap_svcSecret E) (canonical_request E (rq_method r) (rq_uri r) ?ts b) =
      ap_hmac E (ap_svcSecret E) (canonical_request E method uri ts body)"
    by (auto simp: service_signature_def dest!: hex_encode_inj)
  with canonical_request_inj [OF _ assms(3)] b(1) show ?thesis unfolding Let_def by blast
qed

section \<open>Tokens\<close>

lemma token_response_200:
  "ar_status (token_response E i slug adm) = 200 \<Longrightarrow>
    \<exists>token. GenerateToken E i slug adm = Inr token \<and>
      ar_body (token_response E i slug adm) = TokenBody token (ap_duration_String E (jm_expiration (ap_mgr E)))"
  by (auto simp: token_response_def split: sum.splits)

lemma found_key: "GetByAPIKey k db = (Inr key, db') \<Longrightarrow> key \<in> set (db_api_keys db) \<and> k_APIKey key = k"
  unfolding GetByAPIKey_def scan_row_Inr by (drule pg_query_result) (auto simp: one_row_Inr find_Some_iff)

lemma found_tenant: "Tenant_GetByID i db = (Inr t, db') \<Longrightarrow> t \<in> set (db_tenants db) \<and> t_ID t = i"
  unfolding Tenant_GetByID_def scan_row_Inr by (drule pg_query_result) (auto simp: one_row_Inr find_Some_iff)

lemma GetByAPIKey_tables [simp]: "tables (snd (GetByAPIKey k db)) = tables db"
  by (simp add: GetByAPIKey_def)

text \<open>
  C28. The token endpoint serves two kinds of callers: an administrator's token is issued only for the configured admin key
  and secret, and only when an admin key is configured; a tenant's token only for a stored key that is not revoked, whose
  tenant is active and whose hash bcrypt accepts for the given secret, and it names that tenant without admin rights.
\<close>

theorem IssueToken_sound:
  assumes "IssueToken E r w = (resp, w')" and "ar_status resp = 200"
  shows "\<exists>req token. decode_body E token_field \<lparr>tr_APIKey = [], tr_APISecret = []\<rparr> r = Inr req \<and>
    ar_body resp = TokenBody token (ap_duration_String E (jm_expiration (ap_mgr E))) \<and>
    (GenerateToken E uuid_Nil [] True = Inr token \<and> ap_adminAPIKey E \<noteq> [] \<and> tr_APIKey req = ap_adminAPIKey E \<and>
       tr_APISecret req = ap_adminAPISecret E \<or>
     (\<exists>k \<in> set (db_api_keys (w_db w)). \<exists>t \<in> set (db_tenants (w_db w)).
        k_APIKey k = tr_APIKey req \<and> k_RevokedAt k = None \<and> t_ID t = k_TenantID k \<and> t_IsActive t \<and>
        ap_bcrypt_Compare E (k_APISecretHash k) (tr_APISecret req) = None \<and> GenerateToken E (t_ID t) (t_Slug t) False = Inr token))"
proof -
  obtain req where req: "decode_body E token_field \<lparr>tr_APIKey = [], tr_APISecret = []\<rparr> r = Inr req"
    using assms by (auto simp: IssueToken_def split: sum.splits)
  show ?thesis
  proof (cases "ap_adminAPIKey E \<noteq> [] \<and> tr_APIKey req = ap_adminAPIKey E")
    case True
    then have "resp = token_response E uuid_Nil [] True \<and> tr_APISecret req = ap_adminAPISecret E"
      using assms req by (auto simp: IssueToken_def issueAdminToken_def split: if_splits)
    with token_response_200 [of E uuid_Nil "[]" True] True assms(2) req show ?thesis by blast
  next
    case False
    then have "issueTenantToken E req w = (resp, w')"
      using assms req by (auto simp: IssueToken_def split: if_splits)
    then obtain k d1 t d2 where k: "GetByAPIKey (tr_APIKey req) (w_db w) = (Inr k, d1)" "k_RevokedAt k = None"
      and t: "Tenant_GetByID (k_TenantID k) d1 = (Inr t, d2)" "t_IsActive t"
        "ap_bcrypt_Compare E (k_APISecretHash k) (tr_APISecret req) = None" "resp = token_response E (t_ID t) (t_Slug t) False"
      using assms(2) by (auto simp: issueTenantToken_def on_db_Inr split: prod.splits sum.splits if_splits option.splits)
    have "db_tenants d1 = db_tenants (w_db w)"
      using tables_eq_fields(1) GetByAPIKey_tables [of "tr_APIKey req" "w_db w"] k(1) by (metis snd_conv)
    with found_key [OF k(1)] found_tenant [OF t(1)] k t token_response_200 [of E "t_ID t" "t_Slug t" False] assms(2) req
    show ?thesis by metis
  qed
qed

section \<open>Channels of other tenants\<close>

text \<open>
  Sending through a channel of another tenant answers 400 and not the documented 404 of a resource that is
  missing or not owned, so a caller can tell a foreign channel from a missing one; nothing is stored or queued.
\<close>

theorem foreign_channel_answers_400:
  assumes "rq_claims r = Some c" and "decode_body E (send_field E) send_zero r = Inr input"
    and "sni_ChannelConfigID input \<noteq> uuid_Nil" and "sni_Body input \<noteq> []" and "db_faults (w_db w) = []"
    and "find (\<lambda>ch. cr_id ch = sni_ChannelConfigID input) (db_channels (w_db w)) = found"
    and "case found of None \<Rightarrow> True | Some ch \<Rightarrow> cr_tenant_id ch \<noteq> tc_TenantID c"
  shows "NotificationHandler_Send E r w =
    (if found = None then response_Error 404 ''channel config not found'' else response_Error 400 ''validation failed'', w)"
proof (cases found)
  case None
  then have "Channel_GetByID (sni_ChannelConfigID input) (w_db w) = (Inl channel_nf, w_db w)"
    using assms(5,6) by (simp add: Channel_GetByID_def scan_row_def one_row_def)
  then have "Send (ap_lib E) (ap_maxRetries E) (ap_send_env E 0) (tc_TenantID c) input w =
      (Inl (wrap ''get channel config: '' channel_nf []), w)"
    by (simp add: Send_def on_db_calm)
  then show ?thesis using None assms(1-4)
    by (simp add: NotificationHandler_Send_def with_claims_def with_body_def respond_def channel_nf_def)
next
  case (Some ch)
  then have "Channel_GetByID (sni_ChannelConfigID input) (w_db w) = (Inr (scanConfig ch), w_db w)"
    using assms(5,6) by (simp add: Channel_GetByID_calm)
  then have "Send (ap_lib E) (ap_maxRetries E) (ap_send_env E 0) (tc_TenantID c) input w =
      (Inl (sentinel_with ErrValidationFailed ''channel config does not belong to this tenant''), w)"
    using Some assms(7) by (simp add: Send_def on_db_calm scanConfig_def)
  then show ?thesis using Some assms(1-4)
    by (simp add: NotificationHandler_Send_def with_claims_def with_body_def respond_def)
qed

section \<open>A concrete API\<close>

definition char_byte :: "char \<Rightarrow> byte" where
  "char_byte c = of_nat (of_char c)"

lemma char_bytes_inj [simp]: "inj char_byte"
proof -
  have "unat (char_byte c) = of_char c" for c
    by (simp add: char_byte_def unsigned_of_nat take_bit_eq_mod)
  then show "inj char_byte" by (intro injI) (metis of_char_eq_iff)
qed

definition demo_claims :: "uuid \<Rightarrow> TenantClaims" where
  "demo_claims T = \<lparr>tc_Issuer = ''notifyd'', tc_Subject = [], tc_ExpiresAt = 0, tc_IssuedAt = 0, tc_NotBefore = 0, tc_ID = [],
     tc_TenantID = T, tc_TenantSlug = [], tc_IsAdmin = False\<rparr>"

definition demo_jwt :: jwt_lib where
  "demo_jwt = \<lparr>jl_SignedString = (\<lambda>k c. Inr ''signed''),
     jl_ParseWithClaims = (\<lambda>key token now. if token = ''t1'' then Inr (demo_claims 1, True) else Inl (plain_error ''malformed''))\<rparr>"

definition demo_api :: api_env where
  "demo_api = \<lparr>ap_decode = (\<lambda>b. if b = ''login'' then Some (JObj [(''api_key'', JStr ''k1''), (''api_secret'', JStr ''s'')])
       else if b = ''send'' then Some (JObj [(''channel_config_id'', JStr ''ten''), (''body'', JStr ''x'')]) else None),
     ap_parse = (\<lambda>_. None), ap_uuid_Parse = (\<lambda>s. if s = ''ten'' then Inr 10 else Inl (plain_error ''invalid UUID'')),
     ap_uuid_String = (\<lambda>_. []), ap_time_Parse = (\<lambda>_. Inr 0), ap_duration_String = (\<lambda>_. ''1h''), ap_jwt = demo_jwt,
     ap_mgr = \<lparr>jm_signingKey = ''k'', jm_issuer = ''notifyd'', jm_expiration = hour_ns\<rparr>, ap_adminAPIKey = [], ap_adminAPISecret = [],
     ap_svcSecret = ''z'', ap_sha256 = map char_byte, ap_hmac = (\<lambda>k m. map char_byte m), ap_bcrypt = Inr,
     ap_bcrypt_Compare = (\<lambda>h p. if h = ''h1'' \<and> p = ''s'' then None else Some (plain_error ''mismatch'')),
     ap_rand = (\<lambda>_ n. Inr (replicate n 0)), ap_newID = of_nat, ap_clock = (\<lambda>_. 0), ap_checkURL = (\<lambda>_. None),
     ap_registry = Map.empty, ap_lib = \<lparr>lib_uuid_String = (\<lambda>_. []), lib_NewSHA1 = (\<lambda>_ _. 0), lib_enqueue = (\<lambda>_ _. None)\<rparr>,
     ap_maxRetries = 3, ap_send_env = (\<lambda>_. \<lparr>se_now = 0, se_created = 0, se_id = 0, se_updated = 0\<rparr>), ap_order = (\<lambda>n. [0..<n]),
     ap_billingURL = [], ap_dbPing = None, ap_redisPing = None\<rparr>"

definition demo_request :: "(string \<times> string) list \<Rightarrow> string \<Rightarrow> api_request" where
  "demo_request hs body = \<lparr>rq_method = ''PUT'', rq_uri = ''/x'', rq_path = ''/x'', rq_headers = hs, rq_body = Inr body,
     rq_param = (\<lambda>_. []), rq_query = (\<lambda>_. []), rq_claims = None\<rparr>"

definition demo_api_world :: api_world where
  "demo_api_world = \<lparr>w_db = demo_db, w_queue = [], aw_redis = \<lparr>rd_keys = Map.empty, rd_now = 0, rd_faults = []\<rparr>, aw_alerts = []\<rparr>"

theorem unauthorised_requests_change_nothing_witness:
  "\<exists>st m. st \<in> {400, 401, 403, 503} \<and>
     serve demo_api DeleteTenant (demo_request [(''Authorization'', ''Bearer t1'')] []) demo_api_world = (response_Error st m, demo_api_world)"
proof (rule unauthorised_requests_change_nothing)
  have "bearer demo_api (demo_request [(''Authorization'', ''Bearer t1'')] []) = Some (demo_claims 1)" by code_simp
  then show "\<not> authorised demo_api DeleteTenant (demo_request [(''Authorization'', ''Bearer t1'')] [])"
    by (simp add: authorised_def demo_claims_def)
qed

theorem tenant_isolation_witness:
  "owned 1 demo_db (ar_body (fst (serve demo_api GetChannels (demo_request [(''Authorization'', ''Bearer t1'')] []) demo_api_world)))"
proof -
  have "bearer demo_api (demo_request [(''Authorization'', ''Bearer t1'')] []) = Some (demo_claims 1)" by code_simp
  from tenant_isolation [OF _ this, of GetChannels demo_api_world] show ?thesis
    by (simp add: demo_claims_def demo_api_world_def)
qed

definition signed_headers :: "(string \<times> string) list" where
  "signed_headers = [(''X-Service-Timestamp'', ''now''), (''X-Service-Signature'', service_signature demo_api ''PUT'' ''/x'' ''now'' ''b'')]"

lemma service_headers [simp]:
  "CanonicalHeaderKey ''X-Service-Timestamp'' = ''X-Service-Timestamp''"
  "CanonicalHeaderKey ''X-Service-Signature'' = ''X-Service-Signature''"
  by code_simp+

lemma signed_headers_get:
  "Header_Get ''X-Service-Timestamp'' signed_headers = ''now''"
  "Header_Get ''X-Service-Signature'' signed_headers = service_signature demo_api ''PUT'' ''/x'' ''now'' ''b''"
  by (simp_all add: Header_Get_def signed_headers_def)

lemma demo_sends:
  "ap_svcSecret demo_api = ''z''" "ap_time_Parse demo_api t = Inr 0" "ap_clock demo_api i = 0"
  "rq_headers (demo_request hs b) = hs" "rq_method (demo_request hs b) = ''PUT''" "rq_uri (demo_request hs b) = ''/x''"
  "read_all (demo_request hs ''b'') = Inr ''b''"
  by (simp_all add: demo_api_def demo_request_def read_all_def maxBodyBytes_def)

lemma signature_nonempty: "service_signature demo_api m u t b \<noteq> [] \<longleftrightarrow> canonical_request demo_api m u t b \<noteq> []"
  by (simp add: service_signature_def demo_api_def hex_encode_def)

theorem service_signature_binds_witness: "read_all (demo_request signed_headers ''b'') = Inr ''b''"
proof -
  let ?r = "demo_request signed_headers ''b''" and ?h = "\<lambda>r s. (response_JSON 200 NoBody, s)"
  have "HMACMiddleware demo_api ?h ?r () = (response_JSON 200 NoBody, ())"
    using signature_nonempty [of "''PUT''" "''/x''" "''now''" "''b''"]
    by (simp add: HMACMiddleware_def demo_sends signed_headers_get Let_def timestampWindow_def duration_defs
        canonical_request_def)
  moreover have "inj (ap_hmac demo_api (ap_svcSecret demo_api))" "inj (ap_sha256 demo_api)"
    by (simp_all add: demo_api_def)
  ultimately show ?thesis
    using service_signature_binds [of demo_api ?h ?r "()" "''PUT''" "''/x''" "''now''" "''b''"]
    by (auto simp: demo_sends signed_headers_get Let_def dest: injD)
qed

definition demo_login :: "api_response \<times> api_world" where
  "demo_login = IssueToken demo_api (demo_request [] ''login'') demo_api_world"

lemma demo_body: "decode_body demo_api f z (demo_request hs ''login'') =
    decode_struct f z (Some (JObj [(''api_key'', JStr ''k1''), (''api_secret'', JStr ''s'')]))"
  "decode_body demo_api f z ((demo_request hs ''send'')\<lparr>rq_claims := c\<rparr>) =
    decode_struct f z (Some (JObj [(''channel_config_id'', JStr ''ten''), (''body'', JStr ''x'')]))"
  by (simp_all add: decode_body_def demo_api_def demo_request_def maxBodyBytes_def)

lemma demo_token_request:
  "decode_body demo_api token_field \<lparr>tr_APIKey = [], tr_APISecret = []\<rparr> (demo_request [] ''login'') =
     Inr \<lparr>tr_APIKey = ''k1'', tr_APISecret = ''s''\<rparr>"
  unfolding demo_body by code_simp

lemma demo_send_request:
  "decode_body demo_api (send_field demo_api) send_zero ((demo_request [] ''send'')\<lparr>rq_claims := c\<rparr>) =
     Inr \<lparr>sni_ChannelConfigID = 10, sni_Subject = None, sni_Body = ''x'', sni_Metadata = None\<rparr>"
  unfolding demo_body by code_simp

lemma demo_login_ok: "ar_status (fst demo_login) = 200"
proof -
  have "ar_status (fst (issueTenantToken demo_api \<lparr>tr_APIKey = ''k1'', tr_APISecret = ''s''\<rparr> demo_api_world)) = 200" by code_simp
  moreover have "ap_adminAPIKey demo_api = []" by (simp add: demo_api_def)
  ultimately show ?thesis by (simp add: demo_login_def IssueToken_def demo_token_request)
qed

theorem IssueToken_sound_witness:
  "\<exists>k \<in> set (db_api_keys demo_db). k_APIKey k = ''k1'' \<and> k_RevokedAt k = None"
proof -
  obtain resp w' where l: "demo_login = (resp, w')" by fastforce
  with demo_login_ok have "ar_status resp = 200" by (metis fst_conv)
  moreover have "ap_adminAPIKey demo_api = []" "w_db demo_api_world = demo_db" by (simp_all add: demo_api_def demo_api_world_def)
  ultimately show ?thesis
    using IssueToken_sound [OF l [unfolded demo_login_def]] demo_token_request by auto
qed

theorem foreign_channel_answers_400_witness:
  "NotificationHandler_Send demo_api ((demo_request [] ''send'')\<lparr>rq_claims := Some (demo_claims 2)\<rparr>) demo_api_world =
     (response_Error 400 ''validation failed'', demo_api_world)"
  using foreign_channel_answers_400 [OF _ demo_send_request [of "Some (demo_claims 2)"], of "demo_claims 2" demo_api_world "Some acme_slack"]
  by (simp add: demo_claims_def uuid_Nil_def demo_api_world_def demo_defs)

end
