(* ===== verification/Isolation.thy ===== *)
theory Isolation
  imports Api_Laws
begin

text \<open>
  Tenants do not touch each other: what a request with a tenant's token writes. The rows of all other tenants form the value
  \<open>others\<close>; \<open>within T\<close> relates two databases of which the second arises from the first by work for tenant \<open>T\<close>.
  Deleting a channel cascades to its notifications, so the argument needs that a notification and its
  channel have the same tenant (\<open>aligned\<close>), which the requests are shown to keep.
\<close>

section \<open>Work for one tenant\<close>

definition aligned :: "pgdb \<Rightarrow> bool" where
  "aligned db \<longleftrightarrow> (\<forall>n \<in> set (db_notifs db). \<forall>c \<in> set (db_channels db). cr_id c = n_ChannelConfigID n \<longrightarrow> cr_tenant_id c = n_TenantID n)"

definition foreign_ids :: "uuid \<Rightarrow> Notification list \<Rightarrow> uuid set" where
  "foreign_ids T ns = n_ID ` set (filter (\<lambda>n. n_TenantID n \<noteq> T) ns)"

definition others :: "uuid \<Rightarrow> pgdb \<Rightarrow>
    Tenant list \<times> Entitlements list \<times> APIKey list \<times> channel_row list \<times> WebhookEndpoint list \<times> Notification list \<times>
    DeliveryAttempt list \<times> DeliveryMetric list" where
  "others T db = (db_tenants db, db_entitlements db, filter (\<lambda>k. k_TenantID k \<noteq> T) (db_api_keys db),
     filter (\<lambda>c. cr_tenant_id c \<noteq> T) (db_channels db), filter (\<lambda>e. we_TenantID e \<noteq> T) (db_endpoints db),
     filter (\<lambda>n. n_TenantID n \<noteq> T) (db_notifs db),
     filter (\<lambda>a. da_NotificationID a \<in> foreign_ids T (db_notifs db)) (db_attempts db),
     filter (\<lambda>m. dm_NotificationID m \<in> foreign_ids T (db_notifs db)) (db_metrics db))"

definition within :: "uuid \<Rightarrow> pgdb \<Rightarrow> pgdb \<Rightarrow> bool" where
  "within T db db' \<longleftrightarrow> (db_ok db \<and> aligned db \<longrightarrow> db_ok db' \<and> aligned db' \<and> others T db' = others T db)"

named_theorems inside \<open>steps that are work for one tenant\<close>

lemma within_refl [inside, simp]: "within T db db"
  by (simp add: within_def)

lemma within_trans: "within T db db1 \<Longrightarrow> within T db1 db2 \<Longrightarrow> within T db db2"
  by (simp add: within_def)

lemma tables_only:
  assumes "tables db' = tables db"
  shows "others T db' = others T db" "aligned db' = aligned db" "db_ok db' = db_ok db"
  using tables_eq_fields [OF assms] db_ok_tables [OF assms] by (simp_all add: others_def aligned_def)

lemma within_tables [inside]: "tables db' = tables db \<Longrightarrow> within T db db'"
  unfolding within_def by (metis tables_only)

lemma faults_only: "others T (db\<lparr>db_faults := fs\<rparr>) = others T db" "aligned (db\<lparr>db_faults := fs\<rparr>) = aligned db"
  by (simp_all add: others_def aligned_def)

lemma within_faults: "within T (db\<lparr>db_faults := fs\<rparr>) db' = within T db db'"
  by (simp add: within_def faults_only)

lemma within_call:
  assumes "db_ok db \<Longrightarrow> db_ok (snd (pg_call stmt db))"
    and "\<And>d. db_ok d \<Longrightarrow> aligned d \<Longrightarrow> aligned (snd (stmt d)) \<and> others T (snd (stmt d)) = others T d"
  shows "within T db (snd (pg_call stmt db))"
proof (cases rule: pg_call_cases [of stmt db])
  case (fault m fs)
  then show ?thesis by (simp add: within_def faults_only)
next
  case (runs fs)
  with assms assms(2) [of "db\<lparr>db_faults := fs\<rparr>"] show ?thesis by (auto simp: within_def faults_only)
qed

lemma within_stmt: "(\<And>d. within T d (snd (stmt d))) \<Longrightarrow> within T db (snd (pg_call stmt db))"
proof (cases rule: pg_call_cases [of stmt db])
  case (runs fs)
  assume "\<And>d. within T d (snd (stmt d))"
  with runs show ?thesis by (metis within_faults)
qed (simp add: within_def faults_only)

lemma within_tx:
  assumes "\<And>d r d'. body d = (Inr r, d') \<Longrightarrow> within T d d'"
  shows "within T db (snd (pg_tx bf body cr db))"
proof -
  obtain r db' where e: "pg_tx bf body cr db = (r, db')" by fastforce
  then have "within T db db'"
  proof (cases rule: pg_tx_cases)
    case (committed fs a db2)
    with assms have "within T db db2" by (metis within_faults)
    with committed show ?thesis by (metis within_tables within_trans)
  qed (simp_all add: within_tables)
  with e show ?thesis by simp
qed

section \<open>Statements\<close>

text \<open>The rows of other tenants survive an update or a delete that is scoped to \<open>T\<close>.\<close>

lemma filter_update_where:
  "(\<And>x. own (f x) = own x) \<Longrightarrow> filter (\<lambda>x. own x \<noteq> T) (update_where (\<lambda>x. ident x = i \<and> own x = T \<and> P x) f t) = filter (\<lambda>x. own x \<noteq> T) t"
  "(\<And>x. own (f x) = own x) \<Longrightarrow> filter (\<lambda>x. own x \<noteq> T) (update_where (\<lambda>x. ident x = i \<and> own x = T) f t) = filter (\<lambda>x. own x \<noteq> T) t"
  by (induction t) (auto simp: update_where_def)

lemma filter_delete_where:
  "filter (\<lambda>x. own x \<noteq> T) (delete_where (\<lambda>x. ident x = i \<and> own x = T) t) = filter (\<lambda>x. own x \<noteq> T) t"
  by (induction t) (auto simp: delete_where_def)

lemma within_Revoke [inside]: "within T db (snd (Revoke i T db))"
proof -
  let ?s = "\<lambda>db. (Inr (rows_affected (\<lambda>k. k_ID k = i \<and> k_TenantID k = T \<and> k_RevokedAt k = None) (db_api_keys db)),
     db\<lparr>db_api_keys := update_where (\<lambda>k. k_ID k = i \<and> k_TenantID k = T \<and> k_RevokedAt k = None) (revoke_set (db_now db)) (db_api_keys db)\<rparr>)"
  have op: "snd (Revoke i T db) = snd (pg_call ?s db)" by (simp only: Revoke_def snd_exec Let_def)
  show ?thesis unfolding op
    by (rule within_call) (use Revoke_ok [of db i T] op in \<open>simp_all add: aligned_def others_def filter_update_where\<close>)
qed

lemma within_Endpoint_Delete [inside]: "within T db (snd (Endpoint_Delete i T db))"
proof -
  let ?s = "\<lambda>db. (Inr (rows_affected (\<lambda>w. we_ID w = i \<and> we_TenantID w = T) (db_endpoints db)),
     db\<lparr>db_endpoints := delete_where (\<lambda>w. we_ID w = i \<and> we_TenantID w = T) (db_endpoints db)\<rparr>)"
  have op: "snd (Endpoint_Delete i T db) = snd (pg_call ?s db)" by (simp only: Endpoint_Delete_def snd_exec Let_def)
  show ?thesis unfolding op
    by (rule within_call) (use deletes_ok(3) [of db i T] op in \<open>simp_all add: aligned_def others_def filter_delete_where\<close>)
qed

lemma within_Endpoint_Update [inside]: "within T db (snd (Endpoint_Update i T input db))"
proof -
  let ?s = "\<lambda>db. case find (\<lambda>w. we_ID w = i \<and> we_TenantID w = T) (db_endpoints db) of
       None \<Rightarrow> (Inl NoRows, db)
     | Some w \<Rightarrow> (Inr (endpoint_set input w), db\<lparr>db_endpoints :=
         update_where (\<lambda>w. we_ID w = i \<and> we_TenantID w = T) (endpoint_set input) (db_endpoints db)\<rparr>)"
  have op: "snd (Endpoint_Update i T input db) = snd (pg_call ?s db)"
    by (simp only: Endpoint_Update_def Let_def snd_map_result snd_scan)
  show ?thesis unfolding op
    by (rule within_call)
      (use Endpoint_Update_ok [of db i T input] op in \<open>auto simp: aligned_def others_def filter_update_where split: option.splits\<close>)
qed

lemma within_Channel_Update [inside]: "within T db (snd (Channel_Update i T input db))"
  unfolding snd_Channel_Update
proof (rule within_call)
  show "db_ok db \<Longrightarrow> db_ok (snd (pg_call (sql_update_channel i T input) db))" by (intro pg_call_ok sql_update_channel_ok)
  show "aligned (snd (sql_update_channel i T input d)) \<and> others T (snd (sql_update_channel i T input d)) = others T d"
    if "aligned d" for d
  proof
    show "aligned (snd (sql_update_channel i T input d))"
      using that by (auto simp: sql_update_channel_def Let_def checked_def aligned_def update_where_def split: option.splits)
    show "others T (snd (sql_update_channel i T input d)) = others T d"
      by (auto simp: sql_update_channel_def Let_def checked_def others_def filter_update_where split: option.splits)
  qed
qed

text \<open>An insert of a row of \<open>T\<close>.\<close>

lemma within_Channel_Create [inside]:
  assumes "cc_TenantID cfg = T"
  shows "within T db (snd (Channel_Create cfg db))"
proof -
  let ?s = "\<lambda>db. checked
     [(\<not> IsValidChannelType (cc_Channel cfg), InvalidEnum ''channel_type'' (cc_Channel cfg)),
      (cc_Config cfg = None, NotNullViolation ''channel_configs'' ''config''),
      (cc_ID cfg \<in> channel_ids db, UniqueViolation ''channel_configs_pkey''),
      (channel_key (channel_row_of cfg) \<in> channel_key ` set (db_channels db),
         UniqueViolation ''channel_configs_tenant_id_channel_name_key''),
      (cc_TenantID cfg \<notin> tenant_ids db,
         ForeignKeyViolation ''channel_configs'' ''channel_configs_tenant_id_fkey'')]
     () (db\<lparr>db_channels := db_channels db @ [channel_row_of cfg]\<rparr>) db"
  have op: "snd (Channel_Create cfg db) = snd (pg_call ?s db)" by (simp only: Channel_Create_def snd_exec)
  have "aligned (snd (?s d)) \<and> others T (snd (?s d)) = others T d" if d: "db_ok d" "aligned d" for d
  proof (cases "cc_ID cfg \<in> channel_ids d")
    case False
    then have "\<forall>n \<in> set (db_notifs d). cc_ID cfg \<noteq> n_ChannelConfigID n"
      using d(1) by (auto simp: db_ok_def refs_ok_def)
    then show ?thesis using d(2) assms by (auto simp: checked_def aligned_def others_def split: option.splits)
  qed (use d in \<open>simp add: checked_def\<close>)
  then show ?thesis unfolding op by (intro within_call) (use Channel_Create_ok [of db cfg] op in simp)
qed

lemma within_limit_within:
  assumes "\<And>d. within T d (snd (ins d))"
  shows "within T db (snd (within_limit tid count full ins limit db))"
  unfolding within_limit_def
proof (rule within_tx)
  fix d r d'
  assume b: "(case pg_query (\<lambda>db. one_row (\<lambda>t. t_ID t = tid) (db_tenants db)) d of
        (Inl e, db1) \<Rightarrow> (Inl (Some (if e = NoRows then sentinel_err ErrNotFound else dberr_go e)), db1)
      | (Inr _, db1) \<Rightarrow> (case pg_query (\<lambda>db. Inr (count db)) db1 of
             (Inl e, db2) \<Rightarrow> (Inl (Some (dberr_go e)), db2)
           | (Inr n, db2) \<Rightarrow> if n \<ge> limit then (Inl (Some full), db2)
               else (case pg_call ins db2 of (Inl e, db3) \<Rightarrow> (Inl (Some (dberr_go e)), db3) | (Inr _, db3) \<Rightarrow> (Inr (), db3)))) = (Inr r, d')"
  obtain x d1 where 1: "pg_query (\<lambda>db. one_row (\<lambda>t. t_ID t = tid) (db_tenants db)) d = (x, d1)" by fastforce
  obtain y d2 where 2: "pg_query (\<lambda>db. Inr (count db) :: dberr + int) d1 = (y, d2)" by fastforce
  obtain z d3 where 3: "pg_call ins d2 = (z, d3)" by fastforce
  have "d' = d3" using b unfolding 1 by (auto simp: 2 3 split: sum.splits if_splits)
  moreover have "within T d d1" "within T d1 d2" using pg_query_tables [OF 1] pg_query_tables [OF 2] by (auto intro: within_tables)
  moreover have "within T d2 d3" using within_stmt [OF assms, of d2] 3 by simp
  ultimately show "within T d d'" by (meson within_trans)
qed

lemma within_insert_key: "k_TenantID k = T \<Longrightarrow> within T d (snd (sql_insert_key k d))"
  using sql_insert_key_ok [of d k] by (auto simp: within_def sql_insert_key_def checked_def aligned_def others_def split: option.splits)

lemma within_insert_endpoint: "we_TenantID e = T \<Longrightarrow> within T d (snd (sql_insert_endpoint e d))"
  using sql_insert_endpoint_ok [of d e]
  by (auto simp: within_def sql_insert_endpoint_def checked_def aligned_def others_def split: option.splits)

lemma within_CreateWithinLimit [inside]:
  "k_TenantID k = T \<Longrightarrow> within T db (snd (APIKey_CreateWithinLimit k limit db))"
  "we_TenantID e = T \<Longrightarrow> within T db (snd (Endpoint_CreateWithinLimit e limit db))"
  unfolding APIKey_CreateWithinLimit_def Endpoint_CreateWithinLimit_def
  by (auto intro!: within_limit_within within_insert_key within_insert_endpoint)

text \<open>The cascade of a channel's delete reaches only notifications of the channel's tenant.\<close>

lemma cascade_channels:
  assumes ok: "db_ok d" and al: "aligned d"
    and d'_def: "d' = cascade (d\<lparr>db_channels := delete_where (\<lambda>c. cr_id c = i \<and> cr_tenant_id c = T) (db_channels d)\<rparr>)"
  shows "aligned d' \<and> others T d' = others T d"
proof
  let ?cs = "delete_where (\<lambda>c. cr_id c = i \<and> cr_tenant_id c = T) (db_channels d)"
  let ?ns = "filter (\<lambda>n. n_TenantID n \<in> tenant_ids d \<and> n_ChannelConfigID n \<in> cr_id ` set ?cs) (db_notifs d)"
  have refs: "filter (\<lambda>k. k_TenantID k \<in> tenant_ids d) (db_api_keys d) = db_api_keys d"
    "filter (\<lambda>e. e_TenantID e \<in> tenant_ids d) (db_entitlements d) = db_entitlements d"
    "filter (\<lambda>w. we_TenantID w \<in> tenant_ids d) (db_endpoints d) = db_endpoints d"
    "filter (\<lambda>c. cr_tenant_id c \<in> tenant_ids d) ?cs = ?cs"
    using ok by (auto simp: db_ok_def refs_ok_def filter_image_id set_delete_where filter_id_conv)
  have cs: "{c \<in> set ?cs. cr_tenant_id c \<in> t_ID ` set (db_tenants d)} = set ?cs"
    using arg_cong [where f = set, OF refs(4)] by (simp add: tenant_ids_def)
  have d': "db_tenants d' = db_tenants d" "db_entitlements d' = db_entitlements d" "db_api_keys d' = db_api_keys d"
    "db_endpoints d' = db_endpoints d" "db_channels d' = ?cs" "db_notifs d' = ?ns"
    "db_attempts d' = filter (\<lambda>a. da_NotificationID a \<in> n_ID ` set ?ns) (db_attempts d)"
    "db_metrics d' = filter (\<lambda>m. dm_NotificationID m \<in> n_ID ` set ?ns) (db_metrics d)"
    using refs by (simp_all add: d'_def cascade_def Let_def tenant_ids_def channel_ids_def notif_ids_def cs)
  have kept: "n_TenantID n \<in> tenant_ids d \<and> n_ChannelConfigID n \<in> cr_id ` set ?cs"
    if n: "n \<in> set (db_notifs d)" and f: "n_TenantID n \<noteq> T" for n
  proof -
    obtain c where c: "c \<in> set (db_channels d)" "cr_id c = n_ChannelConfigID n"
      using ok n by (auto simp: db_ok_def refs_ok_def channel_ids_def)
    moreover from this al n have "cr_tenant_id c = n_TenantID n" by (simp add: aligned_def)
    ultimately have "c \<in> set ?cs" using f by (simp add: set_delete_where)
    then have "n_ChannelConfigID n \<in> cr_id ` set ?cs" unfolding c(2) [symmetric] by (rule imageI)
    moreover have "n_TenantID n \<in> tenant_ids d" using ok n by (auto simp: db_ok_def refs_ok_def)
    ultimately show ?thesis by simp
  qed
  show "aligned d'" using al unfolding aligned_def d' by (auto simp: set_delete_where)
  have ns: "filter (\<lambda>n. n_TenantID n \<noteq> T) ?ns = filter (\<lambda>n. n_TenantID n \<noteq> T) (db_notifs d)"
    using kept by (auto intro!: filter_cong)
  then have ids: "foreign_ids T ?ns = foreign_ids T (db_notifs d)" by (simp add: foreign_ids_def)
  have sub: "x \<in> n_ID ` set ?ns" if "x \<in> foreign_ids T (db_notifs d)" for x
    using that kept by (auto simp: foreign_ids_def)
  show "others T d' = others T d"
    unfolding others_def d' ids ns filter_delete_where
    using sub by (auto simp: filter_filter intro!: filter_cong)
qed

lemma within_Channel_Delete [inside]: "within T db (snd (Channel_Delete i T db))"
proof -
  let ?s = "\<lambda>db. (Inr (rows_affected (\<lambda>c. cr_id c = i \<and> cr_tenant_id c = T) (db_channels db)),
         cascade (db\<lparr>db_channels := delete_where (\<lambda>c. cr_id c = i \<and> cr_tenant_id c = T) (db_channels db)\<rparr>))"
  have op: "snd (Channel_Delete i T db) = snd (pg_call ?s db)" by (simp only: Channel_Delete_def snd_exec Let_def)
  show ?thesis unfolding op
    by (rule within_call) (use deletes_ok(2) [of db i T] op cascade_channels in auto)
qed

section \<open>Services\<close>

lemma within_read: "(\<And>d. tables (snd (f d)) = tables d) \<Longrightarrow> f db = (x, db') \<Longrightarrow> within T db db'"
  by (metis snd_conv within_tables)

lemma within_APIKeyService [inside]: "within T db (snd (APIKeyService_Create r1 r2 bc t1 t2 i T label db))"
proof -
  obtain x db1 where e: "EntitlementsOrFree T t1 db = (x, db1)" by fastforce
  then have w: "within T db db1" by (rule within_read [OF EntitlementsOrFree_tables])
  have "within T db1 (snd (APIKey_CreateWithinLimit k l db1))" if "k_TenantID k = T" for k l using that by (rule inside)
  then show ?thesis
    using w within_trans [OF w] by (auto simp: APIKeyService_Create_def e Let_def split: sum.splits prod.splits option.splits) (metis APIKey.select_convs(2) snd_conv)+
qed

lemma within_ChannelService_Create [inside]: "within T db (snd (ChannelService_Create reg t1 t2 i T cin db))"
proof -
  obtain x db1 where e: "EntitlementsOrFree T t1 db = (x, db1)" by fastforce
  then have w: "within T db db1" by (rule within_read [OF EntitlementsOrFree_tables])
  have "within T db1 (snd (Channel_Create cfg db1))" if "cc_TenantID cfg = T" for cfg using that by (rule inside)
  then show ?thesis
    using w within_trans [OF w] by (auto simp: ChannelService_Create_def e Let_def split: sum.splits prod.splits option.splits) (metis ChannelConfig.select_convs(2) snd_conv)+
qed

lemma within_ChannelService_Update [inside]: "within T db (snd (ChannelService_Update reg i T input db))"
proof -
  obtain x db1 where e: "Channel_GetByID i db = (x, db1)" by fastforce
  then have w: "within T db db1" by (rule within_read [OF Channel_GetByID_tables])
  have "within T d (snd (Channel_Update i T input d))" for d by (rule inside)
  then show ?thesis
    using w within_trans [OF w] by (auto simp: ChannelService_Update_def e split: sum.splits option.splits)
qed

lemma within_EndpointService [inside]:
  "within T db (snd (EndpointService_Create chk rnd t i T cin db))" "within T db (snd (EndpointService_Update chk j T uin db))"
proof -
  have "within T db (snd (Endpoint_CreateWithinLimit e l db))" if "we_TenantID e = T" for e l using that by (rule inside)
  then show "within T db (snd (EndpointService_Create chk rnd t i T cin db))"
    by (auto simp: EndpointService_Create_def Let_def split: sum.splits prod.splits option.splits) (metis WebhookEndpoint.select_convs(2) snd_conv)+
  show "within T db (snd (EndpointService_Update chk j T uin db))"
    using within_Endpoint_Update by (auto simp: EndpointService_Update_def split: option.splits)
qed

text \<open>
  A send inserts a notification on a channel it found to be the tenant's, and then changes the row it has
  just inserted.
\<close>

lemma filter_update_id:
  "\<forall>n \<in> set t. n_ID n = i \<longrightarrow> n_TenantID n = T \<Longrightarrow> (\<And>n. n_TenantID (f n) = n_TenantID n) \<Longrightarrow>
    filter (\<lambda>n. n_TenantID n \<noteq> T) (update_where (\<lambda>n. n_ID n = i) f t) = filter (\<lambda>n. n_TenantID n \<noteq> T) t"
  by (induction t) (auto simp: update_where_def)

lemma within_SetAsynqTaskID:
  assumes "\<forall>n \<in> set (db_notifs db). n_ID n = i \<longrightarrow> n_TenantID n = T"
  shows "within T db (snd (SetAsynqTaskID i taskID now db))"
proof -
  have o: "others T (snd (sql_update_notif i (task_id_set taskID now) (db\<lparr>db_faults := fs\<rparr>))) = others T db" for fs
    using filter_update_id [OF assms, of "task_id_set taskID now"]
    by (simp add: others_def sql_update_notif_def foreign_ids_def task_id_set_def)
  have "aligned (snd (sql_update_notif i (task_id_set taskID now) (db\<lparr>db_faults := fs\<rparr>)))" if "aligned db" for fs
    using that by (auto simp: aligned_def sql_update_notif_def update_where_def task_id_set_def)
  with o notif_updates_ok(1) [of db i taskID now] show ?thesis
    by (cases rule: pg_call_cases [of "sql_update_notif i (task_id_set taskID now)" db])
      (auto simp: within_def SetAsynqTaskID_def faults_only)
qed

lemma within_Notification_Create:
  assumes "c \<in> set (db_channels db)" and "cr_id c = n_ChannelConfigID n" and "cr_tenant_id c = n_TenantID n"
  shows "within (n_TenantID n) db (snd (Notification_Create n db))"
proof -
  have "aligned db' \<and> others (n_TenantID n) db' = others (n_TenantID n) db"
    if t: "tables db' = tables (db\<lparr>db_notifs := db_notifs db @ [inserted n]\<rparr>)" and ok: "db_ok db" "aligned db" for db'
  proof -
    have "cr_tenant_id c' = n_TenantID n" if "c' \<in> set (db_channels db)" "cr_id c' = n_ChannelConfigID n" for c'
      using that assms ok(1) unfolding db_ok_def keys_ok_def by (metis distinct_map inj_onD)
    then have "aligned (db\<lparr>db_notifs := db_notifs db @ [inserted n]\<rparr>)"
      using ok(2) by (auto simp: aligned_def inserted_def)
    moreover have "others (n_TenantID n) (db\<lparr>db_notifs := db_notifs db @ [inserted n]\<rparr>) = others (n_TenantID n) db"
      by (simp add: others_def foreign_ids_def inserted_def)
    ultimately show ?thesis using tables_only(1,2) [OF t] by metis
  qed
  with Notification_Create_effect [where n = n and db = db] Notification_Create_ok [of db n] show ?thesis
    by (auto simp: within_def split: prod.splits option.splits) (metis tables_only)+
qed

lemma send_persist_within:
  assumes "c \<in> set (db_channels (w_db w))" and "cr_id c = n_ChannelConfigID n" and "cr_tenant_id c = T" and "n_TenantID n = T"
  shows "within T (w_db w) (w_db (snd (send_persist L env T cfg n w)))"
proof -
  obtain r db1 where 1: "Notification_Create n (w_db w) = (r, db1)" by fastforce
  have w1: "within T (w_db w) db1"
    using within_Notification_Create [of c "w_db w" n] assms 1 by simp
  show ?thesis
  proof (cases r)
    case (Some err)
    then show ?thesis using w1 1 by (simp add: send_persist_def on_db_def)
  next
    case None
    let ?t = "NewNotificationDeliverTask L (deliver_payload T cfg n) [n_MaxRetries n]"
    obtain x w2 where 2: "EnqueueContext L ?t (w\<lparr>w_db := db1\<rparr>) = (x, w2)" by fastforce
    then have d2: "w_db w2 = db1" using EnqueueContext_db [of L ?t "w\<lparr>w_db := db1\<rparr>"] by simp
    have "within T (w_db w) (snd (SetAsynqTaskID (n_ID n) infoID now db1))" for infoID now
    proof -
      have "\<forall>m \<in> set (db_notifs db1). n_ID m = n_ID n \<longrightarrow> n_TenantID m = T" if "db_ok (w_db w)"
      proof -
        have "db_ok db1" using Notification_Create_ok [OF that, of n] 1 by simp
        moreover have "db_notifs db1 = db_notifs (w_db w) @ [inserted n]"
          using Notification_Create_effect [where n = n and db = "w_db w"] 1 None by (auto dest: tables_eq_fields)
        ultimately show ?thesis using assms(4) by (auto simp: db_ok_def keys_ok_def inserted_def) (metis imageI)
      qed
      then show ?thesis using w1 within_SetAsynqTaskID [of db1 "n_ID n" T infoID now] by (auto simp: within_def)
    qed
    then show ?thesis using None 1 2 d2 w1 by (auto simp: send_persist_def on_db_def split: sum.splits prod.splits) (metis snd_conv)+
  qed
qed

lemma within_Send: "within T (w_db w) (w_db (snd (Send L mr env T input w)))"
proof -
  obtain x db1 where 1: "Channel_GetByID (sni_ChannelConfigID input) (w_db w) = (x, db1)" by fastforce
  then have t1: "tables db1 = tables (w_db w)" by (metis Channel_GetByID_tables snd_conv)
  obtain y db2 where 2: "EntitlementsOrFree T (se_now env) db1 = (y, db2)" by fastforce
  then have t2: "tables db2 = tables (w_db w)" by (metis EntitlementsOrFree_tables snd_conv t1)
  have w: "within T (w_db w) db1" "within T (w_db w) db2" using t1 t2 by (auto intro: within_tables)
  show ?thesis
  proof (cases x)
    case (Inl err)
    then show ?thesis using 1 w by (simp add: Send_def on_db_def)
  next
    case (Inr cfg)
    obtain c where c: "c \<in> set (db_channels (w_db w))" "cfg = scanConfig c"
      using 1 Inr by (auto elim: Channel_GetByID_found)
    let ?n = "new_notification env T cfg input (effectiveMaxRetries mr cfg)"
    have "within T (w_db w) (w_db (snd (send_persist L env T cfg ?n (w\<lparr>w_db := db2\<rparr>))))" if "cc_TenantID cfg = T"
    proof -
      have "within T db2 (w_db (snd (send_persist L env T cfg ?n (w\<lparr>w_db := db2\<rparr>))))"
        using send_persist_within [of c "w\<lparr>w_db := db2\<rparr>" ?n T L env cfg] c that tables_eq_fields(4) [OF t2]
        by (simp add: new_notification_def scanConfig_def)
      with w(2) show ?thesis by (rule within_trans)
    qed
    then show ?thesis
      using 1 2 w Inr by (auto simp: Send_def on_db_def split: sum.splits option.splits)
  qed
qed

lemma within_send_each: "within T (w_db w) (w_db (snd (send_each L mr envs T chans order w)))"
proof (induction order arbitrary: w)
  case (Cons i order)
  obtain x w1 where x: "Send L mr (envs i) T (chans ! i) w = (x, w1)" by fastforce
  obtain y w2 where y: "send_each L mr envs T chans order w1 = (y, w2)" by fastforce
  have "within T (w_db w) (w_db w1)" using within_Send [of T w L mr "envs i" "chans ! i"] x by simp
  moreover have "within T (w_db w1) (w_db w2)" using Cons.IH [of w1] y by simp
  ultimately have "within T (w_db w) (w_db w2)" by (rule within_trans)
  then show ?case using x y by (cases x; cases y) auto
qed simp

section \<open>Requests\<close>

abbreviation for_tenant :: "uuid \<Rightarrow> 'a world_scheme \<Rightarrow> 'r \<times> 'a world_scheme \<Rightarrow> bool" where
  "for_tenant T w x \<equiv> within T (w_db w) (w_db (snd x))"

named_theorems serves_tenant \<open>steps of a handler that work for the tenant\<close>

lemma for_with_claims [serves_tenant]: "rq_claims r = Some c \<Longrightarrow> for_tenant T w (f c) \<Longrightarrow> for_tenant T w (with_claims r w f)"
  by (simp add: with_claims_def)

lemma for_with_id [serves_tenant]: "(\<And>i. for_tenant T w (f i)) \<Longrightarrow> for_tenant T w (with_id E p m r w f)"
  by (simp add: with_id_def split: sum.splits)

lemma for_with_body [serves_tenant]: "(\<And>x. for_tenant T w (f x)) \<Longrightarrow> for_tenant T w (with_body E fld z r w f)"
  by (simp add: with_body_def split: sum.splits)

lemma for_respond [serves_tenant]: "for_tenant T w x \<Longrightarrow> for_tenant T w (respond l ok x)"
  by (cases x) (auto simp: respond_def split: sum.splits)

lemma for_respond_done [serves_tenant]: "for_tenant T w x \<Longrightarrow> for_tenant T w (respond_done l x)"
  by (cases x) (auto simp: respond_done_def split: option.splits)

lemma for_on_db [serves_tenant]: "within T (w_db w) (snd (f (w_db w))) \<Longrightarrow> for_tenant T w (on_db f w)"
  by (auto simp: on_db_def split: prod.splits)

lemma read_tables:
  "tables (snd (APIKey_ListByTenant T db)) = tables db" "tables (snd (Channel_ListByTenant T db)) = tables db"
  "tables (snd (Endpoint_ListByTenant T db)) = tables db" "tables (snd (Notification_GetByID i db)) = tables db"
  "tables (snd (Attempt_ListByNotification i db)) = tables db" "tables (snd (GetByNotificationID i db)) = tables db"
proof -
  show "tables (snd (GetByNotificationID i db)) = tables db"
    using tables_pg_query [of "\<lambda>db. one_row (\<lambda>m. dm_NotificationID m = i) (db_metrics db)" db]
    by (auto simp: GetByNotificationID_def split: prod.splits sum.splits simp del: tables_pg_query)
qed (simp_all add: APIKey_ListByTenant_def Channel_ListByTenant_def Endpoint_ListByTenant_def Notification_GetByID_def
    Attempt_ListByNotification_def)

lemma for_own_notification [serves_tenant]:
  assumes "\<And>i n w1. for_tenant T w1 (f i n w1)"
  shows "for_tenant T w (own_notification E r w f)"
proof -
  have "for_tenant T w (case on_db (NotificationService_GetByID i) w of
       (Inl err, w1) \<Rightarrow> (ladder (not_found ''notification not found'') err, w1)
     | (Inr notif, w1) \<Rightarrow>
         if n_TenantID notif \<noteq> tc_TenantID c then (response_Error 404 ''notification not found'', w1)
         else f i notif w1)" for i c
  proof -
    obtain x db1 where 1: "Notification_GetByID i (w_db w) = (x, db1)" by fastforce
    then have "within T (w_db w) db1" using read_tables(4) [of i "w_db w"] by (intro within_tables) simp
    with assms [of "w\<lparr>w_db := db1\<rparr>" i] 1 show ?thesis
      by (cases x) (auto simp: NotificationService_GetByID_def on_db_def intro: within_trans)
  qed
  then show ?thesis
    by (cases "rq_claims r") (auto simp: own_notification_def with_claims_def intro!: serves_tenant)
qed

lemma for_GetChannel:
  assumes "rq_claims r = Some c"
  shows "for_tenant T w (ChannelHandler_GetByID E r w)"
proof -
  have "for_tenant T w (case on_db (ChannelService_GetByID i) w of (Inl err, w1) \<Rightarrow> (f err, w1) | (Inr cfg, w1) \<Rightarrow>
      if cc_TenantID cfg \<noteq> tid then (g, w1) else (h cfg, w1))" for i f g h tid
    using within_tables [OF Channel_GetByID_tables [of i "w_db w"], of T]
    by (cases "Channel_GetByID i (w_db w)") (auto simp: ChannelService_GetByID_def on_db_def split: sum.splits)
  note found = this
  show ?thesis
    unfolding ChannelHandler_GetByID_def by (rule for_with_claims [OF assms]) (intro for_with_id found)
qed

lemma for_list:
  assumes "rq_claims r = Some c"
  shows "for_tenant T w (NotificationHandler_List E r w)"
proof -
  have "within T (w_db w) (snd (Notification_List f (w_db w)))" for f
  proof (intro within_tables)
    show "tables (snd (Notification_List f (w_db w))) = tables (w_db w)"
      by (auto simp: Notification_List_def split: prod.splits sum.splits) (metis pg_query_tables)+
  qed
  note listed = this
  show ?thesis
    unfolding NotificationHandler_List_def
    by (rule for_with_claims [OF assms])
      (auto simp: Let_def NotificationService_List_def intro!: serves_tenant listed split: prod.splits)
qed

lemma for_send:
  assumes "rq_claims r = Some c"
  shows "for_tenant (tc_TenantID c) w (NotificationHandler_Send E r w)"
    "for_tenant (tc_TenantID c) w (NotificationHandler_SendMulti E r w)"
proof -
  show "for_tenant (tc_TenantID c) w (NotificationHandler_Send E r w)"
    unfolding NotificationHandler_Send_def
    by (rule for_with_claims [OF assms]) (auto intro!: serves_tenant within_Send)
  have "for_tenant T w (case SendMulti L mr envs T chans order w of ((results, errs), w1) \<Rightarrow> (f results errs, w1))"
    for T L mr envs chans order f
    using within_send_each [of T w L mr envs chans order] by (auto simp: SendMulti_def split: prod.splits)
  note multi = this
  show "for_tenant (tc_TenantID c) w (NotificationHandler_SendMulti E r w)"
    unfolding NotificationHandler_SendMulti_def
    by (rule for_with_claims [OF assms], rule for_with_body) (use multi in auto)
qed

text \<open>The quota middleware reads the database and never writes it.\<close>

lemma quota_reads:
  "tables (q_db (snd (Reserve us url tid now now' n s))) = tables (q_db s)"
  "tables (q_db (snd (Refund us tid now n s))) = tables (q_db s)"
proof -
  obtain x s1 where 1: "on_qdb (EntitlementsOrFree tid now) s = (x, s1)" by fastforce
  then have t: "tables (q_db s1) = tables (q_db s)" by (metis on_qdb_sel(3) snd_conv EntitlementsOrFree_tables)
  have n: "q_db (notifyThreshold us url tid ent used pct s) = q_db s" for ent used pct s by (rule notifyThreshold_keeps(3))
  have d: "q_db (snd (reserve_decide us url tid ent n used s)) = q_db s" for ent used s
    by (auto simp: reserve_decide_def Let_def n on_redis_def split: prod.splits)
  show "tables (q_db (snd (Reserve us url tid now now' n s))) = tables (q_db s)"
    using 1 t d by (auto simp: Reserve_def on_redis_def split: prod.splits sum.splits)
  show "tables (q_db (snd (Refund us tid now n s))) = tables (q_db s)"
    using 1 t by (auto simp: Refund_def Let_def on_redis_def split: prod.splits sum.splits)
qed

lemma on_quota_read:
  assumes "\<And>s. tables (q_db (snd (f s))) = tables (q_db s)" and "on_quota f w = (x, w')"
  shows "within T (w_db w) (w_db w')"
  using assms(1) [of "\<lparr>q_db = w_db w, q_redis = aw_redis w, q_alerts = aw_alerts w\<rparr>"] assms(2)
  by (intro within_tables) (auto simp: on_quota_def split: prod.splits)

lemma for_quotaMW:
  assumes "\<And>w. for_tenant T w (h r w)"
  shows "for_tenant T w (quotaMW E h r w)"
proof (cases "rq_claims r")
  case None
  then show ?thesis by (simp add: quotaMW_def Middleware_def)
next
  case (Some c)
  let ?q = "\<lparr>qr_path = rq_path r, qr_body = (case read_all r of Inl e \<Rightarrow> Inl e | Inr b \<Rightarrow> Inr (ap_parse E b))\<rparr>"
  show ?thesis
  proof (cases "reservation_size ?q")
    case (Inl e)
    then show ?thesis using Some by (simp add: quotaMW_def Middleware_def)
  next
    case (Inr n)
    let ?T = "tc_TenantID c"
    obtain d w1 where 1: "on_quota (Reserve (ap_uuid_String E) (ap_billingURL E) ?T (ap_clock E 3) (ap_clock E 4) n) w = (d, w1)"
      by fastforce
    obtain resp w2 where 2: "h r w1 = (resp, w2)" by fastforce
    obtain e w3 where 3: "on_quota (Refund (ap_uuid_String E) ?T (ap_clock E 5) n) w2 = (e, w3)" by fastforce
    have w: "within T (w_db w) (w_db w1)" "within T (w_db w2) (w_db w3)"
      using on_quota_read [OF quota_reads(1) 1] on_quota_read [OF quota_reads(2) 3] by simp_all
    moreover have "within T (w_db w1) (w_db w2)" using assms [of w1] 2 by simp
    ultimately have "within T (w_db w) (w_db w2)" "within T (w_db w) (w_db w3)" by (meson within_trans)+
    then show ?thesis using Some Inr w 1 2 3
      by (auto simp: quotaMW_def Middleware_def Let_def split: sum.splits)
  qed
qed

lemma handler_for_tenant:
  assumes "guard_of rt = TenantAuth" and "rq_claims r = Some c"
  shows "for_tenant (tc_TenantID c) w (handler_of E rt r w)"
  using assms(1)
proof (cases rt)
  case GetNotifications
  then show ?thesis using for_list [OF assms(2)] by simp
next
  case GetChannel
  then show ?thesis using for_GetChannel [OF assms(2)] by simp
qed (simp_all add: handler_defs, ((rule for_with_claims [OF assms(2)] for_own_notification; (intro serves_tenant)?;
    auto simp: APIKeyService_ListByTenant_def ChannelService_ListByTenant_def EndpointService_ListByTenant_def
      APIKeyService_Revoke_def ChannelService_Delete_def EndpointService_Delete_def read_tables intro!: inside)[1])+)

text \<open>
  C6. A tenant's requests touch only that tenant's rows: whatever a request with a valid token asks for and whatever fails,
  the tenants, the entitlements and every key, channel, webhook endpoint, notification, attempt and metric of the other
  tenants are exactly what they were; and the request keeps the schema invariant and that a notification and its
  channel belong to one tenant.
\<close>

theorem tenant_writes_isolated:
  assumes "guard_of rt \<in> {TenantAuth, TenantQuota}" and "bearer E r = Some c"
    and "db_ok (w_db w)" and "aligned (w_db w)"
  shows "case serve E rt r w of (resp, w') \<Rightarrow>
    others (tc_TenantID c) (w_db w') = others (tc_TenantID c) (w_db w) \<and> db_ok (w_db w') \<and> aligned (w_db w')"
proof -
  let ?r = "r\<lparr>rq_claims := Some c\<rparr>"
  have auth: "auth_Middleware E h (r\<lparr>rq_claims := None\<rparr>) w = h ?r w" for h :: "api_world handler"
    using auth_Middleware_bearer(1) [of E "r\<lparr>rq_claims := None\<rparr>" c h w] assms(2) by simp
  have c: "rq_claims ?r = Some c" by simp
  have "for_tenant (tc_TenantID c) w (serve E rt r w)"
  proof (cases "guard_of rt = TenantAuth")
    case True
    then show ?thesis using handler_for_tenant [OF True c, of w E] by (simp add: serve_def auth)
  next
    case False
    then have "rt = PostSend \<or> rt = PostSendMulti" using assms(1) by (cases rt) auto
    then have "for_tenant (tc_TenantID c) w' (handler_of E rt ?r w')" for w' :: api_world
      using for_send [OF c, of w' E] by auto
    then have "for_tenant (tc_TenantID c) w (quotaMW E (handler_of E rt) ?r w)" by (rule for_quotaMW)
    then show ?thesis using assms(1) False by (auto simp: serve_def auth)
  qed
  then show ?thesis using assms(3,4) by (auto simp: within_def split: prod.splits)
qed

theorem tenant_writes_isolated_witness:
  "others 1 (w_db (snd (serve demo_api DeleteChannel (demo_request [(''Authorization'', ''Bearer t1'')] []) demo_api_world))) = others 1 demo_db"
proof -
  have b: "bearer demo_api (demo_request [(''Authorization'', ''Bearer t1'')] []) = Some (demo_claims 1)" by code_simp
  have a: "aligned demo_db" by code_simp
  show ?thesis
    using tenant_writes_isolated [OF _ b, of DeleteChannel demo_api_world] a demo_db_ok
    by (simp add: demo_claims_def demo_api_world_def split: prod.splits)
qed

end
