(* ===== verification/Bot.thy ===== *)
theory Bot
  imports Services Providers
begin

text \<open>
  The Telegram admin bot (\<^verbatim>\<open>internal/bot\<close>): routing of updates, the command handlers over the tenant and notification
  services, the HTML texts it sends, and the redaction of its token in log lines. The bot's state is the database
  and the list of calls it made to the Telegram API; a failing call is only logged, so its answer does not matter. What
  \<^verbatim>\<open>IsCommand\<close>, \<^verbatim>\<open>Command\<close> and \<^verbatim>\<open>CommandArguments\<close> of the Telegram library read from a message is part of the message. A nil
  pointer that the code follows ends the process: the result \<open>None\<close>. Texts are UTF-8 bytes.
\<close>

section \<open>Updates and calls\<close>

record tg_user =
  us_FirstName :: string
  us_LastName :: string
  us_UserName :: string

record tg_message =
  mg_Chat :: int
  mg_From :: "tg_user option"
  mg_Command :: "string option"
  mg_Arguments :: string

record tg_callback =
  cq_ID :: string
  cq_Message :: "(int \<times> int) option"
  cq_Data :: string

record tg_update =
  up_Message :: "tg_message option"
  up_CallbackQuery :: "tg_callback option"

datatype tg_call =
    SendMessage int string "(string \<times> string) list"
  | AnswerCallback string string
  | EditMessageText int int string

record bot_env =
  bv_adminChatID :: int
  bv_uuid_Parse :: "string \<Rightarrow> goerr + uuid"
  bv_uuid_String :: "uuid \<Rightarrow> string"

text \<open>What one update draws from outside: two buffers of random bytes, a bcrypt hash, the time and two identifiers.\<close>

record bot_draws =
  bd_rand1 :: "nat \<Rightarrow> goerr + byte list"
  bd_rand2 :: "nat \<Rightarrow> goerr + byte list"
  bd_bcrypt :: "string \<Rightarrow> goerr + string"
  bd_clock :: time
  bd_id1 :: uuid
  bd_id2 :: uuid

record bot_state =
  bt_db :: pgdb
  bt_calls :: "tg_call list"

definition on_bot :: "(pgdb \<Rightarrow> 'r \<times> pgdb) \<Rightarrow> bot_state \<Rightarrow> 'r \<times> bot_state" where
  "on_bot f s = (case f (bt_db s) of (r, db) \<Rightarrow> (r, s\<lparr>bt_db := db\<rparr>))"

section \<open>Text\<close>

text \<open>\<^verbatim>\<open>html.EscapeString\<close>.\<close>

definition escape_char :: "char \<Rightarrow> string" where
  "escape_char c =
     (if c = CHR ''&'' then ''&amp;''
      else if c = CHR 0x27 then ''&#39;''
      else if c = CHR ''<'' then ''&lt;''
      else if c = CHR ''>'' then ''&gt;''
      else if c = CHR 0x22 then ''&#34;''
      else [c])"

definition EscapeString :: "string \<Rightarrow> string" where
  "EscapeString s = concat (map escape_char s)"

definition TrimRight_newlines :: "string \<Rightarrow> string" where
  "TrimRight_newlines s = rev (dropWhile (\<lambda>c. c = CHR 0x0A) (rev s))"

text \<open>\<^verbatim>\<open>strings.Fields\<close> on ASCII white space.\<close>

function Fields :: "string \<Rightarrow> string list" where
  "Fields s = (case dropWhile is_space s of
     [] \<Rightarrow> []
   | c # cs \<Rightarrow> (c # takeWhile (\<lambda>c. \<not> is_space c) cs) # Fields (dropWhile (\<lambda>c. \<not> is_space c) cs))"
  by pat_completeness auto
termination
proof (relation "measure length")
  fix s c cs assume "dropWhile is_space s = c # cs"
  then have "Suc (length cs) \<le> length s" by (metis length_Cons length_dropWhile_le)
  then show "(dropWhile (\<lambda>c. \<not> is_space c) cs, s) \<in> measure length"
    by (simp add: le_less_trans [OF length_dropWhile_le])
qed simp

declare Fields.simps [simp del]

text \<open>\<^verbatim>\<open>Format("2006-01-02 15:04 UTC")\<close> of an instant in UTC.\<close>

definition pad :: "nat \<Rightarrow> int \<Rightarrow> string" where
  "pad k i = (if i < 0 then ''-'' else []) @ replicate (k - length (digits (nat \<bar>i\<bar>))) (CHR ''0'') @ digits (nat \<bar>i\<bar>)"

definition formatTime :: "time \<Rightarrow> string" where
  "formatTime t = (case civil t of (y, m, d) \<Rightarrow>
     pad 4 y @ ''-'' @ pad 2 m @ ''-'' @ pad 2 d @ '' '' @
     pad 2 (time_of_day t div hour_ns) @ '':'' @ pad 2 (time_of_day t mod hour_ns div minute_ns) @ '' UTC'')"

text \<open>The characters outside ASCII: an em dash, a bullet and the two marks of the active state.\<close>

definition em_dash :: string where "em_dash = [CHR 0xE2, CHR 0x80, CHR 0x94]"
definition bullet :: string where "bullet = [CHR 0xE2, CHR 0x80, CHR 0xA2]"

definition welcomeMessage :: string where
  "welcomeMessage = ''<b>notifyd Admin Bot</b>'' @ newline @ newline @ ''Available commands:'' @ newline @ newline @
     ''<b>Tenants</b>'' @ newline @
     ''/tenants '' @ em_dash @ '' list all tenants'' @ newline @
     ''/tenant &lt;id&gt; '' @ em_dash @ '' show tenant details'' @ newline @
     ''/create_tenant &lt;name&gt; &lt;slug&gt; '' @ em_dash @ '' create a new tenant'' @ newline @
     ''/toggle_tenant &lt;id&gt; '' @ em_dash @ '' toggle tenant active state'' @ newline @
     ''/delete_tenant &lt;id&gt; '' @ em_dash @ '' delete a tenant (asks for confirmation)'' @ newline @ newline @
     ''<b>Notifications</b>'' @ newline @
     ''/notifications &lt;tenant_id&gt; '' @ em_dash @ '' list recent notifications (last 10)'' @ newline @
     ''/notification &lt;id&gt; '' @ em_dash @ '' show notification details'' @ newline @ newline @
     ''<b>Stats</b>'' @ newline @
     ''/stats '' @ em_dash @ '' show system-wide counts''"

definition activeLabel :: "bool \<Rightarrow> string" where
  "activeLabel isActive = (if isActive then [CHR 0xE2, CHR 0x9C, CHR 0x85] else [CHR 0xE2, CHR 0x9D, CHR 0x8C])"

definition activeWord :: "bool \<Rightarrow> string" where
  "activeWord isActive = (if isActive then ''active'' else ''inactive'')"

definition formatTenantList :: "bot_env \<Rightarrow> Tenant list \<Rightarrow> int \<Rightarrow> string" where
  "formatTenantList E tenants tot =
     (if tenants = [] then ''<b>No tenants found.</b>''
      else TrimRight_newlines (''<b>Tenants</b> ('' @ show_int tot @ '' total)'' @ newline @ newline @
        concat (map (\<lambda>t. activeLabel (t_IsActive t) @ '' <code>'' @ EscapeString (t_Name t) @ ''</code>'' @ newline @
          ''   ID: <code>'' @ bv_uuid_String E (t_ID t) @ ''</code>'' @ newline @
          ''   Slug: <code>'' @ EscapeString (t_Slug t) @ ''</code>'' @ newline @ newline) tenants)))"

definition formatTenantDetail :: "bot_env \<Rightarrow> Tenant \<Rightarrow> string" where
  "formatTenantDetail E t = ''<b>Tenant: '' @ EscapeString (t_Name t) @ ''</b>'' @ newline @ newline @
     ''ID:      <code>'' @ bv_uuid_String E (t_ID t) @ ''</code>'' @ newline @
     ''Slug:    <code>'' @ EscapeString (t_Slug t) @ ''</code>'' @ newline @
     ''Active:  '' @ activeLabel (t_IsActive t) @ newline @
     ''API Key: <code>'' @ EscapeString (t_APIKey t) @ ''</code>'' @ newline @
     ''Created: '' @ formatTime (t_CreatedAt t) @ newline @
     ''Updated: '' @ formatTime (t_UpdatedAt t)"

definition formatNewTenant :: "bot_env \<Rightarrow> CreateTenantResult \<Rightarrow> string" where
  "formatNewTenant E result = ''<b>Tenant created successfully.</b>'' @ newline @ newline @
     ''ID:         <code>'' @ bv_uuid_String E (t_ID (ctr_Tenant result)) @ ''</code>'' @ newline @
     ''Name:       <code>'' @ EscapeString (t_Name (ctr_Tenant result)) @ ''</code>'' @ newline @
     ''Slug:       <code>'' @ EscapeString (t_Slug (ctr_Tenant result)) @ ''</code>'' @ newline @
     ''API Key:    <code>'' @ EscapeString (ctr_APIKey result) @ ''</code>'' @ newline @
     ''API Secret: <code>'' @ EscapeString (ctr_APISecret result) @ ''</code>'' @ newline @ newline @
     ''<i>Store the API secret now '' @ em_dash @ '' it will not be shown again.</i>''"

definition formatToggleResult :: "Tenant \<Rightarrow> string" where
  "formatToggleResult t = ''Tenant <code>'' @ EscapeString (t_Name t) @ ''</code> is now <b>'' @ activeWord (t_IsActive t) @ ''</b>.''"

definition formatNotificationList :: "bot_env \<Rightarrow> Notification list \<Rightarrow> int \<Rightarrow> string" where
  "formatNotificationList E notifications tot =
     (if notifications = [] then ''<b>No notifications found for this tenant.</b>''
      else TrimRight_newlines (''<b>Recent Notifications</b> ('' @ show_int tot @ '' total)'' @ newline @ newline @
        concat (map (\<lambda>n. bullet @ '' <code>'' @ bv_uuid_String E (n_ID n) @ ''</code>'' @ newline @
          ''  Status: <b>'' @ n_Status n @ ''</b>  Channel: <code>'' @ n_Channel n @ ''</code>'' @ newline @
          ''  Sent: '' @ formatTime (n_CreatedAt n) @ newline @ newline) notifications)))"

definition formatNotificationDetail :: "bot_env \<Rightarrow> Notification \<Rightarrow> string" where
  "formatNotificationDetail E n = ''<b>Notification</b>'' @ newline @ newline @
     ''ID:      <code>'' @ bv_uuid_String E (n_ID n) @ ''</code>'' @ newline @
     ''Tenant:  <code>'' @ bv_uuid_String E (n_TenantID n) @ ''</code>'' @ newline @
     ''Channel: <code>'' @ n_Channel n @ ''</code>'' @ newline @
     ''Status:  <b>'' @ n_Status n @ ''</b>'' @ newline @
     ''Retries: '' @ show_int (n_RetryCount n) @ '' / '' @ show_int (n_MaxRetries n) @ newline @
     (case n_LastError n of None \<Rightarrow> [] | Some e \<Rightarrow> ''Error:   <code>'' @ EscapeString e @ ''</code>'' @ newline) @
     (case n_DeliveredAt n of None \<Rightarrow> [] | Some t \<Rightarrow> ''Delivered: '' @ formatTime t @ newline) @
     ''Created: '' @ formatTime (n_CreatedAt n) @ newline @
     ''Updated: '' @ formatTime (n_UpdatedAt n)"

definition formatStats :: "int \<Rightarrow> (NotificationStatus \<rightharpoonup> int) \<Rightarrow> string" where
  "formatStats tenantCount notifCounts = TrimRight_newlines (''<b>System Stats</b>'' @ newline @ newline @
     ''Total Tenants: <b>'' @ show_int tenantCount @ ''</b>'' @ newline @ newline @
     ''<b>Notifications by Status</b>'' @ newline @
     concat (map (\<lambda>s. ''  '' @ s @ '': <b>'' @ show_int (case notifCounts s of None \<Rightarrow> 0 | Some k \<Rightarrow> k) @ ''</b>'' @ newline)
       [StatusPending, StatusProcessing, StatusRetrying, StatusDelivered, StatusFailed]))"

section \<open>Sending\<close>

definition record_call :: "tg_call \<Rightarrow> bot_state \<Rightarrow> bot_state" where
  "record_call c s = s\<lparr>bt_calls := bt_calls s @ [c]\<rparr>"

definition sendMessage :: "int \<Rightarrow> string \<Rightarrow> (string \<times> string) list \<Rightarrow> bot_state \<Rightarrow> bot_state" where
  "sendMessage chatID text keyboard s = record_call (SendMessage chatID text keyboard) s"

definition sendHTML :: "int \<Rightarrow> string \<Rightarrow> bot_state \<Rightarrow> bot_state" where
  "sendHTML chatID text s = sendMessage chatID text [] s"

definition sendError :: "int \<Rightarrow> string \<Rightarrow> bot_state \<Rightarrow> bot_state" where
  "sendError chatID description s = sendHTML chatID (''<b>Error:</b> '' @ description) s"

definition answerCallback :: "string \<Rightarrow> string \<Rightarrow> bot_state \<Rightarrow> bot_state" where
  "answerCallback callbackID text s = record_call (AnswerCallback callbackID text) s"

definition editMessageText :: "int \<Rightarrow> int \<Rightarrow> string \<Rightarrow> bot_state \<Rightarrow> bot_state" where
  "editMessageText chatID messageID text s = record_call (EditMessageText chatID messageID text) s"

definition isAuthorized :: "bot_env \<Rightarrow> int \<Rightarrow> bool" where
  "isAuthorized E chatID \<longleftrightarrow> bv_adminChatID E \<noteq> 0 \<and> chatID = bv_adminChatID E"

definition parseUUID :: "bot_env \<Rightarrow> int \<Rightarrow> string \<Rightarrow> string \<Rightarrow> bot_state \<Rightarrow> uuid option \<times> bot_state" where
  "parseUUID E chatID raw usageHint s = (case bv_uuid_Parse E (TrimSpace raw) of
     Inl _ \<Rightarrow> (None, sendHTML chatID (''Invalid UUID.'' @ newline @ ''<i>'' @ usageHint @ ''</i>'') s)
   | Inr i \<Rightarrow> (Some i, s))"

section \<open>Commands\<close>

definition handleStart :: "int \<Rightarrow> bot_state \<Rightarrow> bot_state" where
  "handleStart chatID s = sendHTML chatID welcomeMessage s"

definition handlePublicStart :: "bot_env \<Rightarrow> int \<Rightarrow> tg_user option \<Rightarrow> bot_state \<Rightarrow> bot_state option" where
  "handlePublicStart E chatID user s = (case user of
     None \<Rightarrow> None
   | Some u \<Rightarrow>
       (let name = us_FirstName u @ (if us_LastName u \<noteq> [] then '' '' @ us_LastName u else []);
            text = ''Welcome, <b>'' @ name @ ''</b>!'' @ newline @ newline @
                   ''Your chat ID is: <code>'' @ show_int chatID @ ''</code>'' @ newline @ newline @
                   ''Share this ID with your admin to receive notifications.''
        in Some (sendHTML (bv_adminChatID E)
             (''New user started the bot:'' @ newline @
              ''Name: <b>'' @ name @ ''</b>'' @ newline @
              ''Username: @'' @ us_UserName u @ newline @
              ''Chat ID: <code>'' @ show_int chatID @ ''</code>'')
             (sendHTML chatID text s))))"

definition handleTenants :: "bot_env \<Rightarrow> int \<Rightarrow> bot_state \<Rightarrow> bot_state" where
  "handleTenants E chatID s = (case on_bot (TenantService_List 50 0) s of
     (Inl err, s1) \<Rightarrow> sendError chatID ''Failed to fetch tenants'' s1
   | (Inr (tenants, tot), s1) \<Rightarrow> sendHTML chatID (formatTenantList E tenants tot) s1)"

definition handleTenant :: "bot_env \<Rightarrow> int \<Rightarrow> string \<Rightarrow> bot_state \<Rightarrow> bot_state" where
  "handleTenant E chatID args s = (case parseUUID E chatID args ''Usage: /tenant <id>'' s of
     (None, s1) \<Rightarrow> s1
   | (Some i, s1) \<Rightarrow> (case on_bot (TenantService_GetByID i) s1 of
       (Inl err, s2) \<Rightarrow> sendError chatID ''Tenant not found'' s2
     | (Inr tenant, s2) \<Rightarrow> sendHTML chatID (formatTenantDetail E tenant) s2))"

definition handleCreateTenant :: "bot_env \<Rightarrow> bot_draws \<Rightarrow> int \<Rightarrow> string \<Rightarrow> bot_state \<Rightarrow> bot_state" where
  "handleCreateTenant E d chatID args s = (case Fields args of
     name # slug # _ \<Rightarrow>
       (case on_bot (TenantService_Create (bd_rand1 d) (bd_rand2 d) (bd_bcrypt d) (bd_clock d) (bd_id1 d) (bd_id2 d)
               \<lparr>cti_Name = name, cti_Slug = slug\<rparr>) s of
          (Inl err, s1) \<Rightarrow> sendError chatID ''Failed to create tenant'' s1
        | (Inr result, s1) \<Rightarrow> sendHTML chatID (formatNewTenant E result) s1)
   | _ \<Rightarrow> sendHTML chatID ''Usage: /create_tenant &lt;name&gt; &lt;slug&gt;'' s)"

definition handleToggleTenant :: "bot_env \<Rightarrow> int \<Rightarrow> string \<Rightarrow> bot_state \<Rightarrow> bot_state" where
  "handleToggleTenant E chatID args s = (case parseUUID E chatID args ''Usage: /toggle_tenant <id>'' s of
     (None, s1) \<Rightarrow> s1
   | (Some i, s1) \<Rightarrow> (case on_bot (TenantService_GetByID i) s1 of
       (Inl err, s2) \<Rightarrow> sendError chatID ''Tenant not found'' s2
     | (Inr tenant, s2) \<Rightarrow>
         (case on_bot (TenantService_Update i \<lparr>uti_Name = None, uti_IsActive = Some (\<not> t_IsActive tenant)\<rparr>) s2 of
            (Inl err, s3) \<Rightarrow> sendError chatID ''Failed to update tenant'' s3
          | (Inr updated, s3) \<Rightarrow> sendHTML chatID (formatToggleResult updated) s3)))"

definition callbackDeleteConfirm :: string where
  "callbackDeleteConfirm = ''delete_confirm:''"

definition callbackDeleteCancel :: string where
  "callbackDeleteCancel = ''delete_cancel''"

definition handleDeleteTenant :: "bot_env \<Rightarrow> int \<Rightarrow> string \<Rightarrow> bot_state \<Rightarrow> bot_state" where
  "handleDeleteTenant E chatID args s = (case parseUUID E chatID args ''Usage: /delete_tenant <id>'' s of
     (None, s1) \<Rightarrow> s1
   | (Some i, s1) \<Rightarrow> sendMessage chatID
       (''Are you sure you want to delete tenant <code>'' @ bv_uuid_String E i @ ''</code>?'')
       [(''Yes, delete it'', callbackDeleteConfirm @ bv_uuid_String E i), (''Cancel'', callbackDeleteCancel)] s1)"

definition handleDeleteConfirm :: "bot_env \<Rightarrow> string \<Rightarrow> int \<Rightarrow> int \<Rightarrow> string \<Rightarrow> bot_state \<Rightarrow> bot_state" where
  "handleDeleteConfirm E queryID chatID messageID tenantIDStr s = (case bv_uuid_Parse E tenantIDStr of
     Inl _ \<Rightarrow> sendHTML chatID ''Invalid tenant ID.'' (answerCallback queryID ''Invalid tenant ID'' s)
   | Inr i \<Rightarrow> (case on_bot (TenantService_Delete i) s of
       (Some err, s1) \<Rightarrow> sendError chatID ''Failed to delete tenant'' (answerCallback queryID ''Delete failed'' s1)
     | (None, s1) \<Rightarrow> editMessageText chatID messageID
         (''Tenant <code>'' @ bv_uuid_String E i @ ''</code> has been deleted.'') (answerCallback queryID ''Deleted'' s1)))"

definition handleDeleteCancel :: "string \<Rightarrow> int \<Rightarrow> int \<Rightarrow> bot_state \<Rightarrow> bot_state" where
  "handleDeleteCancel queryID chatID messageID s =
     editMessageText chatID messageID ''Deletion cancelled.'' (answerCallback queryID ''Cancelled'' s)"

definition handleNotifications :: "bot_env \<Rightarrow> int \<Rightarrow> string \<Rightarrow> bot_state \<Rightarrow> bot_state" where
  "handleNotifications E chatID args s = (case parseUUID E chatID args ''Usage: /notifications <tenant_id>'' s of
     (None, s1) \<Rightarrow> s1
   | (Some i, s1) \<Rightarrow>
       (case on_bot (NotificationService_List
               \<lparr>nf_TenantID = i, nf_Status = None, nf_Channel = None, nf_Limit = 10, nf_Offset = 0\<rparr>) s1 of
          (Inl err, s2) \<Rightarrow> sendError chatID ''Failed to fetch notifications'' s2
        | (Inr (notifications, tot), s2) \<Rightarrow> sendHTML chatID (formatNotificationList E notifications tot) s2))"

definition handleNotification :: "bot_env \<Rightarrow> int \<Rightarrow> string \<Rightarrow> bot_state \<Rightarrow> bot_state" where
  "handleNotification E chatID args s = (case parseUUID E chatID args ''Usage: /notification <id>'' s of
     (None, s1) \<Rightarrow> s1
   | (Some i, s1) \<Rightarrow> (case on_bot (NotificationService_GetByID i) s1 of
       (Inl err, s2) \<Rightarrow> sendError chatID ''Notification not found'' s2
     | (Inr notification, s2) \<Rightarrow> sendHTML chatID (formatNotificationDetail E notification) s2))"

definition handleStats :: "int \<Rightarrow> bot_state \<Rightarrow> bot_state" where
  "handleStats chatID s = (case on_bot (TenantService_List 1 0) s of
     (Inl err, s1) \<Rightarrow> sendError chatID ''Failed to fetch tenant stats'' s1
   | (Inr (_, tenantTotal), s1) \<Rightarrow> (case on_bot NotificationService_CountByStatus s1 of
       (Inl err, s2) \<Rightarrow> sendError chatID ''Failed to fetch notification stats'' s2
     | (Inr notifCounts, s2) \<Rightarrow> sendHTML chatID (formatStats tenantTotal notifCounts) s2))"

section \<open>Routing\<close>

definition unauthorizedText :: string where
  "unauthorizedText = ''<b>Unauthorized.</b> This bot is restricted to the configured admin chat.''"

definition admin_command :: "bot_env \<Rightarrow> bot_draws \<Rightarrow> int \<Rightarrow> string \<Rightarrow> string \<Rightarrow> bot_state \<Rightarrow> bot_state" where
  "admin_command E d chatID command args s =
     (if command = ''help'' then handleStart chatID s
      else if command = ''tenants'' then handleTenants E chatID s
      else if command = ''tenant'' then handleTenant E chatID args s
      else if command = ''create_tenant'' then handleCreateTenant E d chatID args s
      else if command = ''toggle_tenant'' then handleToggleTenant E chatID args s
      else if command = ''delete_tenant'' then handleDeleteTenant E chatID args s
      else if command = ''notifications'' then handleNotifications E chatID args s
      else if command = ''notification'' then handleNotification E chatID args s
      else if command = ''stats'' then handleStats chatID s
      else sendHTML chatID ''Unknown command. Send /help for a list of available commands.'' s)"

definition dispatchMessage :: "bot_env \<Rightarrow> bot_draws \<Rightarrow> tg_message \<Rightarrow> bot_state \<Rightarrow> bot_state option" where
  "dispatchMessage E d msg s = (let chatID = mg_Chat msg in
     case mg_Command msg of
       None \<Rightarrow> Some (if isAuthorized E chatID then s else sendHTML chatID unauthorizedText s)
     | Some command \<Rightarrow>
         (let args = TrimSpace (mg_Arguments msg) in
          if command = ''start'' then
            (if isAuthorized E chatID then Some (handleStart chatID s) else handlePublicStart E chatID (mg_From msg) s)
          else if \<not> isAuthorized E chatID then Some (sendHTML chatID unauthorizedText s)
          else Some (admin_command E d chatID command args s)))"

definition dispatchCallback :: "bot_env \<Rightarrow> tg_callback \<Rightarrow> bot_state \<Rightarrow> bot_state option" where
  "dispatchCallback E query s = (case cq_Message query of
     None \<Rightarrow> None
   | Some (chatID, messageID) \<Rightarrow> Some (
       if \<not> isAuthorized E chatID then answerCallback (cq_ID query) ''Unauthorized'' s
       else case strip callbackDeleteConfirm (cq_Data query) of
         Some tenantIDStr \<Rightarrow> handleDeleteConfirm E (cq_ID query) chatID messageID tenantIDStr s
       | None \<Rightarrow>
           if cq_Data query = callbackDeleteCancel then handleDeleteCancel (cq_ID query) chatID messageID s
           else answerCallback (cq_ID query) ''Unknown action'' s))"

definition dispatchUpdate :: "bot_env \<Rightarrow> bot_draws \<Rightarrow> tg_update \<Rightarrow> bot_state \<Rightarrow> bot_state option" where
  "dispatchUpdate E d update s = (case up_Message update of
     Some msg \<Rightarrow> dispatchMessage E d msg s
   | None \<Rightarrow> (case up_CallbackQuery update of
       Some query \<Rightarrow> dispatchCallback E query s
     | None \<Rightarrow> Some s))"

text \<open>The update loop on the updates that arrive before the context is cancelled or the channel closed.\<close>

fun Start :: "bot_env \<Rightarrow> (bot_draws \<times> tg_update) list \<Rightarrow> bot_state \<Rightarrow> bot_state option" where
  "Start E [] s = Some s"
| "Start E ((d, update) # updates) s = (case dispatchUpdate E d update s of
     None \<Rightarrow> None
   | Some s1 \<Rightarrow> Start E updates s1)"

record BotConfig =
  bc_Token :: string
  bc_AdminChatID :: int

text \<open>\<open>setLogger\<close> and \<open>newBotAPI\<close> are the library's \<^verbatim>\<open>SetLogger\<close> and \<^verbatim>\<open>NewBotAPI\<close>; the logger is known by its token.\<close>

definition Bot_New :: "(string \<Rightarrow> goerr option) \<Rightarrow> (string \<Rightarrow> goerr + 'api) \<Rightarrow> BotConfig \<Rightarrow> goerr + 'api \<times> int" where
  "Bot_New setLogger newBotAPI cfg = (case setLogger (bc_Token cfg) of
     Some err \<Rightarrow> Inl (wrap ''install telegram logger: '' err [])
   | None \<Rightarrow> (case newBotAPI (bc_Token cfg) of
       Inl err \<Rightarrow> Inl (wrap ''connect to telegram api: '' err [])
     | Inr api \<Rightarrow> Inr (api, bc_AdminChatID cfg)))"

section \<open>Redaction of the token\<close>

definition is_digit :: "char \<Rightarrow> bool" where
  "is_digit c \<longleftrightarrow> 48 \<le> (of_char c :: nat) \<and> (of_char c :: nat) \<le> 57"

definition is_token_char :: "char \<Rightarrow> bool" where
  "is_token_char c \<longleftrightarrow> is_digit c \<or> 65 \<le> (of_char c :: nat) \<and> (of_char c :: nat) \<le> 90
     \<or> 97 \<le> (of_char c :: nat) \<and> (of_char c :: nat) \<le> 122 \<or> c = CHR ''_'' \<or> c = CHR ''-''"

text \<open>
  A match of \<^verbatim>\<open>bot(\d+):[A-Za-z0-9_-]+\<close> at the start, with its replacement \<^verbatim>\<open>bot${1}:REDACTED\<close>. The two repeated
  classes are taken greedily; the first excludes the colon after it, so the match is unique.
\<close>

definition telegramTokenPattern :: pattern where
  "telegramTokenPattern s = (case strip ''bot'' s of
     None \<Rightarrow> None
   | Some t \<Rightarrow>
       (let ds = takeWhile is_digit t in
        if ds = [] then None
        else case strip '':'' (dropWhile is_digit t) of
          None \<Rightarrow> None
        | Some u \<Rightarrow> if takeWhile is_token_char u = [] then None
                    else Some (''bot'' @ ds @ '':REDACTED'', dropWhile is_token_char u)))"

definition redactToken :: "string \<Rightarrow> string \<Rightarrow> string" where
  "redactToken token msg =
     (let msg1 = replace_all telegramTokenPattern msg
      in if token \<noteq> [] then replace_all (literal token ''REDACTED'') msg1 else msg1)"

text \<open>The message each method of the logger writes; \<open>printed\<close> is what \<^verbatim>\<open>fmt.Sprintln\<close> and \<^verbatim>\<open>fmt.Sprintf\<close> made of the arguments.\<close>

definition Println :: "string \<Rightarrow> string \<Rightarrow> string" where
  "Println token printed = redactToken token (TrimRight_newlines printed)"

definition Printf :: "string \<Rightarrow> string \<Rightarrow> string" where
  "Printf token printed = redactToken token printed"

end
