(* ===== verification/Bot_Laws.thy ===== *)
theory Bot_Laws
  imports Bot Api_Laws "HOL-Library.Sublist"
begin

text \<open>
  What the admin bot guarantees: chats other than the admin's change and learn nothing, a tenant disappears only after
  a confirmation from the admin chat and the button offered for it does delete it, its answers are HTML that Telegram accepts
  exactly when no usage hint is among them, and its log lines do not show the token.
\<close>

section \<open>State\<close>

lemma calls_sel [simp]:
  "bt_db (record_call c s) = bt_db s" "bt_calls (record_call c s) = bt_calls s @ [c]"
  by (simp_all add: record_call_def)

lemmas sending = sendError_def sendHTML_def sendMessage_def answerCallback_def editMessageText_def

lemma on_bot_sel [simp]:
  "fst (on_bot f s) = fst (f (bt_db s))" "bt_db (snd (on_bot f s)) = snd (f (bt_db s))" "bt_calls (snd (on_bot f s)) = bt_calls s"
  by (simp_all add: on_bot_def split: prod.splits)

lemma on_bot_pair:
  assumes "on_bot f s = (r, s1)"
  shows "bt_db s1 = snd (f (bt_db s))" "bt_calls s1 = bt_calls s" "r = fst (f (bt_db s))"
  using assms on_bot_sel [of f s] by simp_all

lemmas on_bot_db = on_bot_pair(1)

section \<open>Other chats\<close>

definition chat_of :: "tg_update \<Rightarrow> int option" where
  "chat_of u = (case up_Message u of
     Some m \<Rightarrow> Some (mg_Chat m)
   | None \<Rightarrow> (case up_CallbackQuery u of
       Some q \<Rightarrow> map_option fst (cq_Message q)
     | None \<Rightarrow> None))"

definition appends :: "tg_call list option \<Rightarrow> bot_state \<Rightarrow> bot_state option" where
  "appends r s = map_option (\<lambda>cs. s\<lparr>bt_calls := bt_calls s @ cs\<rparr>) r"

lemma appends_one: "appends (Some [c]) s = Some (record_call c s)" "appends (Some []) s = Some s"
  by (simp_all add: appends_def record_call_def)

lemma appends_exists: "\<exists>r. \<forall>s. Some (record_call c1 (record_call c2 s)) = appends r s" "\<exists>r. \<forall>s. None = appends r s"
  by (rule exI [of _ "Some [c2, c1]"], simp add: appends_def record_call_def) (rule exI [of _ None], simp add: appends_def)

lemma outsider_update:
  assumes "\<forall>c. chat_of u = Some c \<longrightarrow> \<not> isAuthorized E c"
  shows "\<exists>r. \<forall>s. dispatchUpdate E d u s = appends r s"
proof (cases "up_Message u")
  case None
  show ?thesis
  proof (cases "up_CallbackQuery u")
    case (Some q)
    with None assms show ?thesis
      by (cases "cq_Message q") (auto simp: dispatchUpdate_def dispatchCallback_def chat_of_def sending
          appends_def intro: exI [of _ None] exI [of _ "Some [AnswerCallback (cq_ID q) ''Unauthorized'']"] split: option.splits prod.splits
          simp: record_call_def)
  qed (use None in \<open>auto simp: dispatchUpdate_def appends_def intro: exI [of _ "Some []"]\<close>)
next
  case (Some m)
  then have out: "\<not> isAuthorized E (mg_Chat m)" using assms by (simp add: chat_of_def)
  let ?no = "Some [SendMessage (mg_Chat m) unauthorizedText []]"
  have no: "Some (sendHTML (mg_Chat m) unauthorizedText s) = appends ?no s" for s
    by (simp add: sending appends_one)
  show ?thesis
  proof (cases "mg_Command m = Some ''start''")
    case True
    then have "dispatchUpdate E d u s = handlePublicStart E (mg_Chat m) (mg_From m) s" for s
      using Some out by (simp add: dispatchUpdate_def dispatchMessage_def)
    moreover have "\<exists>r. \<forall>s. handlePublicStart E (mg_Chat m) (mg_From m) s = appends r s"
      unfolding handlePublicStart_def Let_def sendHTML_def sendMessage_def by (cases "mg_From m") (simp_all only: option.case appends_exists)
    ultimately show ?thesis by simp
  next
    case False
    with Some out no show ?thesis
      by (intro exI [of _ ?no]) (auto simp: dispatchUpdate_def dispatchMessage_def Let_def split: option.splits)
  qed
qed

text \<open>
  C20. Chats other than the admin's: if no update comes from the configured admin chat, which is also the case of every update when no
  admin chat is configured, then whatever the updates say, the bot leaves the database alone and makes the same calls to Telegram
  from every state of it, so an outsider neither changes nor learns anything of what is stored.
\<close>

theorem outsiders_shut_out:
  assumes "\<forall>(d, u) \<in> set updates. \<forall>c. chat_of u = Some c \<longrightarrow> bv_adminChatID E = 0 \<or> c \<noteq> bv_adminChatID E"
  shows "\<exists>r. \<forall>s. Start E updates s = map_option (\<lambda>calls. s\<lparr>bt_calls := bt_calls s @ calls\<rparr>) r"
  using assms
proof (induction updates)
  case Nil
  show ?case by (intro exI [of _ "Some []"]) simp
next
  case (Cons p updates)
  obtain d u where p: "p = (d, u)" by (cases p)
  from Cons.prems p have "\<forall>c. chat_of u = Some c \<longrightarrow> \<not> isAuthorized E c" by (auto simp: isAuthorized_def)
  then obtain r1 where r1: "\<forall>s. dispatchUpdate E d u s = appends r1 s" using outsider_update by blast
  from Cons obtain r2 where r2: "\<forall>s. Start E updates s = appends r2 s" by (auto simp: appends_def)
  have "Start E (p # updates) s = appends (case r1 of None \<Rightarrow> None | Some cs \<Rightarrow> map_option ((@) cs) r2) s" for s
    using r1 r2 p by (cases r1; cases r2) (simp_all add: appends_def)
  then show ?case by (auto simp: appends_def)
qed

section \<open>Deleting a tenant\<close>

definition confirms :: "bot_env \<Rightarrow> uuid \<Rightarrow> tg_update \<Rightarrow> bool" where
  "confirms E i u \<longleftrightarrow> (\<exists>q m str. up_Message u = None \<and> up_CallbackQuery u = Some q \<and> cq_Message q = Some (bv_adminChatID E, m) \<and>
     bv_adminChatID E \<noteq> 0 \<and> cq_Data q = callbackDeleteConfirm @ str \<and> bv_uuid_Parse E str = Inr i)"

lemma keep_query: "tenant_ids (snd (pg_query q db)) = tenant_ids db"
  by (metis tables_eq_fields(1) tables_pg_query tenant_ids_def)

lemma keep_query_pair: "pg_query q db = (r, d) \<Longrightarrow> tenant_ids d = tenant_ids db"
  using keep_query [of q db] by simp

lemma keep_call_at:
  assumes "\<And>d. i \<in> tenant_ids d \<Longrightarrow> i \<in> tenant_ids (snd (stmt d))" and "i \<in> tenant_ids db"
  shows "i \<in> tenant_ids (snd (pg_call stmt db))"
  using assms by (cases rule: pg_call_cases [of stmt db]) (simp_all add: tenant_ids_def)

lemma keep_call: "(\<And>d. tenant_ids d \<subseteq> tenant_ids (snd (stmt d))) \<Longrightarrow> tenant_ids db \<subseteq> tenant_ids (snd (pg_call stmt db))"
  by (auto intro: keep_call_at)

lemma tenant_deleted_only: "i \<in> tenant_ids db \<Longrightarrow> i \<noteq> j \<Longrightarrow> i \<in> tenant_ids (snd (Tenant_Delete j db))"
  unfolding Tenant_Delete_def snd_exec
  by (rule keep_call_at) (auto simp: tenant_ids_def cascade_def Let_def set_delete_where)

lemma keep_checked: "tenant_ids db \<subseteq> tenant_ids db' \<Longrightarrow> tenant_ids db \<subseteq> tenant_ids (snd (checked cs r db' db))"
  by (simp add: checked_def split: option.split)

lemma keep_reads:
  "tenant_ids (snd (Tenant_GetByID i db)) = tenant_ids db"
  "tenant_ids (snd (Tenant_List limit offset db)) = tenant_ids db"
  "tenant_ids (snd (Notification_GetByID i db)) = tenant_ids db"
  "tenant_ids (snd (Notification_List f db)) = tenant_ids db"
  "tenant_ids (snd (CountByStatus db)) = tenant_ids db"
proof -
  show "tenant_ids (snd (Tenant_List limit offset db)) = tenant_ids db"
    unfolding Tenant_List_def by (auto simp: keep_query dest!: keep_query_pair split: prod.split sum.split)
  show "tenant_ids (snd (Notification_List f db)) = tenant_ids db"
    unfolding Notification_List_def Let_def by (auto simp: keep_query dest!: keep_query_pair split: prod.split sum.split)
qed (simp_all add: Tenant_GetByID_def Notification_GetByID_def CountByStatus_def keep_query)

lemma keep_Update: "tenant_ids db \<subseteq> tenant_ids (snd (Tenant_Update i input db))"
  unfolding Tenant_Update_def snd_scan
  by (rule keep_call) (auto simp: tenant_ids_def image_update_where split: option.split)

lemma keep_Create:
  "tenant_ids db \<subseteq> tenant_ids (snd (TenantService_Create rand1 rand2 bcrypt now id1 id2 input db))"
proof -
  have T: "tenant_ids db \<subseteq> tenant_ids (snd (Tenant_Create t db))" for t
    unfolding Tenant_Create_def snd_exec by (rule keep_call) (rule keep_checked, auto simp: tenant_ids_def)
  have K: "tenant_ids db \<subseteq> tenant_ids (snd (APIKey_Create k db))" for k db
    unfolding APIKey_Create_def snd_exec sql_insert_key_def by (rule keep_call) (rule keep_checked, simp add: tenant_ids_def)
  have T1: "i \<in> tenant_ids d" if "Tenant_Create t db = (r, d)" "i \<in> tenant_ids db" for t r d i
    using T [of t] that by auto
  have K1: "i \<in> tenant_ids d" if "APIKey_Create k d0 = (r, d)" "i \<in> tenant_ids d0" for k d0 r d i
    using K [of d0 k] that by auto
  show ?thesis
    unfolding TenantService_Create_def Let_def by (auto split: prod.split sum.split option.split dest: T1 K1)
qed

text \<open>What the commands rely on: a call of a service that removes no tenant, whatever else it does.\<close>

locale tenant_keeper =
  fixes op :: "pgdb \<Rightarrow> 'r \<times> pgdb"
  assumes keeps: "tenant_ids db \<subseteq> tenant_ids (snd (op db))"
begin

lemma on_bot_keeps: "on_bot op s = (r, s1) \<Longrightarrow> i \<in> tenant_ids (bt_db s) \<Longrightarrow> i \<in> tenant_ids (bt_db s1)"
  using keeps [of "bt_db s"] by (auto dest!: on_bot_db)

end

interpretation tenant_list: tenant_keeper "TenantService_List limit offset" for limit offset
  by unfold_locales (simp add: TenantService_List_def keep_reads)

interpretation tenant_get: tenant_keeper "TenantService_GetByID i" for i
  by unfold_locales (simp add: TenantService_GetByID_def keep_reads)

interpretation tenant_update: tenant_keeper "TenantService_Update i input" for i input
  by unfold_locales (simp add: TenantService_Update_def keep_Update)

interpretation tenant_create: tenant_keeper "TenantService_Create rand1 rand2 bcrypt now id1 id2 input" for rand1 rand2 bcrypt now id1 id2 input
  by unfold_locales (rule keep_Create)

interpretation notif_list: tenant_keeper "NotificationService_List f" for f
  by unfold_locales (simp add: NotificationService_List_def keep_reads)

interpretation notif_get: tenant_keeper "NotificationService_GetByID i" for i
  by unfold_locales (simp add: NotificationService_GetByID_def keep_reads)

interpretation notif_count: tenant_keeper NotificationService_CountByStatus
  by unfold_locales (simp add: NotificationService_CountByStatus_def keep_reads)

lemmas services_keep = tenant_list.on_bot_keeps tenant_get.on_bot_keeps tenant_update.on_bot_keeps tenant_create.on_bot_keeps
  notif_list.on_bot_keeps notif_get.on_bot_keeps notif_count.on_bot_keeps

text \<open>No command removes a tenant.\<close>

lemma parseUUID_db: "parseUUID E chatID raw hint s = (r, s1) \<Longrightarrow> bt_db s1 = bt_db s"
  by (auto simp: parseUUID_def sending split: sum.splits)

lemma handlers_keep_tenants:
  "i \<in> tenant_ids (bt_db s) \<Longrightarrow> i \<in> tenant_ids (bt_db (handleTenants E chatID s))"
  "i \<in> tenant_ids (bt_db s) \<Longrightarrow> i \<in> tenant_ids (bt_db (handleTenant E chatID args s))"
  "i \<in> tenant_ids (bt_db s) \<Longrightarrow> i \<in> tenant_ids (bt_db (handleCreateTenant E d chatID args s))"
  "i \<in> tenant_ids (bt_db s) \<Longrightarrow> i \<in> tenant_ids (bt_db (handleToggleTenant E chatID args s))"
  "i \<in> tenant_ids (bt_db s) \<Longrightarrow> i \<in> tenant_ids (bt_db (handleDeleteTenant E chatID args s))"
  "i \<in> tenant_ids (bt_db s) \<Longrightarrow> i \<in> tenant_ids (bt_db (handleNotifications E chatID args s))"
  "i \<in> tenant_ids (bt_db s) \<Longrightarrow> i \<in> tenant_ids (bt_db (handleNotification E chatID args s))"
  "i \<in> tenant_ids (bt_db s) \<Longrightarrow> i \<in> tenant_ids (bt_db (handleStats chatID s))"
  unfolding handleTenants_def handleTenant_def handleCreateTenant_def handleToggleTenant_def handleDeleteTenant_def
    handleNotifications_def handleNotification_def handleStats_def
  by (auto split: prod.split sum.split option.split list.split simp: sending dest!: parseUUID_db dest: services_keep)

lemma command_keeps_tenants: "tenant_ids (bt_db s) \<subseteq> tenant_ids (bt_db (admin_command E d chatID command args s))"
  by (rule subsetI) (simp add: admin_command_def handleStart_def sending handlers_keep_tenants)

lemma strip_Some: "strip p s = Some t \<longleftrightarrow> s = p @ t"
  by (auto simp: strip_def HasPrefix_iff)

lemma confirm_db: "bt_db (handleDeleteConfirm E queryID chatID m str s) =
    (case bv_uuid_Parse E str of Inl _ \<Rightarrow> bt_db s | Inr j \<Rightarrow> snd (Tenant_Delete j (bt_db s)))"
  by (auto simp: handleDeleteConfirm_def sending TenantService_Delete_def dest!: on_bot_db split: sum.split prod.split option.split)

lemma update_keeps_tenants:
  assumes "dispatchUpdate E d u s = Some s'" and "i \<in> tenant_ids (bt_db s)" and "i \<notin> tenant_ids (bt_db s')"
  shows "confirms E i u"
proof (cases "up_Message u")
  case (Some m)
  then have "dispatchMessage E d m s = Some s'" using assms(1) by (simp add: dispatchUpdate_def)
  then have "tenant_ids (bt_db s) \<subseteq> tenant_ids (bt_db s')"
    by (auto simp: dispatchMessage_def handlePublicStart_def handleStart_def sending Let_def split: option.splits if_splits
        intro: subsetD [OF command_keeps_tenants])
  with assms(2,3) show ?thesis by blast
next
  case None
  then obtain q where q: "up_CallbackQuery u = Some q" and dq: "dispatchCallback E q s = Some s'"
    using assms by (auto simp: dispatchUpdate_def split: option.splits)
  then obtain c m where cm: "cq_Message q = Some (c, m)" by (auto simp: dispatchCallback_def split: option.splits)
  have auth: "isAuthorized E c"
    using dq cm assms(2,3) by (auto simp: dispatchCallback_def sending split: if_splits)
  then obtain str where str: "cq_Data q = callbackDeleteConfirm @ str" and del: "s' = handleDeleteConfirm E (cq_ID q) c m str s"
    using dq cm assms(2,3)
    by (auto simp: dispatchCallback_def handleDeleteCancel_def sending strip_Some split: option.splits if_splits)
  then obtain j where j: "bv_uuid_Parse E str = Inr j" and s': "bt_db s' = snd (Tenant_Delete j (bt_db s))"
    using assms(2,3) confirm_db [of E "cq_ID q" c m str s] by (cases "bv_uuid_Parse E str") simp_all
  have "j = i"
    using assms(2,3) s' tenant_deleted_only [of i "bt_db s" j] by auto
  then show ?thesis using None q cm auth str j by (auto simp: confirms_def isAuthorized_def)
qed

text \<open>
  C21. No deletion without confirmation: over any sequence of updates, from any chats and with any schedule of database failures, a tenant
  that was stored before and is not stored after was named in a press of a confirmation button in the admin chat;
  no message, and no press elsewhere, removes a tenant.
\<close>

theorem deletion_needs_confirmation:
  assumes "Start E updates s = Some s'" and "i \<in> tenant_ids (bt_db s)" and "i \<notin> tenant_ids (bt_db s')"
  shows "\<exists>(d, u) \<in> set updates. \<exists>q m str. up_Message u = None \<and> up_CallbackQuery u = Some q \<and>
    cq_Message q = Some (bv_adminChatID E, m) \<and> bv_adminChatID E \<noteq> 0 \<and> cq_Data q = ''delete_confirm:'' @ str \<and>
    bv_uuid_Parse E str = Inr i"
proof -
  have "\<exists>(d, u) \<in> set updates. confirms E i u" using assms
  proof (induction updates arbitrary: s)
    case (Cons p updates)
    obtain d u where p: "p = (d, u)" by (cases p)
    from Cons.prems p obtain s1 where s1: "dispatchUpdate E d u s = Some s1" "Start E updates s1 = Some s'"
      by (auto split: option.splits)
    show ?case
    proof (cases "i \<in> tenant_ids (bt_db s1)")
      case True
      with Cons.IH [OF s1(2)] Cons.prems(3) show ?thesis by auto
    next
      case False
      with update_keeps_tenants [OF s1(1)] Cons.prems(2) p show ?thesis by auto
    qed
  qed simp
  then show ?thesis by (simp only: confirms_def callbackDeleteConfirm_def)
qed

text \<open>
  The button that \<^verbatim>\<open>/delete_tenant\<close> offers: its data name the tenant asked about, nothing happens before it is pressed, and
  on a working database pressing it deletes the tenant with everything that belongs to it and nothing else of the tenants table.
\<close>

lemma delete_button_deletes:
  assumes "bv_adminChatID E \<noteq> 0" and "db_faults (bt_db s) = []" and "i \<in> tenant_ids (bt_db s)" and "db_ok (bt_db s)"
    and "bv_uuid_Parse E (TrimSpace args) = Inr i" and "bv_uuid_Parse E (bv_uuid_String E i) = Inr i"
  shows "\<exists>data s1. handleDeleteTenant E (bv_adminChatID E) args s = s1 \<and> bt_db s1 = bt_db s \<and>
      (\<exists>text other. bt_calls s1 = bt_calls s @ [SendMessage (bv_adminChatID E) text [(''Yes, delete it'', data), other]]) \<and>
      (\<forall>queryID m s2. dispatchCallback E \<lparr>cq_ID = queryID, cq_Message = Some (bv_adminChatID E, m), cq_Data = data\<rparr> s1 = Some s2 \<longrightarrow>
        db_tenants (bt_db s2) = filter (\<lambda>t. t_ID t \<noteq> i) (db_tenants (bt_db s)) \<and> db_ok (bt_db s2) \<and> i \<notin> tenant_ids (bt_db s2) \<and>
        bt_calls s2 = bt_calls s1 @ [AnswerCallback queryID ''Deleted'',
          EditMessageText (bv_adminChatID E) m (''Tenant <code>'' @ bv_uuid_String E i @ ''</code> has been deleted.'')])"
proof -
  let ?data = "callbackDeleteConfirm @ bv_uuid_String E i"
  define s1 where "s1 = handleDeleteTenant E (bv_adminChatID E) args s"
  have db1: "bt_db s1 = bt_db s" and calls1: "\<exists>text other. bt_calls s1 = bt_calls s @
      [SendMessage (bv_adminChatID E) text [(''Yes, delete it'', ?data), other]]"
    using assms(5) by (simp_all add: s1_def handleDeleteTenant_def parseUUID_def sending)
  have rows: "rows_affected (\<lambda>t. t_ID t = i) (db_tenants (bt_db s)) \<noteq> 0"
    using assms(3) by (auto simp: rows_affected_def tenant_ids_def filter_empty_conv)
  have del: "TenantService_Delete i (bt_db s) =
      (None, cascade (bt_db s\<lparr>db_tenants := delete_where (\<lambda>t. t_ID t = i) (db_tenants (bt_db s))\<rparr>))"
    using assms(2) rows by (simp add: TenantService_Delete_def Tenant_Delete_def exec_affected_def)
  have "dispatchCallback E \<lparr>cq_ID = queryID, cq_Message = Some (bv_adminChatID E, m), cq_Data = ?data\<rparr> s1 =
      Some (handleDeleteConfirm E queryID (bv_adminChatID E) m (bv_uuid_String E i) s1)" for queryID m
    using assms(1) by (simp add: dispatchCallback_def isAuthorized_def strip_def)
  moreover have "bt_db (handleDeleteConfirm E queryID (bv_adminChatID E) m (bv_uuid_String E i) s1) = snd (TenantService_Delete i (bt_db s)) \<and>
      bt_calls (handleDeleteConfirm E queryID (bv_adminChatID E) m (bv_uuid_String E i) s1) = bt_calls s1 @ [AnswerCallback queryID ''Deleted'',
          EditMessageText (bv_adminChatID E) m (''Tenant <code>'' @ bv_uuid_String E i @ ''</code> has been deleted.'')]" for queryID m
    using assms(6) del db1 by (simp add: handleDeleteConfirm_def sending on_bot_def)
  moreover have "db_ok (snd (TenantService_Delete i (bt_db s)))"
    unfolding TenantService_Delete_def using assms(4) by (rule deletes_ok)
  moreover have "db_tenants (snd (TenantService_Delete i (bt_db s))) = filter (\<lambda>t. t_ID t \<noteq> i) (db_tenants (bt_db s))"
    by (simp add: del cascade_def Let_def delete_where_def)
  ultimately show ?thesis
    using db1 calls1 unfolding s1_def [symmetric] by (intro exI [of _ ?data] exI [of _ s1]) (auto simp: tenant_ids_def)
qed

section \<open>The token in log lines\<close>

text \<open>Two strings one of which begins with the other.\<close>

definition comparable :: "string \<Rightarrow> string \<Rightarrow> bool" where
  "comparable u v \<longleftrightarrow> prefix u v \<or> prefix v u"

definition redacted :: string where
  "redacted = ''REDACTED''"

text \<open>A token that cannot be put together from the redacted and what surrounds it.\<close>

definition maskable :: "string \<Rightarrow> bool" where
  "maskable t \<longleftrightarrow> t \<noteq> [] \<and> hd t \<notin> set redacted \<and> (\<forall>v \<in> set (suffixes (tl t)). v \<noteq> [] \<longrightarrow> \<not> comparable v redacted)"

lemma literal_Some: "literal t r s = Some (out, rest) \<longleftrightarrow> out = r \<and> s = t @ rest"
  by (auto simp: literal_def strip_Some)

lemma literal_None: "literal t r s = None \<longleftrightarrow> \<not> prefix t s"
  by (auto simp: literal_def strip_def HasPrefix_iff prefix_def)

lemma prefix_survives:
  assumes "t \<noteq> []" and "prefix u (replace_all (literal t redacted) m)"
  shows "prefix u m \<or> (\<exists>v. suffix v u \<and> v \<noteq> [] \<and> comparable v redacted)"
  using assms(2)
proof (induction "literal t redacted" m arbitrary: u rule: replace_all.induct)
  case (2 c cs)
  show ?case
  proof (cases "literal t redacted (c # cs)")
    case None
    show ?thesis
    proof (cases u)
      case (Cons a u')
      with None 2(4) have "a = c" "prefix u' (replace_all (literal t redacted) cs)" by simp_all
      then have "prefix u' cs \<or> (\<exists>v. suffix v u' \<and> v \<noteq> [] \<and> comparable v redacted)" using 2(1) None by blast
      then show ?thesis using Cons \<open>a = c\<close> by (metis Cons_prefix_Cons suffix_ConsI)
    qed simp
  next
    case (Some p)
    then obtain rest where p: "p = (redacted, rest)" "c # cs = t @ rest" by (cases p) (simp add: literal_Some)
    then have "length rest \<le> length cs" using assms(1) by (cases t) auto
    with Some p(1) 2(4) have "prefix u (redacted @ replace_all (literal t redacted) rest)" by simp
    then have "comparable u redacted" by (auto simp: comparable_def prefix_append)
    then show ?thesis by (cases "u = []") auto
  qed
qed simp

lemma literal_gone:
  assumes "maskable t"
  shows "\<not> sublist t (replace_all (literal t redacted) m)"
proof (induction "literal t redacted" m rule: replace_all.induct)
  case 1
  then show ?case using assms by (simp add: maskable_def)
next
  case (2 c cs)
  have t: "t \<noteq> []" "hd t \<notin> set redacted" and sfx: "\<And>v. suffix v (tl t) \<Longrightarrow> v \<noteq> [] \<Longrightarrow> \<not> comparable v redacted"
    using assms by (auto simp: maskable_def)
  show ?case
  proof (cases "literal t redacted (c # cs)")
    case None
    have "\<not> prefix t (c # replace_all (literal t redacted) cs)"
    proof
      assume "prefix t (c # replace_all (literal t redacted) cs)"
      then have "hd t = c" "prefix (tl t) (replace_all (literal t redacted) cs)" using t(1) by (cases t; simp)+
      then have "prefix (tl t) cs" using prefix_survives [OF t(1)] sfx by blast
      with \<open>hd t = c\<close> t(1) None show False by (cases t) (simp_all add: literal_None)
    qed
    with None 2(1) show ?thesis by (simp add: sublist_Cons_right)
  next
    case (Some p)
    then obtain rest where p: "p = (redacted, rest)" "c # cs = t @ rest" by (cases p) (simp add: literal_Some)
    then have len: "length rest \<le> length cs" using t(1) by (cases t) auto
    then have "\<not> sublist t (replace_all (literal t redacted) rest)" using 2(2) Some p by simp
    then have "\<not> sublist t (u @ replace_all (literal t redacted) rest)" if "set u \<subseteq> set redacted" for u
      using that t by (induction u) (auto simp: sublist_Cons_right prefix_Cons)
    from this [of redacted] Some p(1) len show ?thesis by simp
  qed
qed

lemma replace_all_clean: "\<forall>t. suffix t s \<longrightarrow> p t = None \<Longrightarrow> replace_all p s = s"
  by (induction s) (simp_all add: suffix_Cons)

text \<open>
  The bot's token stays out of the log: whatever the Telegram library prints, with either method of its logger, the line
  written does not contain the configured token, provided the token cannot be put together from the mask and its surroundings (its
  first byte does not occur in the word \<^verbatim>\<open>REDACTED\<close>, and none of its proper suffixes begins that word or begins
  with it); and a text without a token is written as it is.
\<close>

theorem log_hides_token:
  assumes "maskable token"
  shows "\<not> sublist token (Println token printed) \<and> \<not> sublist token (Printf token printed) \<and>
    (\<not> sublist token printed \<and> (\<forall>t. suffix t printed \<longrightarrow> telegramTokenPattern t = None) \<longrightarrow> Printf token printed = printed)"
proof (intro conjI impI)
  have hidden: "\<not> sublist token (redactToken token msg)" for msg
    using assms literal_gone [OF assms] by (simp add: redactToken_def maskable_def redacted_def)
  then show "\<not> sublist token (Println token printed)" "\<not> sublist token (Printf token printed)"
    by (simp_all add: Println_def Printf_def)
  assume clean: "\<not> sublist token printed \<and> (\<forall>t. suffix t printed \<longrightarrow> telegramTokenPattern t = None)"
  have "literal token ''REDACTED'' t = None" if "suffix t printed" for t
    using clean that by (auto simp: literal_None suffix_def prefix_def)
  then show "Printf token printed = printed"
    using clean by (simp add: Printf_def redactToken_def replace_all_clean)
qed

section \<open>Markup of the answers\<close>

text \<open>
  The markup the bot writes: the tags \<^verbatim>\<open>b\<close>, \<^verbatim>\<open>i\<close> and \<^verbatim>\<open>code\<close>, each closed in the order opened, with
  ampersands only in the references that \<^verbatim>\<open>html.EscapeString\<close> writes. A text is \<open>well_tagged\<close> when it holds nothing else
  that looks like markup. The predicate is about the texts the bot hands over; what Telegram does with them is not modelled. It is
  decided by a scanner that reads from left to right with the stack of the open tags.
\<close>

datatype scanner = In_Text "string list" | In_Tag "string list" string | In_Entity "string list" string | Rejected

definition bot_tag :: "string \<Rightarrow> bool" where
  "bot_tag n \<longleftrightarrow> n \<in> set [''b'', ''i'', ''code'']"

definition escape_reference :: "string \<Rightarrow> bool" where
  "escape_reference n \<longleftrightarrow> n \<in> set [''lt'', ''gt'', ''amp'', ''#34'', ''#39'']"

definition tag_end :: "string list \<Rightarrow> string \<Rightarrow> scanner" where
  "tag_end st n = (if n \<noteq> [] \<and> hd n = CHR ''/'' then (if st \<noteq> [] \<and> hd st = tl n then In_Text (tl st) else Rejected)
     else if bot_tag n then In_Text (n # st) else Rejected)"

fun scan_char :: "scanner \<Rightarrow> char \<Rightarrow> scanner" where
  "scan_char (In_Text st) c = (if c = CHR ''<'' then In_Tag st [] else if c = CHR ''&'' then In_Entity st []
     else if c = CHR ''>'' then Rejected else In_Text st)"
| "scan_char (In_Tag st n) c = (if c = CHR ''>'' then tag_end st n else if c = CHR ''<'' then Rejected else In_Tag st (n @ [c]))"
| "scan_char (In_Entity st n) c = (if c = CHR '';'' then (if escape_reference n then In_Text st else Rejected)
     else if c \<in> set [CHR ''<'', CHR ''>'', CHR ''&'', CHR '' ''] then Rejected else In_Entity st (n @ [c]))"
| "scan_char Rejected c = Rejected"

definition scan :: "scanner \<Rightarrow> string \<Rightarrow> scanner" where
  "scan q s = foldl scan_char q s"

definition well_tagged :: "string \<Rightarrow> bool" where
  "well_tagged s \<longleftrightarrow> scan (In_Text []) s = In_Text []"

definition inert :: "string \<Rightarrow> bool" where
  "inert s \<longleftrightarrow> (\<forall>c \<in> set s. c \<noteq> CHR ''<'' \<and> c \<noteq> CHR ''>'' \<and> c \<noteq> CHR ''&'')"

named_theorems scanning \<open>what the scanner does on the parts of a text\<close>

lemma scan_simps [scanning]: "scan q [] = q" "scan q (c # s) = scan (scan_char q c) s" "scan q (s @ t) = scan (scan q s) t"
  by (simp_all add: scan_def)

lemma scan_inert: "inert s \<Longrightarrow> scan (In_Text st) s = In_Text st"
  by (induction s) (auto simp: scanning inert_def)

lemma scan_escape_char [scanning]: "scan (In_Text st) (escape_char c) = In_Text st"
  by (simp add: escape_char_def scanning escape_reference_def)

lemma scan_EscapeString [scanning]: "scan (In_Text st) (EscapeString s) = In_Text st"
  by (induction s) (simp_all add: EscapeString_def scanning)

lemma scan_Rejected [scanning]: "scan Rejected s = Rejected"
  by (induction s) (simp_all add: scanning)

lemma scan_newline_iff: "scan_char q (CHR 0x0A) = In_Text st \<longleftrightarrow> q = In_Text st"
  by (cases q) (simp_all add: tag_end_def)

lemma scan_newlines: "\<forall>c \<in> set t. c = CHR 0x0A \<Longrightarrow> scan q t = In_Text st \<longleftrightarrow> q = In_Text st"
  by (induction t arbitrary: q) (simp_all add: scanning scan_newline_iff)

lemma well_tagged_TrimRight [simp]: "well_tagged (TrimRight_newlines s) = well_tagged s"
proof -
  let ?t = "rev (takeWhile (\<lambda>c. c = CHR 0x0A) (rev s))"
  have "s = TrimRight_newlines s @ ?t"
    unfolding TrimRight_newlines_def rev_append [symmetric] by simp
  then have "scan (In_Text []) s = scan (scan (In_Text []) (TrimRight_newlines s)) ?t" by (metis scan_simps(3))
  moreover have "\<forall>c \<in> set ?t. c = CHR 0x0A" by (auto dest: set_takeWhileD)
  ultimately show ?thesis by (simp add: well_tagged_def scan_newlines)
qed

lemma inert_append [simp]: "inert (s @ t) \<longleftrightarrow> inert s \<and> inert t" "inert []" "inert (c # s) \<longleftrightarrow> c \<notin> {CHR ''<'', CHR ''>'', CHR ''&''} \<and> inert s"
  by (auto simp: inert_def)

lemma digit_inert: "(n :: nat) < 10 \<Longrightarrow> char_of (48 + n) \<notin> {CHR ''<'', CHR ''>'', CHR ''&''}"
  by (auto simp: char_of_eq_iff take_bit_eq_mod)

lemma inert_digits [simp]: "inert (digits n)"
proof (induction n rule: digits.induct)
  case (1 n)
  then show ?case
    by (subst digits.simps) (use digit_inert [of n] digit_inert [of "n mod 10"] in \<open>simp\<close>)
qed

lemma inert_numbers [simp]: "inert (show_int i)" "inert (pad k i)" "inert (formatTime t)"
  by (simp_all add: show_int_def pad_def formatTime_def inert_def [of "replicate _ _"] split: prod.split)

lemma inert_marks [simp]: "inert newline" "inert em_dash" "inert bullet" "inert (activeLabel b)" "inert (activeWord b)"
  by (simp_all add: newline_def em_dash_def bullet_def activeLabel_def activeWord_def)

lemma inert_statuses [simp]:
  "inert StatusPending" "inert StatusProcessing" "inert StatusRetrying" "inert StatusDelivered" "inert StatusFailed"
  by (simp_all add: StatusPending_def StatusProcessing_def StatusRetrying_def StatusDelivered_def StatusFailed_def)

lemma inert_enums:
  "IsValidNotificationStatus x \<Longrightarrow> inert x" "IsValidChannelType x \<Longrightarrow> inert x"
  by (auto simp: IsValidNotificationStatus_def IsValidChannelType_iff inert_statuses)

lemmas scan_parts = scanning scan_inert tag_end_def bot_tag_def escape_reference_def well_tagged_def

lemma format_tenant_html:
  assumes "\<And>i. inert (bv_uuid_String E i)"
  shows "well_tagged (formatTenantDetail E t)" "well_tagged (formatNewTenant E r)" "well_tagged (formatToggleResult t)"
  unfolding formatTenantDetail_def formatNewTenant_def formatToggleResult_def using assms by (simp_all add: scan_parts)

lemma format_counts_html: "well_tagged welcomeMessage" "well_tagged (formatStats k counts)"
  unfolding welcomeMessage_def formatStats_def well_tagged_TrimRight by (simp_all add: scan_parts)

lemma scan_concat: "(\<And>x. x \<in> set xs \<Longrightarrow> scan (In_Text []) (f x) = In_Text []) \<Longrightarrow> scan (In_Text []) (concat (map f xs)) = In_Text []"
  by (induction xs) (simp_all add: scanning)

lemma format_lists_html:
  assumes "\<And>i. inert (bv_uuid_String E i)"
  shows "well_tagged (formatTenantList E ts k)"
    and "(\<And>n. n \<in> set ns \<Longrightarrow> inert (n_Status n) \<and> inert (n_Channel n)) \<Longrightarrow> well_tagged (formatNotificationList E ns k)"
  using assms
  by (auto simp: formatTenantList_def formatNotificationList_def) (auto simp: scan_parts intro!: scan_concat)

lemma format_notification_html:
  assumes "\<And>i. inert (bv_uuid_String E i)" and "inert (n_Status n)" and "inert (n_Channel n)"
  shows "well_tagged (formatNotificationDetail E n)"
  unfolding formatNotificationDetail_def using assms by (simp add: scan_parts split: option.split)

section \<open>Answers to the admin\<close>

fun call_text :: "tg_call \<Rightarrow> string" where
  "call_text (SendMessage _ text _) = text"
| "call_text (EditMessageText _ _ text) = text"
| "call_text (AnswerCallback _ _) = []"

definition html_reply :: "bot_state \<Rightarrow> bot_state \<Rightarrow> bool" where
  "html_reply s s' \<longleftrightarrow> (\<exists>cs. bt_calls s' = bt_calls s @ cs \<and> (\<forall>c \<in> set cs. well_tagged (call_text c)))"

lemma html_reply_refl [simp]: "html_reply s s"
  by (simp add: html_reply_def)

lemma html_reply_record: "html_reply s s' \<Longrightarrow> well_tagged (call_text c) \<Longrightarrow> html_reply s (record_call c s')"
  by (auto simp: html_reply_def)

lemma html_reply_on_bot: "on_bot f s1 = (r, s2) \<Longrightarrow> html_reply s s2 = html_reply s s1"
  by (simp add: html_reply_def on_bot_pair(2))

lemma html_reply_sends:
  assumes "html_reply s s'"
  shows "well_tagged text \<Longrightarrow> html_reply s (sendHTML c text s')" "well_tagged text \<Longrightarrow> html_reply s (sendMessage c text k s')"
    "well_tagged text \<Longrightarrow> html_reply s (editMessageText c m text s')" "html_reply s (answerCallback q a s')"
    "inert text \<Longrightarrow> html_reply s (sendError c text s')"
  using assms by (auto simp: sending scan_parts intro!: html_reply_record)

text \<open>The commands that need an identifier, and an update that carries one of them without it.\<close>

definition needs_id :: "string \<Rightarrow> bool" where
  "needs_id c \<longleftrightarrow> c \<in> set [''tenant'', ''toggle_tenant'', ''delete_tenant'', ''notifications'', ''notification'']"

definition lacks_id :: "bot_env \<Rightarrow> tg_update \<Rightarrow> bool" where
  "lacks_id E u \<longleftrightarrow> (\<exists>m c e. up_Message u = Some m \<and> mg_Command m = Some c \<and> needs_id c \<and>
     bv_uuid_Parse E (TrimSpace (TrimSpace (mg_Arguments m))) = Inl e)"

lemma stored_inert: "db_ok db \<Longrightarrow> n \<in> set (db_notifs db) \<Longrightarrow> inert (n_Status n) \<and> inert (n_Channel n)"
  by (auto simp: db_ok_def enums_ok_def intro: inert_enums)

lemma shown_notifications:
  assumes "db_ok (bt_db s)" and "on_bot (NotificationService_List f) s = (Inr (ns, k), s1)" and "n \<in> set ns"
  shows "inert (n_Status n) \<and> inert (n_Channel n)"
proof -
  obtain db' where "NotificationService_List f (bt_db s) = (Inr (ns, k), db')"
    using on_bot_pair(3) [OF assms(2)] by (metis prod.collapse)
  then have "set ns \<subseteq> set (db_notifs (bt_db s))"
    unfolding NotificationService_List_def
    by (auto dest!: Notification_List_result(2) simp: matching_page_def page_def dest!: in_set_takeD in_set_dropD)
  then show ?thesis using assms(1,3) stored_inert by blast
qed

lemma shown_notification:
  assumes "db_ok (bt_db s)" and "on_bot (NotificationService_GetByID i) s = (Inr n, s1)"
  shows "inert (n_Status n)" "inert (n_Channel n)"
proof -
  obtain db' where "Notification_GetByID i (bt_db s) = (Inr n, db')"
    using on_bot_pair(3) [OF assms(2)] by (metis NotificationService_GetByID_def prod.collapse)
  then have "n \<in> set (db_notifs (bt_db s))" using found_notification by blast
  then show "inert (n_Status n)" "inert (n_Channel n)" using stored_inert [OF assms(1)] by blast+
qed

lemma parse_ok: "bv_uuid_Parse E (TrimSpace args) = Inr i \<Longrightarrow> parseUUID E chatID args hint s = (Some i, s)"
  by (simp add: parseUUID_def)

lemma parse_bad: "bv_uuid_Parse E (TrimSpace args) = Inl e \<Longrightarrow>
    parseUUID E chatID args hint s = (None, sendHTML chatID (''Invalid UUID.'' @ newline @ ''<i>'' @ hint @ ''</i>'') s)"
  by (simp add: parseUUID_def)

text \<open>Each command answers in HTML when its identifier, if it needs one, is there.\<close>

lemma command_html:
  assumes ids: "\<And>i. inert (bv_uuid_String E i)" and ok: "db_ok (bt_db s)"
    and has: "needs_id command \<Longrightarrow> \<exists>i. bv_uuid_Parse E (TrimSpace args) = Inr i"
  shows "html_reply s (admin_command E d chatID command args s)"
proof -
  note intros = html_reply_sends format_tenant_html [OF ids] format_counts_html format_lists_html [OF ids]
    format_notification_html [OF ids]
  have reads: "html_reply s (handleTenants E chatID s)" "html_reply s (handleStats chatID s)" "html_reply s (handleCreateTenant E d chatID args s)"
    unfolding handleTenants_def handleStats_def handleCreateTenant_def
    by (auto split: prod.split sum.split list.split simp: html_reply_on_bot intro!: intros) (auto simp: scan_parts)
  show ?thesis
  proof (cases "needs_id command")
    case False
    have "well_tagged ''Unknown command. Send /help for a list of available commands.''" by (simp add: scan_parts)
    with False reads show ?thesis
      by (simp add: admin_command_def needs_id_def handleStart_def html_reply_sends format_counts_html)
  next
    case True
    with has obtain i where i: "bv_uuid_Parse E (TrimSpace args) = Inr i" by blast
    have "html_reply s (handleTenant E chatID args s)" "html_reply s (handleToggleTenant E chatID args s)"
      unfolding handleTenant_def handleToggleTenant_def parse_ok [OF i]
      by (auto split: prod.split sum.split simp: html_reply_on_bot intro!: intros)
    moreover have "html_reply s (handleDeleteTenant E chatID args s)"
      unfolding handleDeleteTenant_def parse_ok [OF i] using ids by (auto intro!: intros simp: scan_parts)
    moreover have "html_reply s (handleNotifications E chatID args s)" "html_reply s (handleNotification E chatID args s)"
      unfolding handleNotifications_def handleNotification_def parse_ok [OF i]
      by (auto split: prod.split sum.split simp: html_reply_on_bot intro!: intros dest: shown_notifications [OF ok] shown_notification [OF ok])
    ultimately show ?thesis using True by (auto simp: admin_command_def needs_id_def)
  qed
qed

text \<open>A usage hint quotes its placeholder in bare angle brackets.\<close>

definition hint :: "string \<Rightarrow> string" where
  "hint command = ''Invalid UUID.'' @ newline @ ''<i>'' @ (''Usage: /'' @ command @ '' <'' @
     (if command = ''notifications'' then ''tenant_id'' else ''id'') @ ''>'') @ ''</i>''"

lemma hint_rejected: "inert command \<Longrightarrow> \<not> well_tagged (hint command)"
  by (simp add: hint_def scan_parts)

lemma hint_sent:
  assumes "needs_id command" and bad: "bv_uuid_Parse E (TrimSpace args) = Inl e"
  shows "admin_command E d chatID command args s = sendHTML chatID (hint command) s \<and> inert command"
proof -
  note defs = admin_command_def hint_def
  from assms(1) show ?thesis unfolding needs_id_def list.set insert_iff empty_iff HOL.simp_thms
  proof (elim disjE)
    assume "command = ''tenant''"
    then show ?thesis by (simp add: defs handleTenant_def parse_bad [OF bad])
  next
    assume "command = ''toggle_tenant''"
    then show ?thesis by (simp add: defs handleToggleTenant_def parse_bad [OF bad])
  next
    assume "command = ''delete_tenant''"
    then show ?thesis by (simp add: defs handleDeleteTenant_def parse_bad [OF bad])
  next
    assume "command = ''notifications''"
    then show ?thesis by (simp add: defs handleNotifications_def parse_bad [OF bad])
  next
    assume "command = ''notification''"
    then show ?thesis by (simp add: defs handleNotification_def parse_bad [OF bad])
  qed
qed

lemma callback_html:
  assumes "\<And>i. inert (bv_uuid_String E i)" and "isAuthorized E c" and "cq_Message q = Some (c, m)"
  shows "\<exists>s'. dispatchCallback E q s = Some s' \<and> html_reply s s'"
proof -
  have "well_tagged (''Tenant <code>'' @ bv_uuid_String E i @ ''</code> has been deleted.'')" for i
    using assms(1) by (simp add: scan_parts)
  moreover have "well_tagged ''Invalid tenant ID.''" "well_tagged ''Deletion cancelled.''" "inert ''Failed to delete tenant''"
    by (simp_all add: scan_parts)
  ultimately have "html_reply s (handleDeleteConfirm E (cq_ID q) c m str s)" "html_reply s (handleDeleteCancel (cq_ID q) c m s)" for str
    unfolding handleDeleteConfirm_def handleDeleteCancel_def
    by (simp_all add: html_reply_on_bot html_reply_sends split: option.split sum.split prod.split)
  then show ?thesis
    using assms(2,3) by (simp add: dispatchCallback_def html_reply_sends split: option.split)
qed

lemma sent_text: "html_reply s (sendHTML c text s) \<longleftrightarrow> well_tagged text"
  by (auto simp: html_reply_def sending)

text \<open>
  C33. Answers to the admin: an update from the admin chat never brings the bot down, and every text it sends in answer is well tagged, in the bot's own
  tags and with all else escaped, whatever names, keys and error texts are stored: stored data cannot open, close or break a tag. There is one
  exception, and it always fails: a command that needs an identifier and comes without a valid one is answered with a usage hint that
  contains its placeholder in bare angle brackets.
\<close>

theorem admin_answers:
  assumes "chat_of u = Some (bv_adminChatID E)" and "bv_adminChatID E \<noteq> 0" and "db_ok (bt_db s)"
    and "\<And>i. inert (bv_uuid_String E i)"
  shows "\<exists>s' calls. dispatchUpdate E d u s = Some s' \<and> bt_calls s' = bt_calls s @ calls \<and>
    ((\<forall>c \<in> set calls. well_tagged (call_text c)) \<longleftrightarrow> \<not> lacks_id E u)"
proof -
  have auth: "isAuthorized E (bv_adminChatID E)" using assms(2) by (simp add: isAuthorized_def)
  have lift: ?thesis if "dispatchUpdate E d u s = Some s'" "html_reply s s'" "\<not> lacks_id E u" for s'
    using that by (auto simp: html_reply_def)
  show ?thesis
  proof (cases "up_Message u")
    case None
    then obtain q m where q: "up_CallbackQuery u = Some q" "cq_Message q = Some (bv_adminChatID E, m)"
      using assms(1) by (auto simp: chat_of_def split: option.splits)
    obtain s' where "dispatchCallback E q s = Some s'" "html_reply s s'" using callback_html [OF assms(4) auth q(2)] by blast
    then show ?thesis using None q by (intro lift [of s']) (simp_all add: dispatchUpdate_def lacks_id_def)
  next
    case (Some m)
    then have chat: "mg_Chat m = bv_adminChatID E" using assms(1) by (simp add: chat_of_def)
    show ?thesis
    proof (cases "mg_Command m")
      case None
      with Some chat auth lift [of s] show ?thesis by (simp add: dispatchUpdate_def dispatchMessage_def lacks_id_def)
    next
      case com: (Some c)
      let ?args = "TrimSpace (mg_Arguments m)"
      show ?thesis
      proof (cases "c = ''start''")
        case True
        then have "dispatchUpdate E d u s = Some (handleStart (mg_Chat m) s)" "\<not> lacks_id E u"
          using Some com chat auth by (simp_all add: dispatchUpdate_def dispatchMessage_def lacks_id_def needs_id_def)
        moreover have "html_reply s (handleStart (mg_Chat m) s)" by (simp add: handleStart_def html_reply_sends format_counts_html)
        ultimately show ?thesis using lift by blast
      next
        case False
        then have step: "dispatchUpdate E d u s = Some (admin_command E d (mg_Chat m) c ?args s)"
          using Some com chat auth by (simp add: dispatchUpdate_def dispatchMessage_def)
        show ?thesis
        proof (cases "lacks_id E u")
          case True
          with Some com obtain e where "needs_id c" "bv_uuid_Parse E (TrimSpace ?args) = Inl e" by (auto simp: lacks_id_def)
          from hint_sent [OF this] hint_rejected have "dispatchUpdate E d u s = Some (sendHTML (mg_Chat m) (hint c) s)" "\<not> well_tagged (hint c)"
            unfolding step by blast+
          with True show ?thesis by (simp add: sending)
        next
          case False
          then have "needs_id c \<Longrightarrow> \<exists>i. bv_uuid_Parse E (TrimSpace ?args) = Inr i"
            using Some com by (cases "bv_uuid_Parse E (TrimSpace ?args)") (auto simp: lacks_id_def)
          from command_html [OF assms(4,3) this] step False lift show ?thesis by blast
        qed
      qed
    qed
  qed
qed

text \<open>
  The answer to \<^verbatim>\<open>/start\<close> from another chat quotes the sender's name as it is: an angle bracket in the name breaks the markup of both the
  answer and the note to the admin.
\<close>

lemma public_start_unescaped:
  assumes "us_FirstName u = ''<3''" and "us_LastName u = []"
  shows "\<exists>s' t1 t2. handlePublicStart E c (Some u) s = Some s' \<and>
    bt_calls s' = bt_calls s @ [SendMessage c t1 [], SendMessage (bv_adminChatID E) t2 []] \<and> \<not> well_tagged t1 \<and> \<not> well_tagged t2"
proof -
  have "\<not> well_tagged (pre @ ''<b>'' @ ''<3'' @ ''</b>'' @ rest)" if "inert pre" for pre rest
    using that by (simp add: scan_parts)
  from this [of "''Welcome, ''"] this [of "''New user started the bot:'' @ newline @ ''Name: ''"]
  show ?thesis using assms by (simp add: handlePublicStart_def sending)
qed

section \<open>Examples\<close>

definition demo_bot :: bot_env where
  "demo_bot = \<lparr>bv_adminChatID = 7, bv_uuid_Parse = (\<lambda>str. if str = ''1'' then Inr 1 else Inl (plain_error ''invalid UUID'')),
     bv_uuid_String = (\<lambda>i. if i = 1 then ''1'' else ''2'')\<rparr>"

definition demo_draws :: bot_draws where
  "demo_draws = \<lparr>bd_rand1 = (\<lambda>n. Inr (replicate n 1)), bd_rand2 = (\<lambda>n. Inr (replicate n 2)), bd_bcrypt = (\<lambda>s. Inr s),
     bd_clock = 50, bd_id1 = 3, bd_id2 = 4\<rparr>"

definition says :: "int \<Rightarrow> string \<Rightarrow> string \<Rightarrow> tg_update" where
  "says chat command args = \<lparr>up_Message = Some \<lparr>mg_Chat = chat, mg_From = None, mg_Command = Some command, mg_Arguments = args\<rparr>,
     up_CallbackQuery = None\<rparr>"

definition presses :: "int \<Rightarrow> string \<Rightarrow> tg_update" where
  "presses chat data = \<lparr>up_Message = None, up_CallbackQuery = Some \<lparr>cq_ID = ''q'', cq_Message = Some (chat, 5), cq_Data = data\<rparr>\<rparr>"

lemmas demo_bot_defs = demo_bot_def demo_draws_def says_def presses_def

theorem outsiders_shut_out_witness:
  "\<exists>r. \<forall>s. Start demo_bot [(demo_draws, says 8 ''create_tenant'' ''evil evil''), (demo_draws, presses 8 ''delete_confirm:1'')] s =
     map_option (\<lambda>calls. s\<lparr>bt_calls := bt_calls s @ calls\<rparr>) r"
  by (rule outsiders_shut_out) (simp add: chat_of_def demo_bot_defs)

theorem deletion_needs_confirmation_witness:
  "\<exists>(d, u) \<in> set [(demo_draws, presses 7 ''delete_confirm:1'')]. \<exists>q m str. up_Message u = None \<and> up_CallbackQuery u = Some q \<and>
    cq_Message q = Some (bv_adminChatID demo_bot, m) \<and> bv_adminChatID demo_bot \<noteq> 0 \<and> cq_Data q = ''delete_confirm:'' @ str \<and>
    bv_uuid_Parse demo_bot str = Inr 1"
proof -
  have "case Start demo_bot [(demo_draws, presses 7 ''delete_confirm:1'')] \<lparr>bt_db = demo_db, bt_calls = []\<rparr> of
      None \<Rightarrow> False | Some s' \<Rightarrow> 1 \<notin> tenant_ids (bt_db s')"
    by code_simp
  then obtain s' where "Start demo_bot [(demo_draws, presses 7 ''delete_confirm:1'')] \<lparr>bt_db = demo_db, bt_calls = []\<rparr> = Some s'"
    and "1 \<notin> tenant_ids (bt_db s')" by (auto split: option.splits)
  moreover have "1 \<in> tenant_ids (bt_db \<lparr>bt_db = demo_db, bt_calls = []\<rparr>)" by code_simp
  ultimately show ?thesis by (intro deletion_needs_confirmation)
qed

theorem log_hides_token_witness:
  "\<not> sublist ''8669384730:AAHJvTvfuf'' (Println ''8669384730:AAHJvTvfuf'' ''token 8669384730:AAHJvTvfuf'')"
proof -
  have "maskable ''8669384730:AAHJvTvfuf''" by code_simp
  from log_hides_token [OF this] show ?thesis by blast
qed

theorem admin_answers_witness:
  "\<exists>s' calls. dispatchUpdate demo_bot demo_draws (says 7 ''tenant'' '' 1'') \<lparr>bt_db = demo_db, bt_calls = []\<rparr> = Some s' \<and>
    bt_calls s' = [] @ calls \<and> ((\<forall>c \<in> set calls. well_tagged (call_text c)) \<longleftrightarrow> \<not> lacks_id demo_bot (says 7 ''tenant'' '' 1''))"
  using admin_answers [of "says 7 ''tenant'' '' 1''" demo_bot "\<lparr>bt_db = demo_db, bt_calls = []\<rparr>" demo_draws] demo_db_ok
  by (simp add: chat_of_def demo_bot_defs inert_def)

end
