(* ===== verification/Guarded_Client.thy ===== *)
theory Guarded_Client
  imports Provider_Laws Webhook_Delivery Ssrf_Laws
begin

text \<open>
  The guarded HTTP client (\<^verbatim>\<open>internal/provider/hmac_signing.go\<close>) of the webhook channel and of the event worker, over a model of the
  network. The network is an argument: name resolution, which may answer differently each time, the outcome of a connection, the answer to a
  request, and the request with which \<^verbatim>\<open>net/http\<close> would follow a redirect. The state keeps the addresses dialled and the requests sent.
\<close>

section \<open>The network\<close>

record net_state =
  nt_dialled :: "string list"
  nt_sent :: "(string \<times> http_request) list"

record net_env =
  ne_LookupIP :: "net_state \<Rightarrow> string \<Rightarrow> goerr + IP list"
  ne_ipString :: "IP \<Rightarrow> string"
  ne_connect :: "net_state \<Rightarrow> string \<Rightarrow> goerr option"
  ne_addr :: "string \<Rightarrow> string"
  ne_answer :: "net_state \<Rightarrow> string \<Rightarrow> http_request \<Rightarrow> goerr + http_response"
  ne_redirect :: "http_request \<Rightarrow> http_response \<Rightarrow> http_request option"

text \<open>A plain dial of an address; the connection is named by the address.\<close>

definition base_dial :: "net_env \<Rightarrow> string \<Rightarrow> net_state \<Rightarrow> (goerr + string) \<times> net_state" where
  "base_dial N addr st =
     (case ne_connect N st addr of Some err \<Rightarrow> Inl err | None \<Rightarrow> Inr addr, st\<lparr>nt_dialled := nt_dialled st @ [addr]\<rparr>)"

section \<open>Clients\<close>

datatype redirect_policy = FollowRedirects | UseLastResponse

record http_Client =
  hc_DialContext :: "string \<Rightarrow> net_state \<Rightarrow> (goerr + string) \<times> net_state"
  hc_Timeout :: duration
  hc_CheckRedirect :: redirect_policy

text \<open>
  \<^verbatim>\<open>http.Client.Do\<close>: connect, exchange, and follow a redirect unless the policy keeps the last response; the default policy gives
  up after ten requests, here \<open>n\<close> more. An error carries the method and the URL.
\<close>

definition url_error :: "http_request \<Rightarrow> goerr \<Rightarrow> goerr" where
  "url_error req err = wrap (take 1 (hq_method req) @ ToLower (drop 1 (hq_method req)) @ '' '' @ Quote (hq_url req) @ '': '') err []"

fun client_Do :: "net_env \<Rightarrow> http_Client \<Rightarrow> nat \<Rightarrow> net_state client" where
  "client_Do N c n req st = (case hc_DialContext c (ne_addr N (hq_url req)) st of
     (Inl err, st1) \<Rightarrow> (Inl (url_error req err), st1)
   | (Inr conn, st1) \<Rightarrow>
       (let st2 = st1\<lparr>nt_sent := nt_sent st1 @ [(conn, req)]\<rparr>
        in case ne_answer N st1 conn req of
             Inl err \<Rightarrow> (Inl (url_error req err), st2)
           | Inr resp \<Rightarrow> (case (ne_redirect N req resp, hc_CheckRedirect c) of
                 (Some req', FollowRedirects) \<Rightarrow>
                   (case n of 0 \<Rightarrow> (Inl (url_error req (plain_error ''stopped after 10 redirects'')), st2)
                    | Suc k \<Rightarrow> client_Do N c k req' st2)
               | _ \<Rightarrow> (Inr resp, st2))))"

declare client_Do.simps [simp del]

definition guardedDialContext :: "net_env \<Rightarrow> string \<Rightarrow> net_state \<Rightarrow> (goerr + string) \<times> net_state" where
  "guardedDialContext N addr st = newGuardedDialer (ne_LookupIP N st) (ne_ipString N) (base_dial N) addr st"

definition NewGuardedHTTPClient :: "net_env \<Rightarrow> duration \<Rightarrow> http_Client" where
  "NewGuardedHTTPClient N requestTimeout =
     \<lparr>hc_DialContext = guardedDialContext N, hc_Timeout = requestTimeout, hc_CheckRedirect = UseLastResponse\<rparr>"

definition webhookRequestTimeout :: duration where
  "webhookRequestTimeout = 30 * second_ns"

definition webhookEventDeliveryTimeout :: duration where
  "webhookEventDeliveryTimeout = 30 * second_ns"

text \<open>The webhook channel with its client.\<close>

definition NewWebhookProvider :: "net_env \<Rightarrow> ((string \<times> string) list \<Rightarrow> (string \<times> string) list) \<Rightarrow> http_env \<Rightarrow> RawMessage \<Rightarrow> SendRequest \<Rightarrow>
    net_state \<Rightarrow> (goerr + SendResponse) \<times> net_state" where
  "NewWebhookProvider N order E = webhook_Send order E (client_Do N (NewGuardedHTTPClient N webhookRequestTimeout) 9)"

text \<open>The event worker with its client.\<close>

definition NewDefaultWebhookEventDeliveryWorker :: "net_env \<Rightarrow> delivery_env \<Rightarrow> Task \<Rightarrow> net_state http_world \<Rightarrow>
    goerr option \<times> net_state http_world" where
  "NewDefaultWebhookEventDeliveryWorker N E =
     HandleWebhookEvent E (client_Do N (NewGuardedHTTPClient N webhookEventDeliveryTimeout) 9)"

section \<open>What the guard keeps out\<close>

text \<open>Addresses with an IP that is not blocked.\<close>

definition outside :: "net_env \<Rightarrow> string \<Rightarrow> bool" where
  "outside N a \<longleftrightarrow> (\<exists>ip port. a = JoinHostPort (ne_ipString N ip) port \<and> \<not> IsBlockedIP ip)"

lemma dial_loop_outside:
  assumes "dial_loop (ne_ipString N) (base_dial N) host port e ips st = (r, st')" and "\<forall>ip \<in> set ips. \<not> IsBlockedIP ip"
  shows "\<exists>new. nt_dialled st' = nt_dialled st @ new \<and> (\<forall>a \<in> set new. outside N a) \<and> nt_sent st' = nt_sent st \<and>
    (\<forall>conn. r = Inr conn \<longrightarrow> conn \<in> set new)"
  using assms
proof (induction ips arbitrary: e st)
  case (Cons ip ips)
  let ?a = "JoinHostPort (ne_ipString N ip) port"
  let ?st = "st\<lparr>nt_dialled := nt_dialled st @ [?a]\<rparr>"
  have out: "outside N ?a" using Cons.prems(2) by (auto simp: outside_def)
  show ?case
  proof (cases "ne_connect N st ?a")
    case None
    then have "base_dial N ?a st = (Inr ?a, ?st)" by (simp add: base_dial_def)
    then have "r = Inr ?a" "st' = ?st" using Cons.prems(1) by simp_all
    with out show ?thesis by (intro exI [of _ "[?a]"]) simp
  next
    case (Some err)
    then have "base_dial N ?a st = (Inl err, ?st)" by (simp add: base_dial_def)
    then have "dial_loop (ne_ipString N) (base_dial N) host port (Some err) ips ?st = (r, st')" using Cons.prems(1) by simp
    with Cons.IH [of "Some err" ?st] Cons.prems(2) obtain new where "nt_dialled st' = nt_dialled ?st @ new"
      "\<forall>a \<in> set new. outside N a" "nt_sent st' = nt_sent ?st" "\<forall>conn. r = Inr conn \<longrightarrow> conn \<in> set new" by auto
    with out show ?thesis by (intro exI [of _ "?a # new"]) simp
  qed
qed auto

lemma guarded_dial_outside:
  assumes "guardedDialContext N addr st = (r, st')"
  shows "\<exists>new. nt_dialled st' = nt_dialled st @ new \<and> (\<forall>a \<in> set new. outside N a) \<and> nt_sent st' = nt_sent st \<and>
    (\<forall>conn. r = Inr conn \<longrightarrow> conn \<in> set new)"
proof (cases "\<exists>host port ips. SplitHostPort addr = Inr (host, port) \<and> ne_LookupIP N st host = Inr ips \<and> first_blocked ips = None")
  case True
  then obtain host port ips where "SplitHostPort addr = Inr (host, port)" "ne_LookupIP N st host = Inr ips" and none: "first_blocked ips = None" by blast
  then have "dial_loop (ne_ipString N) (base_dial N) host port None ips st = (r, st')"
    using assms by (simp add: guardedDialContext_def newGuardedDialer_def)
  from dial_loop_outside [OF this] none show ?thesis by (simp add: first_blocked_None)
next
  case False
  then have "st' = st" "\<exists>err. r = Inl err"
    using assms by (auto simp: guardedDialContext_def newGuardedDialer_def split: sum.splits prod.splits option.splits)
  then show ?thesis by auto
qed

text \<open>
  One exchange through the guarded client: only outside addresses are dialled, and at most one request is sent, the one it was given, over a
  connection to one of them.
\<close>

definition confined :: "net_env \<Rightarrow> (http_request \<Rightarrow> bool) \<Rightarrow> net_state \<Rightarrow> net_state \<Rightarrow> bool" where
  "confined N allowed st st' \<longleftrightarrow> (\<exists>new out. nt_dialled st' = nt_dialled st @ new \<and> (\<forall>a \<in> set new. outside N a) \<and>
     nt_sent st' = nt_sent st @ out \<and> length out \<le> 1 \<and> (\<forall>(conn, q) \<in> set out. conn \<in> set new \<and> allowed q))"

lemma confined_refl [simp]: "confined N allowed st st"
  by (simp add: confined_def)

lemma confined_mono: "confined N A st st' \<Longrightarrow> (\<And>q. A q \<Longrightarrow> B q) \<Longrightarrow> confined N B st st'"
  unfolding confined_def by fast

lemma guarded_client_confined:
  assumes "client_Do N (NewGuardedHTTPClient N t) n req st = (r, st')"
  shows "confined N (\<lambda>q. q = req) st st'"
proof -
  obtain d st1 where dial: "guardedDialContext N (ne_addr N (hq_url req)) st = (d, st1)" by fastforce
  from guarded_dial_outside [OF dial] obtain new where new: "nt_dialled st1 = nt_dialled st @ new" "\<forall>a \<in> set new. outside N a"
    "nt_sent st1 = nt_sent st" "\<And>conn. d = Inr conn \<Longrightarrow> conn \<in> set new" by auto
  show ?thesis
  proof (cases d)
    case (Inl err)
    then have "st' = st1" using assms dial by (simp add: client_Do.simps NewGuardedHTTPClient_def)
    with new show ?thesis unfolding confined_def by (intro exI [of _ new] exI [of _ "[]"]) simp
  next
    case (Inr conn)
    then have "st' = st1\<lparr>nt_sent := nt_sent st1 @ [(conn, req)]\<rparr>"
      using assms dial by (auto simp: client_Do.simps NewGuardedHTTPClient_def Let_def split: sum.splits option.splits)
    with new Inr show ?thesis unfolding confined_def by (intro exI [of _ new] exI [of _ "[(conn, req)]"]) simp
  qed
qed

lemma blocked_answer:
  assumes "SplitHostPort (ne_addr N (hq_url req)) = Inr (host, port)" and "ne_LookupIP N st host = Inr ips" and "list_ex IsBlockedIP ips"
  shows "\<exists>err. client_Do N (NewGuardedHTTPClient N t) n req st = (Inl err, st) \<and>
    errors_Is err errBlockedAddress \<and> \<not> errors_Is err SkipRetry"
proof -
  obtain ip where "first_blocked ips = Some ip" using assms(3) first_blocked_None [of ips] by (cases "first_blocked ips") (auto simp: list_ex_iff)
  then show ?thesis
    using assms(1,2) by (simp add: client_Do.simps NewGuardedHTTPClient_def guardedDialContext_def newGuardedDialer_def url_error_def)
qed

lemma event_url: "hq_url (event_request E endpoint event body) = we_URL endpoint"
  by (simp add: event_request_def Let_def)

lemma channel_url: "hq_url (webhook_request E order cfg body) = wh_URL cfg"
  by (simp add: webhook_request_def json_post_def Let_def)

lemma channel_confined:
  assumes "NewWebhookProvider N order E raw req st = (r, st')"
  shows "confined N (\<lambda>q. \<exists>cfg. decode_struct webhook_field webhook_zero raw = Inr cfg \<and> hq_url q = wh_URL cfg) st st'"
proof (cases "\<exists>cfg b. decode_struct webhook_field webhook_zero raw = Inr cfg \<and> buildWebhookPayload E req = Inr b \<and> he_check_url E (wh_URL cfg) = None")
  case True
  then obtain cfg b where c: "decode_struct webhook_field webhook_zero raw = Inr cfg" "buildWebhookPayload E req = Inr b"
    "he_check_url E (wh_URL cfg) = None" by blast
  obtain x st1 where run: "client_Do N (NewGuardedHTTPClient N webhookRequestTimeout) 9 (webhook_request E order cfg b) st = (x, st1)" by fastforce
  then have "st' = st1"
    using assms c by (auto simp: NewWebhookProvider_def webhook_Send_def Let_def split: sum.splits if_splits)
  moreover have "confined N (\<lambda>q. \<exists>cfg. decode_struct webhook_field webhook_zero raw = Inr cfg \<and> hq_url q = wh_URL cfg) st st1"
    using guarded_client_confined [OF run] by (rule confined_mono) (use c(1) in \<open>auto simp: channel_url\<close>)
  ultimately show ?thesis by simp
next
  case False
  then have "st' = st" using assms by (auto simp: NewWebhookProvider_def webhook_Send_def split: sum.splits option.splits)
  then show ?thesis by simp
qed

lemma event_confined:
  assumes "NewDefaultWebhookEventDeliveryWorker N D t w = (e, w')"
  shows "confined N (\<lambda>q. \<exists>p ep. unmarshal_event (tk_Body t) = Inr p \<and> ep \<in> set (db_endpoints (w_db w)) \<and>
    we_ID ep = etp_EndpointID p \<and> we_IsActive ep \<and> hq_url q = we_URL ep) (hw_client w) (hw_client w')"
proof (cases rule: HandleWebhookEvent_steps [where E = D and t = t and w = w
      and client = "client_Do N (NewGuardedHTTPClient N webhookEventDeliveryTimeout) 9"])
  case (sends p ep body s a)
  have "ep \<in> set (db_endpoints (w_db w)) \<and> we_ID ep = etp_EndpointID p"
    using sends(1) Endpoint_GetByID_found by (metis sendable_def prod.collapse)
  then have "confined N (\<lambda>q. \<exists>p ep. unmarshal_event (tk_Body t) = Inr p \<and> ep \<in> set (db_endpoints (w_db w)) \<and>
    we_ID ep = etp_EndpointID p \<and> we_IsActive ep \<and> hq_url q = we_URL ep) (hw_client w) s"
    using guarded_client_confined [OF sends(2)] sends(1) by (elim confined_mono) (auto simp: event_url sendable_def)
  moreover have "hw_client w' = s" using assms sends(3) by (auto simp: NewDefaultWebhookEventDeliveryWorker_def)
  ultimately show ?thesis by simp
next
  case (drops err d)
  then have "hw_client w' = hw_client w" using assms by (auto simp: NewDefaultWebhookEventDeliveryWorker_def)
  then show ?thesis by simp
qed

text \<open>An event for a blocked address is not sent and will be retried, unlike a message of the webhook channel.\<close>

lemma blocked_event:
  assumes "sendable D t (w_db w) p ep body" and "SplitHostPort (ne_addr N (we_URL ep)) = Inr (host, port)"
    and "ne_LookupIP N (hw_client w) host = Inr ips" and "list_ex IsBlockedIP ips"
  shows "case NewDefaultWebhookEventDeliveryWorker N D t w of (r, w') \<Rightarrow>
    hw_client w' = hw_client w \<and> (\<exists>e. r = Some e \<and> \<not> errors_Is e SkipRetry)"
proof -
  obtain d where g: "Endpoint_GetByID (etp_EndpointID p) (w_db w) = (Inr ep, d)"
    using assms(1) by (cases "Endpoint_GetByID (etp_EndpointID p) (w_db w)") (simp add: sendable_def)
  have "SplitHostPort (ne_addr N (hq_url (event_request D ep (etp_Event p) body))) = Inr (host, port)"
    using assms(2) by (simp add: event_url)
  from blocked_answer [OF this assms(3,4)] obtain err where "\<not> errors_Is err SkipRetry"
    "client_Do N (NewGuardedHTTPClient N webhookEventDeliveryTimeout) 9 (event_request D ep (etp_Event p) body) (hw_client w) =
      (Inl err, hw_client w)" by blast
  with assms(1) g show ?thesis
    by (simp add: NewDefaultWebhookEventDeliveryWorker_def HandleWebhookEvent_def webhook_deliver_def sendable_def on_db_def)
qed

lemma blocked_channel:
  assumes "decode_struct webhook_field webhook_zero raw = Inr cfg" and "buildWebhookPayload E req = Inr body" and "he_check_url E (wh_URL cfg) = None"
    and "SplitHostPort (ne_addr N (wh_URL cfg)) = Inr (host, port)" and "ne_LookupIP N st host = Inr ips" and "list_ex IsBlockedIP ips"
  shows "\<exists>resp. NewWebhookProvider N order E raw req st = (Inr resp, st) \<and> \<not> rs_Success resp \<and> rs_Permanent resp"
proof -
  have "SplitHostPort (ne_addr N (hq_url (webhook_request E order cfg body))) = Inr (host, port)" using assms(4) by (simp add: channel_url)
  from blocked_answer [OF this assms(5,6)] obtain err where "errors_Is err errBlockedAddress"
    "client_Do N (NewGuardedHTTPClient N webhookRequestTimeout) 9 (webhook_request E order cfg body) st = (Inl err, st)" by blast
  then show ?thesis
    using assms(1-3) by (simp add: NewWebhookProvider_def webhook_Send_def classifyWebhookTransportError_def not_sent_def)
qed

text \<open>
  C15. Webhooks stay outside: whatever a tenant configures, whatever names resolve to and however often the answers change, and whatever the
  receiver answers, a redirect included, the webhook channel and the event worker connect to no blocked address and send at most one request, to the
  configured URL, over a connection to an address that was checked. When one address of a name is blocked nothing is dialled at all,
  and the channel reports a permanent failure.
\<close>

theorem webhooks_stay_outside:
  assumes "NewWebhookProvider N order E raw req st = (r, st')"
    and "NewDefaultWebhookEventDeliveryWorker N D t w = (e, w')"
  shows "confined N (\<lambda>q. \<exists>cfg. decode_struct webhook_field webhook_zero raw = Inr cfg \<and> hq_url q = wh_URL cfg) st st' \<and>
    confined N (\<lambda>q. \<exists>p ep. unmarshal_event (tk_Body t) = Inr p \<and> ep \<in> set (db_endpoints (w_db w)) \<and>
      we_ID ep = etp_EndpointID p \<and> we_IsActive ep \<and> hq_url q = we_URL ep) (hw_client w) (hw_client w') \<and>
    (decode_struct webhook_field webhook_zero raw = Inr cfg \<and> buildWebhookPayload E req = Inr body \<and> he_check_url E (wh_URL cfg) = None \<and>
     SplitHostPort (ne_addr N (wh_URL cfg)) = Inr (host, port) \<and> ne_LookupIP N st host = Inr ips \<and> list_ex IsBlockedIP ips \<longrightarrow>
       st' = st \<and> (\<exists>resp. r = Inr resp \<and> \<not> rs_Success resp \<and> rs_Permanent resp))"
  using channel_confined [OF assms(1)] event_confined [OF assms(2)] blocked_channel [of raw cfg E req body N host port st ips order] assms(1)
  by auto

text \<open>
  The Discord channel has no such guard: it accepts every URL as its webhook and posts to it with the client it is given.
\<close>

lemma discord_goes_anywhere:
  assumes "u \<noteq> []" and "he_check_url E u = None"
  shows "discord_ValidateConfig (Some (JObj [(''webhook_url'', JStr u)])) = None"
    and "\<exists>q. snd (discord_Send E (\<lambda>q log. (reply q, log @ [q])) (Some (JObj [(''webhook_url'', JStr u)])) req []) = [q] \<and> hq_url q = u"
  using assms by (auto simp: discord_ValidateConfig_def discord_Send_def decode_struct_def decode_value_def discord_field_def decode_string_def
      ToLower_def ascii_lower_def json_post_def Let_def split: sum.split)

section \<open>Examples\<close>

text \<open>A name that resolves to a public and to a private address, and a receiver that answers every request with a redirect.\<close>

definition demo_net :: net_env where
  "demo_net = \<lparr>ne_LookupIP = (\<lambda>st h. Inr (if h = ''evil.test'' then [[8, 8, 8, 8], [10, 0, 0, 1]] else [[8, 8, 8, 8]])),
     ne_ipString = (\<lambda>_. ''ip''), ne_connect = (\<lambda>_ _. None), ne_addr = (\<lambda>u. if u = ''https://evil.test/'' then ''evil.test:443'' else ''good.test:443''),
     ne_answer = (\<lambda>_ _ _. Inr \<lparr>hp_status = 302, hp_body = []\<rparr>), ne_redirect = (\<lambda>q _. Some q)\<rparr>"

definition quiet :: net_state where
  "quiet = \<lparr>nt_dialled = [], nt_sent = []\<rparr>"

definition evil_config :: RawMessage where
  "evil_config = Some (JObj [(''url'', JStr ''https://evil.test/'')])"

theorem webhooks_stay_outside_witness:
  "snd (NewWebhookProvider demo_net (\<lambda>h. h) demo_http evil_config
     \<lparr>sr_NotificationID = 1, sr_Subject = [], sr_Body = ''x'', sr_Metadata = None, sr_FormatMode = []\<rparr> quiet) = quiet"
proof -
  let ?req = "\<lparr>sr_NotificationID = 1, sr_Subject = [], sr_Body = ''x'', sr_Metadata = None, sr_FormatMode = []\<rparr> :: SendRequest"
  let ?cfg = "\<lparr>wh_URL = ''https://evil.test/'', wh_Secret = [], wh_Headers = []\<rparr>"
  obtain r st' where run: "NewWebhookProvider demo_net (\<lambda>h. h) demo_http evil_config ?req quiet = (r, st')" by fastforce
  obtain e w' where ev: "NewDefaultWebhookEventDeliveryWorker demo_net demo_delivery demo_event_task
      \<lparr>w_db = demo_db, w_queue = [], hw_client = quiet\<rparr> = (e, w')" by fastforce
  have "decode_struct webhook_field webhook_zero evil_config = Inr ?cfg" by code_simp
  moreover have "buildWebhookPayload demo_http ?req = Inr ''{}''" by (simp add: buildWebhookPayload_def demo_http_def raw_valid_def)
  moreover have "he_check_url demo_http (wh_URL ?cfg) = None" by (simp add: demo_http_def)
  moreover have "SplitHostPort (ne_addr demo_net (wh_URL ?cfg)) = Inr (''evil.test'', ''443'')" by code_simp
  moreover have "ne_LookupIP demo_net quiet ''evil.test'' = Inr [[8, 8, 8, 8], [10, 0, 0, 1]]" by (simp add: demo_net_def)
  moreover have "list_ex IsBlockedIP [[8, 8, 8, 8], [10, 0, 0, 1]]" by code_simp
  ultimately have "st' = quiet" using webhooks_stay_outside [OF run ev] by blast
  then show ?thesis by (simp add: run)
qed

end
