(* ===== verification/Processes.thy ===== *)
theory Processes
  imports Bot_Laws Maintenance Guarded_Client
begin

text \<open>
  The three processes (\<^verbatim>\<open>cmd/api\<close>, \<^verbatim>\<open>cmd/worker\<close>, \<^verbatim>\<open>cmd/admin-bot\<close>) and their configuration (\<^verbatim>\<open>internal/config\<close>): what each \<^verbatim>\<open>main\<close> checks before it
  starts, what it takes from the configuration, and which queues, task types and schedules the worker registers. The environment
  parser, the connection pool, the asynq server and the HTTP server are libraries: their answers are arguments. A process that calls
  \<^verbatim>\<open>logger.Fatal\<close> ends with the message; one that starts is described by what it runs.
\<close>

section \<open>Configuration\<close>

record Config =
  cf_APIPort :: int
  cf_ShutdownTimeout :: duration
  cf_DatabaseURL :: string
  cf_DBMaxConns :: int
  cf_DBMinConns :: int
  cf_DBMaxConnLifetime :: duration
  cf_DBMaxConnIdleTime :: duration
  cf_DBHealthCheckPeriod :: duration
  cf_RedisAddr :: string
  cf_RedisPassword :: string
  cf_RedisDB :: int
  cf_JWTSigningKey :: string
  cf_JWTExpiration :: duration
  cf_JWTIssuer :: string
  cf_WorkerConcurrency :: int
  cf_MaxRetries :: int
  cf_MinRetryDelay :: duration
  cf_MaxRetryDelay :: duration
  cf_LogLevel :: string
  cf_TelegramBotToken :: string
  cf_TelegramAdminChat :: int
  cf_AdminAPIKey :: string
  cf_AdminAPISecret :: string
  cf_ServiceHMACSecret :: string
  cf_BillingWebhookURL :: string
  cf_UpgradeURL :: string

text \<open>The defaults of the struct tags; the two required variables are arguments.\<close>

definition default_config :: "string \<Rightarrow> string \<Rightarrow> Config" where
  "default_config databaseURL signingKey =
     \<lparr>cf_APIPort = 8080, cf_ShutdownTimeout = 15 * second_ns, cf_DatabaseURL = databaseURL, cf_DBMaxConns = 25, cf_DBMinConns = 5,
      cf_DBMaxConnLifetime = 30 * minute_ns, cf_DBMaxConnIdleTime = 5 * minute_ns, cf_DBHealthCheckPeriod = 30 * second_ns,
      cf_RedisAddr = ''127.0.0.1:6379'', cf_RedisPassword = [], cf_RedisDB = 0, cf_JWTSigningKey = signingKey, cf_JWTExpiration = hour_ns,
      cf_JWTIssuer = ''notifyd'', cf_WorkerConcurrency = 10, cf_MaxRetries = 5, cf_MinRetryDelay = 15 * second_ns,
      cf_MaxRetryDelay = 30 * minute_ns, cf_LogLevel = ''info'', cf_TelegramBotToken = [], cf_TelegramAdminChat = 0,
      cf_AdminAPIKey = [], cf_AdminAPISecret = [], cf_ServiceHMACSecret = [], cf_BillingWebhookURL = [],
      cf_UpgradeURL = ''https://portal.fluxintek.com/billing''\<rparr>"

text \<open>\<open>env_Parse\<close> is the library's parser on the struct with these tags.\<close>

definition Load :: "(goerr + Config) \<Rightarrow> goerr + Config" where
  "Load env_Parse = (case env_Parse of Inl err \<Rightarrow> Inl err | Inr cfg \<Rightarrow> Inr cfg)"

section \<open>The database pool\<close>

record 'p pool_config =
  pc_parsed :: 'p
  pc_MaxConns :: int
  pc_MinConns :: int
  pc_MaxConnLifetime :: duration
  pc_MaxConnIdleTime :: duration
  pc_HealthCheckPeriod :: duration

definition pool_config_of :: "Config \<Rightarrow> 'p \<Rightarrow> 'p pool_config" where
  "pool_config_of cfg p = \<lparr>pc_parsed = p, pc_MaxConns = cf_DBMaxConns cfg, pc_MinConns = cf_DBMinConns cfg,
     pc_MaxConnLifetime = cf_DBMaxConnLifetime cfg, pc_MaxConnIdleTime = cf_DBMaxConnIdleTime cfg,
     pc_HealthCheckPeriod = cf_DBHealthCheckPeriod cfg\<rparr>"

text \<open>The functions of \<^verbatim>\<open>pgxpool\<close> that the processes call.\<close>

record ('p, 'pool) pgx =
  px_ParseConfig :: "string \<Rightarrow> goerr + 'p"
  px_NewWithConfig :: "'p pool_config \<Rightarrow> goerr + 'pool"
  px_Ping :: "'pool \<Rightarrow> goerr option"

definition buildDBPool :: "('p, 'pool) pgx \<Rightarrow> Config \<Rightarrow> goerr + 'pool" where
  "buildDBPool P cfg = (case px_ParseConfig P (cf_DatabaseURL cfg) of
     Inl err \<Rightarrow> Inl err
   | Inr p \<Rightarrow> px_NewWithConfig P (pool_config_of cfg p))"

datatype 'a startup = Fatal string | Runs 'a

text \<open>The opening of the API and the worker: configuration, pool, ping.\<close>

definition start_up :: "('p, 'pool) pgx \<Rightarrow> goerr + Config \<Rightarrow> (Config \<Rightarrow> 'pool \<Rightarrow> 'a startup) \<Rightarrow> 'a startup" where
  "start_up P env_Parse run = (case Load env_Parse of
     Inl err \<Rightarrow> Fatal ''failed to load config''
   | Inr cfg \<Rightarrow> (case px_ParseConfig P (cf_DatabaseURL cfg) of
       Inl err \<Rightarrow> Fatal ''failed to parse database config''
     | Inr p \<Rightarrow> (case px_NewWithConfig P (pool_config_of cfg p) of
         Inl err \<Rightarrow> Fatal ''failed to connect to database''
       | Inr pool \<Rightarrow> (case px_Ping P pool of
           Some err \<Rightarrow> Fatal ''failed to ping database''
         | None \<Rightarrow> run cfg pool))))"

section \<open>The API\<close>

definition NewJWTManager :: "string \<Rightarrow> string \<Rightarrow> duration \<Rightarrow> JWTManager" where
  "NewJWTManager signingKey issuer expiration = \<lparr>jm_signingKey = signingKey, jm_issuer = issuer, jm_expiration = expiration\<rparr>"

text \<open>What the handlers get from the configuration; the libraries in \<open>base\<close> stay as they are.\<close>

definition configured :: "Config \<Rightarrow> Registry \<Rightarrow> api_env \<Rightarrow> api_env" where
  "configured cfg registry base = base\<lparr>
     ap_mgr := NewJWTManager (cf_JWTSigningKey cfg) (cf_JWTIssuer cfg) (cf_JWTExpiration cfg),
     ap_adminAPIKey := cf_AdminAPIKey cfg, ap_adminAPISecret := cf_AdminAPISecret cfg, ap_svcSecret := cf_ServiceHMACSecret cfg,
     ap_registry := registry, ap_maxRetries := cf_MaxRetries cfg, ap_billingURL := cf_BillingWebhookURL cfg\<rparr>"

text \<open>The connections to Redis, the counters' client and the broker, take their options from the configuration.\<close>

record redis_options =
  rd_Addr :: string
  rd_Password :: string
  rd_DB :: int

definition redis_options_of :: "Config \<Rightarrow> redis_options" where
  "redis_options_of cfg = \<lparr>rd_Addr = cf_RedisAddr cfg, rd_Password = cf_RedisPassword cfg, rd_DB = cf_RedisDB cfg\<rparr>"

record http_transport =
  ht_MaxIdleConns :: int
  ht_MaxIdleConnsPerHost :: int
  ht_MaxConnsPerHost :: int
  ht_IdleConnTimeout :: duration
  ht_TLSHandshakeTimeout :: duration

definition httpTransport :: http_transport where
  "httpTransport = \<lparr>ht_MaxIdleConns = 100, ht_MaxIdleConnsPerHost = 20, ht_MaxConnsPerHost = 50, ht_IdleConnTimeout = 90 * second_ns,
     ht_TLSHandshakeTimeout = 10 * second_ns\<rparr>"

text \<open>
  What the channels are built from: the shared HTTP client, the guarded one, the mail server with its libraries, and the states of
  these at the time of a call.
\<close>

record ('s, 'm) channel_libs =
  cl_http :: http_env
  cl_order :: "(string \<times> string) list \<Rightarrow> (string \<times> string) list"
  cl_client :: "'s client"
  cl_guarded :: "'s client"
  cl_state :: 's
  cl_mail :: mail_env
  cl_smtp :: "'m smtp_server"
  cl_starttls :: "'m \<Rightarrow> bool"
  cl_mail_state :: 'm

definition NewEmailProvider :: "('s, 'm) channel_libs \<Rightarrow> Provider" where
  "NewEmailProvider V = channel_provider ''email'' (email_Send (cl_mail V) (cl_smtp V) (cl_starttls V)) (email_ValidateConfig (cl_mail V)) (cl_mail_state V)"

definition api_registry :: "('s, 'm) channel_libs \<Rightarrow> Registry" where
  "api_registry V = fold Register
     [channel_provider ''discord'' (discord_Send (cl_http V) (cl_client V)) discord_ValidateConfig (cl_state V),
      channel_provider ''telegram'' (telegram_Send (cl_http V) (cl_client V)) telegram_ValidateConfig (cl_state V),
      channel_provider ''whatsapp'' (whatsapp_Send (cl_http V) (cl_client V)) whatsapp_ValidateConfig (cl_state V),
      NewEmailProvider V,
      channel_provider ''slack'' (slack_Send (cl_http V) (cl_client V)) slack_ValidateConfig (cl_state V),
      channel_provider ''webhook'' (webhook_Send (cl_order V) (cl_http V) (cl_guarded V)) (webhook_ValidateConfig (cl_order V)) (cl_state V)] Map.empty"

record http_server =
  sv_Addr :: string
  sv_ReadHeaderTimeout :: duration
  sv_ReadTimeout :: duration
  sv_WriteTimeout :: duration
  sv_IdleTimeout :: duration

definition api_server :: "Config \<Rightarrow> http_server" where
  "api_server cfg = \<lparr>sv_Addr = '':'' @ show_int (cf_APIPort cfg), sv_ReadHeaderTimeout = 10 * second_ns, sv_ReadTimeout = 30 * second_ns,
     sv_WriteTimeout = 60 * second_ns, sv_IdleTimeout = 120 * second_ns\<rparr>"

record api_process =
  pa_server :: http_server
  pa_env :: api_env
  pa_redis :: redis_options
  pa_broker :: redis_options
  pa_transport :: http_transport

definition api_main :: "('p, 'pool) pgx \<Rightarrow> goerr + Config \<Rightarrow> ('s, 'm) channel_libs \<Rightarrow> api_env \<Rightarrow> api_process startup" where
  "api_main P env_Parse V base = start_up P env_Parse (\<lambda>cfg pool.
     Runs \<lparr>pa_server = api_server cfg, pa_env = configured cfg (api_registry V) base, pa_redis = redis_options_of cfg,
       pa_broker = redis_options_of cfg, pa_transport = httpTransport\<rparr>)"

text \<open>
  The end of the API: the first thing that the \<^verbatim>\<open>select\<close> sees, an error of the listener or a signal; a listener that was closed sends nothing.
  \<open>shutdown\<close> is the answer of \<^verbatim>\<open>srv.Shutdown\<close>. The result is the exit status with the last line of the log, and \<open>None\<close> while the process waits.
\<close>

datatype process_event = ListenFailed goerr | ListenClosed | StopSignal

fun api_wait :: "goerr option \<Rightarrow> process_event list \<Rightarrow> (int \<times> string) option" where
  "api_wait shutdown [] = None"
| "api_wait shutdown (ListenFailed err # es) = Some (0, ''server failed to start'')"
| "api_wait shutdown (ListenClosed # es) = api_wait shutdown es"
| "api_wait shutdown (StopSignal # es) = (case shutdown of
     Some err \<Rightarrow> Some (1, ''server forced to shutdown'')
   | None \<Rightarrow> Some (0, ''server stopped''))"

section \<open>The worker\<close>

text \<open>The queues the worker serves with their priorities, the handler of each task type, and the schedules.\<close>

datatype task_handler = DeliverHandler | PurgeHandler | ReconcileHandler | EventHandler

definition worker_queues :: "(string \<times> nat) list" where
  "worker_queues = [(''critical'', 6), (''notifications'', 3), (''low'', 1), (''webhooks'', 1)]"

definition worker_mux :: "(string \<times> task_handler) list" where
  "worker_mux = [(TypeNotificationDeliver, DeliverHandler), (TypeRetentionPurge, PurgeHandler), (TypeUsageReconcile, ReconcileHandler),
     (TypeWebhookEvent, EventHandler)]"

definition schedules :: "(string \<times> string) list" where
  "schedules = [(''0 3 * * *'', TypeRetentionPurge), (''30 3 * * *'', TypeUsageReconcile)]"

text \<open>
  \<^verbatim>\<open>asynq.NewTask(typ, nil)\<close> without options, as the scheduler enqueues it: queue, retries and timeout are the library's
  defaults.
\<close>

record asynq_defaults =
  as_Queue :: string
  as_MaxRetry :: int
  as_Timeout :: duration

definition scheduled_task :: "asynq_defaults \<Rightarrow> string \<Rightarrow> Task" where
  "scheduled_task A typ = \<lparr>tk_Type = typ, tk_Body = MalformedBody, tk_Queue = as_Queue A, tk_MaxRetry = as_MaxRetry A, tk_TaskID = [],
     tk_Timeout = as_Timeout A\<rparr>"

text \<open>The worker takes a task when it serves the task's queue, and runs the handler registered for its type.\<close>

definition takes :: "Task \<Rightarrow> task_handler option" where
  "takes t = (if tk_Queue t \<in> set (map fst worker_queues) then map_of worker_mux (tk_Type t) else None)"

record worker_server =
  ws_Concurrency :: int
  ws_ShutdownTimeout :: duration
  ws_RetryDelayFunc :: "(int \<Rightarrow> int) \<Rightarrow> int \<Rightarrow> Task \<Rightarrow> duration option"
  ws_registry :: Registry
  ws_redis :: redis_options
  ws_client :: redis_options
  ws_broker :: redis_options
  ws_scheduler :: redis_options
  ws_transport :: http_transport

text \<open>\<open>register\<close> is the scheduler's answer to each schedule.\<close>

definition worker_main :: "('p, 'pool) pgx \<Rightarrow> (string \<Rightarrow> goerr option) \<Rightarrow> goerr + Config \<Rightarrow> ('s, 'm) channel_libs \<Rightarrow> worker_server startup" where
  "worker_main P register env_Parse V = start_up P env_Parse (\<lambda>cfg pool.
     if register ''0 3 * * *'' \<noteq> None then Fatal ''failed to register retention purge schedule''
     else if register ''30 3 * * *'' \<noteq> None then Fatal ''failed to register usage reconcile schedule''
     else Runs \<lparr>ws_Concurrency = cf_WorkerConcurrency cfg, ws_ShutdownTimeout = cf_ShutdownTimeout cfg,
       ws_RetryDelayFunc = (\<lambda>rnd. RetryDelayForTask rnd (defaultRetryDelay (cf_MinRetryDelay cfg) (cf_MaxRetryDelay cfg) rnd)),
       ws_registry = worker_registry (cl_http V) (cl_order V) (cl_client V) (cl_guarded V) (NewEmailProvider V) (cl_state V),
       ws_redis = redis_options_of cfg, ws_client = redis_options_of cfg, ws_broker = redis_options_of cfg,
       ws_scheduler = redis_options_of cfg, ws_transport = httpTransport\<rparr>)"

text \<open>The end of the worker: \<open>run\<close> is the answer of \<^verbatim>\<open>srv.Run\<close>.\<close>

definition worker_exit :: "goerr option \<Rightarrow> int \<times> string" where
  "worker_exit run = (case run of Some err \<Rightarrow> (1, ''failed to run worker'') | None \<Rightarrow> (0, ''worker starting''))"

section \<open>The admin bot\<close>

text \<open>\<open>base\<close> holds the parser and the printer of identifiers; the result is the environment in which \<^verbatim>\<open>Start\<close> runs.\<close>

definition bot_main :: "('p, 'pool) pgx \<Rightarrow> (string \<Rightarrow> goerr option) \<Rightarrow> (string \<Rightarrow> goerr + 'api) \<Rightarrow> goerr + Config \<Rightarrow> bot_env \<Rightarrow>
    bot_env startup" where
  "bot_main P setLogger newBotAPI env_Parse base = (case Load env_Parse of
     Inl err \<Rightarrow> Fatal ''failed to load config''
   | Inr cfg \<Rightarrow>
       if cf_TelegramBotToken cfg = [] then Fatal ''TELEGRAM_BOT_TOKEN is required''
       else if cf_TelegramAdminChat cfg = 0 then Fatal ''TELEGRAM_ADMIN_CHAT is required''
       else (case buildDBPool P cfg of
         Inl err \<Rightarrow> Fatal ''failed to connect to database''
       | Inr pool \<Rightarrow> (case px_Ping P pool of
           Some err \<Rightarrow> Fatal ''failed to ping database''
         | None \<Rightarrow> (case Bot_New setLogger newBotAPI \<lparr>bc_Token = cf_TelegramBotToken cfg, bc_AdminChatID = cf_TelegramAdminChat cfg\<rparr> of
             Inl err \<Rightarrow> Fatal ''failed to create bot''
           | Inr (api, chat) \<Rightarrow> Runs (base\<lparr>bv_adminChatID := chat\<rparr>)))))"

section \<open>What the processes guarantee\<close>

lemma start_up_Runs: "start_up P env_Parse run = Runs x \<longleftrightarrow> (\<exists>cfg p pool. env_Parse = Inr cfg \<and> px_ParseConfig P (cf_DatabaseURL cfg) = Inr p \<and>
    px_NewWithConfig P (pool_config_of cfg p) = Inr pool \<and> px_Ping P pool = None \<and> run cfg pool = Runs x)"
  by (auto simp: start_up_def Load_def split: sum.splits option.splits)

lemma tenant_token_not_admin:
  "issueTenantToken E req w = (resp, w') \<Longrightarrow> ar_status resp = 200 \<Longrightarrow> \<exists>tid slug. resp = token_response E tid slug False"
  by (auto simp: issueTenantToken_def split: sum.splits prod.splits if_splits option.splits)

text \<open>
  C29. Safe when unconfigured: an API started without an admin key and without a service secret, which is what the defaults give, has no administrator: every
  token it issues is a tenant's, and the service routes answer 503 and change nothing. An admin bot started at all has an admin chat, so
  a bot without one never runs.
\<close>

theorem safe_when_unconfigured:
  assumes "api_main P (Inr cfg) V base = Runs api" and "E = pa_env api" and "cf_AdminAPIKey cfg = cf_AdminAPIKey (default_config url key)"
    and "cf_ServiceHMACSecret cfg = cf_ServiceHMACSecret (default_config url key)"
  shows "(\<forall>r w resp w'. serve E PostToken r w = (resp, w') \<longrightarrow> ar_status resp = 200 \<longrightarrow> (\<exists>tid slug. resp = token_response E tid slug False)) \<and>
    (\<forall>rt r w. rt \<in> {PutEntitlements, GetUsage} \<longrightarrow> serve E rt r w = (response_Error 503 ''service auth not configured'', w)) \<and>
    (\<forall>bcfg B. bot_main P setLogger newBotAPI (Inr bcfg) bbase = Runs B \<longrightarrow> bv_adminChatID B \<noteq> 0) \<and>
    (\<forall>bcfg. cf_TelegramAdminChat bcfg = cf_TelegramAdminChat (default_config url key) \<longrightarrow>
      (\<exists>m. bot_main P setLogger newBotAPI (Inr bcfg) bbase = Fatal m))"
proof -
  from assms have E: "E = configured cfg (api_registry V) base" and off: "cf_AdminAPIKey cfg = []" "cf_ServiceHMACSecret cfg = []"
    by (auto simp: api_main_def start_up_Runs default_config_def)
  have admin: "ap_adminAPIKey E = []" and secret: "ap_svcSecret E = []" using off by (simp_all add: E configured_def)
  show ?thesis
  proof (intro conjI allI impI)
    fix r w resp w' assume "serve E PostToken r w = (resp, w')" "ar_status resp = 200"
    then show "\<exists>tid slug. resp = token_response E tid slug False"
      using admin by (auto simp: serve_def IssueToken_def Let_def split: sum.splits if_splits dest: tenant_token_not_admin)
  next
    fix rt r w assume "rt \<in> {PutEntitlements, GetUsage}"
    then show "serve E rt r w = (response_Error 503 ''service auth not configured'', w)"
      using secret by (auto simp: serve_def HMACMiddleware_def Let_def)
  next
    fix bcfg B assume "bot_main P setLogger newBotAPI (Inr bcfg) bbase = Runs B"
    then show "bv_adminChatID B \<noteq> 0"
      by (auto simp: bot_main_def Load_def Bot_New_def split: sum.splits option.splits if_splits)
  next
    fix bcfg :: Config assume "cf_TelegramAdminChat bcfg = cf_TelegramAdminChat (default_config url key)"
    then show "\<exists>m. bot_main P setLogger newBotAPI (Inr bcfg) bbase = Fatal m"
      by (simp add: bot_main_def Load_def default_config_def)
  qed
qed

lemma same_registry:
  "api_registry V = worker_registry (cl_http V) (cl_order V) (cl_client V) (cl_guarded V) (NewEmailProvider V) (cl_state V)"
  by (simp add: api_registry_def worker_registry_def)

lemma registered: "Registry_Get (api_registry V) ct = Inr p \<Longrightarrow> pr_Type p = ct \<and> IsValidChannelType ct"
  by (auto simp: api_registry_def NewEmailProvider_def channel_provider_def Register_def Registry_Get_def IsValidChannelType_iff split: if_splits)

lemma all_registered: "IsValidChannelType ct \<Longrightarrow> \<exists>p. Registry_Get (api_registry V) ct = Inr p"
  by (auto simp: api_registry_def NewEmailProvider_def channel_provider_def Register_def Registry_Get_def IsValidChannelType_iff)

lemma broker_tasks_taken:
  "takes (NewNotificationDeliverTask L p opts) = Some DeliverHandler" "takes (NewWebhookEventTask L e) = Some EventHandler"
proof -
  note types = TypeNotificationDeliver_def TypeWebhookEvent_def TypeRetentionPurge_def TypeUsageReconcile_def
  show "takes (NewNotificationDeliverTask L p opts) = Some DeliverHandler"
    by (simp add: takes_def NewNotificationDeliverTask_def worker_queues_def worker_mux_def queueForPriority_def Let_def split: option.split)
  show "takes (NewWebhookEventTask L e) = Some EventHandler"
    by (simp add: takes_def NewWebhookEventTask_def worker_queues_def worker_mux_def queueWebhooks_def types)
qed

text \<open>
  C10. What the API queues, the worker takes. An API and a worker started with the same configuration use the same broker and the same counters, and
  the worker's own event tasks and its schedules go there too. Every delivery task and every event task, whatever its payload and
  priority, is put on a queue the worker serves and has its handler there; and every channel the API accepts has its provider in the worker,
  which are the six channels of the schema. The two nightly tasks have handlers too, but they are scheduled without a queue: with asynq's
  documented default queue they land on one the worker does not serve, so neither the retention purge nor the usage reconciliation
  is ever run.
\<close>

theorem tasks_taken:
  assumes "as_Queue A = ''default''" and "api_main P (Inr cfg) V base = Runs api" and "worker_main P' register (Inr cfg) V' = Runs wk"
  shows "pa_broker api = ws_broker wk \<and> ws_client wk = ws_broker wk \<and> ws_scheduler wk = ws_broker wk \<and> pa_redis api = ws_redis wk \<and>
    takes (NewNotificationDeliverTask L p opts) = Some DeliverHandler \<and> takes (NewWebhookEventTask L e) = Some EventHandler \<and>
    (\<exists>prov. Registry_Get (ap_registry (pa_env api)) ct = Inr prov) = IsValidChannelType ct \<and>
    (\<exists>prov. Registry_Get (ws_registry wk) ct = Inr prov \<and> pr_Type prov = ct) = IsValidChannelType ct \<and>
    map_of worker_mux TypeRetentionPurge = Some PurgeHandler \<and> map_of worker_mux TypeUsageReconcile = Some ReconcileHandler \<and>
    (\<forall>(cron, typ) \<in> set schedules. takes (scheduled_task A typ) = None)"
proof -
  have api: "pa_broker api = redis_options_of cfg \<and> pa_redis api = redis_options_of cfg \<and> ap_registry (pa_env api) = api_registry V"
    using assms(2) by (auto simp: api_main_def start_up_Runs configured_def)
  have wk: "ws_broker wk = redis_options_of cfg" "ws_client wk = ws_broker wk" "ws_scheduler wk = ws_broker wk" "ws_redis wk = redis_options_of cfg"
    "ws_registry wk = api_registry V'"
    using assms(3) by (auto simp: worker_main_def start_up_Runs same_registry split: if_splits)
  have "map_of worker_mux TypeRetentionPurge = Some PurgeHandler" "map_of worker_mux TypeUsageReconcile = Some ReconcileHandler"
    by (simp_all add: worker_mux_def TypeNotificationDeliver_def TypeRetentionPurge_def TypeUsageReconcile_def)
  moreover have "\<forall>typ. takes (scheduled_task A typ) = None"
    using assms(1) by (simp add: takes_def scheduled_task_def worker_queues_def)
  moreover have "(\<exists>prov. Registry_Get (api_registry V) ct = Inr prov) = IsValidChannelType ct"
    "(\<exists>prov. Registry_Get (api_registry V') ct = Inr prov \<and> pr_Type prov = ct) = IsValidChannelType ct"
    using registered all_registered by blast+
  ultimately show ?thesis using broker_tasks_taken api wk by auto
qed

text \<open>
  An API whose listener fails, because its port is taken for one, ends with exit status 0, as after an orderly shutdown; the
  worker ends with 1.
\<close>

lemma listen_failure_exits_zero:
  "api_wait shutdown (ListenFailed err # es) = Some (0, ''server failed to start'')" "fst (worker_exit (Some err)) = 1"
  by (simp_all add: worker_exit_def)

section \<open>Examples\<close>

definition demo_pgx :: "(unit, unit) pgx" where
  "demo_pgx = \<lparr>px_ParseConfig = (\<lambda>_. Inr ()), px_NewWithConfig = (\<lambda>_. Inr ()), px_Ping = (\<lambda>_. None)\<rparr>"

definition demo_libs :: "(unit, unit) channel_libs" where
  "demo_libs = \<lparr>cl_http = demo_http, cl_order = (\<lambda>h. h), cl_client = demo_client, cl_guarded = demo_client, cl_state = (), cl_mail = demo_mail,
     cl_smtp = (\<lambda>_ s. (None, s)), cl_starttls = (\<lambda>_. True), cl_mail_state = ()\<rparr>"

theorem safe_when_unconfigured_witness:
  "serve (configured (default_config ''db'' ''k'') (api_registry demo_libs) demo_api) GetUsage (demo_request [] []) demo_api_world =
     (response_Error 503 ''service auth not configured'', demo_api_world)"
proof -
  let ?cfg = "default_config ''db'' ''k''"
  have "api_main demo_pgx (Inr ?cfg) demo_libs demo_api = Runs \<lparr>pa_server = api_server ?cfg, pa_env = configured ?cfg (api_registry demo_libs) demo_api,
      pa_redis = redis_options_of ?cfg, pa_broker = redis_options_of ?cfg, pa_transport = httpTransport\<rparr>" (is "_ = Runs ?api")
    by (simp add: api_main_def start_up_def Load_def demo_pgx_def)
  moreover have "configured ?cfg (api_registry demo_libs) demo_api = pa_env ?api" by simp
  ultimately show ?thesis using safe_when_unconfigured [OF _ _ refl refl] by blast
qed

theorem tasks_taken_witness:
  "takes (scheduled_task \<lparr>as_Queue = ''default'', as_MaxRetry = 25, as_Timeout = hour_ns\<rparr> TypeRetentionPurge) = None \<and>
   (\<exists>prov. Registry_Get (api_registry demo_libs) ''slack'' = Inr prov)"
proof -
  let ?cfg = "default_config ''db'' ''k''"
  have api: "api_main demo_pgx (Inr ?cfg) demo_libs demo_api = Runs \<lparr>pa_server = api_server ?cfg, pa_env = configured ?cfg (api_registry demo_libs) demo_api,
      pa_redis = redis_options_of ?cfg, pa_broker = redis_options_of ?cfg, pa_transport = httpTransport\<rparr>" (is "_ = Runs ?api")
    by (simp add: api_main_def start_up_def Load_def demo_pgx_def)
  obtain wk where wk: "worker_main demo_pgx (\<lambda>_. None) (Inr ?cfg) demo_libs = Runs wk"
    by (simp add: worker_main_def start_up_def Load_def demo_pgx_def)
  have "ap_registry (pa_env ?api) = api_registry demo_libs" by (simp add: configured_def)
  moreover have "IsValidChannelType ''slack''" by (simp add: IsValidChannelType_iff)
  ultimately show ?thesis
    using tasks_taken [OF _ api wk, of "\<lparr>as_Queue = ''default'', as_MaxRetry = 25, as_Timeout = hour_ns\<rparr>" _ _ _ _ "''slack''"]
    by (simp add: schedules_def)
qed

end
