(* ===== verification/Router.thy ===== *)
theory Router
  imports Api_Laws
begin

text \<open>
  The router (\<^verbatim>\<open>internal/router/router.go\<close>) as it is written: the tree of groups, sub-routers, middlewares and handlers that \<^verbatim>\<open>New\<close>
  builds, and the table it amounts to. How chi finds the entry for a method and a path is an argument; what the program relies on is the
  predicate \<open>documented\<close>. The theory shows that the table is the one behind \<open>serve\<close>, that no two entries compete for a path but
  one pair, and what the guards mean for paths.
\<close>

section \<open>The tree\<close>

datatype middleware_use = UseAuth | UseAdmin | UseHMAC | UseQuota

datatype chi =
    Handle "middleware_use list" string string route
  | Group "middleware_use list" "chi list"
  | Route string "chi list"

definition keys_tree :: chi where
  "keys_tree = Route ''/keys''
     [Handle [] ''GET'' ''/'' GetKeys,
      Handle [] ''POST'' ''/'' PostKeys,
      Handle [] ''DELETE'' ''/{keyID}'' DeleteKey]"

definition channels_tree :: chi where
  "channels_tree = Route ''/channels''
     [Handle [] ''GET'' ''/'' GetChannels,
      Handle [] ''POST'' ''/'' PostChannels,
      Route ''/{channelID}''
        [Handle [] ''GET'' ''/'' GetChannel,
         Handle [] ''PATCH'' ''/'' PatchChannel,
         Handle [] ''DELETE'' ''/'' DeleteChannel]]"

definition webhooks_tree :: chi where
  "webhooks_tree = Route ''/webhooks''
     [Handle [] ''GET'' ''/'' GetWebhooks,
      Handle [] ''POST'' ''/'' PostWebhooks,
      Route ''/{webhookID}''
        [Handle [] ''PUT'' ''/'' PutWebhook,
         Handle [] ''DELETE'' ''/'' DeleteWebhook]]"

definition notifications_tree :: chi where
  "notifications_tree = Route ''/notifications''
     [Handle [UseQuota] ''POST'' ''/send'' PostSend,
      Handle [UseQuota] ''POST'' ''/send-multi'' PostSendMulti,
      Handle [] ''GET'' ''/'' GetNotifications,
      Route ''/{notificationID}''
        [Handle [] ''GET'' ''/'' GetNotification,
         Handle [] ''GET'' ''/attempts'' GetAttempts,
         Handle [] ''GET'' ''/metrics'' GetMetrics]]"

definition admin_tree :: chi where
  "admin_tree = Route ''/admin''
     [Group [UseAuth, UseAdmin]
        [Route ''/tenants''
           [Handle [] ''GET'' ''/'' GetTenants,
            Handle [] ''POST'' ''/'' PostTenants,
            Handle [] ''GET'' ''/by-slug/{slug}'' GetTenantBySlug,
            Route ''/{tenantID}''
              [Handle [] ''GET'' ''/'' GetTenant,
               Handle [] ''PATCH'' ''/'' PatchTenant,
               Handle [] ''DELETE'' ''/'' DeleteTenant]]],
      Group [UseHMAC]
        [Handle [] ''PUT'' ''/tenants/{tenantID}/entitlements'' PutEntitlements,
         Handle [] ''GET'' ''/tenants/{tenantID}/usage'' GetUsage]]"

definition router_New :: "chi list" where
  "router_New =
     [Handle [] ''GET'' ''/health'' GetHealth,
      Handle [] ''POST'' ''/auth/token'' PostToken,
      Group [UseAuth] [keys_tree, channels_tree, webhooks_tree, notifications_tree],
      admin_tree]"

record cors_Options =
  co_AllowedOrigins :: "string list"
  co_AllowedMethods :: "string list"
  co_AllowedHeaders :: "string list"
  co_ExposedHeaders :: "string list"
  co_AllowCredentials :: bool
  co_MaxAge :: int

definition cors_options :: cors_Options where
  "cors_options = \<lparr>co_AllowedOrigins = [''*''], co_AllowedMethods = [''GET'', ''POST'', ''PUT'', ''PATCH'', ''DELETE''],
     co_AllowedHeaders = [''Authorization'', ''Content-Type''], co_ExposedHeaders = [''X-Request-Id''],
     co_AllowCredentials = False, co_MaxAge = 300\<rparr>"

section \<open>Patterns and the table\<close>

text \<open>The pieces of a path between slashes, and the pieces of a pattern: text, or a placeholder in braces.\<close>

fun split_char :: "char \<Rightarrow> string \<Rightarrow> string list" where
  "split_char d [] = [[]]"
| "split_char d (c # cs) =
     (if c = d then [] # split_char d cs
      else (case split_char d cs of [] \<Rightarrow> [[c]] | s # ss \<Rightarrow> (c # s) # ss))"

abbreviation split_slash :: "string \<Rightarrow> string list" where
  "split_slash \<equiv> split_char (CHR ''/'')"

datatype segment = Lit string | Param string

definition segment_of :: "string \<Rightarrow> segment" where
  "segment_of s = (if s \<noteq> [] \<and> hd s = CHR ''{'' \<and> last s = CHR ''}'' then Param (butlast (tl s)) else Lit s)"

definition pattern_of :: "string \<Rightarrow> segment list" where
  "pattern_of s = map segment_of (filter (\<lambda>x. x \<noteq> []) (split_slash s))"

record entry =
  en_mws :: "middleware_use list"
  en_method :: string
  en_pattern :: "segment list"
  en_route :: route

text \<open>A group adds middlewares, a sub-router a prefix, and each handler is an entry under what surrounds it.\<close>

fun entries :: "middleware_use list \<Rightarrow> segment list \<Rightarrow> chi \<Rightarrow> entry list" where
  "entries ms pre (Handle ms' m p rt) = [\<lparr>en_mws = ms @ ms', en_method = m, en_pattern = pre @ pattern_of p, en_route = rt\<rparr>]"
| "entries ms pre (Group ms' rs) = concat (map (entries (ms @ ms') pre) rs)"
| "entries ms pre (Route p rs) = concat (map (entries ms (pre @ pattern_of p)) rs)"

definition table :: "entry list" where
  "table = concat (map (entries [] []) router_New)"

text \<open>What a pattern matches: text matches itself, a placeholder any one piece, which is its value.\<close>

fun match_path :: "segment list \<Rightarrow> string list \<Rightarrow> (string \<times> string) list option" where
  "match_path [] [] = Some []"
| "match_path (Lit s # ps) (x # xs) = (if s = x then match_path ps xs else None)"
| "match_path (Param n # ps) (x # xs) = map_option (Cons (n, x)) (match_path ps xs)"
| "match_path _ _ = None"

definition segments :: "string \<Rightarrow> string list" where
  "segments p = tl (split_slash p)"

text \<open>A path of pieces, each after a slash, none of them empty.\<close>

definition proper :: "string \<Rightarrow> bool" where
  "proper p \<longleftrightarrow> hd (split_slash p) = [] \<and> segments p \<noteq> [] \<and> [] \<notin> set (segments p)"

type_synonym finder = "entry list \<Rightarrow> string \<Rightarrow> string \<Rightarrow> (entry \<times> (string \<times> string) list) option"

text \<open>
  What chi documents: the entry it finds is registered for the method, and on a proper path its pattern matches with the values it
  reports; an entry that alone matches a proper path is found. Which of several matching entries wins is left open, and so are paths
  with empty pieces.
\<close>

definition documented :: "finder \<Rightarrow> bool" where
  "documented lookup \<longleftrightarrow>
     (\<forall>es m p e ps. lookup es m p = Some (e, ps) \<longrightarrow> e \<in> set es \<and> en_method e = m \<and>
        (proper p \<longrightarrow> match_path (en_pattern e) (segments p) = Some ps)) \<and>
     (\<forall>es m p e ps. proper p \<longrightarrow> e \<in> set es \<longrightarrow> en_method e = m \<longrightarrow> match_path (en_pattern e) (segments p) = Some ps \<longrightarrow>
        (\<forall>e' \<in> set es. en_method e' = m \<longrightarrow> match_path (en_pattern e') (segments p) \<noteq> None \<longrightarrow> e' = e) \<longrightarrow>
        lookup es m p = Some (e, ps))"

section \<open>Serving a request by its path\<close>

fun apply_use :: "api_env \<Rightarrow> middleware_use \<Rightarrow> api_world handler \<Rightarrow> api_world handler" where
  "apply_use E UseAuth h = auth_Middleware E h"
| "apply_use E UseAdmin h = AdminMiddleware h"
| "apply_use E UseHMAC h = HMACMiddleware E h"
| "apply_use E UseQuota h = quotaMW E h"

text \<open>The first middleware is the outermost.\<close>

definition chain :: "api_env \<Rightarrow> middleware_use list \<Rightarrow> api_world handler \<Rightarrow> api_world handler" where
  "chain E ms h = foldr (apply_use E) ms h"

definition URLParam :: "(string \<times> string) list \<Rightarrow> string \<Rightarrow> string" where
  "URLParam ps n = (case map_of ps n of None \<Rightarrow> [] | Some v \<Rightarrow> v)"

text \<open>\<open>None\<close> is chi's own answer to a path or a method it has no entry for.\<close>

definition dispatch :: "finder \<Rightarrow> api_env \<Rightarrow> api_request \<Rightarrow> api_world \<Rightarrow> api_response option \<times> api_world" where
  "dispatch lookup E r w = (case lookup table (rq_method r) (rq_path r) of
     None \<Rightarrow> (None, w)
   | Some (e, ps) \<Rightarrow> (case chain E (en_mws e) (handler_of E (en_route e)) (r\<lparr>rq_param := URLParam ps, rq_claims := None\<rparr>) w of
       (resp, w') \<Rightarrow> (Some resp, w')))"

section \<open>Paths\<close>

lemma split_char_nonempty [simp]: "split_char d s \<noteq> []"
  by (cases s) (auto split: list.split)

lemma split_char_append: "split_char d (s @ d # t) = split_char d s @ split_char d t"
  by (induction s) (auto split: list.split)

lemma split_char_plain: "d \<notin> set s \<Longrightarrow> split_char d s = [s]"
  by (induction s) auto

fun path_of :: "string list \<Rightarrow> string" where
  "path_of [] = []"
| "path_of (s # ss) = CHR ''/'' # s @ path_of ss"

lemma path_of_split: "s = hd (split_slash s) @ path_of (tl (split_slash s))"
proof (induction s)
  case (Cons c cs)
  then show ?case by (cases "split_slash cs") auto
qed simp

lemma proper_path: "proper p \<Longrightarrow> p = path_of (segments p)"
  using path_of_split [of p] by (simp add: proper_def segments_def)

lemma segments_path_of: "ss \<noteq> [] \<Longrightarrow> \<forall>s \<in> set ss. CHR ''/'' \<notin> set s \<Longrightarrow> split_slash (path_of ss) = [] # ss"
proof (induction ss rule: induct_list012)
  case (3 s t ss)
  have "split_slash (s @ path_of (t # ss)) = split_slash s @ split_slash (t @ path_of ss)" by (simp add: split_char_append)
  then show ?case using 3 by (simp add: split_char_plain)
qed (simp_all add: split_char_plain)

section \<open>The table written out\<close>

text \<open>The middlewares that stand for the guards of \<open>serve\<close>.\<close>

fun uses :: "guard \<Rightarrow> middleware_use list" where
  "uses Public = []"
| "uses TenantAuth = [UseAuth]"
| "uses TenantQuota = [UseAuth, UseQuota]"
| "uses AdminAuth = [UseAuth, UseAdmin]"
| "uses ServiceAuth = [UseHMAC]"

lemma table_routes: "map en_route table =
  [GetHealth, PostToken, GetKeys, PostKeys, DeleteKey, GetChannels, PostChannels, GetChannel, PatchChannel, DeleteChannel,
   GetWebhooks, PostWebhooks, PutWebhook, DeleteWebhook, PostSend, PostSendMulti, GetNotifications, GetNotification, GetAttempts, GetMetrics,
   GetTenants, PostTenants, GetTenantBySlug, GetTenant, PatchTenant, DeleteTenant, PutEntitlements, GetUsage]"
  by code_simp

lemma table_uses: "list_all (\<lambda>e. en_mws e = uses (guard_of (en_route e))) table"
  by code_simp

lemma table_methods: "list_all (\<lambda>e. en_method e \<in> set (co_AllowedMethods cors_options)) table"
  by code_simp

lemma table_covers: "set (map en_route table) = UNIV"
proof -
  have "rt \<in> set (map en_route table)" for rt unfolding table_routes by (cases rt) simp_all
  then show ?thesis by blast
qed

lemma table_distinct: "distinct (map en_route table)"
  unfolding table_routes by simp

lemma chain_uses: "chain E (uses (guard_of rt)) (handler_of E rt) (r\<lparr>rq_claims := None\<rparr>) w = serve E rt r w"
  by (cases "guard_of rt") (simp_all add: chain_def serve_def Let_def)

lemma table_chain: "e \<in> set table \<Longrightarrow> chain E (en_mws e) (handler_of E (en_route e)) (r\<lparr>rq_claims := None\<rparr>) w = serve E (en_route e) r w"
  using table_uses by (simp add: list_all_iff chain_uses)

fun overlap :: "segment list \<Rightarrow> segment list \<Rightarrow> bool" where
  "overlap [] [] = True"
| "overlap (Lit a # p) (Lit b # q) = (a = b \<and> overlap p q)"
| "overlap (_ # p) (_ # q) = overlap p q"
| "overlap _ _ = False"

lemma match_overlap: "match_path p xs \<noteq> None \<Longrightarrow> match_path q xs \<noteq> None \<Longrightarrow> overlap p q"
proof (induction p arbitrary: q xs)
  case Nil
  then show ?case by (cases xs; cases q; cases "hd q") auto
next
  case (Cons a p)
  obtain x ys where xs: "xs = x # ys" using Cons.prems(1) by (cases xs; cases a) auto
  obtain b q' where q: "q = b # q'" using Cons.prems(2) xs by (cases q) auto
  have "overlap p q'" using Cons.prems xs q by (intro Cons.IH [of ys]; cases a; cases b) (auto split: if_splits)
  then show ?case using Cons.prems xs q by (cases a; cases b) (auto split: if_splits)
qed

lemma table_overlaps: "list_all (\<lambda>e. list_all (\<lambda>e'. en_method e = en_method e' \<and> overlap (en_pattern e) (en_pattern e') \<longrightarrow>
    en_route e = en_route e' \<or> (en_route e, en_route e') \<in> {(GetTenantBySlug, GetUsage), (GetUsage, GetTenantBySlug)}) table) table"
  by code_simp

lemma table_competitors:
  assumes "e \<in> set table" and "e' \<in> set table" and "en_method e = en_method e'" and "overlap (en_pattern e) (en_pattern e')"
  shows "e = e' \<or> (en_route e, en_route e') \<in> {(GetTenantBySlug, GetUsage), (GetUsage, GetTenantBySlug)}"
proof (cases "en_route e = en_route e'")
  case True
  then have "e = e'" using assms(1,2) table_distinct by (meson distinct_map inj_onD)
  then show ?thesis by simp
next
  case False
  then show ?thesis using assms table_overlaps unfolding list_all_iff by blast
qed

text \<open>The methods and patterns of all entries.\<close>

lemma table_entries: "map (\<lambda>e. (en_route e, en_method e, en_pattern e)) table =
  [(GetHealth, ''GET'', [Lit ''health'']), (PostToken, ''POST'', [Lit ''auth'', Lit ''token'']),
   (GetKeys, ''GET'', [Lit ''keys'']), (PostKeys, ''POST'', [Lit ''keys'']), (DeleteKey, ''DELETE'', [Lit ''keys'', Param ''keyID'']),
   (GetChannels, ''GET'', [Lit ''channels'']), (PostChannels, ''POST'', [Lit ''channels'']),
   (GetChannel, ''GET'', [Lit ''channels'', Param ''channelID'']), (PatchChannel, ''PATCH'', [Lit ''channels'', Param ''channelID'']),
   (DeleteChannel, ''DELETE'', [Lit ''channels'', Param ''channelID'']),
   (GetWebhooks, ''GET'', [Lit ''webhooks'']), (PostWebhooks, ''POST'', [Lit ''webhooks'']),
   (PutWebhook, ''PUT'', [Lit ''webhooks'', Param ''webhookID'']), (DeleteWebhook, ''DELETE'', [Lit ''webhooks'', Param ''webhookID'']),
   (PostSend, ''POST'', [Lit ''notifications'', Lit ''send'']), (PostSendMulti, ''POST'', [Lit ''notifications'', Lit ''send-multi'']),
   (GetNotifications, ''GET'', [Lit ''notifications'']), (GetNotification, ''GET'', [Lit ''notifications'', Param ''notificationID'']),
   (GetAttempts, ''GET'', [Lit ''notifications'', Param ''notificationID'', Lit ''attempts'']),
   (GetMetrics, ''GET'', [Lit ''notifications'', Param ''notificationID'', Lit ''metrics'']),
   (GetTenants, ''GET'', [Lit ''admin'', Lit ''tenants'']), (PostTenants, ''POST'', [Lit ''admin'', Lit ''tenants'']),
   (GetTenantBySlug, ''GET'', [Lit ''admin'', Lit ''tenants'', Lit ''by-slug'', Param ''slug'']),
   (GetTenant, ''GET'', [Lit ''admin'', Lit ''tenants'', Param ''tenantID'']),
   (PatchTenant, ''PATCH'', [Lit ''admin'', Lit ''tenants'', Param ''tenantID'']),
   (DeleteTenant, ''DELETE'', [Lit ''admin'', Lit ''tenants'', Param ''tenantID'']),
   (PutEntitlements, ''PUT'', [Lit ''admin'', Lit ''tenants'', Param ''tenantID'', Lit ''entitlements'']),
   (GetUsage, ''GET'', [Lit ''admin'', Lit ''tenants'', Param ''tenantID'', Lit ''usage''])]"
  by code_simp

lemma table_entry: "e \<in> set table \<Longrightarrow> (en_route e, en_method e, en_pattern e) \<in> set (map (\<lambda>e. (en_route e, en_method e, en_pattern e)) table)"
  by (auto simp: image_iff)

lemma match_lits: "match_path (map Lit ss) xs = (if xs = ss then Some [] else None)"
proof (induction ss arbitrary: xs)
  case Nil
  show ?case by (cases xs) auto
next
  case (Cons s ss)
  show ?case using Cons.IH by (cases xs) auto
qed

text \<open>What a handler gets from the path: the placeholders it reads.\<close>

fun reads_param :: "route \<Rightarrow> string \<Rightarrow> bool" where
  "reads_param DeleteKey n = (n = ''keyID'')"
| "reads_param GetChannel n = (n = ''channelID'')"
| "reads_param PatchChannel n = (n = ''channelID'')"
| "reads_param DeleteChannel n = (n = ''channelID'')"
| "reads_param PutWebhook n = (n = ''webhookID'')"
| "reads_param DeleteWebhook n = (n = ''webhookID'')"
| "reads_param GetNotification n = (n = ''notificationID'')"
| "reads_param GetAttempts n = (n = ''notificationID'')"
| "reads_param GetMetrics n = (n = ''notificationID'')"
| "reads_param GetTenantBySlug n = (n = ''slug'')"
| "reads_param GetTenant n = (n = ''tenantID'')"
| "reads_param PatchTenant n = (n = ''tenantID'')"
| "reads_param DeleteTenant n = (n = ''tenantID'')"
| "reads_param PutEntitlements n = (n = ''tenantID'')"
| "reads_param GetUsage n = (n = ''tenantID'')"
| "reads_param _ n = False"

lemma part_params [simp]:
  "with_claims (r\<lparr>rq_param := f\<rparr>) s k = with_claims r s k"
  "with_body E sf z (r\<lparr>rq_param := f\<rparr>) s k' = with_body E sf z r s k'"
  by (simp_all add: with_claims_def with_body_def decode_body_def)

lemma parsePagination_params [simp]: "parsePagination (r\<lparr>rq_param := f\<rparr>) = parsePagination r"
  by (simp add: parsePagination_def)

lemma with_id_params: "f p = g p \<Longrightarrow> with_id E p msg (r\<lparr>rq_param := f\<rparr>) s k = with_id E p msg (r\<lparr>rq_param := g\<rparr>) s k"
  by (simp add: with_id_def)

lemma handler_params:
  assumes "\<And>n. reads_param rt n \<Longrightarrow> f n = g n"
  shows "handler_of E rt (r\<lparr>rq_param := f\<rparr>) w = handler_of E rt (r\<lparr>rq_param := g\<rparr>) w"
  using assms
  by (cases rt) (simp_all add: Health_def IssueToken_def decode_body_def APIKeyHandler_List_def APIKeyHandler_Create_def APIKeyHandler_Revoke_def
    ChannelHandler_List_def ChannelHandler_Create_def ChannelHandler_GetByID_def ChannelHandler_Update_def ChannelHandler_Delete_def
    WebhookEndpointHandler_List_def WebhookEndpointHandler_Create_def WebhookEndpointHandler_Update_def WebhookEndpointHandler_Delete_def
    NotificationHandler_Send_def NotificationHandler_SendMulti_def NotificationHandler_List_def own_notification_def
    NotificationHandler_GetByID_def NotificationHandler_ListAttempts_def NotificationHandler_GetMetrics_def
    TenantHandler_List_def TenantHandler_Create_def TenantHandler_GetBySlug_def TenantHandler_GetByID_def TenantHandler_Update_def TenantHandler_Delete_def
    EntitlementHandler_Put_def EntitlementHandler_Usage_def with_id_params [of f _ g]
    cong: sum.case_cong)

lemma table_params: "e \<in> set table \<Longrightarrow> reads_param (en_route e) n \<Longrightarrow> Param n \<in> set (en_pattern e)"
  using table_entry [of e] unfolding table_entries by auto

section \<open>What the router guarantees\<close>

definition rejected :: "api_response option \<times> api_world \<Rightarrow> api_world \<Rightarrow> bool" where
  "rejected out w \<longleftrightarrow> snd out = w \<and> (fst out = None \<or> (\<exists>st m. st \<in> {400, 401, 403, 503} \<and> fst out = Some (response_Error st m)))"

lemma found_entry:
  assumes "documented lookup" and "lookup table m p = Some (e, ps)"
  shows "e \<in> set table" and "en_method e = m" and "proper p \<Longrightarrow> match_path (en_pattern e) (segments p) = Some ps"
proof -
  have "\<forall>es m p e ps. lookup es m p = Some (e, ps) \<longrightarrow> e \<in> set es \<and> en_method e = m \<and>
      (proper p \<longrightarrow> match_path (en_pattern e) (segments p) = Some ps)"
    using assms(1) unfolding documented_def by (rule conjunct1)
  with assms(2) have "e \<in> set table \<and> en_method e = m \<and> (proper p \<longrightarrow> match_path (en_pattern e) (segments p) = Some ps)" by blast
  then show "e \<in> set table" "en_method e = m" "proper p \<Longrightarrow> match_path (en_pattern e) (segments p) = Some ps" by blast+
qed

lemma dispatch_serve:
  assumes "documented lookup" and "lookup table (rq_method r) (rq_path r) = Some (e, ps)"
  shows "dispatch lookup E r w = (case serve E (en_route e) (r\<lparr>rq_param := URLParam ps\<rparr>) w of (resp, w') \<Rightarrow> (Some resp, w'))"
proof -
  from table_chain [OF found_entry(1) [OF assms], of E "r\<lparr>rq_param := URLParam ps\<rparr>" w] show ?thesis using assms(2) by (simp add: dispatch_def)
qed

lemma authorised_param: "authorised E rt (r\<lparr>rq_param := p\<rparr>) = authorised E rt r"
  unfolding authorised_guard by (simp split: guard.split)

lemma unauthorised_rejected:
  assumes "documented lookup"
    and "\<And>e ps. lookup table (rq_method r) (rq_path r) = Some (e, ps) \<Longrightarrow> \<not> authorised E (en_route e) r"
  shows "rejected (dispatch lookup E r w) w"
proof (cases "lookup table (rq_method r) (rq_path r)")
  case None
  then show ?thesis by (simp add: rejected_def dispatch_def)
next
  case (Some x)
  then obtain e ps where x: "lookup table (rq_method r) (rq_path r) = Some (e, ps)" by (cases x) auto
  have "\<not> authorised E (en_route e) (r\<lparr>rq_param := URLParam ps\<rparr>)" using assms(2) [OF x] by (simp add: authorised_param)
  from turned_away [OF this, of w] obtain st m where st: "st \<in> {400, 401, 403, 503}"
    and "serve E (en_route e) (r\<lparr>rq_param := URLParam ps\<rparr>) w = (response_Error st m, w)" by blast
  then have "dispatch lookup E r w = (Some (response_Error st m), w)" by (simp add: dispatch_serve [OF assms(1) x])
  with st show ?thesis unfolding rejected_def by (metis fst_conv snd_conv)
qed

lemma admin_entries: "list_all (\<lambda>e. (guard_of (en_route e) \<in> {AdminAuth, ServiceAuth}) = (hd (en_pattern e) = Lit ''admin'')) table"
  by code_simp

lemma open_entry:
  assumes "documented lookup" and "lookup table m p = Some (e, ps)" and "proper p" and "en_route e \<in> {GetHealth, PostToken}"
  shows "(m, p) \<in> {(''GET'', ''/health''), (''POST'', ''/auth/token'')}"
proof -
  note found = found_entry [OF assms(1,2)]
  from table_entry [OF found(1)] assms(4) consider "en_method e = ''GET''" "en_pattern e = map Lit [''health'']"
    | "en_method e = ''POST''" "en_pattern e = map Lit [''auth'', ''token'']" unfolding table_entries by auto
  then show ?thesis
  proof cases
    case 1
    then have "segments p = [''health'']" using found(3) [OF assms(3)] match_lits [of "[''health'']"] by (auto split: if_splits)
    then show ?thesis using proper_path [OF assms(3)] 1(1) found(2) by simp
  next
    case 2
    then have "segments p = [''auth'', ''token'']" using found(3) [OF assms(3)] match_lits [of "[''auth'', ''token'']"] by (auto split: if_splits)
    then show ?thesis using proper_path [OF assms(3)] 2(1) found(2) by simp
  qed
qed

text \<open>
  C18. The router is the route table: \<^verbatim>\<open>New\<close> registers every route exactly once, and the middlewares that the nesting of groups and sub-routers
  puts round its handler do what the table \<open>serve\<close> of the API does for the route, in that order. The methods are those that the CORS options allow, and a handler reads
  no placeholder but those of its own pattern.
\<close>

theorem router_is_table:
  "distinct (map en_route table) \<and> set (map en_route table) = UNIV \<and>
   (\<forall>e \<in> set table. en_method e \<in> set (co_AllowedMethods cors_options) \<and>
     chain E (en_mws e) (handler_of E (en_route e)) (r\<lparr>rq_claims := None\<rparr>) w = serve E (en_route e) r w \<and>
     ((\<forall>n. Param n \<in> set (en_pattern e) \<longrightarrow> f n = g n) \<longrightarrow>
       handler_of E (en_route e) (r\<lparr>rq_param := f\<rparr>) w = handler_of E (en_route e) (r\<lparr>rq_param := g\<rparr>) w))"
proof (intro conjI ballI impI table_distinct table_covers)
  fix e assume e: "e \<in> set table"
  show "en_method e \<in> set (co_AllowedMethods cors_options)" using e table_methods unfolding list_all_iff by blast
  show "chain E (en_mws e) (handler_of E (en_route e)) (r\<lparr>rq_claims := None\<rparr>) w = serve E (en_route e) r w" using e by (rule table_chain)
  assume "\<forall>n. Param n \<in> set (en_pattern e) \<longrightarrow> f n = g n"
  then show "handler_of E (en_route e) (r\<lparr>rq_param := f\<rparr>) w = handler_of E (en_route e) (r\<lparr>rq_param := g\<rparr>) w"
    using handler_params table_params [OF e] by blast
qed

text \<open>
  C8. What the guards mean for paths. Without a valid token and without a service signature nothing is reached but the health check and the token
  exchange, and these only at \<^verbatim>\<open>GET /health\<close> and \<^verbatim>\<open>POST /auth/token\<close>; and nothing below \<^verbatim>\<open>/admin\<close> is reached by a token that
  is not an administrator's. Every other request is answered with an error and changes nothing.
\<close>

theorem paths_guarded:
  assumes "documented lookup" and "\<not> service_authentic E r"
  shows "(bearer E r = None \<longrightarrow> rejected (dispatch lookup E r w) w \<or>
      (\<exists>e ps. lookup table (rq_method r) (rq_path r) = Some (e, ps) \<and> en_route e \<in> {GetHealth, PostToken})) \<and>
    (bearer E r = None \<and> proper (rq_path r) \<and> (rq_method r, rq_path r) \<notin> {(''GET'', ''/health''), (''POST'', ''/auth/token'')} \<longrightarrow>
      rejected (dispatch lookup E r w) w) \<and>
    (proper (rq_path r) \<and> hd (segments (rq_path r)) = ''admin'' \<and> (\<forall>c. bearer E r = Some c \<longrightarrow> \<not> tc_IsAdmin c) \<longrightarrow>
      rejected (dispatch lookup E r w) w)"
proof (intro conjI impI)
  have needs: "\<not> authorised E rt r" if "bearer E r = None" "rt \<notin> {GetHealth, PostToken}" for rt
    using that assms(2) by (simp add: authorised_def)
  show "rejected (dispatch lookup E r w) w \<or>
      (\<exists>e ps. lookup table (rq_method r) (rq_path r) = Some (e, ps) \<and> en_route e \<in> {GetHealth, PostToken})" if "bearer E r = None"
    using unauthorised_rejected [OF assms(1)] needs [OF that] by blast
  show "rejected (dispatch lookup E r w) w" if "bearer E r = None \<and> proper (rq_path r) \<and>
      (rq_method r, rq_path r) \<notin> {(''GET'', ''/health''), (''POST'', ''/auth/token'')}"
    using unauthorised_rejected [OF assms(1)] needs open_entry [OF assms(1)] that by blast
next
  assume adm: "proper (rq_path r) \<and> hd (segments (rq_path r)) = ''admin'' \<and> (\<forall>c. bearer E r = Some c \<longrightarrow> \<not> tc_IsAdmin c)"
  show "rejected (dispatch lookup E r w) w"
  proof (rule unauthorised_rejected [OF assms(1)])
    fix e ps assume "lookup table (rq_method r) (rq_path r) = Some (e, ps)"
    note found = found_entry [OF assms(1) this]
    from found(3) adm have "hd (en_pattern e) = Lit ''admin'' \<or> (\<exists>n. hd (en_pattern e) = Param n)"
      by (cases "segments (rq_path r)"; cases "en_pattern e"; cases "hd (en_pattern e)") (auto simp: proper_def split: if_splits)
    moreover have "\<nexists>n. hd (en_pattern e) = Param n" using table_entry [OF found(1)] unfolding table_entries by auto
    ultimately have "guard_of (en_route e) \<in> {AdminAuth, ServiceAuth}"
      using found(1) admin_entries unfolding list_all_iff by blast
    then show "\<not> authorised E (en_route e) r"
      using adm assms(2) by (auto simp: authorised_guard split: option.splits)
  qed
qed

definition candidates :: "string \<Rightarrow> string list \<Rightarrow> entry list" where
  "candidates m xs = filter (\<lambda>e. en_method e = m \<and> match_path (en_pattern e) xs \<noteq> None) table"

lemma slug_usage_path:
  "match_path [Lit ''admin'', Lit ''tenants'', Lit ''by-slug'', Param ''slug''] xs \<noteq> None \<Longrightarrow>
   match_path [Lit ''admin'', Lit ''tenants'', Param ''tenantID'', Lit ''usage''] xs \<noteq> None \<Longrightarrow>
   xs = [''admin'', ''tenants'', ''by-slug'', ''usage'']"
  by (cases xs; cases "tl xs"; cases "tl (tl xs)"; cases "tl (tl (tl xs))"; cases "tl (tl (tl (tl xs)))") (auto split: if_splits)

lemma competing_pair:
  assumes "e \<in> set (candidates m xs)" and "e' \<in> set (candidates m xs)" and "e \<noteq> e'"
  shows "m = ''GET'' \<and> xs = [''admin'', ''tenants'', ''by-slug'', ''usage'']"
proof -
  from assms(1,2) have e: "e \<in> set table" "en_method e = m" "match_path (en_pattern e) xs \<noteq> None"
    and e': "e' \<in> set table" "en_method e' = m" "match_path (en_pattern e') xs \<noteq> None" by (auto simp: candidates_def)
  from table_competitors [OF e(1) e'(1) _ match_overlap [OF e(3) e'(3)]] e(2) e'(2) assms(3)
  have routes: "(en_route e, en_route e') \<in> {(GetTenantBySlug, GetUsage), (GetUsage, GetTenantBySlug)}" by simp
  have pats: "(en_route x = GetTenantBySlug \<longrightarrow> en_method x = ''GET'' \<and> en_pattern x = [Lit ''admin'', Lit ''tenants'', Lit ''by-slug'', Param ''slug'']) \<and>
      (en_route x = GetUsage \<longrightarrow> en_pattern x = [Lit ''admin'', Lit ''tenants'', Param ''tenantID'', Lit ''usage''])" if "x \<in> set table" for x
    using table_entry [OF that] unfolding table_entries by auto
  show ?thesis using routes pats [OF e(1)] pats [OF e'(1)] e(2,3) e'(2,3) slug_usage_path [of xs] by auto
qed

text \<open>
  C24. Which paths are ambiguous: no method and path match two entries of the router, with one exception: \<^verbatim>\<open>GET /admin/tenants/by-slug/usage\<close>
  matches both the administrator's lookup by slug and the service's usage report of a tenant. Slugs are free text, so a tenant
  may be called \<^verbatim>\<open>usage\<close>.
\<close>

theorem routes_unambiguous:
  "(2 \<le> length (candidates m xs)) = (m = ''GET'' \<and> xs = [''admin'', ''tenants'', ''by-slug'', ''usage'']) \<and>
   map en_route (candidates ''GET'' [''admin'', ''tenants'', ''by-slug'', ''usage'']) = [GetTenantBySlug, GetUsage]"
proof -
  have two: "map en_route (candidates ''GET'' [''admin'', ''tenants'', ''by-slug'', ''usage'']) = [GetTenantBySlug, GetUsage]" by code_simp
  then have "length (candidates ''GET'' [''admin'', ''tenants'', ''by-slug'', ''usage'']) = 2" by (metis length_map length_Cons list.size(3) numeral_2_eq_2)
  moreover have "m = ''GET'' \<and> xs = [''admin'', ''tenants'', ''by-slug'', ''usage'']" if long: "2 \<le> length (candidates m xs)"
  proof -
    obtain e e' es where "candidates m xs = e # e' # es" using long by (cases "candidates m xs"; cases "tl (candidates m xs)") auto
    moreover have "distinct (candidates m xs)" using table_distinct by (simp add: candidates_def distinct_map)
    ultimately show ?thesis using competing_pair [of e m xs e'] by simp
  qed
  ultimately show ?thesis using two by auto
qed

text \<open>An entry that alone matches is found.\<close>

lemma resolves:
  assumes "documented lookup" and "proper p" and "(rt, m, pat) \<in> set (map (\<lambda>e. (en_route e, en_method e, en_pattern e)) table)"
    and "match_path pat (segments p) = Some ps" and "segments p \<noteq> [''admin'', ''tenants'', ''by-slug'', ''usage'']"
  shows "\<exists>e. lookup table m p = Some (e, ps) \<and> en_route e = rt"
proof -
  from assms(3) obtain e where e: "e \<in> set table" "en_route e = rt" "en_method e = m" "en_pattern e = pat" by auto
  have "e' = e" if "e' \<in> set table" "en_method e' = m" "match_path (en_pattern e') (segments p) \<noteq> None" for e'
    using competing_pair [of e' m "segments p" e] that e assms(4,5) by (auto simp: candidates_def)
  moreover have "\<forall>es m p e ps. proper p \<longrightarrow> e \<in> set es \<longrightarrow> en_method e = m \<longrightarrow> match_path (en_pattern e) (segments p) = Some ps \<longrightarrow>
      (\<forall>e' \<in> set es. en_method e' = m \<longrightarrow> match_path (en_pattern e') (segments p) \<noteq> None \<longrightarrow> e' = e) \<longrightarrow> lookup es m p = Some (e, ps)"
    using assms(1) unfolding documented_def by (rule conjunct2)
  ultimately have "lookup table m p = Some (e, ps)" using e assms(2,4) by blast
  with e(2) show ?thesis by blast
qed

lemma quota_entries: "list_all (\<lambda>e. (UseQuota \<in> set (en_mws e)) = (en_route e \<in> {PostSend, PostSendMulti})) table"
  by code_simp

lemma send_paths:
  assumes "documented lookup" and "proper p" and "lookup table m p = Some (e, ps)"
  shows "en_route e = PostSend \<Longrightarrow> p = ''/notifications/send''" and "en_route e = PostSendMulti \<Longrightarrow> p = ''/notifications/send-multi''"
proof -
  note found = found_entry [OF assms(1,3)]
  have pats: "(en_route e = PostSend \<longrightarrow> en_pattern e = map Lit [''notifications'', ''send'']) \<and>
      (en_route e = PostSendMulti \<longrightarrow> en_pattern e = map Lit [''notifications'', ''send-multi''])"
    using table_entry [OF found(1)] unfolding table_entries by auto
  have seg: "segments p = ss" if "en_pattern e = map Lit ss" for ss
    using found(3) [OF assms(2)] that match_lits [of ss] by (auto split: if_splits)
  show "p = ''/notifications/send''" if "en_route e = PostSend"
    using pats that seg [of "[''notifications'', ''send'']"] proper_path [OF assms(2)] by simp
  show "p = ''/notifications/send-multi''" if "en_route e = PostSendMulti"
    using pats that seg [of "[''notifications'', ''send-multi'']"] proper_path [OF assms(2)] by simp
qed

text \<open>
  The quota middleware and the router agree: the middleware stands exactly before the two send handlers, and its test of the path's
  suffix tells them apart, so a single send reserves one message and a multi-send as many as its body lists.
\<close>

theorem quota_by_route:
  assumes "documented lookup" and "proper (rq_path r)" and "lookup table (rq_method r) (rq_path r) = Some (e, ps)"
  shows "(UseQuota \<in> set (en_mws e)) = (en_route e \<in> {PostSend, PostSendMulti}) \<and>
    (en_route e = PostSend \<longrightarrow> reservation_size \<lparr>qr_path = rq_path r, qr_body = body\<rparr> = Inr 1) \<and>
    (en_route e = PostSendMulti \<longrightarrow> reservation_size \<lparr>qr_path = rq_path r, qr_body = body\<rparr> =
      (case body of Inl err \<Rightarrow> Inl err | Inr v \<Rightarrow> Inr (case probe v of None \<Rightarrow> 1 | Some k \<Rightarrow> if k = 0 then 1 else int k)))"
proof -
  have "(UseQuota \<in> set (en_mws e)) = (en_route e \<in> {PostSend, PostSendMulti})"
    using quota_entries found_entry(1) [OF assms(1,3)] unfolding list_all_iff by blast
  then show ?thesis
    using send_paths [OF assms] by (auto simp: reservation_size_def HasSuffix_def split: sum.split option.split)
qed

section \<open>Examples\<close>

text \<open>A lookup that takes the first match.\<close>

definition first_match :: finder where
  "first_match es m p = (case filter (\<lambda>e. proper p \<and> en_method e = m \<and> match_path (en_pattern e) (segments p) \<noteq> None) es of
     [] \<Rightarrow> None
   | e # _ \<Rightarrow> Some (e, the (match_path (en_pattern e) (segments p))))"

lemma first_match_documented: "documented first_match"
proof -
  have hit: "x \<in> set es \<and> proper p \<and> en_method x = m \<and> match_path (en_pattern x) (segments p) \<noteq> None"
    if "filter (\<lambda>e. proper p \<and> en_method e = m \<and> match_path (en_pattern e) (segments p) \<noteq> None) es = x # xs" for es m p x xs
    using arg_cong [OF that, of set] by auto
  have "e \<in> set es \<and> en_method e = m \<and> match_path (en_pattern e) (segments p) = Some ps" if found: "first_match es m p = Some (e, ps)" for es m p e ps
  proof (cases "filter (\<lambda>e. proper p \<and> en_method e = m \<and> match_path (en_pattern e) (segments p) \<noteq> None) es")
    case Nil
    then show ?thesis using found by (simp add: first_match_def)
  next
    case (Cons x xs)
    then have "x = e" "the (match_path (en_pattern x) (segments p)) = ps" using found by (auto simp: first_match_def)
    with hit [OF Cons] show ?thesis by force
  qed
  moreover have "first_match es m p = Some (e, ps)" if asm: "proper p" "e \<in> set es" "en_method e = m" "match_path (en_pattern e) (segments p) = Some ps"
    and alone: "\<forall>e' \<in> set es. en_method e' = m \<longrightarrow> match_path (en_pattern e') (segments p) \<noteq> None \<longrightarrow> e' = e" for es m p e ps
  proof (cases "filter (\<lambda>e. proper p \<and> en_method e = m \<and> match_path (en_pattern e) (segments p) \<noteq> None) es")
    case Nil
    then show ?thesis using asm by (auto simp: filter_empty_conv)
  next
    case (Cons x xs)
    with hit [OF Cons] alone have "x = e" by blast
    with Cons asm(4) show ?thesis by (simp add: first_match_def)
  qed
  ultimately show ?thesis unfolding documented_def by blast
qed

theorem router_is_table_witness:
  "\<exists>e \<in> set table. en_route e = GetUsage \<and> chain demo_api (en_mws e) (handler_of demo_api GetUsage) ((demo_request [] [])\<lparr>rq_claims := None\<rparr>) demo_api_world =
     serve demo_api GetUsage (demo_request [] []) demo_api_world"
proof -
  have "GetUsage \<in> set (map en_route table)" using router_is_table by blast
  then obtain e where "e \<in> set table" "en_route e = GetUsage" by auto
  with router_is_table [of demo_api "demo_request [] []" demo_api_world] show ?thesis by metis
qed

theorem paths_guarded_witness:
  "rejected (dispatch first_match (demo_api\<lparr>ap_svcSecret := []\<rparr>) ((demo_request [(''Authorization'', ''Bearer t1'')] [])\<lparr>rq_method := ''DELETE'', rq_path := ''/admin/tenants/1''\<rparr>)
     demo_api_world) demo_api_world"
proof -
  let ?E = "demo_api\<lparr>ap_svcSecret := []\<rparr>"
  let ?r = "(demo_request [(''Authorization'', ''Bearer t1'')] [])\<lparr>rq_method := ''DELETE'', rq_path := ''/admin/tenants/1''\<rparr>"
  have "bearer ?E ?r = Some (demo_claims 1)" by code_simp
  moreover have "\<not> tc_IsAdmin (demo_claims 1)" by code_simp
  moreover have "proper (rq_path ?r)" "hd (segments (rq_path ?r)) = ''admin''" by code_simp+
  moreover have "\<not> service_authentic ?E ?r" by (simp add: service_authentic_def)
  ultimately show ?thesis using paths_guarded [OF first_match_documented, of ?E ?r demo_api_world] by auto
qed

theorem quota_by_route_witness:
  "reservation_size \<lparr>qr_path = ''/notifications/send-multi'', qr_body = Inr (Some (JObj [(''channels'', JArr [JNull, JNull])]))\<rparr> = Inr 2"
proof -
  let ?r = "(demo_request [] [])\<lparr>rq_method := ''POST'', rq_path := ''/notifications/send-multi''\<rparr>"
  have p: "proper (rq_path ?r)" by code_simp
  have two: "probe (Some (JObj [(''channels'', JArr [JNull, JNull])])) = Some 2" by code_simp
  have "match_path [Lit ''notifications'', Lit ''send-multi''] (segments (rq_path ?r)) = Some []"
    "segments (rq_path ?r) \<noteq> [''admin'', ''tenants'', ''by-slug'', ''usage'']" by code_simp+
  from resolves [OF first_match_documented p _ this, of PostSendMulti "''POST''"]
  obtain e where "first_match table (rq_method ?r) (rq_path ?r) = Some (e, [])" "en_route e = PostSendMulti" unfolding table_entries by auto
  with quota_by_route [OF first_match_documented p, of e "[]" "Inr (Some (JObj [(''channels'', JArr [JNull, JNull])]))"]
  show ?thesis using two by simp
qed

end
