(* ===== verification/Sdk.thy ===== *)
theory Sdk
  imports Handlers "HOL-Library.List_Lexorder" "HOL-Library.Char_ord"
begin

text \<open>
  The Go client (\<^verbatim>\<open>sdks/go\<close>): token exchange and cache, the request with its retry after a 401, the errors, the structs with
  their JSON forms, and one definition per resource method. The HTTP client is a function on a state of its own; a
  response carries its status and the body or the error of reading it. The mutex of the token cache makes \<open>authenticatedToken\<close> and
  \<open>forceRefreshToken\<close> atomic, so calls from several goroutines are sequences of them. A \<^verbatim>\<open>map[string]any\<close> is the list of its
  members, \<open>None\<close> when it is nil; a number in it is a float64, of which the integral ones are modelled.
\<close>

section \<open>Configuration and errors\<close>

definition DefaultBaseURL :: string where
  "DefaultBaseURL = ''https://notifyd.fluxintek.com/api''"

record Sdk_Config =
  sg_APIKey :: string
  sg_APISecret :: string
  sg_BaseURL :: string

record Sdk_Client =
  sc_apiKey :: string
  sc_apiSecret :: string
  sc_baseURL :: string
  sc_cachedToken :: string
  sc_expiresAt :: time

definition Sdk_New :: "Sdk_Config \<Rightarrow> goerr + Sdk_Client" where
  "Sdk_New cfg =
     (if sg_APIKey cfg = [] \<or> sg_APISecret cfg = [] then Inl (plain_error ''notifyd: APIKey and APISecret are required'')
      else Inr \<lparr>sc_apiKey = sg_APIKey cfg, sc_apiSecret = sg_APISecret cfg,
             sc_baseURL = (if sg_BaseURL cfg = [] then DefaultBaseURL else sg_BaseURL cfg), sc_cachedToken = [], sc_expiresAt = zero_time\<rparr>)"

type_synonym any_map = "(string \<times> json) list option"

record RequestError =
  re_StatusCode :: int
  re_Code :: string
  re_Message :: string
  re_Body :: any_map

datatype sdk_error = RequestFailed RequestError | CallFailed goerr

definition RequestError_Error :: "RequestError \<Rightarrow> string" where
  "RequestError_Error e =
     (if re_Code e \<noteq> [] then ''notifyd: '' @ show_int (re_StatusCode e) @ '' '' @ re_Code e
      else ''notifyd: '' @ show_int (re_StatusCode e) @ '' '' @ re_Message e)"

definition Field :: "RequestError \<Rightarrow> string \<Rightarrow> string \<times> bool" where
  "Field e key = (case re_Body e of
     None \<Rightarrow> ([], False)
   | Some m \<Rightarrow> (case map_of m key of
       None \<Rightarrow> ([], False)
     | Some raw \<Rightarrow> (case raw of JStr value \<Rightarrow> (value, True) | _ \<Rightarrow> ([], False))))"

section \<open>The environment\<close>

record sdk_response =
  sp_StatusCode :: int
  sp_Body :: "goerr + string"

type_synonym 's transport = "http_request \<Rightarrow> 's \<Rightarrow> (goerr + sdk_response) \<times> 's"

text \<open>
  \<^verbatim>\<open>json.Marshal\<close>, the parser of JSON texts, the check of \<^verbatim>\<open>http.NewRequest\<close>, \<^verbatim>\<open>time.ParseDuration\<close>, the parser of RFC 3339
  instants and the readings of the clock, numbered in the order of one request.
\<close>

record sdk_env =
  sd_marshal :: "json \<Rightarrow> goerr + string"
  sd_parse :: "string \<Rightarrow> json option"
  sd_new_request :: "string \<Rightarrow> string \<Rightarrow> goerr option"
  sd_ParseDuration :: "string \<Rightarrow> goerr + duration"
  sd_time_Parse :: "string \<Rightarrow> goerr + time"
  sd_clock :: "nat \<Rightarrow> time"

text \<open>\<^verbatim>\<open>json.Unmarshal\<close> of a text with a decoder for its value.\<close>

definition Unmarshal :: "sdk_env \<Rightarrow> (json \<Rightarrow> 'a option) \<Rightarrow> string \<Rightarrow> goerr + 'a" where
  "Unmarshal E d b = (case sd_parse E b of
     None \<Rightarrow> Inl (plain_error ''invalid character in JSON'')
   | Some v \<Rightarrow> (case d v of None \<Rightarrow> Inl (plain_error ''json: cannot unmarshal'') | Some x \<Rightarrow> Inr x))"

text \<open>
  The float64 nearest to an integer, ties to the even mantissa of 53 bits; \<open>None\<close> is the range error of
  \<^verbatim>\<open>strconv.ParseFloat\<close>.
\<close>

fun bit_count :: "nat \<Rightarrow> nat" where
  "bit_count m = (if m = 0 then 0 else Suc (bit_count (m div 2)))"

declare bit_count.simps [simp del]

definition round_bits :: "nat \<Rightarrow> nat \<Rightarrow> nat" where
  "round_bits k m = (let q = m div 2 ^ k; r = m mod 2 ^ k
     in (if 2 * r > 2 ^ k \<or> (2 * r = 2 ^ k \<and> odd q) then q + 1 else q) * 2 ^ k)"

definition float64 :: "int \<Rightarrow> int option" where
  "float64 i = (let m = nat \<bar>i\<bar>; x = (if m \<le> 2 ^ 53 then m else round_bits (bit_count m - 53) m)
     in if x < 2 ^ 1024 then Some (sgn i * int x) else None)"

text \<open>
  \<^verbatim>\<open>json.Unmarshal\<close> into an \<^verbatim>\<open>any\<close> and into a \<^verbatim>\<open>map[string]any\<close>: a number becomes a float64, an object a map
  in which a later member replaces an earlier one of the same name.
\<close>

fun decode_any :: "json \<Rightarrow> json option" and decode_anys :: "json list \<Rightarrow> json list option" and
    put_members :: "(string \<times> json) list \<Rightarrow> (string \<times> json) list \<Rightarrow> (string \<times> json) list option" where
  "decode_any (JNum i) = map_option JNum (float64 i)"
| "decode_any (JArr vs) = map_option JArr (decode_anys vs)"
| "decode_any (JObj ms) = map_option JObj (put_members ms [])"
| "decode_any (JInvalid t) = None"
| "decode_any v = Some v"
| "decode_anys [] = Some []"
| "decode_anys (v # vs) = (case decode_any v of None \<Rightarrow> None | Some x \<Rightarrow> map_option (Cons x) (decode_anys vs))"
| "put_members [] m = Some m"
| "put_members ((k, v) # ms) m = (case decode_any v of
     None \<Rightarrow> None | Some x \<Rightarrow> put_members ms (filter (\<lambda>(k', _). k' \<noteq> k) m @ [(k, x)]))"

definition decode_any_map :: "json \<Rightarrow> any_map \<Rightarrow> any_map option" where
  "decode_any_map v old = (case v of
     JNull \<Rightarrow> Some None
   | JObj ms \<Rightarrow> map_option Some (put_members ms (case old of None \<Rightarrow> [] | Some m \<Rightarrow> m))
   | _ \<Rightarrow> None)"

definition requestErrorFromBody :: "sdk_env \<Rightarrow> int \<Rightarrow> string \<Rightarrow> RequestError" where
  "requestErrorFromBody E statusCode body =
     (let plain = \<lparr>re_StatusCode = statusCode, re_Code = [], re_Message = body, re_Body = None\<rparr>
      in case Unmarshal E (\<lambda>v. decode_any_map v None) body of
           Inl _ \<Rightarrow> plain
         | Inr parsedBody \<Rightarrow>
             (case map_of (case parsedBody of None \<Rightarrow> [] | Some m \<Rightarrow> m) ''error'' of
                Some (JStr code) \<Rightarrow>
                  if code \<noteq> [] then \<lparr>re_StatusCode = statusCode, re_Code = code, re_Message = [], re_Body = parsedBody\<rparr> else plain
              | _ \<Rightarrow> plain))"

section \<open>Tokens\<close>

record tokenResponse =
  tp_Token :: string
  tp_ExpiresIn :: string

definition tokenResponse_field :: "string \<Rightarrow> json \<Rightarrow> tokenResponse \<Rightarrow> tokenResponse option" where
  "tokenResponse_field k v c =
     (if k = ''token'' then map_option (\<lambda>s. c\<lparr>tp_Token := s\<rparr>) (decode_string v (tp_Token c))
      else if k = ''expires_in'' then map_option (\<lambda>s. c\<lparr>tp_ExpiresIn := s\<rparr>) (decode_string v (tp_ExpiresIn c))
      else Some c)"

definition token_request :: "Sdk_Client \<Rightarrow> string \<Rightarrow> http_request" where
  "token_request c body = \<lparr>hq_method = ''POST'', hq_url = sc_baseURL c @ ''/auth/token'',
     hq_headers = Header_Set ''Content-Type'' ''application/json'' [], hq_body = body\<rparr>"

text \<open>\<open>clk\<close> numbers the reading of the clock that stamps the new token.\<close>

definition fetchAndCacheToken :: "sdk_env \<Rightarrow> 's transport \<Rightarrow> nat \<Rightarrow> Sdk_Client \<times> 's \<Rightarrow> (sdk_error + string) \<times> Sdk_Client \<times> 's" where
  "fetchAndCacheToken E tr clk st = (case st of (c, s) \<Rightarrow>
     (case sd_marshal E (JObj [(''api_key'', JStr (sc_apiKey c)), (''api_secret'', JStr (sc_apiSecret c))]) of
        Inl err \<Rightarrow> (Inl (CallFailed (wrap ''notifyd: encoding token request: '' err [])), c, s)
      | Inr body \<Rightarrow> (case sd_new_request E ''POST'' (sc_baseURL c @ ''/auth/token'') of
          Some err \<Rightarrow> (Inl (CallFailed (wrap ''notifyd: building token request: '' err [])), c, s)
        | None \<Rightarrow> (case tr (token_request c body) s of
            (Inl err, s1) \<Rightarrow> (Inl (CallFailed (wrap ''notifyd: token exchange: '' err [])), c, s1)
          | (Inr resp, s1) \<Rightarrow> (case sp_Body resp of
              Inl err \<Rightarrow> (Inl (CallFailed (wrap ''notifyd: reading token response: '' err [])), c, s1)
            | Inr respBody \<Rightarrow>
                if sp_StatusCode resp \<noteq> 200 then (Inl (RequestFailed (requestErrorFromBody E (sp_StatusCode resp) respBody)), c, s1)
                else (case Unmarshal E (\<lambda>v. decode_value tokenResponse_field v \<lparr>tp_Token = [], tp_ExpiresIn = []\<rparr>) respBody of
                    Inl err \<Rightarrow> (Inl (CallFailed (wrap ''notifyd: decoding token response: '' err [])), c, s1)
                  | Inr p \<Rightarrow> (case sd_ParseDuration E (tp_ExpiresIn p) of
                      Inl err \<Rightarrow> (Inl (CallFailed (wrap (''notifyd: unparseable expires_in '' @ Quote (tp_ExpiresIn p) @ '': '') err [])), c, s1)
                    | Inr expiresIn \<Rightarrow>
                        (Inr (tp_Token p), c\<lparr>sc_cachedToken := tp_Token p, sc_expiresAt := sd_clock E clk + expiresIn\<rparr>, s1))))))))"

definition expiryMargin :: duration where
  "expiryMargin = 30 * second_ns"

definition authenticatedToken :: "sdk_env \<Rightarrow> 's transport \<Rightarrow> Sdk_Client \<times> 's \<Rightarrow> (sdk_error + string) \<times> Sdk_Client \<times> 's" where
  "authenticatedToken E tr st = (case st of (c, s) \<Rightarrow>
     if sc_cachedToken c \<noteq> [] \<and> sd_clock E 0 + expiryMargin < sc_expiresAt c then (Inr (sc_cachedToken c), c, s)
     else fetchAndCacheToken E tr 1 (c, s))"

definition forceRefreshToken :: "sdk_env \<Rightarrow> 's transport \<Rightarrow> Sdk_Client \<times> 's \<Rightarrow> (sdk_error + string) \<times> Sdk_Client \<times> 's" where
  "forceRefreshToken E tr st = (case st of (c, s) \<Rightarrow> fetchAndCacheToken E tr 2 (c\<lparr>sc_cachedToken := []\<rparr>, s))"

section \<open>Requests\<close>

text \<open>\<^verbatim>\<open>url.QueryEscape\<close> and \<^verbatim>\<open>url.Values.Encode\<close> of values with one entry per key.\<close>

definition unreserved :: "char \<Rightarrow> bool" where
  "unreserved c = (let n = of_char c :: nat in
     (48 \<le> n \<and> n \<le> 57) \<or> (65 \<le> n \<and> n \<le> 90) \<or> (97 \<le> n \<and> n \<le> 122) \<or> c \<in> set ''-_.~'')"

definition escape_query_char :: "char \<Rightarrow> string" where
  "escape_query_char c =
     (if unreserved c then [c] else if c = CHR '' '' then ''+''
      else (let n = of_char c :: nat in [CHR ''%'', ''0123456789ABCDEF'' ! (n div 16), ''0123456789ABCDEF'' ! (n mod 16)]))"

definition QueryEscape :: "string \<Rightarrow> string" where
  "QueryEscape s = concat (map escape_query_char s)"

fun encode_pairs :: "(string \<times> string) list \<Rightarrow> string" where
  "encode_pairs [] = []"
| "encode_pairs [(k, v)] = QueryEscape k @ ''='' @ QueryEscape v"
| "encode_pairs ((k, v) # q # qs) = QueryEscape k @ ''='' @ QueryEscape v @ ''&'' @ encode_pairs (q # qs)"

definition Encode :: "(string \<times> string) list \<Rightarrow> string" where
  "Encode q = encode_pairs (sort_key fst q)"

record 'o requestOptions =
  ro_method :: string
  ro_path :: string
  ro_query :: "(string \<times> string) list"
  ro_body :: "json option"
  ro_out :: "(json \<Rightarrow> 'o option) option"
  ro_zero :: 'o
  ro_expectEmpty :: bool

definition request_url :: "Sdk_Client \<Rightarrow> 'o requestOptions \<Rightarrow> string" where
  "request_url c opts = sc_baseURL c @ ro_path opts @ (if ro_query opts \<noteq> [] then ''?'' @ Encode (ro_query opts) else [])"

definition call_request :: "Sdk_Client \<Rightarrow> string \<Rightarrow> 'o requestOptions \<Rightarrow> string option \<Rightarrow> http_request" where
  "call_request c token opts body = \<lparr>hq_method = ro_method opts, hq_url = request_url c opts,
     hq_headers = (let h = Header_Set ''Authorization'' (''Bearer '' @ token) []
       in if body \<noteq> None then Header_Set ''Content-Type'' ''application/json'' h else h),
     hq_body = (case body of None \<Rightarrow> [] | Some b \<Rightarrow> b)\<rparr>"

definition sdk_send :: "sdk_env \<Rightarrow> 's transport \<Rightarrow> string \<Rightarrow> 'o requestOptions \<Rightarrow> Sdk_Client \<times> 's \<Rightarrow>
    (sdk_error + int \<times> string) \<times> Sdk_Client \<times> 's" where
  "sdk_send E tr token opts st = (case st of (c, s) \<Rightarrow>
     (case (case ro_body opts of None \<Rightarrow> Inr None | Some v \<Rightarrow> (case sd_marshal E v of Inl err \<Rightarrow> Inl err | Inr b \<Rightarrow> Inr (Some b))) of
        Inl err \<Rightarrow> (Inl (CallFailed (wrap ''notifyd: encoding request body: '' err [])), c, s)
      | Inr body \<Rightarrow> (case sd_new_request E (ro_method opts) (request_url c opts) of
          Some err \<Rightarrow> (Inl (CallFailed (wrap ''notifyd: building request: '' err [])), c, s)
        | None \<Rightarrow> (case tr (call_request c token opts body) s of
            (Inl err, s1) \<Rightarrow> (Inl (CallFailed (wrap (''notifyd: '' @ ro_method opts @ '' '' @ ro_path opts @ '': '') err [])), c, s1)
          | (Inr resp, s1) \<Rightarrow> (case sp_Body resp of
              Inl err \<Rightarrow> (Inl (CallFailed (wrap ''notifyd: reading response body: '' err [])), c, s1)
            | Inr respBody \<Rightarrow> (Inr (sp_StatusCode resp, respBody), c, s1))))))"

text \<open>What \<^verbatim>\<open>doRequest\<close> makes of the last response.\<close>

definition finish_request :: "sdk_env \<Rightarrow> 'o requestOptions \<Rightarrow> int \<times> string \<Rightarrow> sdk_error + 'o" where
  "finish_request E opts r = (case r of (status, respBody) \<Rightarrow>
     if status \<ge> 300 then Inl (RequestFailed (requestErrorFromBody E status respBody))
     else if ro_expectEmpty opts then Inr (ro_zero opts)
     else case ro_out opts of
       None \<Rightarrow> Inr (ro_zero opts)
     | Some d \<Rightarrow> (case Unmarshal E d respBody of
         Inl err \<Rightarrow> Inl (CallFailed (wrap (''notifyd: decoding response from '' @ ro_method opts @ '' '' @ ro_path opts @ '': '') err []))
       | Inr x \<Rightarrow> Inr x))"

definition doRequest :: "sdk_env \<Rightarrow> 's transport \<Rightarrow> 'o requestOptions \<Rightarrow> Sdk_Client \<times> 's \<Rightarrow> (sdk_error + 'o) \<times> Sdk_Client \<times> 's" where
  "doRequest E tr opts st = (case authenticatedToken E tr st of
     (Inl err, st1) \<Rightarrow> (Inl err, st1)
   | (Inr token, st1) \<Rightarrow> (case sdk_send E tr token opts st1 of
       (Inl err, st2) \<Rightarrow> (Inl err, st2)
     | (Inr (status, respBody), st2) \<Rightarrow>
         if status \<noteq> 401 then (finish_request E opts (status, respBody), st2)
         else (case forceRefreshToken E tr st2 of
             (Inl err, st3) \<Rightarrow> (Inl err, st3)
           | (Inr token2, st3) \<Rightarrow> (case sdk_send E tr token2 opts st3 of
               (Inl err, st4) \<Rightarrow> (Inl err, st4)
             | (Inr r, st4) \<Rightarrow> (finish_request E opts r, st4)))))"

section \<open>Structs\<close>

text \<open>Members that \<^verbatim>\<open>omitempty\<close> leaves out.\<close>

definition opt_str :: "string \<Rightarrow> string \<Rightarrow> (string \<times> json) list" where
  "opt_str k v = (if v = [] then [] else [(k, JStr v)])"

definition opt_ptr :: "('a \<Rightarrow> json) \<Rightarrow> string \<Rightarrow> 'a option \<Rightarrow> (string \<times> json) list" where
  "opt_ptr f k p = (case p of None \<Rightarrow> [] | Some x \<Rightarrow> [(k, f x)])"

definition opt_map :: "string \<Rightarrow> any_map \<Rightarrow> (string \<times> json) list" where
  "opt_map k m = (case m of None \<Rightarrow> [] | Some [] \<Rightarrow> [] | Some ms \<Rightarrow> [(k, JObj ms)])"

definition map_json :: "any_map \<Rightarrow> json" where
  "map_json m = (case m of None \<Rightarrow> JNull | Some ms \<Rightarrow> JObj ms)"

definition sdk_decode_time :: "sdk_env \<Rightarrow> json \<Rightarrow> time \<Rightarrow> time option" where
  "sdk_decode_time E v old = (case v of
     JStr s \<Rightarrow> (case sd_time_Parse E s of Inl _ \<Rightarrow> None | Inr t \<Rightarrow> Some t) | JNull \<Rightarrow> Some old | _ \<Rightarrow> None)"

definition decode_string_ptr :: "json \<Rightarrow> string option option" where
  "decode_string_ptr v = decode_ptr (\<lambda>j. decode_string j []) v"

definition decode_time_ptr :: "sdk_env \<Rightarrow> json \<Rightarrow> time option option" where
  "decode_time_ptr E v = decode_ptr (\<lambda>j. sdk_decode_time E j zero_time) v"

text \<open>
  The preferences are the same struct as the server's: \<open>prefs_json\<close> and \<open>decode_prefs\<close>. The sends take a \<open>SendInput\<close>.
\<close>

record SendInput =
  si_ChannelConfigID :: string
  si_Subject :: string
  si_Body :: string
  si_Metadata :: any_map

definition SendInput_json :: "SendInput \<Rightarrow> json" where
  "SendInput_json i = JObj ([(''channel_config_id'', JStr (si_ChannelConfigID i))] @ opt_str ''subject'' (si_Subject i) @
     [(''body'', JStr (si_Body i))] @ opt_map ''metadata'' (si_Metadata i))"

record Sdk_Notification =
  sn_ID :: string
  sn_TenantID :: string
  sn_ChannelConfigID :: string
  sn_Channel :: string
  sn_Subject :: "string option"
  sn_Body :: string
  sn_Metadata :: any_map
  sn_Status :: string
  sn_RetryCount :: int
  sn_MaxRetries :: int
  sn_LastError :: "string option"
  sn_DeliveredAt :: "time option"
  sn_ProviderMsgID :: "string option"
  sn_CreatedAt :: time
  sn_UpdatedAt :: time

definition Sdk_Notification_zero :: Sdk_Notification where
  "Sdk_Notification_zero = \<lparr>sn_ID = [], sn_TenantID = [], sn_ChannelConfigID = [], sn_Channel = [], sn_Subject = None, sn_Body = [],
     sn_Metadata = None, sn_Status = [], sn_RetryCount = 0, sn_MaxRetries = 0, sn_LastError = None, sn_DeliveredAt = None,
     sn_ProviderMsgID = None, sn_CreatedAt = zero_time, sn_UpdatedAt = zero_time\<rparr>"

definition Sdk_Notification_field :: "sdk_env \<Rightarrow> string \<Rightarrow> json \<Rightarrow> Sdk_Notification \<Rightarrow> Sdk_Notification option" where
  "Sdk_Notification_field E k v c =
     (if k = ''id'' then map_option (\<lambda>s. c\<lparr>sn_ID := s\<rparr>) (decode_string v (sn_ID c))
      else if k = ''tenant_id'' then map_option (\<lambda>s. c\<lparr>sn_TenantID := s\<rparr>) (decode_string v (sn_TenantID c))
      else if k = ''channel_config_id'' then map_option (\<lambda>s. c\<lparr>sn_ChannelConfigID := s\<rparr>) (decode_string v (sn_ChannelConfigID c))
      else if k = ''channel'' then map_option (\<lambda>s. c\<lparr>sn_Channel := s\<rparr>) (decode_string v (sn_Channel c))
      else if k = ''subject'' then map_option (\<lambda>p. c\<lparr>sn_Subject := p\<rparr>) (decode_string_ptr v)
      else if k = ''body'' then map_option (\<lambda>s. c\<lparr>sn_Body := s\<rparr>) (decode_string v (sn_Body c))
      else if k = ''metadata'' then map_option (\<lambda>m. c\<lparr>sn_Metadata := m\<rparr>) (decode_any_map v (sn_Metadata c))
      else if k = ''status'' then map_option (\<lambda>s. c\<lparr>sn_Status := s\<rparr>) (decode_string v (sn_Status c))
      else if k = ''retry_count'' then map_option (\<lambda>i. c\<lparr>sn_RetryCount := i\<rparr>) (decode_int v (sn_RetryCount c))
      else if k = ''max_retries'' then map_option (\<lambda>i. c\<lparr>sn_MaxRetries := i\<rparr>) (decode_int v (sn_MaxRetries c))
      else if k = ''last_error'' then map_option (\<lambda>p. c\<lparr>sn_LastError := p\<rparr>) (decode_string_ptr v)
      else if k = ''delivered_at'' then map_option (\<lambda>p. c\<lparr>sn_DeliveredAt := p\<rparr>) (decode_time_ptr E v)
      else if k = ''provider_msg_id'' then map_option (\<lambda>p. c\<lparr>sn_ProviderMsgID := p\<rparr>) (decode_string_ptr v)
      else if k = ''created_at'' then map_option (\<lambda>t. c\<lparr>sn_CreatedAt := t\<rparr>) (sdk_decode_time E v (sn_CreatedAt c))
      else if k = ''updated_at'' then map_option (\<lambda>t. c\<lparr>sn_UpdatedAt := t\<rparr>) (sdk_decode_time E v (sn_UpdatedAt c))
      else Some c)"

definition decode_notification :: "sdk_env \<Rightarrow> json \<Rightarrow> Sdk_Notification option" where
  "decode_notification E v = decode_value (Sdk_Notification_field E) v Sdk_Notification_zero"

record SendMultiResponse =
  sm_Sent :: "Sdk_Notification list"
  sm_Errors :: "string list"

definition SendMultiResponse_field :: "sdk_env \<Rightarrow> string \<Rightarrow> json \<Rightarrow> SendMultiResponse \<Rightarrow> SendMultiResponse option" where
  "SendMultiResponse_field E k v c =
     (if k = ''sent'' then map_option (\<lambda>l. c\<lparr>sm_Sent := l\<rparr>) (decode_slice (decode_notification E) v)
      else if k = ''errors'' then map_option (\<lambda>l. c\<lparr>sm_Errors := l\<rparr>) (decode_slice (\<lambda>j. decode_string j []) v)
      else Some c)"

record NotificationList =
  nl_Data :: "Sdk_Notification list"
  nl_Total :: int
  nl_Limit :: int
  nl_Offset :: int

definition NotificationList_field :: "sdk_env \<Rightarrow> string \<Rightarrow> json \<Rightarrow> NotificationList \<Rightarrow> NotificationList option" where
  "NotificationList_field E k v c =
     (if k = ''data'' then map_option (\<lambda>l. c\<lparr>nl_Data := l\<rparr>) (decode_slice (decode_notification E) v)
      else if k = ''total'' then map_option (\<lambda>i. c\<lparr>nl_Total := i\<rparr>) (decode_int v (nl_Total c))
      else if k = ''limit'' then map_option (\<lambda>i. c\<lparr>nl_Limit := i\<rparr>) (decode_int v (nl_Limit c))
      else if k = ''offset'' then map_option (\<lambda>i. c\<lparr>nl_Offset := i\<rparr>) (decode_int v (nl_Offset c))
      else Some c)"

record ListNotificationsParams =
  lp_Limit :: int
  lp_Offset :: int
  lp_Status :: string
  lp_Channel :: string

record Sdk_Attempt =
  sa_ID :: string
  sa_NotificationID :: string
  sa_AttemptNumber :: int
  sa_Status :: string
  sa_ProviderResponse :: any_map
  sa_ErrorMessage :: "string option"
  sa_DurationMs :: int
  sa_AttemptedAt :: time

definition Sdk_Attempt_zero :: Sdk_Attempt where
  "Sdk_Attempt_zero = \<lparr>sa_ID = [], sa_NotificationID = [], sa_AttemptNumber = 0, sa_Status = [], sa_ProviderResponse = None, sa_ErrorMessage = None, sa_DurationMs = 0, sa_AttemptedAt = zero_time\<rparr>"

definition Sdk_Attempt_field :: "sdk_env \<Rightarrow> string \<Rightarrow> json \<Rightarrow> Sdk_Attempt \<Rightarrow> Sdk_Attempt option" where
  "Sdk_Attempt_field E k v c =
     (if k = ''id'' then map_option (\<lambda>x. c\<lparr>sa_ID := x\<rparr>) (decode_string v (sa_ID c))
      else if k = ''notification_id'' then map_option (\<lambda>x. c\<lparr>sa_NotificationID := x\<rparr>) (decode_string v (sa_NotificationID c))
      else if k = ''attempt_number'' then map_option (\<lambda>x. c\<lparr>sa_AttemptNumber := x\<rparr>) (decode_int v (sa_AttemptNumber c))
      else if k = ''status'' then map_option (\<lambda>x. c\<lparr>sa_Status := x\<rparr>) (decode_string v (sa_Status c))
      else if k = ''provider_response'' then map_option (\<lambda>x. c\<lparr>sa_ProviderResponse := x\<rparr>) (decode_any_map v (sa_ProviderResponse c))
      else if k = ''error_message'' then map_option (\<lambda>x. c\<lparr>sa_ErrorMessage := x\<rparr>) (decode_string_ptr v)
      else if k = ''duration_ms'' then map_option (\<lambda>x. c\<lparr>sa_DurationMs := x\<rparr>) (decode_int v (sa_DurationMs c))
      else if k = ''attempted_at'' then map_option (\<lambda>x. c\<lparr>sa_AttemptedAt := x\<rparr>) (sdk_decode_time E v (sa_AttemptedAt c))
      else Some c)"

record Sdk_Metric =
  sme_ID :: string
  sme_NotificationID :: string
  sme_ProviderMsgID :: string
  sme_DeliveredAt :: "time option"
  sme_ReadAt :: "time option"
  sme_Interactions :: any_map
  sme_CollectedAt :: time

definition Sdk_Metric_zero :: Sdk_Metric where
  "Sdk_Metric_zero = \<lparr>sme_ID = [], sme_NotificationID = [], sme_ProviderMsgID = [], sme_DeliveredAt = None, sme_ReadAt = None, sme_Interactions = None, sme_CollectedAt = zero_time\<rparr>"

definition Sdk_Metric_field :: "sdk_env \<Rightarrow> string \<Rightarrow> json \<Rightarrow> Sdk_Metric \<Rightarrow> Sdk_Metric option" where
  "Sdk_Metric_field E k v c =
     (if k = ''id'' then map_option (\<lambda>x. c\<lparr>sme_ID := x\<rparr>) (decode_string v (sme_ID c))
      else if k = ''notification_id'' then map_option (\<lambda>x. c\<lparr>sme_NotificationID := x\<rparr>) (decode_string v (sme_NotificationID c))
      else if k = ''provider_msg_id'' then map_option (\<lambda>x. c\<lparr>sme_ProviderMsgID := x\<rparr>) (decode_string v (sme_ProviderMsgID c))
      else if k = ''delivered_at'' then map_option (\<lambda>x. c\<lparr>sme_DeliveredAt := x\<rparr>) (decode_time_ptr E v)
      else if k = ''read_at'' then map_option (\<lambda>x. c\<lparr>sme_ReadAt := x\<rparr>) (decode_time_ptr E v)
      else if k = ''interactions'' then map_option (\<lambda>x. c\<lparr>sme_Interactions := x\<rparr>) (decode_any_map v (sme_Interactions c))
      else if k = ''collected_at'' then map_option (\<lambda>x. c\<lparr>sme_CollectedAt := x\<rparr>) (sdk_decode_time E v (sme_CollectedAt c))
      else Some c)"

record Sdk_APIKey =
  sk_ID :: string
  sk_TenantID :: string
  sk_APIKey :: string
  sk_Label :: string
  sk_CreatedAt :: time
  sk_RevokedAt :: "time option"

definition Sdk_APIKey_zero :: Sdk_APIKey where
  "Sdk_APIKey_zero = \<lparr>sk_ID = [], sk_TenantID = [], sk_APIKey = [], sk_Label = [], sk_CreatedAt = zero_time, sk_RevokedAt = None\<rparr>"

definition Sdk_APIKey_field :: "sdk_env \<Rightarrow> string \<Rightarrow> json \<Rightarrow> Sdk_APIKey \<Rightarrow> Sdk_APIKey option" where
  "Sdk_APIKey_field E k v c =
     (if k = ''id'' then map_option (\<lambda>x. c\<lparr>sk_ID := x\<rparr>) (decode_string v (sk_ID c))
      else if k = ''tenant_id'' then map_option (\<lambda>x. c\<lparr>sk_TenantID := x\<rparr>) (decode_string v (sk_TenantID c))
      else if k = ''api_key'' then map_option (\<lambda>x. c\<lparr>sk_APIKey := x\<rparr>) (decode_string v (sk_APIKey c))
      else if k = ''label'' then map_option (\<lambda>x. c\<lparr>sk_Label := x\<rparr>) (decode_string v (sk_Label c))
      else if k = ''created_at'' then map_option (\<lambda>x. c\<lparr>sk_CreatedAt := x\<rparr>) (sdk_decode_time E v (sk_CreatedAt c))
      else if k = ''revoked_at'' then map_option (\<lambda>x. c\<lparr>sk_RevokedAt := x\<rparr>) (decode_time_ptr E v)
      else Some c)"

record CreateAPIKeyResponse =
  ck_Key :: Sdk_APIKey
  ck_APISecret :: string

definition CreateAPIKeyResponse_field :: "sdk_env \<Rightarrow> string \<Rightarrow> json \<Rightarrow> CreateAPIKeyResponse \<Rightarrow> CreateAPIKeyResponse option" where
  "CreateAPIKeyResponse_field E k v c =
     (if k = ''key'' then map_option (\<lambda>x. c\<lparr>ck_Key := x\<rparr>) (decode_value (Sdk_APIKey_field E) v (ck_Key c))
      else if k = ''api_secret'' then map_option (\<lambda>x. c\<lparr>ck_APISecret := x\<rparr>) (decode_string v (ck_APISecret c))
      else Some c)"

record Sdk_Endpoint =
  sw_ID :: string
  sw_TenantID :: string
  sw_URL :: string
  sw_Events :: "string list"
  sw_IsActive :: bool
  sw_CreatedAt :: time

definition Sdk_Endpoint_zero :: Sdk_Endpoint where
  "Sdk_Endpoint_zero = \<lparr>sw_ID = [], sw_TenantID = [], sw_URL = [], sw_Events = [], sw_IsActive = False, sw_CreatedAt = zero_time\<rparr>"

definition Sdk_Endpoint_field :: "sdk_env \<Rightarrow> string \<Rightarrow> json \<Rightarrow> Sdk_Endpoint \<Rightarrow> Sdk_Endpoint option" where
  "Sdk_Endpoint_field E k v c =
     (if k = ''id'' then map_option (\<lambda>x. c\<lparr>sw_ID := x\<rparr>) (decode_string v (sw_ID c))
      else if k = ''tenant_id'' then map_option (\<lambda>x. c\<lparr>sw_TenantID := x\<rparr>) (decode_string v (sw_TenantID c))
      else if k = ''url'' then map_option (\<lambda>x. c\<lparr>sw_URL := x\<rparr>) (decode_string v (sw_URL c))
      else if k = ''events'' then map_option (\<lambda>x. c\<lparr>sw_Events := x\<rparr>) (decode_slice (\<lambda>j. decode_string j []) v)
      else if k = ''is_active'' then map_option (\<lambda>x. c\<lparr>sw_IsActive := x\<rparr>) (decode_bool v (sw_IsActive c))
      else if k = ''created_at'' then map_option (\<lambda>x. c\<lparr>sw_CreatedAt := x\<rparr>) (sdk_decode_time E v (sw_CreatedAt c))
      else Some c)"

text \<open>\<^verbatim>\<open>WebhookEndpointCreated\<close> embeds the endpoint, so its members stand beside the secret.\<close>

record WebhookEndpointCreated =
  wc_WebhookEndpoint :: Sdk_Endpoint
  wc_Secret :: string

definition WebhookEndpointCreated_field :: "sdk_env \<Rightarrow> string \<Rightarrow> json \<Rightarrow> WebhookEndpointCreated \<Rightarrow> WebhookEndpointCreated option" where
  "WebhookEndpointCreated_field E k v c =
     (if k = ''secret'' then map_option (\<lambda>x. c\<lparr>wc_Secret := x\<rparr>) (decode_string v (wc_Secret c))
      else map_option (\<lambda>x. c\<lparr>wc_WebhookEndpoint := x\<rparr>) (Sdk_Endpoint_field E k v (wc_WebhookEndpoint c)))"

record CreateWebhookInput =
  cw_URL :: string
  cw_Events :: "string list option"

definition CreateWebhookInput_json :: "CreateWebhookInput \<Rightarrow> json" where
  "CreateWebhookInput_json i = JObj [(''url'', JStr (cw_URL i)),
     (''events'', case cw_Events i of None \<Rightarrow> JNull | Some l \<Rightarrow> JArr (map JStr l))]"

record UpdateWebhookInput =
  uw_URL :: "string option"
  uw_Events :: "string list"
  uw_IsActive :: "bool option"

definition UpdateWebhookInput_json :: "UpdateWebhookInput \<Rightarrow> json" where
  "UpdateWebhookInput_json i = JObj (opt_ptr JStr ''url'' (uw_URL i) @
     (if uw_Events i = [] then [] else [(''events'', JArr (map JStr (uw_Events i)))]) @ opt_ptr JBool ''is_active'' (uw_IsActive i))"

record Sdk_Channel =
  sh_ID :: string
  sh_TenantID :: string
  sh_Channel :: string
  sh_Name :: string
  sh_Config :: any_map
  sh_IsActive :: bool
  sh_DeliveryPrefs :: "DeliveryPreferences option"
  sh_CreatedAt :: time
  sh_UpdatedAt :: time

definition Sdk_Channel_zero :: Sdk_Channel where
  "Sdk_Channel_zero = \<lparr>sh_ID = [], sh_TenantID = [], sh_Channel = [], sh_Name = [], sh_Config = None, sh_IsActive = False, sh_DeliveryPrefs = None, sh_CreatedAt = zero_time, sh_UpdatedAt = zero_time\<rparr>"

definition Sdk_Channel_field :: "sdk_env \<Rightarrow> string \<Rightarrow> json \<Rightarrow> Sdk_Channel \<Rightarrow> Sdk_Channel option" where
  "Sdk_Channel_field E k v c =
     (if k = ''id'' then map_option (\<lambda>x. c\<lparr>sh_ID := x\<rparr>) (decode_string v (sh_ID c))
      else if k = ''tenant_id'' then map_option (\<lambda>x. c\<lparr>sh_TenantID := x\<rparr>) (decode_string v (sh_TenantID c))
      else if k = ''channel'' then map_option (\<lambda>x. c\<lparr>sh_Channel := x\<rparr>) (decode_string v (sh_Channel c))
      else if k = ''name'' then map_option (\<lambda>x. c\<lparr>sh_Name := x\<rparr>) (decode_string v (sh_Name c))
      else if k = ''config'' then map_option (\<lambda>x. c\<lparr>sh_Config := x\<rparr>) (decode_any_map v (sh_Config c))
      else if k = ''is_active'' then map_option (\<lambda>x. c\<lparr>sh_IsActive := x\<rparr>) (decode_bool v (sh_IsActive c))
      else if k = ''delivery_prefs'' then map_option (\<lambda>x. c\<lparr>sh_DeliveryPrefs := x\<rparr>) (decode_prefs v)
      else if k = ''created_at'' then map_option (\<lambda>x. c\<lparr>sh_CreatedAt := x\<rparr>) (sdk_decode_time E v (sh_CreatedAt c))
      else if k = ''updated_at'' then map_option (\<lambda>x. c\<lparr>sh_UpdatedAt := x\<rparr>) (sdk_decode_time E v (sh_UpdatedAt c))
      else Some c)"

record CreateChannelInput =
  cn_Channel :: string
  cn_Name :: string
  cn_Config :: any_map
  cn_DeliveryPrefs :: "DeliveryPreferences option"

definition CreateChannelInput_json :: "CreateChannelInput \<Rightarrow> json" where
  "CreateChannelInput_json i = JObj ([(''channel'', JStr (cn_Channel i)), (''name'', JStr (cn_Name i)), (''config'', map_json (cn_Config i))] @
     opt_ptr prefs_json ''delivery_prefs'' (cn_DeliveryPrefs i))"

record UpdateChannelInput =
  un_Name :: "string option"
  un_Config :: any_map
  un_IsActive :: "bool option"
  un_DeliveryPrefs :: "DeliveryPreferences option"

definition UpdateChannelInput_json :: "UpdateChannelInput \<Rightarrow> json" where
  "UpdateChannelInput_json i = JObj (opt_ptr JStr ''name'' (un_Name i) @ opt_map ''config'' (un_Config i) @
     opt_ptr JBool ''is_active'' (un_IsActive i) @ opt_ptr prefs_json ''delivery_prefs'' (un_DeliveryPrefs i))"

section \<open>Resources\<close>

definition slice_of :: "(string \<Rightarrow> json \<Rightarrow> 'a \<Rightarrow> 'a option) \<Rightarrow> 'a \<Rightarrow> json \<Rightarrow> 'a list option" where
  "slice_of set_field zero v = decode_slice (\<lambda>j. decode_value set_field j zero) v"

text \<open>The requests the methods make: a read, a write whose answer is decoded, and a deletion.\<close>

definition reads :: "string \<Rightarrow> (string \<times> string) list \<Rightarrow> (json \<Rightarrow> 'o option) \<Rightarrow> 'o \<Rightarrow> 'o requestOptions" where
  "reads path query out zero = \<lparr>ro_method = ''GET'', ro_path = path, ro_query = query, ro_body = None, ro_out = Some out,
     ro_zero = zero, ro_expectEmpty = False\<rparr>"

definition writes :: "string \<Rightarrow> string \<Rightarrow> json \<Rightarrow> (json \<Rightarrow> 'o option) \<Rightarrow> 'o \<Rightarrow> 'o requestOptions" where
  "writes method path body out zero = \<lparr>ro_method = method, ro_path = path, ro_query = [], ro_body = Some body, ro_out = Some out,
     ro_zero = zero, ro_expectEmpty = False\<rparr>"

definition removes :: "string \<Rightarrow> unit requestOptions" where
  "removes path = \<lparr>ro_method = ''DELETE'', ro_path = path, ro_query = [], ro_body = None, ro_out = None, ro_zero = (), ro_expectEmpty = True\<rparr>"

type_synonym ('s, 'o) sdk_method = "Sdk_Client \<times> 's \<Rightarrow> (sdk_error + 'o) \<times> Sdk_Client \<times> 's"

definition Sdk_Send :: "sdk_env \<Rightarrow> 's transport \<Rightarrow> SendInput \<Rightarrow> ('s, Sdk_Notification) sdk_method" where
  "Sdk_Send E tr input = doRequest E tr
     (writes ''POST'' ''/notifications/send'' (SendInput_json input) (decode_notification E) Sdk_Notification_zero)"

definition Sdk_SendMulti :: "sdk_env \<Rightarrow> 's transport \<Rightarrow> SendInput list option \<Rightarrow> ('s, SendMultiResponse) sdk_method" where
  "Sdk_SendMulti E tr inputs =
     (let zero = \<lparr>sm_Sent = [], sm_Errors = []\<rparr>
      in doRequest E tr (writes ''POST'' ''/notifications/send-multi''
           (JObj [(''channels'', case inputs of None \<Rightarrow> JNull | Some l \<Rightarrow> JArr (map SendInput_json l))])
           (\<lambda>v. decode_value (SendMultiResponse_field E) v zero) zero))"

definition list_query :: "ListNotificationsParams \<Rightarrow> (string \<times> string) list" where
  "list_query params =
     (if lp_Limit params > 0 then [(''limit'', show_int (lp_Limit params))] else []) @
     (if lp_Offset params > 0 then [(''offset'', show_int (lp_Offset params))] else []) @
     (if lp_Status params \<noteq> [] then [(''status'', lp_Status params)] else []) @
     (if lp_Channel params \<noteq> [] then [(''channel'', lp_Channel params)] else [])"

definition ListNotifications :: "sdk_env \<Rightarrow> 's transport \<Rightarrow> ListNotificationsParams \<Rightarrow> ('s, NotificationList) sdk_method" where
  "ListNotifications E tr params =
     (let zero = \<lparr>nl_Data = [], nl_Total = 0, nl_Limit = 0, nl_Offset = 0\<rparr>
      in doRequest E tr (reads ''/notifications'' (list_query params) (\<lambda>v. decode_value (NotificationList_field E) v zero) zero))"

definition Sdk_GetNotification :: "sdk_env \<Rightarrow> 's transport \<Rightarrow> string \<Rightarrow> ('s, Sdk_Notification) sdk_method" where
  "Sdk_GetNotification E tr notificationID = doRequest E tr
     (reads (''/notifications/'' @ notificationID) [] (decode_notification E) Sdk_Notification_zero)"

definition ListAttempts :: "sdk_env \<Rightarrow> 's transport \<Rightarrow> string \<Rightarrow> ('s, Sdk_Attempt list) sdk_method" where
  "ListAttempts E tr notificationID = doRequest E tr
     (reads (''/notifications/'' @ notificationID @ ''/attempts'') [] (slice_of (Sdk_Attempt_field E) Sdk_Attempt_zero) [])"

definition Sdk_GetMetrics :: "sdk_env \<Rightarrow> 's transport \<Rightarrow> string \<Rightarrow> ('s, Sdk_Metric) sdk_method" where
  "Sdk_GetMetrics E tr notificationID = doRequest E tr
     (reads (''/notifications/'' @ notificationID @ ''/metrics'') [] (\<lambda>v. decode_value (Sdk_Metric_field E) v Sdk_Metric_zero) Sdk_Metric_zero)"

definition ListAPIKeys :: "sdk_env \<Rightarrow> 's transport \<Rightarrow> ('s, Sdk_APIKey list) sdk_method" where
  "ListAPIKeys E tr = doRequest E tr (reads ''/keys'' [] (slice_of (Sdk_APIKey_field E) Sdk_APIKey_zero) [])"

definition CreateAPIKey :: "sdk_env \<Rightarrow> 's transport \<Rightarrow> string \<Rightarrow> ('s, CreateAPIKeyResponse) sdk_method" where
  "CreateAPIKey E tr label =
     (let zero = \<lparr>ck_Key = Sdk_APIKey_zero, ck_APISecret = []\<rparr>
      in doRequest E tr (writes ''POST'' ''/keys'' (JObj [(''label'', JStr label)]) (\<lambda>v. decode_value (CreateAPIKeyResponse_field E) v zero) zero))"

definition RevokeAPIKey :: "sdk_env \<Rightarrow> 's transport \<Rightarrow> string \<Rightarrow> ('s, unit) sdk_method" where
  "RevokeAPIKey E tr keyID = doRequest E tr (removes (''/keys/'' @ keyID))"

definition ListChannels :: "sdk_env \<Rightarrow> 's transport \<Rightarrow> ('s, Sdk_Channel list) sdk_method" where
  "ListChannels E tr = doRequest E tr (reads ''/channels'' [] (slice_of (Sdk_Channel_field E) Sdk_Channel_zero) [])"

definition decode_channel :: "sdk_env \<Rightarrow> json \<Rightarrow> Sdk_Channel option" where
  "decode_channel E v = decode_value (Sdk_Channel_field E) v Sdk_Channel_zero"

definition CreateChannel :: "sdk_env \<Rightarrow> 's transport \<Rightarrow> CreateChannelInput \<Rightarrow> ('s, Sdk_Channel) sdk_method" where
  "CreateChannel E tr input = doRequest E tr (writes ''POST'' ''/channels'' (CreateChannelInput_json input) (decode_channel E) Sdk_Channel_zero)"

definition Sdk_GetChannel :: "sdk_env \<Rightarrow> 's transport \<Rightarrow> string \<Rightarrow> ('s, Sdk_Channel) sdk_method" where
  "Sdk_GetChannel E tr channelID = doRequest E tr (reads (''/channels/'' @ channelID) [] (decode_channel E) Sdk_Channel_zero)"

definition UpdateChannel :: "sdk_env \<Rightarrow> 's transport \<Rightarrow> string \<Rightarrow> UpdateChannelInput \<Rightarrow> ('s, Sdk_Channel) sdk_method" where
  "UpdateChannel E tr channelID input = doRequest E tr
     (writes ''PATCH'' (''/channels/'' @ channelID) (UpdateChannelInput_json input) (decode_channel E) Sdk_Channel_zero)"

definition Sdk_DeleteChannel :: "sdk_env \<Rightarrow> 's transport \<Rightarrow> string \<Rightarrow> ('s, unit) sdk_method" where
  "Sdk_DeleteChannel E tr channelID = doRequest E tr (removes (''/channels/'' @ channelID))"

definition ListWebhooks :: "sdk_env \<Rightarrow> 's transport \<Rightarrow> ('s, Sdk_Endpoint list) sdk_method" where
  "ListWebhooks E tr = doRequest E tr (reads ''/webhooks'' [] (slice_of (Sdk_Endpoint_field E) Sdk_Endpoint_zero) [])"

definition CreateWebhook :: "sdk_env \<Rightarrow> 's transport \<Rightarrow> CreateWebhookInput \<Rightarrow> ('s, WebhookEndpointCreated) sdk_method" where
  "CreateWebhook E tr input =
     (let zero = \<lparr>wc_WebhookEndpoint = Sdk_Endpoint_zero, wc_Secret = []\<rparr>
      in doRequest E tr (writes ''POST'' ''/webhooks'' (CreateWebhookInput_json input)
           (\<lambda>v. decode_value (WebhookEndpointCreated_field E) v zero) zero))"

definition UpdateWebhook :: "sdk_env \<Rightarrow> 's transport \<Rightarrow> string \<Rightarrow> UpdateWebhookInput \<Rightarrow> ('s, Sdk_Endpoint) sdk_method" where
  "UpdateWebhook E tr webhookID input = doRequest E tr (writes ''PUT'' (''/webhooks/'' @ webhookID) (UpdateWebhookInput_json input)
     (\<lambda>v. decode_value (Sdk_Endpoint_field E) v Sdk_Endpoint_zero) Sdk_Endpoint_zero)"

definition Sdk_DeleteWebhook :: "sdk_env \<Rightarrow> 's transport \<Rightarrow> string \<Rightarrow> ('s, unit) sdk_method" where
  "Sdk_DeleteWebhook E tr webhookID = doRequest E tr (removes (''/webhooks/'' @ webhookID))"

section \<open>What the server writes\<close>

text \<open>
  The JSON of the response bodies: the tags of the structs in \<^verbatim>\<open>internal/domain\<close>, \<^verbatim>\<open>pkg/response\<close> and the handlers. A raw message
  with \<^verbatim>\<open>omitempty\<close> is left out when it is nil. Identifiers and instants are written by \<open>wr_uuid\<close> and \<open>wr_time\<close>.
\<close>

record wire =
  wr_uuid :: "uuid \<Rightarrow> string"
  wr_time :: "time \<Rightarrow> string"

definition wire_id :: "wire \<Rightarrow> uuid \<Rightarrow> json" where
  "wire_id W i = JStr (wr_uuid W i)"

definition wire_time :: "wire \<Rightarrow> time \<Rightarrow> json" where
  "wire_time W t = JStr (wr_time W t)"

definition Notification_json :: "wire \<Rightarrow> Notification \<Rightarrow> json" where
  "Notification_json W n = JObj ([(''id'', wire_id W (n_ID n)), (''tenant_id'', wire_id W (n_TenantID n)),
     (''channel_config_id'', wire_id W (n_ChannelConfigID n)), (''channel'', JStr (n_Channel n))] @ opt_ptr JStr ''subject'' (n_Subject n) @
     [(''body'', JStr (n_Body n))] @ opt_ptr id ''metadata'' (n_Metadata n) @ [(''status'', JStr (n_Status n))] @
     opt_ptr JStr ''asynq_task_id'' (n_AsynqTaskID n) @ [(''retry_count'', JNum (n_RetryCount n)), (''max_retries'', JNum (n_MaxRetries n))] @
     opt_ptr JStr ''last_error'' (n_LastError n) @ opt_ptr (wire_time W) ''delivered_at'' (n_DeliveredAt n) @
     opt_ptr JStr ''provider_msg_id'' (n_ProviderMsgID n) @
     [(''created_at'', wire_time W (n_CreatedAt n)), (''updated_at'', wire_time W (n_UpdatedAt n))])"

definition DeliveryAttempt_json :: "wire \<Rightarrow> DeliveryAttempt \<Rightarrow> json" where
  "DeliveryAttempt_json W a = JObj ([(''id'', wire_id W (da_ID a)), (''notification_id'', wire_id W (da_NotificationID a)),
     (''attempt_number'', JNum (da_AttemptNumber a)), (''status'', JStr (da_Status a))] @ opt_ptr id ''provider_response'' (da_ProviderResponse a) @
     opt_ptr JStr ''error_message'' (da_ErrorMessage a) @
     [(''duration_ms'', JNum (da_DurationMs a)), (''attempted_at'', wire_time W (da_AttemptedAt a))])"

definition DeliveryMetric_json :: "wire \<Rightarrow> DeliveryMetric \<Rightarrow> json" where
  "DeliveryMetric_json W m = JObj ([(''id'', wire_id W (dm_ID m)), (''notification_id'', wire_id W (dm_NotificationID m)),
     (''provider_msg_id'', JStr (dm_ProviderMsgID m))] @ opt_ptr (wire_time W) ''delivered_at'' (dm_DeliveredAt m) @
     opt_ptr (wire_time W) ''read_at'' (dm_ReadAt m) @ opt_ptr id ''interactions'' (dm_Interactions m) @
     [(''collected_at'', wire_time W (dm_CollectedAt m))])"

definition APIKey_json :: "wire \<Rightarrow> APIKey \<Rightarrow> json" where
  "APIKey_json W k = JObj ([(''id'', wire_id W (k_ID k)), (''tenant_id'', wire_id W (k_TenantID k)), (''api_key'', JStr (k_APIKey k)),
     (''label'', JStr (k_Label k)), (''created_at'', wire_time W (k_CreatedAt k))] @ opt_ptr (wire_time W) ''revoked_at'' (k_RevokedAt k))"

definition ChannelConfig_json :: "wire \<Rightarrow> ChannelConfig \<Rightarrow> json" where
  "ChannelConfig_json W c = JObj ([(''id'', wire_id W (cc_ID c)), (''tenant_id'', wire_id W (cc_TenantID c)), (''channel'', JStr (cc_Channel c)),
     (''name'', JStr (cc_Name c)), (''config'', marshal_raw (cc_Config c)), (''is_active'', JBool (cc_IsActive c))] @
     opt_ptr prefs_json ''delivery_prefs'' (cc_DeliveryPrefs c) @
     [(''created_at'', wire_time W (cc_CreatedAt c)), (''updated_at'', wire_time W (cc_UpdatedAt c))])"

definition endpoint_members :: "wire \<Rightarrow> WebhookEndpoint \<Rightarrow> (string \<times> json) list" where
  "endpoint_members W e = [(''id'', wire_id W (we_ID e)), (''tenant_id'', wire_id W (we_TenantID e)), (''url'', JStr (we_URL e)),
     (''events'', JArr (map JStr (we_Events e))), (''is_active'', JBool (we_IsActive e)), (''created_at'', wire_time W (we_CreatedAt e))]"

text \<open>The body of a response to a tenant; other bodies are not read by this client.\<close>

fun body_json :: "wire \<Rightarrow> api_body \<Rightarrow> json option" where
  "body_json W (ErrorBody msg) = Some (JObj [(''error'', JStr msg)])"
| "body_json W (TokenBody token expiresIn) = Some (JObj [(''token'', JStr token), (''expires_in'', JStr expiresIn)])"
| "body_json W (NotificationBody n) = Some (Notification_json W n)"
| "body_json W (MultiBody ns errs) = Some (JObj ([(''sent'', JArr (map (Notification_json W) ns))] @
     (if errs = [] then [] else [(''errors'', JArr (map JStr errs))])))"
| "body_json W (NotificationsBody ns tot limit offset) = Some (JObj [(''data'', JArr (map (Notification_json W) ns)), (''total'', JNum tot),
     (''limit'', JNum limit), (''offset'', JNum offset)])"
| "body_json W (AttemptsBody l) = Some (JArr (map (DeliveryAttempt_json W) l))"
| "body_json W (MetricBody m) = Some (DeliveryMetric_json W m)"
| "body_json W (KeysBody l) = Some (JArr (map (APIKey_json W) l))"
| "body_json W (KeyCreatedBody k secret) = Some (JObj [(''api_secret'', JStr secret), (''key'', APIKey_json W k)])"
| "body_json W (ChannelBody c) = Some (ChannelConfig_json W c)"
| "body_json W (ChannelsBody l) = Some (JArr (map (ChannelConfig_json W) l))"
| "body_json W (EndpointBody e) = Some (JObj (endpoint_members W e))"
| "body_json W (EndpointsBody l) = Some (JArr (map (\<lambda>e. JObj (endpoint_members W e)) l))"
| "body_json W (EndpointCreatedBody e secret) = Some (JObj (endpoint_members W e @ [(''secret'', JStr secret)]))"
| "body_json W _ = None"

end
