(* ===== verification/Sdk_Laws.thy ===== *)
theory Sdk_Laws
  imports Sdk Isolation
begin

text \<open>
  What the Go client guarantees: how many requests one call makes and when it repeats itself, one token exchange for any number of
  callers, and agreement with the server on the bodies both ways.
\<close>

section \<open>Requests on the wire\<close>

text \<open>A transport that keeps a record of its requests and their outcomes.\<close>

type_synonym traffic = "(http_request \<times> (goerr + sdk_response)) list"

definition logged :: "'s transport \<Rightarrow> ('s \<times> traffic) transport" where
  "logged tr r st = (case st of (s, log) \<Rightarrow> (case tr r s of (x, s1) \<Rightarrow> (x, s1, log @ [(r, x)])))"

definition same_client :: "Sdk_Client \<Rightarrow> Sdk_Client \<Rightarrow> bool" where
  "same_client c c' \<longleftrightarrow> sc_apiKey c' = sc_apiKey c \<and> sc_apiSecret c' = sc_apiSecret c \<and> sc_baseURL c' = sc_baseURL c"

lemma same_client_requests:
  "same_client c c' \<Longrightarrow> token_request c' b = token_request c b \<and> call_request c' t opts body = call_request c t opts body"
  by (simp add: same_client_def token_request_def call_request_def request_url_def)

text \<open>An exchange is at most one request, a successful one exactly one, answered with 200.\<close>

lemma fetch_traffic:
  assumes "fetchAndCacheToken E (logged tr) k (c, s, log) = (r, c', s', log')"
  shows "same_client c c'"
    and "log' = log \<or> (\<exists>b x. log' = log @ [(token_request c b, x)])"
    and "r = Inr t \<Longrightarrow> \<exists>b resp. log' = log @ [(token_request c b, Inr resp)] \<and> sp_StatusCode resp = 200"
  using assms by (auto simp: fetchAndCacheToken_def logged_def same_client_def split: sum.splits option.splits prod.splits if_splits)

definition encoded :: "sdk_env \<Rightarrow> 'o requestOptions \<Rightarrow> string option" where
  "encoded E opts = (case ro_body opts of None \<Rightarrow> None | Some v \<Rightarrow> (case sd_marshal E v of Inl _ \<Rightarrow> None | Inr b \<Rightarrow> Some b))"

lemma send_traffic:
  assumes "sdk_send E (logged tr) t opts (c, s, log) = (r, c', s', log')"
  shows "c' = c"
    and "log' = log \<or> (\<exists>x. log' = log @ [(call_request c t opts (encoded E opts), x)])"
    and "r = Inr (status, b) \<Longrightarrow> \<exists>resp. log' = log @ [(call_request c t opts (encoded E opts), Inr resp)] \<and> sp_StatusCode resp = status"
  using assms by (auto simp: sdk_send_def logged_def encoded_def split: sum.splits option.splits prod.splits if_splits)

lemma auth_traffic:
  assumes "authenticatedToken E (logged tr) (c, s, log) = (r, c', s', log')"
  shows "same_client c c' \<and> (log' = log \<or> (\<exists>b x. log' = log @ [(token_request c b, x)]))"
proof (cases "sc_cachedToken c \<noteq> [] \<and> sd_clock E 0 + expiryMargin < sc_expiresAt c")
  case True
  then show ?thesis using assms by (simp add: authenticatedToken_def same_client_def)
next
  case False
  then have "fetchAndCacheToken E (logged tr) 1 (c, s, log) = (r, c', s', log')"
    using assms by (auto simp: authenticatedToken_def)
  from fetch_traffic [OF this] show ?thesis by blast
qed

lemma refresh_traffic:
  assumes "forceRefreshToken E (logged tr) (c, s, log) = (r, c', s', log')"
  shows "same_client c c'"
    and "log' = log \<or> (\<exists>b x. log' = log @ [(token_request c b, x)])"
    and "r = Inr t \<Longrightarrow> \<exists>b resp. log' = log @ [(token_request c b, Inr resp)] \<and> sp_StatusCode resp = 200"
proof -
  have f: "fetchAndCacheToken E (logged tr) 2 (c\<lparr>sc_cachedToken := []\<rparr>, s, log) = (r, c', s', log')"
    using assms by (simp add: forceRefreshToken_def)
  have req: "token_request (c\<lparr>sc_cachedToken := []\<rparr>) b = token_request c b" for b by (simp add: token_request_def)
  show "same_client c c'" using fetch_traffic(1) [OF f] by (simp add: same_client_def)
  show "log' = log \<or> (\<exists>b x. log' = log @ [(token_request c b, x)])" using fetch_traffic(2) [OF f] by (simp add: req)
  show "\<exists>b resp. log' = log @ [(token_request c b, Inr resp)] \<and> sp_StatusCode resp = 200" if "r = Inr t"
    using fetch_traffic(3) [OF f that] by (simp add: req)
qed

lemma doRequest_traffic:
  assumes "doRequest E (logged tr) opts (c, s, log) = (r, c', s', log')"
  shows "\<exists>pre rest. log' = log @ pre @ rest \<and> (pre = [] \<or> (\<exists>b x. pre = [(token_request c b, x)])) \<and>
    (let call = (\<lambda>t. call_request c t opts (encoded E opts)) in
     rest = [] \<or> (\<exists>t x. rest = [(call t, x)]) \<or>
     (\<exists>t resp b x. rest = [(call t, Inr resp), (token_request c b, x)] \<and> sp_StatusCode resp = 401) \<or>
     (\<exists>t resp b ok t' x. rest = [(call t, Inr resp), (token_request c b, Inr ok), (call t', x)] \<and>
        sp_StatusCode resp = 401 \<and> sp_StatusCode ok = 200))"
proof -
  obtain r1 c1 s1 log1 where a: "authenticatedToken E (logged tr) (c, s, log) = (r1, c1, s1, log1)" by (metis prod_cases4)
  from auth_traffic [OF a] obtain pre where pre: "log1 = log @ pre" "pre = [] \<or> (\<exists>b x. pre = [(token_request c b, x)])"
    and c1: "same_client c c1" by fastforce
  have req1: "call_request c1 t opts body = call_request c t opts body" "token_request c1 b = token_request c b" for t body b
    using same_client_requests [OF c1] by blast+
  let ?call = "\<lambda>t. call_request c t opts (encoded E opts)"
  have lift: ?thesis if "log' = log1 @ rest" and "rest = [] \<or> (\<exists>t x. rest = [(?call t, x)]) \<or>
     (\<exists>t resp b x. rest = [(?call t, Inr resp), (token_request c b, x)] \<and> sp_StatusCode resp = 401) \<or>
     (\<exists>t resp b ok t' x. rest = [(?call t, Inr resp), (token_request c b, Inr ok), (?call t', x)] \<and>
        sp_StatusCode resp = 401 \<and> sp_StatusCode ok = 200)" for rest
    using that pre unfolding Let_def by (intro exI [of _ pre] exI [of _ rest]) simp
  show ?thesis
  proof (cases r1)
    case (Inl e)
    with assms a show ?thesis by (intro lift [of "[]"]) (simp_all add: doRequest_def)
  next
    case (Inr t)
    obtain r2 c2 s2 log2 where b: "sdk_send E (logged tr) t opts (c1, s1, log1) = (r2, c2, s2, log2)" by (metis prod_cases4)
    note sent = send_traffic [OF b]
    show ?thesis
    proof (cases "\<exists>body. r2 = Inr (401, body)")
      case False
      then have "log' = log2" using assms a b Inr by (auto simp: doRequest_def split: sum.splits)
      with sent(2) [unfolded req1] consider "log' = log1 @ []" | x where "log' = log1 @ [(?call t, x)]" by auto
      then show ?thesis by cases (rule lift, assumption, blast)+
    next
      case True
      then obtain body where r2: "r2 = Inr (401, body)" by blast
      from sent(3) [OF r2] sent(1) obtain resp where l2: "log2 = log1 @ [(call_request c1 t opts (encoded E opts), Inr resp)]"
        "sp_StatusCode resp = 401" "c2 = c1" by blast
      obtain r3 c3 s3 log3 where f: "forceRefreshToken E (logged tr) (c2, s2, log2) = (r3, c3, s3, log3)" by (metis prod_cases4)
      note refreshed = refresh_traffic [OF f]
      show ?thesis
      proof (cases r3)
        case (Inl e)
        then have "log' = log3" using assms a b r2 f \<open>r1 = Inr t\<close> by (simp add: doRequest_def)
        with refreshed(2) l2 consider "log' = log1 @ [(?call t, Inr resp)]"
          | tb x where "log' = log1 @ [(?call t, Inr resp), (token_request c tb, x)]" by (auto simp: req1)
        then show ?thesis by cases (rule lift, assumption, use l2(2) in blast)+
      next
        case r3: (Inr t')
        from refreshed(3) [OF r3] obtain tb ok where l3: "log3 = log2 @ [(token_request c2 tb, Inr ok)]" "sp_StatusCode ok = 200" by blast
        obtain r4 c4 s4 log4 where g: "sdk_send E (logged tr) t' opts (c3, s3, log3) = (r4, c4, s4, log4)" by (metis prod_cases4)
        have "log' = log4" using assms a b r2 f r3 g \<open>r1 = Inr t\<close> by (cases r4) (auto simp: doRequest_def)
        moreover have "call_request c3 t' opts (encoded E opts) = call_request c t' opts (encoded E opts)"
          using same_client_requests [OF refreshed(1)] l2(3) by (metis req1(1))
        ultimately consider "log' = log1 @ [(?call t, Inr resp), (token_request c tb, Inr ok)]"
          | x where "log' = log1 @ [(?call t, Inr resp), (token_request c tb, Inr ok), (?call t', x)]"
          using send_traffic(2) [OF g] l2 l3 by (auto simp: req1)
        then show ?thesis by cases (rule lift, assumption, use l2(2) l3(2) in blast)+
      qed
    qed
  qed
qed

text \<open>
  C22. How often a call goes over the wire: whatever the server answers and whatever fails on the way, one call of a client method makes at most
  one token exchange before its request, sends the request once, and sends it a second time, the same up to the token, only after the
  first was answered with 401 and a further exchange was answered with 200; there is no third time. A method can therefore not loop,
  and no request that was answered otherwise is repeated.
\<close>

theorem request_traffic:
  assumes "doRequest E (logged tr) opts (c, s, log) = (r, c', s', log')"
  shows "\<exists>pre rest. log' = log @ pre @ rest \<and> (pre = [] \<or> (\<exists>b x. pre = [(token_request c b, x)])) \<and>
    (let call = (\<lambda>t. call_request c t opts (encoded E opts)) in
     rest = [] \<or> (\<exists>t x. rest = [(call t, x)]) \<or>
     (\<exists>t resp b x. rest = [(call t, Inr resp), (token_request c b, x)] \<and> sp_StatusCode resp = 401) \<or>
     (\<exists>t resp b ok t' x. rest = [(call t, Inr resp), (token_request c b, Inr ok), (call t', x)] \<and>
        sp_StatusCode resp = 401 \<and> sp_StatusCode ok = 200))"
  using assms by (rule doRequest_traffic)

section \<open>One exchange for many callers\<close>

text \<open>Callers one after the other, each at its own time: the order in which they got the mutex.\<close>

fun token_calls :: "sdk_env \<Rightarrow> 's transport \<Rightarrow> (nat \<Rightarrow> time) list \<Rightarrow> Sdk_Client \<times> 's \<Rightarrow> (sdk_error + string) list \<times> Sdk_Client \<times> 's" where
  "token_calls E tr [] st = ([], st)"
| "token_calls E tr (clk # clks) st = (case authenticatedToken (E\<lparr>sd_clock := clk\<rparr>) tr st of
     (r, st1) \<Rightarrow> (case token_calls E tr clks st1 of (rs, st2) \<Rightarrow> (r # rs, st2)))"

lemma fetched_token:
  "fetchAndCacheToken E tr k (c, s) = (Inr tok, c1, s1) \<Longrightarrow> sc_cachedToken c1 = tok"
  by (auto simp: fetchAndCacheToken_def split: sum.splits option.splits prod.splits if_splits)

lemma fresh_token_reused:
  assumes "sc_cachedToken c \<noteq> []" and "\<forall>clk \<in> set clks. clk 0 + expiryMargin < sc_expiresAt c"
  shows "token_calls E tr clks (c, s) = (replicate (length clks) (Inr (sc_cachedToken c)), c, s)"
  using assms by (induction clks) (simp_all add: authenticatedToken_def)

text \<open>
  Callers share one token: when the cached token is missing or within thirty seconds of its expiry and the first caller's exchange
  succeeds, then all the callers that come before the new token is within thirty seconds of its own expiry get that token,
  in whatever order they take the lock, and the client makes exactly one exchange for all of them.
\<close>

theorem callers_share_one_exchange:
  assumes "sc_cachedToken c = [] \<or> sc_expiresAt c \<le> clk 0 + 30 * second_ns"
    and "fetchAndCacheToken (E\<lparr>sd_clock := clk\<rparr>) (logged tr) 1 (c, s, log) = (Inr tok, c1, s1, log1)" and "tok \<noteq> []"
    and "\<forall>k \<in> set clks. k 0 + 30 * second_ns < sc_expiresAt c1"
  shows "\<exists>b resp. token_calls E (logged tr) (clk # clks) (c, s, log) =
    (replicate (length clks + 1) (Inr tok), c1, s1, log @ [(token_request c b, Inr resp)]) \<and> sp_StatusCode resp = 200"
proof -
  from fetch_traffic(3) [OF assms(2) refl] obtain b resp where
    l: "log1 = log @ [(token_request c b, Inr resp)]" "sp_StatusCode resp = 200" by blast
  have "authenticatedToken (E\<lparr>sd_clock := clk\<rparr>) (logged tr) (c, s, log) = (Inr tok, c1, s1, log1)"
    using assms(1,2) by (auto simp: authenticatedToken_def expiryMargin_def)
  moreover have "token_calls E (logged tr) clks (c1, s1, log1) = (replicate (length clks) (Inr tok), c1, s1, log1)"
    using fresh_token_reused [of c1 clks E "logged tr" "(s1, log1)"] assms(3,4) fetched_token [OF assms(2)]
    by (simp add: expiryMargin_def)
  ultimately show ?thesis using l by (intro exI [of _ b] exI [of _ resp]) simp
qed

section \<open>Bodies\<close>

lemma lower_keys [simp]:
  "ToLower ''id'' = ''id''" "ToLower ''tenant_id'' = ''tenant_id''"
  "ToLower ''channel_config_id'' = ''channel_config_id''" "ToLower ''channel'' = ''channel''"
  "ToLower ''subject'' = ''subject''" "ToLower ''body'' = ''body''"
  "ToLower ''metadata'' = ''metadata''" "ToLower ''status'' = ''status''"
  "ToLower ''asynq_task_id'' = ''asynq_task_id''" "ToLower ''retry_count'' = ''retry_count''"
  "ToLower ''last_error'' = ''last_error''" "ToLower ''delivered_at'' = ''delivered_at''"
  "ToLower ''provider_msg_id'' = ''provider_msg_id''" "ToLower ''created_at'' = ''created_at''"
  "ToLower ''updated_at'' = ''updated_at''" "ToLower ''channels'' = ''channels''"
  "ToLower ''name'' = ''name''" "ToLower ''config'' = ''config''"
  "ToLower ''is_active'' = ''is_active''" "ToLower ''delivery_prefs'' = ''delivery_prefs''"
  "ToLower ''url'' = ''url''" "ToLower ''events'' = ''events''"
  "ToLower ''data'' = ''data''" "ToLower ''total'' = ''total''"
  "ToLower ''limit'' = ''limit''" "ToLower ''offset'' = ''offset''"
  "ToLower ''error'' = ''error''" "ToLower ''token'' = ''token''"
  "ToLower ''expires_in'' = ''expires_in''"
  by code_simp+

lemma decode_append:
  "decode_members f (ms @ ms') x = (case decode_members f ms x of None \<Rightarrow> None | Some y \<Rightarrow> decode_members f ms' y)"
  by (induction ms arbitrary: x) (auto split: option.split)

lemma decode_opt [simp]:
  "decode_members f (opt_str k v) x = (if v = [] then Some x else f (ToLower k) (JStr v) x)"
  "decode_members f (opt_ptr g k p) x = (case p of None \<Rightarrow> Some x | Some y \<Rightarrow> f (ToLower k) (g y) x)"
  "decode_members f (opt_map k m) x = (case m of None \<Rightarrow> Some x | Some [] \<Rightarrow> Some x | Some ms \<Rightarrow> f (ToLower k) (JObj ms) x)"
  by (simp_all add: opt_str_def opt_ptr_def opt_map_def split: option.split list.split)

lemma prefs_back:
  assumes "\<And>n. dp_MaxRetries dp = Some n \<Longrightarrow> fits64 n"
  shows "decode_prefs (prefs_json dp) = Some (Some dp)"
  using unmarshal_prefs_ptr_json [of "Some dp"] assms by (simp add: decode_prefs_def)

lemma decode_strings [simp]: "decode_all (\<lambda>j. decode_string j []) (map JStr l) = Some l"
  by (induction l) (simp_all add: decode_string_def)

definition sent_map :: "any_map \<Rightarrow> RawMessage" where
  "sent_map m = (case m of None \<Rightarrow> None | Some [] \<Rightarrow> None | Some ms \<Rightarrow> Some (JObj ms))"

definition sent_input :: "uuid \<Rightarrow> SendInput \<Rightarrow> SendNotificationInput" where
  "sent_input u i = \<lparr>sni_ChannelConfigID = u, sni_Subject = (if si_Subject i = [] then None else Some (si_Subject i)),
     sni_Body = si_Body i, sni_Metadata = sent_map (si_Metadata i)\<rparr>"

lemma value_simps:
  "decode_string (JStr s) old = Some s" "decode_bool (JBool b) oldb = Some b" "decode_int (JNum i) oldi = (if fits64 i then Some i else None)"
  "decode_ptr d (JStr s) = map_option Some (d (JStr s))" "decode_ptr d (JBool b) = map_option Some (d (JBool b))"
  "decode_ptr d (JArr l) = map_option Some (d (JArr l))" "decode_slice e (JArr l) = decode_all e l" "decode_slice e JNull = Some []"
  "decode_value f (JObj ms) x = decode_members f ms x" "unmarshal_raw v = Some v"
  by (simp_all add: decode_string_def decode_bool_def decode_int_def decode_ptr_def decode_slice_def decode_value_def unmarshal_raw_def)

lemma send_input_back:
  assumes "ap_uuid_Parse A (si_ChannelConfigID i) = Inr u"
  shows "decode_value (send_field A) (SendInput_json i) send_zero = Some (sent_input u i)"
  using assms
  by (simp add: SendInput_json_def sent_input_def sent_map_def send_zero_def send_field_def decode_uuid_def decode_append value_simps
      split: option.split list.split)

lemma send_inputs_back:
  assumes "\<forall>i \<in> set inputs. ap_uuid_Parse A (si_ChannelConfigID i) = Inr (ident i)"
  shows "decode_all (\<lambda>j. decode_value (send_field A) j send_zero) (map SendInput_json inputs) = Some (map (\<lambda>i. sent_input (ident i) i) inputs)"
  using assms by (induction inputs) (simp_all add: send_input_back)

lemma create_channel_back:
  assumes "\<And>dp n. cn_DeliveryPrefs i = Some dp \<Longrightarrow> dp_MaxRetries dp = Some n \<Longrightarrow> fits64 n"
  shows "decode_value create_channel_field (CreateChannelInput_json i) create_channel_zero =
    Some \<lparr>cci_Channel = cn_Channel i, cci_Name = cn_Name i, cci_Config = Some (map_json (cn_Config i)), cci_DeliveryPrefs = cn_DeliveryPrefs i\<rparr>"
  using assms prefs_back
  by (simp add: CreateChannelInput_json_def create_channel_zero_def create_channel_field_def decode_append value_simps split: option.split)

lemma update_channel_back:
  assumes "\<And>dp n. un_DeliveryPrefs i = Some dp \<Longrightarrow> dp_MaxRetries dp = Some n \<Longrightarrow> fits64 n"
  shows "decode_value update_channel_field (UpdateChannelInput_json i) update_channel_zero =
    Some \<lparr>uci_Name = un_Name i, uci_Config = map_option Some (sent_map (un_Config i)), uci_IsActive = un_IsActive i,
      uci_DeliveryPrefs = un_DeliveryPrefs i\<rparr>"
  using assms prefs_back
  by (simp add: UpdateChannelInput_json_def update_channel_zero_def update_channel_field_def sent_map_def decode_append value_simps
      split: option.split list.split)

lemma webhook_inputs_back:
  "decode_value create_endpoint_field (CreateWebhookInput_json i) \<lparr>cwi_URL = [], cwi_Events = []\<rparr> =
    Some \<lparr>cwi_URL = cw_URL i, cwi_Events = (case cw_Events i of None \<Rightarrow> [] | Some l \<Rightarrow> l)\<rparr>"
  "decode_value update_endpoint_field (UpdateWebhookInput_json j) \<lparr>uwi_URL = None, uwi_Events = None, uwi_IsActive = None\<rparr> =
    Some \<lparr>uwi_URL = uw_URL j, uwi_Events = (if uw_Events j = [] then None else Some (uw_Events j)), uwi_IsActive = uw_IsActive j\<rparr>"
  by (simp_all add: CreateWebhookInput_json_def UpdateWebhookInput_json_def create_endpoint_field_def update_endpoint_field_def decode_append
      value_simps split: option.split)

text \<open>
  C30. The server reads what the client writes: the JSON bodies of the client's requests decode on the server, with the setters of its handlers, to the inputs
  meant. A subject or an event list that is empty, and a map that is nil or empty, are not sent and reach the
  server as absent; in a \<^verbatim>\<open>CreateChannel\<close> a nil configuration reaches it as \<^verbatim>\<open>null\<close>.
\<close>

theorem requests_understood:
  assumes "\<forall>i \<in> set inputs. ap_uuid_Parse A (si_ChannelConfigID i) = Inr (ident i)"
    and "\<forall>dp n. cn_DeliveryPrefs cn = Some dp \<or> un_DeliveryPrefs un = Some dp \<longrightarrow> dp_MaxRetries dp = Some n \<longrightarrow> fits64 n"
  shows "(\<forall>i \<in> set inputs. decode_value (send_field A) (SendInput_json i) send_zero = Some (sent_input (ident i) i)) \<and>
    decode_value (multi_field A) (JObj [(''channels'', JArr (map SendInput_json inputs))]) [] = Some (map (\<lambda>i. sent_input (ident i) i) inputs) \<and>
    decode_value create_channel_field (CreateChannelInput_json cn) create_channel_zero =
      Some \<lparr>cci_Channel = cn_Channel cn, cci_Name = cn_Name cn, cci_Config = Some (map_json (cn_Config cn)), cci_DeliveryPrefs = cn_DeliveryPrefs cn\<rparr> \<and>
    decode_value update_channel_field (UpdateChannelInput_json un) update_channel_zero =
      Some \<lparr>uci_Name = un_Name un, uci_Config = map_option Some (sent_map (un_Config un)), uci_IsActive = un_IsActive un,
        uci_DeliveryPrefs = un_DeliveryPrefs un\<rparr> \<and>
    decode_value create_endpoint_field (CreateWebhookInput_json cw) \<lparr>cwi_URL = [], cwi_Events = []\<rparr> =
      Some \<lparr>cwi_URL = cw_URL cw, cwi_Events = (case cw_Events cw of None \<Rightarrow> [] | Some l \<Rightarrow> l)\<rparr> \<and>
    decode_value update_endpoint_field (UpdateWebhookInput_json uw) \<lparr>uwi_URL = None, uwi_Events = None, uwi_IsActive = None\<rparr> =
      Some \<lparr>uwi_URL = uw_URL uw, uwi_Events = (if uw_Events uw = [] then None else Some (uw_Events uw)), uwi_IsActive = uw_IsActive uw\<rparr>"
proof (intro conjI ballI)
  show "decode_value (send_field A) (SendInput_json i) send_zero = Some (sent_input (ident i) i)" if "i \<in> set inputs" for i
    using assms(1) that by (simp add: send_input_back)
  show "decode_value (multi_field A) (JObj [(''channels'', JArr (map SendInput_json inputs))]) [] = Some (map (\<lambda>i. sent_input (ident i) i) inputs)"
    using send_inputs_back [OF assms(1)] by (simp add: multi_field_def value_simps)
qed (use assms(2) in \<open>auto simp: webhook_inputs_back intro!: create_channel_back update_channel_back\<close>)

section \<open>Answers\<close>

text \<open>
  Values that a \<^verbatim>\<open>map[string]any\<close> keeps as they are: the integers are exact as float64, and the names of an object are
  distinct.
\<close>

fun exact :: "json \<Rightarrow> bool" and exacts :: "json list \<Rightarrow> bool" and exact_members :: "(string \<times> json) list \<Rightarrow> bool" where
  "exact (JNum i) \<longleftrightarrow> \<bar>i\<bar> \<le> 2 ^ 53"
| "exact (JArr vs) \<longleftrightarrow> exacts vs"
| "exact (JObj ms) \<longleftrightarrow> exact_members ms"
| "exact (JInvalid t) \<longleftrightarrow> False"
| "exact v \<longleftrightarrow> True"
| "exacts [] \<longleftrightarrow> True"
| "exacts (v # vs) \<longleftrightarrow> exact v \<and> exacts vs"
| "exact_members [] \<longleftrightarrow> True"
| "exact_members ((k, v) # ms) \<longleftrightarrow> exact v \<and> k \<notin> fst ` set ms \<and> exact_members ms"

lemma float64_exact: "\<bar>i\<bar> \<le> 2 ^ 53 \<Longrightarrow> float64 i = Some i"
proof -
  assume i: "\<bar>i\<bar> \<le> 2 ^ 53"
  then have m: "nat \<bar>i\<bar> \<le> 2 ^ 53" by simp
  moreover have "(2 :: nat) ^ 53 < 2 ^ 1024" by (rule power_strict_increasing) simp_all
  ultimately have "nat \<bar>i\<bar> < 2 ^ 1024" by (rule le_less_trans)
  then show ?thesis using m by (simp add: float64_def Let_def mult_sgn_abs)
qed

lemma other_members: "k \<notin> fst ` set m \<Longrightarrow> filter (\<lambda>(k', _). k' \<noteq> k) m = m"
  by (induction m) auto

lemma decode_exact:
  "exact v \<Longrightarrow> decode_any v = Some v"
  "exacts vs \<Longrightarrow> decode_anys vs = Some vs"
  "exact_members ms \<Longrightarrow> fst ` set ms \<inter> fst ` set m = {} \<Longrightarrow> put_members ms m = Some (m @ ms)"
  by (induction v and vs and ms m rule: decode_any_decode_anys_put_members.induct)
    (auto simp: float64_exact other_members disjoint_iff simp del: power.simps)

text \<open>A larger integer does not come back as it was sent.\<close>

lemma large_integers_change: "decode_any (JNum (2 ^ 53 + 1)) = Some (JNum (2 ^ 53))"
  by (simp add: float64_def round_bits_def bit_count.simps)

text \<open>The metadata as members, and what the client makes of a notification.\<close>

definition members_of :: "RawMessage \<Rightarrow> any_map" where
  "members_of m = (case m of Some (JObj ms) \<Rightarrow> Some ms | _ \<Rightarrow> None)"

definition readable :: "Notification \<Rightarrow> bool" where
  "readable n \<longleftrightarrow> (case n_Metadata n of None \<Rightarrow> True | Some JNull \<Rightarrow> True | Some (JObj ms) \<Rightarrow> True | Some v \<Rightarrow> False)"

definition faithful :: "Notification \<Rightarrow> bool" where
  "faithful n \<longleftrightarrow> (case n_Metadata n of None \<Rightarrow> True | Some JNull \<Rightarrow> True | Some (JObj ms) \<Rightarrow> exact_members ms | Some v \<Rightarrow> False)"

definition client_view :: "wire \<Rightarrow> Notification \<Rightarrow> Sdk_Notification" where
  "client_view W n = \<lparr>sn_ID = wr_uuid W (n_ID n), sn_TenantID = wr_uuid W (n_TenantID n), sn_ChannelConfigID = wr_uuid W (n_ChannelConfigID n),
     sn_Channel = n_Channel n, sn_Subject = n_Subject n, sn_Body = n_Body n, sn_Metadata = members_of (n_Metadata n),
     sn_Status = n_Status n, sn_RetryCount = n_RetryCount n, sn_MaxRetries = n_MaxRetries n, sn_LastError = n_LastError n,
     sn_DeliveredAt = n_DeliveredAt n, sn_ProviderMsgID = n_ProviderMsgID n, sn_CreatedAt = n_CreatedAt n, sn_UpdatedAt = n_UpdatedAt n\<rparr>"

definition decoded_metadata :: "RawMessage \<Rightarrow> any_map option" where
  "decoded_metadata m = (case m of None \<Rightarrow> Some None | Some v \<Rightarrow> decode_any_map v None)"

lemma decoded_metadata_cases:
  "faithful n \<Longrightarrow> decoded_metadata (n_Metadata n) = Some (members_of (n_Metadata n))"
  "\<not> readable n \<Longrightarrow> decoded_metadata (n_Metadata n) = None"
  using decode_exact(3) [where m = "[]"]
  by (auto simp: faithful_def readable_def decoded_metadata_def decode_any_map_def members_of_def split: option.splits json.splits)

lemma time_back:
  assumes "sd_time_Parse E (wr_time W t) = Inr t"
  shows "sdk_decode_time E (wire_time W t) old = Some t" "decode_time_ptr E (wire_time W t) = Some (Some t)"
  using assms by (simp_all add: sdk_decode_time_def decode_time_ptr_def wire_time_def value_simps)

text \<open>The instants of a notification are written in a form the client parses, and its counters are Go integers.\<close>

definition wire_ok :: "sdk_env \<Rightarrow> wire \<Rightarrow> Notification \<Rightarrow> bool" where
  "wire_ok E W n \<longleftrightarrow> (\<forall>t \<in> set ([n_CreatedAt n, n_UpdatedAt n] @ (case n_DeliveredAt n of None \<Rightarrow> [] | Some d \<Rightarrow> [d])).
     sd_time_Parse E (wr_time W t) = Inr t) \<and> fits64 (n_RetryCount n) \<and> fits64 (n_MaxRetries n)"

lemma notification_decodes:
  assumes "wire_ok E W n"
  shows "decode_notification E (Notification_json W n) =
    map_option (\<lambda>m. (client_view W n)\<lparr>sn_Metadata := m\<rparr>) (decoded_metadata (n_Metadata n))"
proof -
  have times: "sd_time_Parse E (wr_time W (n_CreatedAt n)) = Inr (n_CreatedAt n)" "sd_time_Parse E (wr_time W (n_UpdatedAt n)) = Inr (n_UpdatedAt n)"
    "\<And>d. n_DeliveredAt n = Some d \<Longrightarrow> sd_time_Parse E (wr_time W d) = Inr d" and ints: "fits64 (n_RetryCount n)" "fits64 (n_MaxRetries n)"
    using assms by (simp_all add: wire_ok_def split: option.splits)
  note steps = Sdk_Notification_field_def decode_append value_simps wire_id_def decode_string_ptr_def time_back [OF times(1)]
    time_back [OF times(2)] time_back [OF times(3)] ints
  show ?thesis
    by (cases "n_Metadata n")
      (simp_all add: decode_notification_def Notification_json_def Sdk_Notification_zero_def client_view_def decoded_metadata_def members_of_def steps
        split: option.split)
qed

lemma notification_back:
  assumes "wire_ok E W n"
  shows "faithful n \<Longrightarrow> decode_notification E (Notification_json W n) = Some (client_view W n)"
    and "\<not> readable n \<Longrightarrow> decode_notification E (Notification_json W n) = None"
  by (simp_all add: notification_decodes [OF assms] decoded_metadata_cases client_view_def)

lemma notifications_back:
  assumes "\<forall>n \<in> set ns. wire_ok E W n"
  shows "list_all faithful ns \<Longrightarrow> decode_all (decode_notification E) (map (Notification_json W) ns) = Some (map (client_view W) ns)"
    and "\<not> list_all readable ns \<Longrightarrow> decode_all (decode_notification E) (map (Notification_json W) ns) = None"
  using assms by (induction ns) (auto simp: notification_back split: option.splits)

text \<open>
  C32. The client reads what the server writes, and where it does not: a page of notifications as the server writes it decodes in the client to the
  same page, field by field, when the metadata of every notification on it is absent, \<^verbatim>\<open>null\<close> (both read as a nil map) or an object with
  distinct names and with integers of at most 2^53 in absolute value, at any depth; larger integers are rounded
  to float64. The API stores any JSON value as metadata; one notification with a value that is neither \<^verbatim>\<open>null\<close> nor an object, such as an array,
  makes the whole page unreadable for the client.
\<close>

theorem page_read_back:
  assumes "\<forall>n \<in> set ns. wire_ok E W n" and "fits64 tot" and "fits64 limit" and "fits64 offset"
    and "body_json W (NotificationsBody ns tot limit offset) = Some v"
    and "got = decode_value (NotificationList_field E) v \<lparr>nl_Data = [], nl_Total = 0, nl_Limit = 0, nl_Offset = 0\<rparr>"
  shows "(list_all faithful ns \<longrightarrow>
      got = Some \<lparr>nl_Data = map (client_view W) ns, nl_Total = tot, nl_Limit = limit, nl_Offset = offset\<rparr>) \<and>
    (\<not> list_all readable ns \<longrightarrow> got = None)"
  using assms(5) [symmetric] notifications_back [OF assms(1)] assms(2-4,6) by (auto simp: NotificationList_field_def value_simps)

text \<open>An error of the server arrives with its code, and the code is its field \<^verbatim>\<open>error\<close>.\<close>

lemma error_read_back:
  assumes "sd_parse E body = body_json W (ErrorBody msg)" and "msg \<noteq> []" and "300 \<le> status"
  shows "\<exists>e. finish_request E opts (status, body) = Inl (RequestFailed e) \<and> re_StatusCode e = status \<and> re_Code e = msg \<and>
    Field e ''error'' = (msg, True) \<and> RequestError_Error e = ''notifyd: '' @ show_int status @ '' '' @ msg"
  using assms by (simp add: finish_request_def requestErrorFromBody_def Unmarshal_def decode_any_map_def Field_def RequestError_Error_def)

section \<open>Client and server together\<close>

text \<open>
  The server as the client's transport: \<open>accept\<close> is what \<^verbatim>\<open>net/http\<close> and chi make of a request, a route and the request
  as the handlers see it; the response's body is written with \<open>text\<close>, the server's JSON encoder.
\<close>

definition response_text :: "wire \<Rightarrow> (json \<Rightarrow> string) \<Rightarrow> api_response \<Rightarrow> string" where
  "response_text W text resp = (case body_json W (ar_body resp) of None \<Rightarrow> [] | Some v \<Rightarrow> text v)"

definition server :: "api_env \<Rightarrow> wire \<Rightarrow> (json \<Rightarrow> string) \<Rightarrow> (http_request \<Rightarrow> route \<times> api_request) \<Rightarrow> api_world transport" where
  "server A W text accept r w = (case accept r of (rt, q) \<Rightarrow> (case serve A rt q w of
     (resp, w1) \<Rightarrow> (Inr \<lparr>sp_StatusCode = ar_status resp, sp_Body = Inr (response_text W text resp)\<rparr>, w1)))"

text \<open>A client whose token is good for another half minute.\<close>

definition has_token :: "sdk_env \<Rightarrow> Sdk_Client \<Rightarrow> bool" where
  "has_token E c \<longleftrightarrow> sc_cachedToken c \<noteq> [] \<and> sd_clock E 0 + expiryMargin < sc_expiresAt c"

lemma one_round_trip:
  assumes "has_token E c" and "ro_body opts = Some v" and "sd_marshal E v = Inr b"
    and "sd_new_request E (ro_method opts) (request_url c opts) = None"
    and "accept (call_request c (sc_cachedToken c) opts (Some b)) = (rt, q)" and "serve A rt q w = (resp, w1)" and "ar_status resp \<noteq> 401"
  shows "doRequest E (server A W text accept) opts (c, w) = (finish_request E opts (ar_status resp, response_text W text resp), c, w1)"
  using assms by (simp add: doRequest_def authenticatedToken_def has_token_def sdk_send_def server_def)

text \<open>What the server accepts of a send, from the token and the body down to the row.\<close>

definition content :: "Notification \<Rightarrow> uuid \<times> uuid \<times> uuid \<times> string option \<times> string \<times> RawMessage" where
  "content n = (n_ID n, n_TenantID n, n_ChannelConfigID n, n_Subject n, n_Body n, n_Metadata n)"

lemma SetAsynqTaskID_content: "map content (db_notifs (snd (SetAsynqTaskID i x now d))) = map content (db_notifs d)"
  unfolding SetAsynqTaskID_def snd_exec
  by (rule pg_call_field) (simp_all add: sql_update_notif_def map_update_where task_id_set_def content_def)

lemma Send_stores:
  assumes "Send L maxRetries env tid input w = (Inr n, w')"
  shows "map content (db_notifs (w_db w')) = map content (db_notifs (w_db w)) @ [content n]"
proof -
  obtain r1 w1 where g: "on_db (Channel_GetByID (sni_ChannelConfigID input)) w = (r1, w1)" by fastforce
  have s1: "same_stores w w1" by (rule on_db_read [OF Channel_GetByID_tables g])
  obtain r2 w2 where e: "on_db (EntitlementsOrFree tid (se_now env)) w1 = (r2, w2)" by fastforce
  have s2: "same_stores w w2" using s1 on_db_read [OF EntitlementsOrFree_tables e] by (rule same_stores_trans)
  obtain cfg where cfg: "r1 = Inr cfg" using assms g by (cases r1) (auto simp: Send_def)
  define m where "m = new_notification env tid cfg input (effectiveMaxRetries maxRetries cfg)"
  have p: "send_persist L env tid cfg m w2 = (Inr n, w')"
    using assms g e cfg by (auto simp: Send_def m_def split: if_splits option.splits sum.splits)
  obtain r3 d where c: "Notification_Create m (w_db w2) = (r3, d)" by fastforce
  have r3: "r3 = None" using p c by (cases r3) (auto simp: send_persist_def on_db_def)
  have "tables d = tables ((w_db w2)\<lparr>db_notifs := db_notifs (w_db w2) @ [inserted m]\<rparr>)"
    using Notification_Create_effect [where n = m and db = "w_db w2"] c r3 by simp
  then have d: "db_notifs d = db_notifs (w_db w2) @ [inserted m]" by (rule tables_eq_fields(5) [THEN trans]) simp
  have "n = m \<and> w_db w' = snd (SetAsynqTaskID (n_ID m)
      (tk_TaskID (NewNotificationDeliverTask L (deliver_payload tid cfg m) [n_MaxRetries m])) (se_updated env) d)"
    using p c r3 by (auto simp: send_persist_def on_db_def EnqueueContext_def split: option.splits prod.splits)
  moreover have "content (inserted m) = content m" by (simp add: content_def inserted_def)
  moreover have "db_notifs (w_db w2) = db_notifs (w_db w)" using s2 by (auto simp: same_stores_def dest: tables_eq_fields)
  ultimately show ?thesis using d SetAsynqTaskID_content by simp
qed

lemma quotaMW_accepted:
  assumes "quotaMW E h r w = (resp, w1)" and "ar_status resp = 202"
  obtains w0 where "h r w0 = (resp, w1)" "tables (w_db w0) = tables (w_db w)"
proof -
  obtain c where c: "rq_claims r = Some c" using assms by (cases "rq_claims r") (auto simp: quotaMW_def Middleware_def response_Error_def response_JSON_def)
  let ?q = "\<lparr>qr_path = rq_path r, qr_body = (case read_all r of Inl e \<Rightarrow> Inl e | Inr b \<Rightarrow> Inr (ap_parse E b))\<rparr>"
  obtain n where n: "reservation_size ?q = Inr n"
    using assms c by (cases "reservation_size ?q") (auto simp: quotaMW_def Middleware_def response_Error_def response_JSON_def)
  obtain d w0 where 1: "on_quota (Reserve (ap_uuid_String E) (ap_billingURL E) (tc_TenantID c) (ap_clock E 3) (ap_clock E 4) n) w = (d, w0)"
    by fastforce
  have t: "tables (w_db w0) = tables (w_db w)"
    using 1 quota_reads(1) [of "ap_uuid_String E" "ap_billingURL E" "tc_TenantID c" "ap_clock E 3" "ap_clock E 4" n
        "\<lparr>q_db = w_db w, q_redis = aw_redis w, q_alerts = aw_alerts w\<rparr>"]
    by (auto simp: on_quota_def split: prod.splits)
  obtain x w2 where 2: "h r w0 = (x, w2)" by fastforce
  have "x = resp \<and> w2 = w1"
    using assms c n 1 2
    by (auto simp: quotaMW_def Middleware_def Let_def WriteHeader_def response_Error_def response_JSON_def split: sum.splits if_splits prod.splits)
  with 2 t show thesis by (intro that [of w0]) simp_all
qed

lemma client_bearer:
  "rq_headers q = Header_Set ''Content-Type'' ''application/json'' (Header_Set ''Authorization'' (''Bearer '' @ t) []) \<Longrightarrow>
    bearer A q = (case ValidateToken A t of Inl _ \<Rightarrow> None | Inr claims \<Rightarrow> Some claims)"
proof -
  assume q: "rq_headers q = Header_Set ''Content-Type'' ''application/json'' (Header_Set ''Authorization'' (''Bearer '' @ t) [])"
  have k: "CanonicalHeaderKey ''Authorization'' = ''Authorization''" "CanonicalHeaderKey ''Content-Type'' = ''Content-Type''" by code_simp+
  have "Header_Get ''Authorization'' (rq_headers q) = ''Bearer '' @ t" by (simp add: q Header_Get_def map_of_Header_Set k)
  moreover have "cut_space (''Bearer '' @ t) = Some (''Bearer'', t)" by (simp add: cut_space_def)
  moreover have "ToLower ''Bearer'' = ''bearer''" by code_simp
  ultimately show ?thesis by (simp add: bearer_def)
qed

text \<open>What the server stores of a send that it accepts.\<close>

lemma send_accepted:
  assumes "serve A PostSend q w = (resp, w1)" and "ar_status resp = 202"
    and "decode_body A (send_field A) send_zero q = Inr input"
  obtains n claims ch where "bearer A q = Some claims" "resp = response_JSON 202 (NotificationBody n)"
    "ch \<in> set (db_channels (w_db w))" "cr_id ch = sni_ChannelConfigID input" "cr_tenant_id ch = tc_TenantID claims" "cr_is_active ch"
    "n = new_notification (ap_send_env A 0) (tc_TenantID claims) (scanConfig ch) input (effectiveMaxRetries (ap_maxRetries A) (scanConfig ch))"
    "map content (db_notifs (w_db w1)) = map content (db_notifs (w_db w)) @ [content n]"
proof -
  let ?q = "q\<lparr>rq_claims := None\<rparr>"
  obtain claims where b: "bearer A q = Some claims"
    using assms(1,2) auth_Middleware_bearer(2) [of A ?q "quotaMW A (NotificationHandler_Send A)" w]
    by (cases "bearer A q") (auto simp: serve_def Let_def response_Error_def response_JSON_def)
  let ?r = "q\<lparr>rq_claims := Some claims\<rparr>"
  have "quotaMW A (NotificationHandler_Send A) ?r w = (resp, w1)"
    using assms(1) b by (simp add: serve_def Let_def auth_Middleware_bearer(1))
  then obtain w0 where h: "NotificationHandler_Send A ?r w0 = (resp, w1)" and t: "tables (w_db w0) = tables (w_db w)"
    using assms(2) by (rule quotaMW_accepted)
  have body: "decode_body A (send_field A) send_zero ?r = Inr input" using assms(3) by (simp add: decode_body_def)
  obtain x w2 where send: "Send (ap_lib A) (ap_maxRetries A) (ap_send_env A 0) (tc_TenantID claims) input w0 = (x, w2)" by fastforce
  have "\<exists>n. x = Inr n \<and> resp = response_JSON 202 (NotificationBody n) \<and> w2 = w1"
    using h assms(2) body send
    by (cases x) (auto simp: NotificationHandler_Send_def with_claims_def with_body_def respond_def response_Error_def response_JSON_def
        split: if_splits)
  then obtain n where n: "x = Inr n" "resp = response_JSON 202 (NotificationBody n)" "w2 = w1" by blast
  have c: "db_channels (w_db w0) = db_channels (w_db w)" "db_notifs (w_db w0) = db_notifs (w_db w)"
    using t by (auto dest: tables_eq_fields)
  from Send_effect [where L = "ap_lib A" and maxRetries = "ap_maxRetries A" and env = "ap_send_env A 0" and tid = "tc_TenantID claims"
      and input = input and w = w0] send n c
  obtain ch where "ch \<in> set (db_channels (w_db w))" "cr_id ch = sni_ChannelConfigID input" "cr_tenant_id ch = tc_TenantID claims" "cr_is_active ch"
    "n = new_notification (ap_send_env A 0) (tc_TenantID claims) (scanConfig ch) input (effectiveMaxRetries (ap_maxRetries A) (scanConfig ch))"
    by auto
  with Send_stores [of "ap_lib A" "ap_maxRetries A" "ap_send_env A 0" "tc_TenantID claims" input w0 n w1] send n c b
  show thesis by (intro that [of claims n ch]) simp_all
qed

text \<open>
  C13. A send from end to end: a client with a valid token calls \<^verbatim>\<open>Send\<close>; the server's router takes the request to its send route with the headers
  and the body the client wrote, and both sides agree on the text of a JSON value. When the server accepts, the token is valid, the channel is an active
  one of the token's tenant, and exactly one notification is added, with that tenant, that channel and the subject, body and metadata
  of the call, where an empty subject and empty metadata are absent. The call then returns the notification with what was sent, for metadata with distinct
  names and integers up to 2^53 (and instants and counters that the texts carry), and leaves the server in the state of that one request.
  When the server answers with an error other than 401 the call returns it with its status and code.
\<close>

theorem send_end_to_end:
  assumes "has_token E c" and "sd_marshal E (SendInput_json i) = Inr b"
    and "sd_new_request E ''POST'' (sc_baseURL c @ ''/notifications/send'') = None"
    and "accept \<lparr>hq_method = ''POST'', hq_url = sc_baseURL c @ ''/notifications/send'',
           hq_headers = Header_Set ''Content-Type'' ''application/json'' (Header_Set ''Authorization'' (''Bearer '' @ sc_cachedToken c) []),
           hq_body = b\<rparr> = (PostSend, q)"
    and "rq_headers q = Header_Set ''Content-Type'' ''application/json'' (Header_Set ''Authorization'' (''Bearer '' @ sc_cachedToken c) [])"
    and "rq_body q = Inr b" and "length b \<le> maxBodyBytes" and "ap_decode A b = Some (SendInput_json i)"
    and "ap_uuid_Parse A (si_ChannelConfigID i) = Inr u"
    and "serve A PostSend q w = (resp, w1)" and "sd_parse E (response_text W render resp) = body_json W (ar_body resp)"
  shows "(ar_status resp = 202 \<longrightarrow> (\<exists>n claims ch.
      ar_body resp = NotificationBody n \<and> ValidateToken A (sc_cachedToken c) = Inr claims \<and>
      ch \<in> set (db_channels (w_db w)) \<and> cr_id ch = u \<and> cr_tenant_id ch = tc_TenantID claims \<and> cr_is_active ch \<and>
      map content (db_notifs (w_db w1)) = map content (db_notifs (w_db w)) @ [(n_ID n, tc_TenantID claims, u,
        if si_Subject i = [] then None else Some (si_Subject i), si_Body i, sent_map (si_Metadata i))] \<and>
      (wire_ok E W n \<and> (case si_Metadata i of None \<Rightarrow> True | Some ms \<Rightarrow> exact_members ms) \<longrightarrow>
        (\<exists>v. Sdk_Send E (server A W render accept) i (c, w) = (Inr v, c, w1) \<and>
           sn_ID v = wr_uuid W (n_ID n) \<and> sn_TenantID v = wr_uuid W (tc_TenantID claims) \<and> sn_ChannelConfigID v = wr_uuid W u \<and>
           sn_Subject v = (if si_Subject i = [] then None else Some (si_Subject i)) \<and> sn_Body v = si_Body i \<and>
           sn_Metadata v = (if si_Metadata i = Some [] then None else si_Metadata i) \<and> sn_Status v = StatusPending)))) \<and>
    (resp = response_Error status msg \<and> 300 \<le> status \<and> status \<noteq> 401 \<and> msg \<noteq> [] \<longrightarrow>
      (\<exists>e. Sdk_Send E (server A W render accept) i (c, w) = (Inl (RequestFailed e), c, w1) \<and> re_StatusCode e = status \<and> re_Code e = msg))"
proof -
  let ?opts = "writes ''POST'' ''/notifications/send'' (SendInput_json i) (decode_notification E) Sdk_Notification_zero"
  have url: "request_url c ?opts = sc_baseURL c @ ''/notifications/send''" by (simp add: request_url_def writes_def)
  have acc: "accept (call_request c (sc_cachedToken c) ?opts (Some b)) = (PostSend, q)"
    using assms(4) by (simp add: call_request_def url) (simp add: writes_def)
  have step: "Sdk_Send E (server A W render accept) i (c, w) = (finish_request E ?opts (ar_status resp, response_text W render resp), c, w1)"
    if "ar_status resp \<noteq> 401"
    unfolding Sdk_Send_def using assms(1-3,10) acc that by (intro one_round_trip) (simp_all add: url, simp_all add: writes_def)
  have body: "decode_body A (send_field A) send_zero q = Inr (sent_input u i)"
    using assms(6-9) send_input_back [OF assms(9)] by (simp add: decode_body_def decode_struct_def SendInput_json_def)
  show ?thesis
  proof (intro conjI impI)
    assume ok: "ar_status resp = 202"
    obtain n claims ch where sent: "bearer A q = Some claims"
      "resp = response_JSON 202 (NotificationBody n)" "ch \<in> set (db_channels (w_db w))" "cr_id ch = sni_ChannelConfigID (sent_input u i)"
      "cr_tenant_id ch = tc_TenantID claims" "cr_is_active ch"
      "n = new_notification (ap_send_env A 0) (tc_TenantID claims) (scanConfig ch) (sent_input u i)
        (effectiveMaxRetries (ap_maxRetries A) (scanConfig ch))"
      "map content (db_notifs (w_db w1)) = map content (db_notifs (w_db w)) @ [content n]" by (rule send_accepted [OF assms(10) ok body])
    have ch: "cr_id ch = u" using sent(4) by (simp add: sent_input_def)
    have fields: "content n = (n_ID n, tc_TenantID claims, u, if si_Subject i = [] then None else Some (si_Subject i), si_Body i,
        sent_map (si_Metadata i))" "n_Status n = StatusPending"
      using sent(4,7) by (simp_all add: content_def new_notification_def sent_input_def scanConfig_def)
    have token: "ValidateToken A (sc_cachedToken c) = Inr claims"
      using sent(1) client_bearer [OF assms(5)] by (simp split: sum.splits)
    have "\<exists>v. Sdk_Send E (server A W render accept) i (c, w) = (Inr v, c, w1) \<and>
           sn_ID v = wr_uuid W (n_ID n) \<and> sn_TenantID v = wr_uuid W (tc_TenantID claims) \<and> sn_ChannelConfigID v = wr_uuid W u \<and>
           sn_Subject v = (if si_Subject i = [] then None else Some (si_Subject i)) \<and> sn_Body v = si_Body i \<and>
           sn_Metadata v = (if si_Metadata i = Some [] then None else si_Metadata i) \<and> sn_Status v = StatusPending"
      if "wire_ok E W n" and "case si_Metadata i of None \<Rightarrow> True | Some ms \<Rightarrow> exact_members ms"
    proof -
      have "faithful n" using that(2) fields(1)
        by (cases "si_Metadata i") (auto simp: faithful_def content_def sent_map_def simp del: exact_members.simps(2) split: list.splits)
      from notification_back(1) [OF that(1) this] have "Sdk_Send E (server A W render accept) i (c, w) = (Inr (client_view W n), c, w1)"
        using assms(11) sent(2) by (simp add: step finish_request_def) (simp add: writes_def Unmarshal_def)
      then show ?thesis using fields
        by (auto simp: client_view_def content_def members_of_def sent_map_def split: option.splits list.splits)
    qed
    with sent ch token fields(1) show "\<exists>n claims ch. ar_body resp = NotificationBody n \<and> ValidateToken A (sc_cachedToken c) = Inr claims \<and>
      ch \<in> set (db_channels (w_db w)) \<and> cr_id ch = u \<and> cr_tenant_id ch = tc_TenantID claims \<and> cr_is_active ch \<and>
      map content (db_notifs (w_db w1)) = map content (db_notifs (w_db w)) @ [(n_ID n, tc_TenantID claims, u,
        if si_Subject i = [] then None else Some (si_Subject i), si_Body i, sent_map (si_Metadata i))] \<and>
      (wire_ok E W n \<and> (case si_Metadata i of None \<Rightarrow> True | Some ms \<Rightarrow> exact_members ms) \<longrightarrow>
        (\<exists>v. Sdk_Send E (server A W render accept) i (c, w) = (Inr v, c, w1) \<and>
           sn_ID v = wr_uuid W (n_ID n) \<and> sn_TenantID v = wr_uuid W (tc_TenantID claims) \<and> sn_ChannelConfigID v = wr_uuid W u \<and>
           sn_Subject v = (if si_Subject i = [] then None else Some (si_Subject i)) \<and> sn_Body v = si_Body i \<and>
           sn_Metadata v = (if si_Metadata i = Some [] then None else si_Metadata i) \<and> sn_Status v = StatusPending))"
      by (intro exI [of _ n] exI [of _ claims] exI [of _ ch]) (simp add: response_JSON_def)
  next
    assume err: "resp = response_Error status msg \<and> 300 \<le> status \<and> status \<noteq> 401 \<and> msg \<noteq> []"
    then have "sd_parse E (response_text W render (response_Error status msg)) = body_json W (ErrorBody msg)" using assms(11) by simp
    from error_read_back [OF this, of status ?opts] step err
    show "\<exists>e. Sdk_Send E (server A W render accept) i (c, w) = (Inl (RequestFailed e), c, w1) \<and> re_StatusCode e = status \<and> re_Code e = msg"
      by auto
  qed
qed

section \<open>Examples\<close>

text \<open>A server that answers token requests with a token for an hour and everything else with 401.\<close>

definition demo_sdk :: sdk_env where
  "demo_sdk = \<lparr>sd_marshal = (\<lambda>v. Inr ''{}''), sd_parse = (\<lambda>s. Some (JObj [(''token'', JStr ''tok''), (''expires_in'', JStr ''1h0m0s'')])),
     sd_new_request = (\<lambda>m u. None), sd_ParseDuration = (\<lambda>s. Inr hour_ns), sd_time_Parse = (\<lambda>s. Inr 30), sd_clock = (\<lambda>k. 0)\<rparr>"

definition demo_sdk_client :: Sdk_Client where
  "demo_sdk_client = \<lparr>sc_apiKey = ''k'', sc_apiSecret = ''s'', sc_baseURL = ''http://x'', sc_cachedToken = [], sc_expiresAt = zero_time\<rparr>"

definition demo_server :: "unit transport" where
  "demo_server r s = (Inr \<lparr>sp_StatusCode = (if hq_method r = ''POST'' then 200 else 401), sp_Body = Inr ''{}''\<rparr>, s)"

definition demo_wire :: wire where
  "demo_wire = \<lparr>wr_uuid = (\<lambda>i. ''id''), wr_time = (\<lambda>t. ''t'')\<rparr>"

theorem request_traffic_witness:
  "\<exists>r c' log'. doRequest demo_sdk (logged demo_server) (removes ''/keys/1'') (demo_sdk_client, (), []) = (r, c', (), log') \<and> length log' = 4 \<and>
    (\<exists>pre rest. log' = [] @ pre @ rest \<and> (pre = [] \<or> (\<exists>b x. pre = [(token_request demo_sdk_client b, x)])))"
proof -
  let ?run = "doRequest demo_sdk (logged demo_server) (removes ''/keys/1'') (demo_sdk_client, (), [])"
  have len: "length (snd (snd (snd ?run))) = 4" by code_simp
  obtain r c' s' log' where run: "?run = (r, c', s', log')" by (metis prod_cases4)
  then have "length log' = 4" using len by simp
  with request_traffic [OF run] run show ?thesis by (metis (lifting) old.unit.exhaust)
qed

theorem callers_share_one_exchange_witness:
  "\<exists>c1. \<exists>b resp. token_calls demo_sdk (logged demo_server) [\<lambda>k. 0, \<lambda>k. 5, \<lambda>k. 9] (demo_sdk_client, (), []) =
    (replicate 3 (Inr ''tok''), c1, (), [] @ [(token_request demo_sdk_client b, Inr resp)])"
proof -
  let ?c = "demo_sdk_client\<lparr>sc_cachedToken := ''tok'', sc_expiresAt := hour_ns\<rparr>"
  have f: "fetchAndCacheToken (demo_sdk\<lparr>sd_clock := \<lambda>k. 0\<rparr>) (logged demo_server) 1 (demo_sdk_client, (), []) =
      (Inr ''tok'', ?c, (), [(token_request demo_sdk_client ''{}'', Inr \<lparr>sp_StatusCode = 200, sp_Body = Inr ''{}''\<rparr>)])"
    by (simp add: fetchAndCacheToken_def demo_sdk_def logged_def demo_server_def token_request_def Unmarshal_def tokenResponse_field_def value_simps)
  have "\<forall>k \<in> set [\<lambda>k. 5, \<lambda>k. 9 :: time]. k 0 + 30 * second_ns < sc_expiresAt ?c" by (simp add: duration_defs)
  from callers_share_one_exchange [OF _ f _ this] show ?thesis by (fastforce simp: demo_sdk_client_def numeral_3_eq_3)
qed

theorem page_read_back_witness:
  "decode_value (NotificationList_field demo_sdk) (JObj [(''data'', JArr [Notification_json demo_wire queued_notif]), (''total'', JNum 1),
     (''limit'', JNum 20), (''offset'', JNum 0)]) \<lparr>nl_Data = [], nl_Total = 0, nl_Limit = 0, nl_Offset = 0\<rparr> =
   Some \<lparr>nl_Data = [client_view demo_wire queued_notif], nl_Total = 1, nl_Limit = 20, nl_Offset = 0\<rparr>"
proof -
  have "wire_ok demo_sdk demo_wire queued_notif" by (simp add: wire_ok_def demo_sdk_def demo_wire_def queued_notif_def fits64_def)
  moreover have "faithful queued_notif" by (simp add: faithful_def queued_notif_def)
  ultimately show ?thesis
    using page_read_back [of "[queued_notif]" demo_sdk demo_wire 1 20 0, OF _ _ _ _ _ refl] by (simp add: fits64_def)
qed

theorem requests_understood_witness:
  "decode_value (multi_field demo_api) (JObj [(''channels'', JArr [SendInput_json \<lparr>si_ChannelConfigID = ''ten'', si_Subject = [], si_Body = ''hi'',
     si_Metadata = Some []\<rparr>])]) [] =
   Some [\<lparr>sni_ChannelConfigID = 10, sni_Subject = None, sni_Body = ''hi'', sni_Metadata = None\<rparr>]"
proof -
  let ?i = "\<lparr>si_ChannelConfigID = ''ten'', si_Subject = [], si_Body = ''hi'', si_Metadata = Some []\<rparr>"
  let ?cn = "\<lparr>cn_Channel = ''slack'', cn_Name = ''ops'', cn_Config = None, cn_DeliveryPrefs = None\<rparr>"
  let ?un = "\<lparr>un_Name = None, un_Config = None, un_IsActive = None, un_DeliveryPrefs = None\<rparr>"
  have "\<forall>i \<in> set [?i]. ap_uuid_Parse demo_api (si_ChannelConfigID i) = Inr 10" by (simp add: demo_api_def)
  moreover have "\<forall>dp n. cn_DeliveryPrefs ?cn = Some dp \<or> un_DeliveryPrefs ?un = Some dp \<longrightarrow> dp_MaxRetries dp = Some n \<longrightarrow> fits64 n" by simp
  ultimately show ?thesis
    using requests_understood [of "[?i]" demo_api "\<lambda>i. 10" ?cn ?un] by (simp add: sent_input_def sent_map_def)
qed

text \<open>A client with a token of the example server, which accepts its send.\<close>

definition stored_notif :: Notification where
  "stored_notif = \<lparr>n_ID = 0, n_TenantID = 1, n_ChannelConfigID = 10, n_Channel = ''slack'', n_Subject = None, n_Body = ''x'', n_Metadata = None,
     n_Status = StatusPending, n_AsynqTaskID = None, n_RetryCount = 0, n_MaxRetries = 3, n_LastError = None, n_DeliveredAt = None,
     n_ProviderMsgID = None, n_CreatedAt = 0, n_UpdatedAt = 0\<rparr>"

definition demo_input :: SendInput where
  "demo_input = \<lparr>si_ChannelConfigID = ''ten'', si_Subject = [], si_Body = ''x'', si_Metadata = None\<rparr>"

definition demo_codec :: sdk_env where
  "demo_codec = \<lparr>sd_marshal = (\<lambda>v. Inr (if v = SendInput_json demo_input then ''send'' else ''other'')),
     sd_parse = (\<lambda>s. if s = ''json'' then Some (Notification_json demo_wire stored_notif) else None),
     sd_new_request = (\<lambda>m u. None), sd_ParseDuration = (\<lambda>s. Inr hour_ns), sd_time_Parse = (\<lambda>s. Inr 0), sd_clock = (\<lambda>k. 0)\<rparr>"

definition demo_accept :: "http_request \<Rightarrow> route \<times> api_request" where
  "demo_accept r = (PostSend, demo_request (hq_headers r) (hq_body r))"

text \<open>The body limit in a form that evaluates quickly.\<close>

lemma body_limit_code [code]:
  "decode_body E set_field zero r = (case rq_body r of
     Inl err \<Rightarrow> Inl err
   | Inr b \<Rightarrow> decode_struct set_field zero (ap_decode E (if int (length b) \<le> 1048576 then b else take maxBodyBytes b)))"
  "read_all r = (case rq_body r of
     Inl err \<Rightarrow> Inl err
   | Inr b \<Rightarrow> if int (length b) > 1048576 then Inl (plain_error ''http: request body too large'') else Inr b)"
  by (auto simp: decode_body_def read_all_def maxBodyBytes_def split: sum.split)

theorem send_end_to_end_witness:
  "\<exists>v w1. Sdk_Send demo_codec (server demo_api demo_wire (\<lambda>v. ''json'') demo_accept) demo_input
      (demo_sdk_client\<lparr>sc_cachedToken := ''t1'', sc_expiresAt := hour_ns\<rparr>, demo_api_world) =
    (Inr v, demo_sdk_client\<lparr>sc_cachedToken := ''t1'', sc_expiresAt := hour_ns\<rparr>, w1) \<and> sn_Body v = ''x'' \<and> sn_Status v = StatusPending"
proof -
  let ?c = "demo_sdk_client\<lparr>sc_cachedToken := ''t1'', sc_expiresAt := hour_ns\<rparr>"
  let ?hs = "Header_Set ''Content-Type'' ''application/json'' (Header_Set ''Authorization'' (''Bearer '' @ ''t1'') [])"
  let ?q = "demo_request ?hs ''send''"
  have "ar_status (fst (serve demo_api PostSend ?q demo_api_world)) = 202 \<and>
      (case ar_body (fst (serve demo_api PostSend ?q demo_api_world)) of NotificationBody n \<Rightarrow> n = stored_notif | _ \<Rightarrow> False)" by code_simp
  moreover obtain resp w1 where w1: "serve demo_api PostSend ?q demo_api_world = (resp, w1)" by fastforce
  ultimately have resp: "ar_status resp = 202" "ar_body resp = NotificationBody stored_notif" by (cases "ar_body resp"; simp)+
  have tok: "has_token demo_codec ?c" by (simp add: has_token_def demo_codec_def expiryMargin_def duration_defs)
  have wire: "wire_ok demo_codec demo_wire stored_notif"
    by (simp add: wire_ok_def demo_codec_def demo_wire_def stored_notif_def fits64_def)
  have codec: "sd_marshal demo_codec (SendInput_json demo_input) = Inr ''send''" "ap_decode demo_api ''send'' = Some (SendInput_json demo_input)"
    by code_simp+
  have reply: "sd_parse demo_codec (response_text demo_wire (\<lambda>v. ''json'') resp) = body_json demo_wire (ar_body resp)"
    by (simp add: resp demo_codec_def response_text_def)
  have size: "length ''send'' \<le> maxBodyBytes" by (simp add: maxBodyBytes_def)
  have sent: "sd_new_request demo_codec ''POST'' (sc_baseURL ?c @ ''/notifications/send'') = None"
    "demo_accept \<lparr>hq_method = ''POST'', hq_url = sc_baseURL ?c @ ''/notifications/send'',
       hq_headers = Header_Set ''Content-Type'' ''application/json'' (Header_Set ''Authorization'' (''Bearer '' @ sc_cachedToken ?c) []),
       hq_body = ''send''\<rparr> = (PostSend, ?q)"
    "rq_headers ?q = Header_Set ''Content-Type'' ''application/json'' (Header_Set ''Authorization'' (''Bearer '' @ sc_cachedToken ?c) [])"
    "rq_body ?q = Inr ''send''" "ap_uuid_Parse demo_api (si_ChannelConfigID demo_input) = Inr 10"
    by (simp_all add: demo_codec_def demo_accept_def demo_request_def demo_api_def demo_input_def)
  from send_end_to_end [where accept = demo_accept and W = demo_wire and render = "\<lambda>v. ''json''",
      OF tok codec(1) sent(1-4) size codec(2) sent(5) w1 reply, THEN conjunct1] resp wire
  show ?thesis by (auto simp: demo_input_def)
qed

end
