(* ===== verification/Client_Routes.thy ===== *)
theory Client_Routes
  imports Router Sdk_Laws
begin

text \<open>
  The Go client (\<^verbatim>\<open>sdks/go\<close>) against the router (\<^verbatim>\<open>internal/router\<close>): the path of every request that a method of the client makes, as the
  router sees it.
\<close>

section \<open>Requests at the router\<close>

text \<open>The path of a request, below the base URL and without the query.\<close>

definition request_path :: "Sdk_Client \<Rightarrow> http_request \<Rightarrow> string" where
  "request_path c r = takeWhile (\<lambda>ch. ch \<noteq> CHR ''?'') (drop (length (sc_baseURL c)) (hq_url r))"

text \<open>Every request of a call goes to the token exchange or, with the values \<open>ps\<close> for its placeholders, to the route \<open>rt\<close>.\<close>

definition reaches :: "finder \<Rightarrow> Sdk_Client \<Rightarrow> route \<Rightarrow> (string \<times> string) list \<Rightarrow> http_request \<Rightarrow> bool" where
  "reaches lookup c rt ps r \<longleftrightarrow> (\<exists>e. lookup table (hq_method r) (request_path c r) = Some (e, ps) \<and> en_route e = rt)"

definition landed :: "finder \<Rightarrow> Sdk_Client \<Rightarrow> route \<Rightarrow> (string \<times> string) list \<Rightarrow> 'r \<times> Sdk_Client \<times> 's \<times> traffic \<Rightarrow> bool" where
  "landed lookup c rt ps out \<longleftrightarrow> (case out of (_, _, _, log) \<Rightarrow>
     (\<forall>(r, x) \<in> set log. reaches lookup c PostToken [] r \<or> reaches lookup c rt ps r))"

lemma cut_at:
  assumes "d \<notin> set p"
  shows "takeWhile (\<lambda>c. c \<noteq> d) p = p" and "takeWhile (\<lambda>c. c \<noteq> d) (p @ d # q) = p"
    and "dropWhile (\<lambda>c. c \<noteq> d) p = []" and "dropWhile (\<lambda>c. c \<noteq> d) (p @ d # q) = d # q"
  using assms by (induction p) auto

lemma cut_append: "takeWhile (\<lambda>c. c \<noteq> d) (p @ d # q) = takeWhile (\<lambda>c. c \<noteq> d) p"
  by (induction p) auto

lemma call_path: "request_path c (call_request c t opts body) = takeWhile (\<lambda>ch. ch \<noteq> CHR ''?'') (ro_path opts)"
  by (simp add: request_path_def call_request_def request_url_def cut_append)

lemma token_path: "request_path c (token_request c b) = ''/auth/token''"
  using cut_at(1) [of "CHR ''?''" "''/auth/token''"] by (simp add: request_path_def token_request_def)

definition signature_of :: "route \<Rightarrow> (string \<times> segment list) option" where
  "signature_of rt = map_of (map (\<lambda>e. (en_route e, en_method e, en_pattern e)) table) rt"

lemma route_resolves:
  assumes "documented lookup" and "proper p" and "segments p \<noteq> [''admin'', ''tenants'', ''by-slug'', ''usage'']"
    and "case signature_of rt of None \<Rightarrow> False | Some (m', pat) \<Rightarrow> m' = m \<and> match_path pat (segments p) = Some ps"
  shows "\<exists>e. lookup table m p = Some (e, ps) \<and> en_route e = rt"
proof -
  from assms(4) obtain pat where "signature_of rt = Some (m, pat)" "match_path pat (segments p) = Some ps" by (auto split: option.splits)
  moreover from this(1) have "(rt, m, pat) \<in> set (map (\<lambda>e. (en_route e, en_method e, en_pattern e)) table)"
    unfolding signature_of_def by (rule map_of_SomeD)
  ultimately show ?thesis using resolves [OF assms(1,2) _ _ assms(3)] by blast
qed

lemma token_reaches: "documented lookup \<Longrightarrow> reaches lookup c PostToken [] (token_request c b)"
  using route_resolves [where p = "''/auth/token''" and rt = PostToken and m = "''POST''" and ps = "[]"]
  by (simp add: reaches_def token_path proper_def segments_def signature_of_def table_entries) (simp add: token_request_def)

lemma calls_or_tokens:
  assumes "doRequest E (logged tr) opts (c, s, []) = (r, c', s', log')" and "(q, x) \<in> set log'"
  shows "(\<exists>b. q = token_request c b) \<or> (\<exists>t. q = call_request c t opts (encoded E opts))"
  using doRequest_traffic [OF assms(1)] assms(2) unfolding Let_def by fastforce

lemma doRequest_landed:
  assumes "documented lookup" and "takeWhile (\<lambda>ch. ch \<noteq> CHR ''?'') (ro_path opts) = p" and "proper p"
    and "segments p \<noteq> [''admin'', ''tenants'', ''by-slug'', ''usage'']"
    and "case signature_of rt of None \<Rightarrow> False | Some (m, pat) \<Rightarrow> m = ro_method opts \<and> match_path pat (segments p) = Some ps"
  shows "landed lookup c rt ps (doRequest E (logged tr) opts (c, s, []))"
proof -
  obtain r c' s' log' where run: "doRequest E (logged tr) opts (c, s, []) = (r, c', s', log')" by (metis prod_cases4)
  have call: "reaches lookup c rt ps (call_request c t opts body)" for t body
    using route_resolves [OF assms(1,3,4,5)] assms(2) by (simp add: reaches_def call_path) (simp add: call_request_def)
  show ?thesis using token_reaches [OF assms(1)] call calls_or_tokens [OF run] by (fastforce simp: landed_def run)
qed

section \<open>The methods of the client\<close>

lemmas request_forms = reads_def writes_def removes_def

lemmas path_simps = proper_def segments_def split_char_append signature_of_def table_entries

text \<open>
  The paths of a call that carries an identifier: the text of the identifier goes into the path as it is, without
  \<^verbatim>\<open>url.PathEscape\<close>.
\<close>

lemma id_paths:
  assumes "i \<noteq> []" and "\<forall>ch \<in> set i. unreserved ch"
  shows "split_slash i = [i]" and "CHR ''?'' \<notin> set i"
proof -
  have "\<not> unreserved (CHR ''/'')" "\<not> unreserved (CHR ''?'')" by code_simp+
  then show "split_slash i = [i]" "CHR ''?'' \<notin> set i" using assms(2) split_char_plain by blast+
qed

text \<open>
  C14. Every method of the Go client calls the route it is named after, for a non-empty identifier of unreserved URL characters (letters, digits,
  hyphen, dot, underscore, tilde), such as the UUIDs the server hands out: whatever the server answers and whatever fails, each request
  of a call is a token exchange or carries the method and the path of the method's route, with the identifier in its
  placeholder, and the router finds that route. The condition is needed, since the client does not escape
  identifiers: the last conjuncts show a \<^verbatim>\<open>GetNotification\<close> whose identifier continues with a slash at the
  routes for attempts and metrics, and a \<^verbatim>\<open>DeleteChannel\<close> and a \<^verbatim>\<open>RevokeAPIKey\<close> that act on the part of their argument before a question mark.
\<close>

theorem sdk_calls_land:
  assumes "documented lookup" and "i \<noteq> []" and "\<forall>ch \<in> set i. unreserved ch"
  shows "landed lookup c PostSend [] (Sdk_Send E (logged tr) snd_input (c, s, [])) \<and>
    landed lookup c PostSendMulti [] (Sdk_SendMulti E (logged tr) inputs (c, s, [])) \<and>
    landed lookup c GetNotifications [] (ListNotifications E (logged tr) params (c, s, [])) \<and>
    landed lookup c GetNotification [(''notificationID'', i)] (Sdk_GetNotification E (logged tr) i (c, s, [])) \<and>
    landed lookup c GetAttempts [(''notificationID'', i)] (ListAttempts E (logged tr) i (c, s, [])) \<and>
    landed lookup c GetMetrics [(''notificationID'', i)] (Sdk_GetMetrics E (logged tr) i (c, s, [])) \<and>
    landed lookup c GetKeys [] (ListAPIKeys E (logged tr) (c, s, [])) \<and>
    landed lookup c PostKeys [] (CreateAPIKey E (logged tr) label (c, s, [])) \<and>
    landed lookup c DeleteKey [(''keyID'', i)] (RevokeAPIKey E (logged tr) i (c, s, [])) \<and>
    landed lookup c GetChannels [] (ListChannels E (logged tr) (c, s, [])) \<and>
    landed lookup c PostChannels [] (CreateChannel E (logged tr) ch_input (c, s, [])) \<and>
    landed lookup c GetChannel [(''channelID'', i)] (Sdk_GetChannel E (logged tr) i (c, s, [])) \<and>
    landed lookup c PatchChannel [(''channelID'', i)] (UpdateChannel E (logged tr) i ch_change (c, s, [])) \<and>
    landed lookup c DeleteChannel [(''channelID'', i)] (Sdk_DeleteChannel E (logged tr) i (c, s, [])) \<and>
    landed lookup c GetWebhooks [] (ListWebhooks E (logged tr) (c, s, [])) \<and>
    landed lookup c PostWebhooks [] (CreateWebhook E (logged tr) wh_input (c, s, [])) \<and>
    landed lookup c PutWebhook [(''webhookID'', i)] (UpdateWebhook E (logged tr) i wh_change (c, s, [])) \<and>
    landed lookup c DeleteWebhook [(''webhookID'', i)] (Sdk_DeleteWebhook E (logged tr) i (c, s, [])) \<and>
    landed lookup c GetAttempts [(''notificationID'', i)] (Sdk_GetNotification E (logged tr) (i @ ''/attempts'') (c, s, [])) \<and>
    landed lookup c GetMetrics [(''notificationID'', i)] (Sdk_GetNotification E (logged tr) (i @ ''/metrics'') (c, s, [])) \<and>
    landed lookup c DeleteChannel [(''channelID'', i)] (Sdk_DeleteChannel E (logged tr) (i @ CHR ''?'' # rest) (c, s, [])) \<and>
    landed lookup c DeleteKey [(''keyID'', i)] (RevokeAPIKey E (logged tr) (i @ CHR ''?'' # rest) (c, s, []))"
proof -
  note plain = id_paths [OF assms(2,3)]
  note landing = doRequest_landed [OF assms(1) refl]
  have [simp]: "takeWhile (\<lambda>ch. ch \<noteq> CHR ''?'') (i @ q) = i @ takeWhile (\<lambda>ch. ch \<noteq> CHR ''?'') q" for q
    using plain(2) by (induction i) auto
  show ?thesis
    unfolding Sdk_Send_def Sdk_SendMulti_def ListNotifications_def Sdk_GetNotification_def ListAttempts_def Sdk_GetMetrics_def
      ListAPIKeys_def CreateAPIKey_def RevokeAPIKey_def ListChannels_def CreateChannel_def Sdk_GetChannel_def UpdateChannel_def
      Sdk_DeleteChannel_def ListWebhooks_def CreateWebhook_def UpdateWebhook_def Sdk_DeleteWebhook_def Let_def
    by (intro conjI landing; simp add: request_forms path_simps plain cut_at(1) [OF plain(2)] assms(2) assms(2) [symmetric])
qed

text \<open>An empty identifier leaves the path of the collection, with a slash at its end.\<close>

lemma empty_identifier:
  assumes "Sdk_GetNotification E (logged tr) [] (c, s, []) = (r, c', s', log')" and "(q, x) \<in> set log'" and "hq_method q = ''GET''"
  shows "request_path c q = ''/notifications/''"
proof -
  obtain opts where run: "doRequest E (logged tr) opts (c, s, []) = (r, c', s', log')" and opts: "ro_path opts = ''/notifications/''"
    using assms(1) by (auto simp: Sdk_GetNotification_def reads_def)
  have "hq_method (token_request c b) \<noteq> ''GET''" for b by (simp add: token_request_def)
  with calls_or_tokens [OF run assms(2)] assms(3) show ?thesis by (auto simp: call_path opts)
qed

section \<open>Examples\<close>

theorem sdk_calls_land_witness:
  "landed first_match demo_sdk_client DeleteKey [(''keyID'', ''7c9e'')] (RevokeAPIKey demo_sdk (logged demo_server) ''7c9e'' (demo_sdk_client, (), [])) \<and>
   length (snd (snd (snd (RevokeAPIKey demo_sdk (logged demo_server) ''7c9e'' (demo_sdk_client, (), []))))) = 4"
proof -
  have "length (snd (snd (snd (RevokeAPIKey demo_sdk (logged demo_server) ''7c9e'' (demo_sdk_client, (), []))))) = 4" by code_simp
  moreover have "\<forall>ch \<in> set ''7c9e''. unreserved ch" by code_simp
  ultimately show ?thesis using sdk_calls_land [OF first_match_documented, of "''7c9e''" demo_sdk_client demo_sdk demo_server] by blast
qed

end
