(* ===== verification/Client_Query.thy ===== *)
theory Client_Query
  imports Client_Routes Webhook_Delivery
begin

text \<open>
  The query of a listing, from the Go client (\<^verbatim>\<open>sdks/go/notifications.go\<close>) to the handler (\<^verbatim>\<open>internal/handler/pagination.go\<close>,
  \<^verbatim>\<open>notification_handler.go\<close>): \<^verbatim>\<open>url.Values.Encode\<close> on one side, \<^verbatim>\<open>url.ParseQuery\<close>, which \<^verbatim>\<open>r.URL.Query()\<close> uses, on the other.
\<close>

section \<open>Parsing a query\<close>

text \<open>\<^verbatim>\<open>url.QueryUnescape\<close>.\<close>

fun QueryUnescape :: "string \<Rightarrow> string option" where
  "QueryUnescape [] = Some []"
| "QueryUnescape (c # cs) =
     (if c = CHR ''%'' then
        (case cs of
           a # b # ds \<Rightarrow> (case (hex_value a, hex_value b) of
              (Some x, Some y) \<Rightarrow> map_option (Cons (char_of (16 * x + y))) (QueryUnescape ds)
            | _ \<Rightarrow> None)
         | _ \<Rightarrow> None)
      else map_option (Cons (if c = CHR ''+'' then CHR '' '' else c)) (QueryUnescape cs))"

text \<open>
  One setting of the query. A piece that is empty, holds a semicolon or does not unescape is left out, since \<^verbatim>\<open>Query()\<close> drops
  the error.
\<close>

definition parse_setting :: "string \<Rightarrow> (string \<times> string) list" where
  "parse_setting s =
     (if s = [] \<or> CHR '';'' \<in> set s then []
      else (case (QueryUnescape (takeWhile (\<lambda>c. c \<noteq> CHR ''='') s), QueryUnescape (drop 1 (dropWhile (\<lambda>c. c \<noteq> CHR ''='') s))) of
          (Some k, Some v) \<Rightarrow> [(k, v)]
        | _ \<Rightarrow> []))"

definition ParseQuery :: "string \<Rightarrow> (string \<times> string) list" where
  "ParseQuery q = concat (map parse_setting (split_char (CHR ''&'') q))"

definition Query_Get :: "(string \<times> string) list \<Rightarrow> string \<Rightarrow> string" where
  "Query_Get q k = (case map_of q k of None \<Rightarrow> [] | Some v \<Rightarrow> v)"

definition request_query :: "Sdk_Client \<Rightarrow> http_request \<Rightarrow> string" where
  "request_query c r = drop 1 (dropWhile (\<lambda>ch. ch \<noteq> CHR ''?'') (drop (length (sc_baseURL c)) (hq_url r)))"

section \<open>Escaping and back\<close>

lemma hex_value_upper: "n < 16 \<Longrightarrow> hex_value (''0123456789ABCDEF'' ! n) = Some n"
proof -
  have "list_all (\<lambda>n. hex_value (''0123456789ABCDEF'' ! n) = Some n) [0..<16]" by code_simp
  then show "n < 16 \<Longrightarrow> hex_value (''0123456789ABCDEF'' ! n) = Some n" by (simp add: list_all_iff)
qed

lemma unreserved_specials: "unreserved c \<Longrightarrow> c \<notin> set ''%+&=;? ''"
proof -
  have "list_all (\<lambda>c. \<not> unreserved c) ''%+&=;? ''" by code_simp
  then show "unreserved c \<Longrightarrow> c \<notin> set ''%+&=;? ''" by (auto simp: list_all_iff)
qed

lemma unescape_char: "QueryUnescape (escape_query_char c @ t) = map_option (Cons c) (QueryUnescape t)"
proof (cases "unreserved c \<or> c = CHR '' ''")
  case True
  then show ?thesis using unreserved_specials [of c] by (auto simp: escape_query_char_def)
next
  case False
  let ?n = "of_char c :: nat"
  have "?n div 16 < 16" by (rule less_mult_imp_div_less) simp
  then have h: "hex_value (''0123456789ABCDEF'' ! (?n div 16)) = Some (?n div 16)" "hex_value (''0123456789ABCDEF'' ! (?n mod 16)) = Some (?n mod 16)"
    by (rule hex_value_upper) (rule hex_value_upper, simp)
  have "escape_query_char c = [CHR ''%'', ''0123456789ABCDEF'' ! (?n div 16), ''0123456789ABCDEF'' ! (?n mod 16)]"
    using False by (simp add: escape_query_char_def Let_def)
  then have "QueryUnescape (escape_query_char c @ t) = map_option (Cons (char_of (16 * (?n div 16) + ?n mod 16))) (QueryUnescape t)"
    using h by simp
  then show ?thesis by simp
qed

lemma unescape_escape: "QueryUnescape (QueryEscape s) = Some s"
proof (induction s)
  case (Cons c cs)
  then show ?case using unescape_char [of c "QueryEscape cs"] by (simp add: QueryEscape_def)
qed (simp add: QueryEscape_def)

lemma escaped_chars: "CHR ''&'' \<notin> set (QueryEscape s) \<and> CHR ''='' \<notin> set (QueryEscape s) \<and> CHR '';'' \<notin> set (QueryEscape s)"
proof -
  have digit: "''0123456789ABCDEF'' ! n \<notin> {CHR ''&'', CHR ''='', CHR '';''}" if "n < 16" for n
    using hex_value_upper [OF that] by (auto simp: hex_value_def Let_def)
  have "CHR ''&'' \<notin> set (escape_query_char c) \<and> CHR ''='' \<notin> set (escape_query_char c) \<and> CHR '';'' \<notin> set (escape_query_char c)" for c
  proof (cases "unreserved c \<or> c = CHR '' ''")
    case True
    then show ?thesis using unreserved_specials [of c] by (auto simp: escape_query_char_def)
  next
    case False
    have "(of_char c :: nat) div 16 < 16" by (rule less_mult_imp_div_less) simp
    moreover have "(of_char c :: nat) mod 16 < 16" by simp
    moreover have "escape_query_char c = [CHR ''%'', ''0123456789ABCDEF'' ! (of_char c div 16), ''0123456789ABCDEF'' ! (of_char c mod 16)]"
      using False by (simp add: escape_query_char_def Let_def)
    ultimately show ?thesis using digit [of "of_char c div 16"] digit [of "of_char c mod 16"] by auto
  qed
  then show ?thesis by (induction s) (auto simp: QueryEscape_def)
qed

definition setting :: "string \<times> string \<Rightarrow> string" where
  "setting p = QueryEscape (fst p) @ CHR ''='' # QueryEscape (snd p)"

lemma setting_back: "parse_setting (setting p) = [p]"
proof -
  have "takeWhile (\<lambda>c. c \<noteq> CHR ''='') (setting p) = QueryEscape (fst p)"
    "dropWhile (\<lambda>c. c \<noteq> CHR ''='') (setting p) = CHR ''='' # QueryEscape (snd p)"
    using escaped_chars [of "fst p"] cut_at(2,4) [of "CHR ''=''" "QueryEscape (fst p)"] by (simp_all add: setting_def)
  moreover have "CHR '';'' \<notin> set (setting p)" "setting p \<noteq> []" using escaped_chars by (auto simp: setting_def)
  ultimately show ?thesis by (simp add: parse_setting_def unescape_escape)
qed

lemma pieces_of_pairs: "q \<noteq> [] \<Longrightarrow> split_char (CHR ''&'') (encode_pairs q) = map setting q"
proof (induction q rule: encode_pairs.induct)
  case (2 k v)
  have "CHR ''&'' \<notin> set (setting (k, v))" using escaped_chars by (auto simp: setting_def)
  then show ?case using split_char_plain [of _ "setting (k, v)"] by (simp add: setting_def)
next
  case (3 k v p ps)
  have plain: "CHR ''&'' \<notin> set (setting (k, v))" using escaped_chars by (auto simp: setting_def)
  have "encode_pairs ((k, v) # p # ps) = setting (k, v) @ CHR ''&'' # encode_pairs (p # ps)" by (simp add: setting_def)
  then have "split_char (CHR ''&'') (encode_pairs ((k, v) # p # ps)) = [setting (k, v)] @ split_char (CHR ''&'') (encode_pairs (p # ps))"
    by (simp only: split_char_append split_char_plain [OF plain])
  then show ?case using 3 by simp
qed simp

lemma ParseQuery_Encode: "ParseQuery (Encode q) = sort_key fst q"
proof (cases "q = []")
  case True
  then show ?thesis by (simp add: ParseQuery_def Encode_def parse_setting_def)
next
  case False
  then have "sort_key fst q \<noteq> []" by (metis length_0_conv length_sort)
  then show ?thesis by (simp add: ParseQuery_def Encode_def pieces_of_pairs setting_back comp_def)
qed

lemma map_of_sort: "distinct (map fst q) \<Longrightarrow> map_of (sort_key fst q) = map_of q"
  by (rule map_of_eqI) (auto simp: distinct_map inj_on_def map_of_eq_Some_iff)

section \<open>Numbers\<close>

lemma digits_value_append: "digits_value acc (s @ t) = (case digits_value acc s of None \<Rightarrow> None | Some v \<Rightarrow> digits_value v t)"
  by (induction s arbitrary: acc) (auto simp: Let_def)

lemma digit_value: "d < 10 \<Longrightarrow> digits_value acc [char_of (48 + d)] = Some (10 * acc + int d)"
proof -
  have "list_all (\<lambda>d. of_char (char_of (48 + d :: nat)) = (48 + int d)) [0..<10]" by code_simp
  then show "d < 10 \<Longrightarrow> digits_value acc [char_of (48 + d)] = Some (10 * acc + int d)" by (simp add: list_all_iff Let_def)
qed

lemma digits_value_digits: "digits_value 0 (digits n) = Some (int n)"
proof (induction n rule: digits.induct)
  case (1 n)
  show ?case
  proof (cases "n < 10")
    case True
    then show ?thesis using digit_value [of n 0] by (simp add: digits.simps [of n])
  next
    case False
    have "10 * int (n div 10) + int (n mod 10) = int n" by presburger
    then have "digits_value (int (n div 10)) [char_of (48 + n mod 10)] = Some (int n)"
      using digit_value [of "n mod 10" "int (n div 10)"] by (simp del: digits_value.simps)
    then show ?thesis using 1 False by (simp add: digits.simps [of n] digits_value_append)
  qed
qed

lemma digits_head: "\<exists>d ds. digits n = d # ds \<and> d \<noteq> CHR ''-'' \<and> d \<noteq> CHR ''+''"
proof -
  have "digits n \<noteq> []" by (subst digits.simps) simp
  then obtain d ds where d: "digits n = d # ds" by (cases "digits n") auto
  have "digits_value 0 (d # ds) \<noteq> None" using digits_value_digits [of n] d by simp
  then have "48 \<le> (of_char d :: int)" by (auto simp: Let_def split: if_splits)
  then show ?thesis using d by auto
qed

lemma Atoi_show_int: "0 \<le> i \<Longrightarrow> fits64 i \<Longrightarrow> Atoi (show_int i) = Some i"
  using digits_head [of "nat i"] digits_value_digits [of "nat i"] by (auto simp: Atoi_def show_int_def Let_def)

section \<open>Listings\<close>

lemma list_query_Get:
  "Query_Get (ParseQuery (Encode (list_query params))) ''limit'' = (if lp_Limit params > 0 then show_int (lp_Limit params) else [])"
  "Query_Get (ParseQuery (Encode (list_query params))) ''offset'' = (if lp_Offset params > 0 then show_int (lp_Offset params) else [])"
  "Query_Get (ParseQuery (Encode (list_query params))) ''status'' = lp_Status params"
  "Query_Get (ParseQuery (Encode (list_query params))) ''channel'' = lp_Channel params"
proof -
  have "distinct (map fst (list_query params))" by (simp add: list_query_def)
  then have m: "map_of (ParseQuery (Encode (list_query params))) = map_of (list_query params)" by (simp add: ParseQuery_Encode map_of_sort)
  show "Query_Get (ParseQuery (Encode (list_query params))) ''limit'' = (if lp_Limit params > 0 then show_int (lp_Limit params) else [])"
    "Query_Get (ParseQuery (Encode (list_query params))) ''offset'' = (if lp_Offset params > 0 then show_int (lp_Offset params) else [])"
    "Query_Get (ParseQuery (Encode (list_query params))) ''status'' = lp_Status params"
    "Query_Get (ParseQuery (Encode (list_query params))) ''channel'' = lp_Channel params"
    unfolding Query_Get_def m by (simp_all add: list_query_def)
qed

lemma call_query:
  assumes "CHR ''?'' \<notin> set (ro_path opts)"
  shows "request_query c (call_request c t opts body) = (if ro_query opts = [] then [] else Encode (ro_query opts))"
  using cut_at(3,4) [OF assms] by (simp add: request_query_def call_request_def request_url_def)

lemma query_arrives:
  assumes "rq_query req = Query_Get (ParseQuery (if list_query params = [] then [] else Encode (list_query params)))"
    and "fits64 (lp_Limit params)" and "fits64 (lp_Offset params)"
  shows "parsePagination req = (if 1 \<le> lp_Limit params \<and> lp_Limit params \<le> 100 then lp_Limit params else 20, max 0 (lp_Offset params)) \<and>
    rq_query req ''status'' = lp_Status params \<and> rq_query req ''channel'' = lp_Channel params"
proof -
  have "ParseQuery (if list_query params = [] then [] else Encode (list_query params)) = ParseQuery (Encode (list_query params))"
    by (simp add: Encode_def)
  then have q: "rq_query req = Query_Get (ParseQuery (Encode (list_query params)))" using assms(1) by simp
  have none: "Atoi [] = None" by (simp add: Atoi_def)
  show ?thesis
    using Atoi_show_int [OF _ assms(2)] Atoi_show_int [OF _ assms(3)] by (auto simp: parsePagination_def q list_query_Get none)
qed

text \<open>
  C31. The filters of a listing arrive: whatever status and channel the caller of \<^verbatim>\<open>ListNotifications\<close> asks for, characters that a URL escapes
  included, the handler reads exactly these from the request; it reads the limit asked for when that is between 1 and 100, the default of 20
  when no limit is asked for, and the offset, or 0 for none.
\<close>

theorem list_filters_arrive:
  assumes "ListNotifications E (logged tr) params (c, s, []) = (r, c', s', log)" and "(q, x) \<in> set log" and "hq_method q = ''GET''"
    and "rq_query req = Query_Get (ParseQuery (request_query c q))" and "lp_Limit params \<le> 100" and "fits64 (lp_Limit params)"
    and "fits64 (lp_Offset params)"
  shows "parsePagination req = (if lp_Limit params \<le> 0 then 20 else lp_Limit params, max 0 (lp_Offset params)) \<and>
    rq_query req ''status'' = lp_Status params \<and> rq_query req ''channel'' = lp_Channel params"
proof -
  obtain opts where run: "doRequest E (logged tr) opts (c, s, []) = (r, c', s', log)" and opts: "ro_path opts = ''/notifications''"
    "ro_query opts = list_query params"
    using assms(1) by (auto simp: ListNotifications_def Let_def reads_def)
  note calls_or_tokens [OF run assms(2)]
  moreover have "hq_method (token_request c b) \<noteq> ''GET''" for b by (simp add: token_request_def)
  ultimately obtain t where "q = call_request c t opts (encoded E opts)" using assms(3) by blast
  then have "request_query c q = (if list_query params = [] then [] else Encode (list_query params))"
    using call_query [of opts] opts by simp
  with assms(4-7) show ?thesis using query_arrives [of req params] by simp
qed

text \<open>
  A limit above 100 is answered with the default page, where the comment of \<^verbatim>\<open>parsePagination\<close> announces a limit clamped to 100.
\<close>

lemma large_limit_reset:
  assumes "rq_query req ''limit'' = show_int n" and "fits64 n" and "100 < n"
  shows "fst (parsePagination req) = 20"
  using Atoi_show_int [OF _ assms(2)] assms by (simp add: parsePagination_def)

theorem list_filters_arrive_witness:
  "\<exists>q x. (q, x) \<in> set (snd (snd (snd (ListNotifications demo_sdk (logged demo_server)
      \<lparr>lp_Limit = 50, lp_Offset = 40, lp_Status = ''failed'', lp_Channel = ''a b&c''\<rparr> (demo_sdk_client, (), []))))) \<and>
    parsePagination ((demo_request [] [])\<lparr>rq_query := Query_Get (ParseQuery (request_query demo_sdk_client q))\<rparr>) = (50, 40)"
proof -
  let ?p = "\<lparr>lp_Limit = 50, lp_Offset = 40, lp_Status = ''failed'', lp_Channel = ''a b&c''\<rparr>"
  obtain r c' s' log where run: "ListNotifications demo_sdk (logged demo_server) ?p (demo_sdk_client, (), []) = (r, c', s', log)"
    by (metis prod_cases4)
  have "''GET'' \<in> set (map (\<lambda>e. hq_method (fst e)) (snd (snd (snd (ListNotifications demo_sdk (logged demo_server) ?p (demo_sdk_client, (), []))))))"
    by code_simp
  then obtain q x where q: "(q, x) \<in> set log" "hq_method q = ''GET''" using run by auto
  have "lp_Limit ?p \<le> 100" "fits64 (lp_Limit ?p)" "fits64 (lp_Offset ?p)" by (simp_all add: fits64_def)
  from list_filters_arrive [OF run q _ this, of "(demo_request [] [])\<lparr>rq_query := Query_Get (ParseQuery (request_query demo_sdk_client q))\<rparr>"]
  have "parsePagination ((demo_request [] [])\<lparr>rq_query := Query_Get (ParseQuery (request_query demo_sdk_client q))\<rparr>) = (50, 40)" by simp
  then show ?thesis using q(1) run by auto
qed

end
