(* ===== verification/Sdk_Vectors.thy ===== *)
theory Sdk_Vectors
  imports Sdk Webhook_Delivery
begin

text \<open>
  What the SDKs share with the service by value: the constants of the Go client (\<^verbatim>\<open>sdks/go/types.go\<close>) and the generator of the signature
  test vectors (\<^verbatim>\<open>sdks/testdata/gen/main.go\<close>), against which every SDK is tested.
\<close>

section \<open>The constants of the client\<close>

definition sdk_ChannelTypes :: "string list" where
  "sdk_ChannelTypes = [''discord'', ''telegram'', ''whatsapp'', ''email'', ''slack'', ''webhook'']"

definition sdk_NotificationStatuses :: "string list" where
  "sdk_NotificationStatuses = [''pending'', ''processing'', ''delivered'', ''failed'', ''retrying'']"

definition sdk_AttemptStatuses :: "string list" where
  "sdk_AttemptStatuses = [''success'', ''failure'']"

definition sdk_FormatModes :: "string list" where
  "sdk_FormatModes = [''plain'', ''markdown'', ''html'']"

definition sdk_WebhookEventTypes :: "string list" where
  "sdk_WebhookEventTypes = [''notification.delivered'', ''notification.failed'']"

text \<open>Client and service agree on every constant.\<close>

lemma constants_agree:
  "IsValidChannelType ct \<longleftrightarrow> ct \<in> set sdk_ChannelTypes"
  "IsValidNotificationStatus s \<longleftrightarrow> s \<in> set sdk_NotificationStatuses"
  "sdk_AttemptStatuses = [AttemptSuccess, AttemptFailure]"
  "sdk_WebhookEventTypes = [WebhookEventDelivered, WebhookEventFailed]"
  by (auto simp: IsValidChannelType_iff IsValidNotificationStatus_def sdk_ChannelTypes_def sdk_NotificationStatuses_def sdk_AttemptStatuses_def
      sdk_WebhookEventTypes_def AttemptSuccess_def AttemptFailure_def WebhookEventDelivered_def WebhookEventFailed_def status_defs)

section \<open>The signature vectors\<close>

record vector =
  vc_Name :: string
  vc_Secret :: string
  vc_Timestamp :: string
  vc_Body :: string
  vc_SignatureHex :: string
  vc_HeaderValue :: string

fun repeat :: "string \<Rightarrow> nat \<Rightarrow> string" where
  "repeat s 0 = []"
| "repeat s (Suc n) = repeat s n @ s"

text \<open>The cases: name, secret, timestamp and body, as UTF-8.\<close>

definition vector_cases :: "(string \<times> string \<times> string \<times> string) list" where
  "vector_cases =
     [(''simple_json_body'', ''whsec_test_1234567890abcdef'', ''1700000000'',
       ''{\"id\":\"evt_01H9X8K2QYTVRM3F7WZC4B5D6E\",\"type\":\"notification.delivered\"}''),
      (''empty_body'', ''whsec_test_1234567890abcdef'', ''1700000001'', []),
      (''unicode_body'', ''whsec_unicode_secret_'' @ [CHR 0xC3, CHR 0xB1], ''1700000002'',
       ''{\"message\":\"caf'' @ [CHR 0xC3, CHR 0xA9, CHR '' '', CHR 0xE2, CHR 0x98, CHR 0x83, CHR '' '', CHR 0xF0, CHR 0x9F, CHR 0x98, CHR 0x80] @ ''\"}''),
      (''long_body'', ''whsec_long_body_secret'', ''1700000003'', ''{\"data\":\"'' @ repeat ''a'' 500 @ ''\"}''),
      (''body_containing_dot_literal'', ''whsec_dot_edge_case'', ''1700000004'', ''{\"note\":\"1700000004.not-the-real-timestamp\"}'')]"

definition make_vector :: "(string \<Rightarrow> string \<Rightarrow> byte list) \<Rightarrow> string \<times> string \<times> string \<times> string \<Rightarrow> vector" where
  "make_vector hmac c = (case c of (name, secret, timestamp, body) \<Rightarrow>
     (let sig = SignHMAC hmac secret timestamp body
      in \<lparr>vc_Name = name, vc_Secret = secret, vc_Timestamp = timestamp, vc_Body = body, vc_SignatureHex = sig,
          vc_HeaderValue = ''sha256='' @ sig\<rparr>))"

definition vectors :: "(string \<Rightarrow> string \<Rightarrow> byte list) \<Rightarrow> vector list" where
  "vectors hmac = map (make_vector hmac) vector_cases"

lemma repeat_length: "length (repeat s n) = n * length s"
  by (induction n) simp_all

text \<open>The client accepts every vector, and with another timestamp or body only when the MAC is the same.\<close>

lemma vectors_accepted:
  assumes "v \<in> set (vectors hmac)"
  shows "VerifyWebhookSignature hmac (vc_Secret v) (vc_Timestamp v) (vc_Body v) (vc_HeaderValue v) = None"
    and "VerifyWebhookSignature hmac (vc_Secret v) ts body (vc_HeaderValue v) = None \<longleftrightarrow>
      hmac (vc_Secret v) (ts @ ''.'' @ body) = hmac (vc_Secret v) (vc_Timestamp v @ ''.'' @ vc_Body v)"
  using assms by (auto simp: vectors_def make_vector_def verify_iff SignHMAC_def hex_roundtrip Let_def split: prod.splits)

text \<open>The names and the signed messages of the vectors are different, so each is a test of its own.\<close>

lemma vectors_distinct: "distinct (map vc_Name (vectors hmac)) \<and> distinct (map vc_Timestamp (vectors hmac))"
  by (simp add: vectors_def make_vector_def vector_cases_def Let_def)

section \<open>The bcrypt helper\<close>

text \<open>\<^verbatim>\<open>scripts/bcrypt.go\<close>: the exit status with what it prints; \<open>generate\<close> is the library's hash at the default cost.\<close>

definition bcrypt_main :: "(string \<Rightarrow> goerr + string) \<Rightarrow> string list \<Rightarrow> int \<times> string" where
  "bcrypt_main generate args = (case args of
     program # password # _ \<Rightarrow> (case generate password of Inl err \<Rightarrow> (1, err_msg err) | Inr hash \<Rightarrow> (0, hash))
   | _ \<Rightarrow> (1, ''usage: go run scripts/bcrypt.go <password>''))"

end
