(* ===== verification/Spec2Isabelle.thy ===== *)
theory Spec2Isabelle
  imports Repository_Specs Delivery_Specs Quota_Specs Ssrf_Laws Service_Laws Maintenance Webhook_Delivery Provider_Laws Isolation Processes Client_Query Sdk_Vectors
begin

text \<open>
  Verification library for notifyd, a multi-tenant notification service in Go.

  \<^bold>\<open>The program.\<close> Tenants call a REST API (\<^verbatim>\<open>cmd/api\<close>, \<^verbatim>\<open>internal/router\<close>, \<^verbatim>\<open>internal/handler\<close>, \<^verbatim>\<open>internal/auth\<close>)
  whose send routes pass a quota middleware counting in Redis (\<^verbatim>\<open>internal/quota\<close>). The services
  (\<^verbatim>\<open>internal/service\<close>) validate a request, store a row in PostgreSQL (\<^verbatim>\<open>internal/repository\<close>) and put a task on
  an asynq queue. A worker process (\<^verbatim>\<open>cmd/worker\<close>, \<^verbatim>\<open>internal/worker\<close>) takes a task, calls the channel's provider
  (\<^verbatim>\<open>internal/provider\<close>), records the attempt and the notification's new status, and on a terminal status queues one signed
  webhook event for each subscribed endpoint, which the same worker posts through a dialer guarded against server-side request
  forgery. Nightly tasks purge old notifications and reconcile the usage counters. Two clients belong to the repository: a
  Telegram bot for the administrator (\<^verbatim>\<open>internal/bot\<close>), which calls the services directly, and a Go library for tenants
  (\<^verbatim>\<open>sdks/go\<close>), which calls the API.

  \<^bold>\<open>The theories.\<close>
  \<^item> \<open>Prelude\<close>, \<open>Calendar\<close>: identifiers, instants, JSON values, Go errors with their wrapped chains and \<^verbatim>\<open>errors.Is\<close>,
    64-bit arithmetic, Go's string functions, and the Gregorian calendar behind \<^verbatim>\<open>time.Date\<close> and \<^verbatim>\<open>AddDate\<close>.
  \<^item> \<open>Domain\<close>: the records and validators of \<^verbatim>\<open>internal/domain\<close>.
  \<^item> \<open>Store\<close>, \<open>Repositories\<close>: the tables with the keys, foreign keys, cascades and enums of \<^verbatim>\<open>migrations\<close>, and every method of
    the eight repositories as a function from the database to a result and the database. The field \<open>db_faults\<close> scripts
    failures, so a theorem about all states is about all schedules of failures. \<open>Repository_Laws\<close> and \<open>Repository_Specs\<close> show that
    every sequence of calls keeps the schema invariant \<open>db_ok\<close>, that statements scoped to a tenant leave other tenants alone
    (locale \<open>tenant_scoped\<close>, interpreted on five methods), that caps hold (\<open>capped_create\<close>), and what the purge, the usage
    report and the listings compute.
  \<^item> \<open>Tasks\<close>, \<open>Task_Laws\<close>, \<open>Emitter\<close>: the payloads as JSON, the two retry curves at 64 bits with their bounds, and the
    event emitter, whose contract is the locale \<open>terminal_emitter\<close>.
  \<^item> \<open>Dispatcher\<close>, \<open>Dispatcher_Laws\<close>, \<open>Delivery_Specs\<close>: one attempt (\<^verbatim>\<open>dispatcher.go\<close>), the error handler and
    \<open>run_task\<close>, the run of a task over its attempts. The broker is an argument; what is used of asynq is \<open>asynq_broker\<close>: it refuses a task exactly when
    one with the same queue and identifier is there. Shown are the exact effect of each outcome on a working database, that
    no schedule of failures makes a task emit two terminal events, and that exhausted retries end with a failed notification.
  \<^item> \<open>Http\<close>, \<open>Providers\<close>, \<open>Email\<close> with \<open>Provider_Laws\<close>, \<open>Email_Laws\<close>: the six channels. The locale \<open>http_channel\<close>
    states what an HTTP channel owes the dispatcher and is interpreted on Discord, Telegram, WhatsApp, Slack and webhooks; an
    SMTP session is a log of commands and answers.
  \<^item> \<open>Ssrf\<close>, \<open>Ssrf_Laws\<close>, \<open>Guarded_Client\<close>: addresses as bytes, the blocked ranges, the guarded dialer, and the HTTP client built on it
    over a network whose names may resolve differently each time: webhooks and events never reach a blocked address.
  \<^item> \<open>Quota\<close>, \<open>Quota_Laws\<close>, \<open>Quota_Specs\<close>: the counter on Redis commands that may fail and keys that expire, the interleaving of requests as the
    step relation \<open>serves\<close>, an abstract quota (\<open>quota_step\<close>) that each reservation refines, alerts, and the middleware over any
    service that meets the locale \<open>reserver_refunder\<close>. A key has a deadline; time passes between the calls, by the step \<open>Elapse\<close>, which drops
    the keys whose deadline is reached. The counter and the record of an alert live 45 days, so the bounds are for billing periods no longer
    than that; two examples show what happens in a longer one.
  \<^item> \<open>Services\<close>, \<open>Service_Laws\<close>: the five services; every outcome of a send.
  \<^item> \<open>Auth\<close>, \<open>Handlers\<close>, \<open>Api_Laws\<close>: tokens, the three middlewares, every handler, and the route table \<open>serve\<close>; what a
    request without credentials does, and that a tenant's token shows only that tenant's records.
  \<^item> \<open>Router\<close>: the tree of sub-routers, groups and middlewares that \<^verbatim>\<open>router.New\<close> builds, and the table it amounts to. Shown are that
    the table is the one of \<open>serve\<close>, which paths are reached with which credentials, that a handler reads only its own
    placeholders, and that no two routes compete for a path but one pair. What is used of chi is the predicate \<open>documented\<close>.
  \<^item> \<open>Isolation\<close>: what a request with a tenant's token writes: the rows of all other tenants stay as they are.
  \<^item> \<open>Bot\<close>, \<open>Bot_Laws\<close>: the admin bot as a function of the updates on the database and the list of its calls to Telegram. Shown are that
    other chats change and learn nothing, that a tenant goes only after a confirmed button (locale
    \<open>tenant_keeper\<close>, interpreted on the seven service calls of the commands), that the
    answers to the administrator hold only the bot's own tags and escaped data (a scanner for that markup is part of the theory; Telegram's parser
    is not modelled), and that log lines hide the token.
  \<^item> \<open>Sdk\<close>, \<open>Sdk_Laws\<close>: the Go client over any transport, with the JSON of requests and, on the server's side, of responses. Shown are
    how many requests a call makes, that callers share one token exchange, that the two sides agree on the bodies, and that a send
    through the client is the send route of the server. Numbers in metadata are decoded to float64, so the agreement is for integers up to 2^53. \<open>Client_Routes\<close> shows that each of the eighteen methods reaches the route it is
    named after for identifiers that need no escaping, and where others lead, and \<open>Client_Query\<close> that the filters of a listing arrive at the handler; \<open>Sdk_Vectors\<close> has the constants of the client, which are those of the service, and the generator of the signature test
    vectors, all of which the client accepts.
  \<^item> \<open>Webhook_Delivery\<close>: signatures, their verification in the Go SDK (\<^verbatim>\<open>sdks/go/signature.go\<close>), and the event worker over an HTTP client with a state of its own;
    in \<open>Guarded_Client\<close> that client is the guarded one and its state the log of connections and requests.
  \<^item> \<open>Maintenance\<close>: the paging loop over all tenants and its two callbacks (locale \<open>tenant_visitor\<close>).
  \<^item> \<open>Processes\<close>: the configuration and the three \<^verbatim>\<open>main\<close> functions: what is checked before a process starts, which secrets
    reach which component, which queues, task types and schedules the worker knows, that an API and a worker of one configuration meet at
    one broker with the same channels, and how the API and the worker end.
  \<^item> \<open>Fixture\<close>: a small database for the concrete examples.

  \<^bold>\<open>Conventions.\<close> Definitions keep the names of the source; a method whose name occurs in several types carries its type's
  name first, and a record field a prefix for its struct. A fallible function returns \<open>goerr + 'a\<close>, one that
  returns only an error \<open>goerr option\<close>; state is passed explicitly and each reading of the clock, random value and fresh
  identifier is an argument. Strings are lists of bytes. Integers that can leave their range are wrapped with
  \<open>wrap64\<close>. Libraries are arguments: \<open>lib\<close> (identifiers and the broker), \<open>http_env\<close> (JSON text, URL check, HMAC, time formats),
  \<open>net_env\<close> (name resolution, connections and answers), \<open>mail_env\<close> (addresses, encodings, Markdown), \<open>api_env\<close> (the JWT library, bcrypt, SHA-256, parsers), \<open>bot_env\<close> (identifiers)
  and \<open>sdk_env\<close> (JSON text, durations, instants).

  \<^bold>\<open>Termination.\<close> All loops are structural or have a measure (\<open>Fields\<close>) except the paging loop of the maintenance tasks, which is a partial
  function: it could run for ever if its callback added tenants. \<open>maintenance_returns\<close> proves that both tasks return. No fuel is used;
  \<open>run_task\<close> recurses on the retries that are left, which asynq bounds by the task's \<^verbatim>\<open>MaxRetry\<close>.

  \<^bold>\<open>Simplifications.\<close> Where SQL leaves the order of rows with equal keys open, as in a listing by \<^verbatim>\<open>created_at\<close>, the model keeps the order of the
  table. Redis keys do not expire while a call runs. A worker that dies in the middle of a task is not modelled.

  \<^bold>\<open>Not modelled.\<close> Log lines other than the bot's redacted ones; contexts and deadlines, which show as failing calls; the lock of
  the provider registry; chi's search for an entry, which is an argument, and its middlewares for request identifiers, real IP, logging,
  recovery and the timeout; the CORS handler, of which only the options are kept; the text of JSON
  values, which is the codec of the standard library; the polling and the HTTP calls of the Telegram library; the parser of environment
  variables and the delivery of signals; constructors that only store their arguments; the repository mocks, which are test doubles that
  return what a test told them to.
\<close>

end
